(* ===== verification/Lqxp_Prelude.thy ===== *)
theory Lqxp_Prelude
  imports Main "HOL-Library.AList" "HOL-Library.Sublist" "HOL-Library.List_Lexorder" "HOL-Library.Char_ord"
    "HOL-Library.Word"
begin

text \<open>
  The prelude of the development: the collections of facts the component theories fill, the
  model of the parts of Rust's \<open>str\<close> and \<open>char\<close> API the program uses, decimal and
  hexadecimal text, and generic lemmas on lists and association lists.

  A Rust \<open>String\<close> is a list of Unicode scalar values.  The model keeps the scalar values
  U+0000 to U+00FF, which are exactly Isabelle's \<open>char\<close>; every function below is the
  restriction of the Rust function to that range, and the range is closed under all of them.
  \<open>chars().count()\<close> is \<open>length\<close>, \<open>len()\<close> is \<open>utf8_len\<close>.
\<close>

named_theorems frame \<open>what an operation on the shared state leaves unchanged\<close>
named_theorems opdefs \<open>definitions to unfold when an operation is analysed branch by branch\<close>

section \<open>Characters\<close>

abbreviation code_of :: "char \<Rightarrow> nat" where
  "code_of c \<equiv> of_char c"

definition is_ascii :: "char \<Rightarrow> bool" where
  "is_ascii c \<longleftrightarrow> code_of c < 128"

definition is_ascii_digit :: "char \<Rightarrow> bool" where
  "is_ascii_digit c \<longleftrightarrow> 48 \<le> code_of c \<and> code_of c \<le> 57"

definition is_ascii_upper :: "char \<Rightarrow> bool" where
  "is_ascii_upper c \<longleftrightarrow> 65 \<le> code_of c \<and> code_of c \<le> 90"

definition is_ascii_lower :: "char \<Rightarrow> bool" where
  "is_ascii_lower c \<longleftrightarrow> 97 \<le> code_of c \<and> code_of c \<le> 122"

definition is_ascii_alphanumeric :: "char \<Rightarrow> bool" where
  "is_ascii_alphanumeric c \<longleftrightarrow> is_ascii_digit c \<or> is_ascii_upper c \<or> is_ascii_lower c"

definition is_ascii_hexdigit :: "char \<Rightarrow> bool" where
  "is_ascii_hexdigit c \<longleftrightarrow> is_ascii_digit c \<or> (65 \<le> code_of c \<and> code_of c \<le> 70)
     \<or> (97 \<le> code_of c \<and> code_of c \<le> 102)"

text \<open>\<open>char::is_whitespace\<close>, \<open>char::is_control\<close> and \<open>char::is_alphanumeric\<close> on U+0000 to U+00FF.\<close>

definition is_whitespace :: "char \<Rightarrow> bool" where
  "is_whitespace c \<longleftrightarrow> (9 \<le> code_of c \<and> code_of c \<le> 13) \<or> code_of c = 32
     \<or> code_of c = 133 \<or> code_of c = 160"

definition is_control :: "char \<Rightarrow> bool" where
  "is_control c \<longleftrightarrow> code_of c < 32 \<or> (127 \<le> code_of c \<and> code_of c < 160)"

definition is_alphanumeric :: "char \<Rightarrow> bool" where
  "is_alphanumeric c \<longleftrightarrow> is_ascii_alphanumeric c
     \<or> code_of c \<in> {170, 178, 179, 181, 185, 186, 188, 189, 190}
     \<or> (192 \<le> code_of c \<and> code_of c \<noteq> 215 \<and> code_of c \<noteq> 247)"

definition char_lower :: "char \<Rightarrow> char" where
  "char_lower c = (if is_ascii_upper c \<or> (192 \<le> code_of c \<and> code_of c \<le> 222 \<and> code_of c \<noteq> 215)
     then char_of (code_of c + 32) else c)"

definition char_ascii_lower :: "char \<Rightarrow> char" where
  "char_ascii_lower c = (if is_ascii_upper c then char_of (code_of c + 32) else c)"

lemmas char_defs = is_ascii_def is_ascii_digit_def is_ascii_upper_def is_ascii_lower_def
  is_ascii_alphanumeric_def is_ascii_hexdigit_def is_whitespace_def is_control_def
  is_alphanumeric_def char_lower_def char_ascii_lower_def

lemma code_of_bound: "code_of c < 256"
proof -
  have "code_of c = code_of c mod 256" by simp
  also have "\<dots> < 256" by (rule mod_less_divisor) simp
  finally show ?thesis .
qed

lemma code_of_char_of: "n < 256 \<Longrightarrow> code_of (char_of n) = n"
  by (simp add: of_char_of)

lemma char_lower_idem [simp]: "char_lower (char_lower c) = char_lower c"
  using code_of_bound [of c] by (auto simp: char_defs code_of_char_of)

lemma char_ascii_lower_idem [simp]: "char_ascii_lower (char_ascii_lower c) = char_ascii_lower c"
  by (auto simp: char_defs code_of_char_of)

lemma alnum_not_space: "is_ascii_alphanumeric c \<Longrightarrow> \<not> is_whitespace c"
  by (auto simp: char_defs)

lemma hexdigit_ascii: "is_ascii_hexdigit c \<Longrightarrow> is_ascii c"
  by (auto simp: char_defs)

lemma whitespace_lower [simp]: "is_whitespace (char_lower c) = is_whitespace c"
  using code_of_bound [of c] by (auto simp: char_defs code_of_char_of)

section \<open>Strings\<close>

definition utf8_width :: "char \<Rightarrow> nat" where
  "utf8_width c = (if is_ascii c then 1 else 2)"

definition utf8_len :: "string \<Rightarrow> nat" where
  "utf8_len s = sum_list (map utf8_width s)"

definition trim_start :: "string \<Rightarrow> string" where
  "trim_start s = dropWhile is_whitespace s"

definition trim_end :: "string \<Rightarrow> string" where
  "trim_end s = rev (dropWhile is_whitespace (rev s))"

definition trim :: "string \<Rightarrow> string" where
  "trim s = trim_end (trim_start s)"

definition str_lower :: "string \<Rightarrow> string" where
  "str_lower s = map char_lower s"

definition str_ascii_lower :: "string \<Rightarrow> string" where
  "str_ascii_lower s = map char_ascii_lower s"

text \<open>\<open>str::contains\<close> with a string pattern.\<close>

fun contains_str :: "string \<Rightarrow> string \<Rightarrow> bool" where
  "contains_str [] pat = (pat = [])"
| "contains_str (c # cs) pat = (prefix pat (c # cs) \<or> contains_str cs pat)"

text \<open>\<open>trim_matches(p)\<close>, \<open>trim_start_matches(p)\<close> and \<open>trim_end_matches(p)\<close> for a character predicate.\<close>

definition trim_start_matches :: "(char \<Rightarrow> bool) \<Rightarrow> string \<Rightarrow> string" where
  "trim_start_matches p s = dropWhile p s"

definition trim_end_matches :: "(char \<Rightarrow> bool) \<Rightarrow> string \<Rightarrow> string" where
  "trim_end_matches p s = rev (dropWhile p (rev s))"

definition trim_matches :: "(char \<Rightarrow> bool) \<Rightarrow> string \<Rightarrow> string" where
  "trim_matches p s = trim_end_matches p (trim_start_matches p s)"

text \<open>\<open>str::split(c)\<close>: never empty, one segment more than separators.\<close>

fun split_on :: "char \<Rightarrow> string \<Rightarrow> string list" where
  "split_on c [] = [[]]"
| "split_on c (x # xs) =
     (if x = c then [] # split_on c xs
      else (case split_on c xs of [] \<Rightarrow> [[x]] | seg # segs \<Rightarrow> (x # seg) # segs))"

text \<open>\<open>split_whitespace\<close>: the maximal runs of non-whitespace.\<close>

fun split_ws_acc :: "string \<Rightarrow> string \<Rightarrow> string list" where
  "split_ws_acc acc [] = (if acc = [] then [] else [rev acc])"
| "split_ws_acc acc (x # xs) =
     (if is_whitespace x then (if acc = [] then split_ws_acc [] xs else rev acc # split_ws_acc [] xs)
      else split_ws_acc (x # acc) xs)"

definition split_whitespace :: "string \<Rightarrow> string list" where
  "split_whitespace s = split_ws_acc [] s"

fun join_with :: "string \<Rightarrow> string list \<Rightarrow> string" where
  "join_with sep [] = []"
| "join_with sep [x] = x"
| "join_with sep (x # y # ys) = x @ sep @ join_with sep (y # ys)"

section \<open>Numbers as text\<close>

definition digit_char :: "nat \<Rightarrow> char" where
  "digit_char d = char_of (48 + d)"

definition hex_digit_char :: "nat \<Rightarrow> char" where
  "hex_digit_char d = (if d < 10 then char_of (48 + d) else char_of (87 + d))"

text \<open>\<open>{}\<close> of an unsigned integer.\<close>

fun dec :: "nat \<Rightarrow> string" where
  "dec n = (if n < 10 then [digit_char n] else dec (n div 10) @ [digit_char (n mod 10)])"

declare dec.simps [simp del]

text \<open>The value of a decimal digit, and Rust's \<open>str::parse::<u64>\<close>: an optional plus sign, at
  least one digit, and no overflow.\<close>

definition digit_val :: "char \<Rightarrow> nat option" where
  "digit_val c = (if is_ascii_digit c then Some (code_of c - 48) else None)"

definition hex_val :: "char \<Rightarrow> nat option" where
  "hex_val c =
     (if is_ascii_digit c then Some (code_of c - 48)
      else if 97 \<le> code_of c \<and> code_of c \<le> 102 then Some (code_of c - 87)
      else if 65 \<le> code_of c \<and> code_of c \<le> 70 then Some (code_of c - 55)
      else None)"

fun parse_digits :: "nat \<Rightarrow> string \<Rightarrow> nat option" where
  "parse_digits acc [] = Some acc"
| "parse_digits acc (c # cs) =
     (case digit_val c of None \<Rightarrow> None
      | Some d \<Rightarrow> if acc * 10 + d < 2 ^ 64 then parse_digits (acc * 10 + d) cs else None)"

definition parse_u64 :: "string \<Rightarrow> nat option" where
  "parse_u64 s = (case s of [] \<Rightarrow> None
     | c # cs \<Rightarrow> if c = CHR ''+'' then (if cs = [] then None else parse_digits 0 cs)
       else parse_digits 0 (c # cs))"

text \<open>Values of u64, u32 and usize that the code bounds explicitly.\<close>

abbreviation u64_max :: nat where "u64_max \<equiv> 18446744073709551615"
abbreviation u32_max :: nat where "u32_max \<equiv> 4294967295"

definition sat_add_u32 :: "nat \<Rightarrow> nat \<Rightarrow> nat" where
  "sat_add_u32 a b = min u32_max (a + b)"

text \<open>\<open>u64::saturating_sub\<close> is subtraction on \<open>nat\<close>; \<open>clamp\<close> as in Rust.\<close>

definition clamp :: "nat \<Rightarrow> nat \<Rightarrow> nat \<Rightarrow> nat" where
  "clamp lo hi x = (if x < lo then lo else if hi < x then hi else x)"

section \<open>Generic lemmas: strings\<close>

lemma trim_start_Nil [simp]: "trim_start [] = []"
  by (simp add: trim_start_def)

lemma set_trim_subset: "set (trim s) \<subseteq> set s"
  unfolding trim_def trim_end_def trim_start_def
  by (auto dest!: set_dropWhileD)

lemma trim_id:
  assumes "\<forall>c \<in> set s. \<not> is_whitespace c"
  shows "trim s = s"
proof -
  have drop: "dropWhile is_whitespace t = t" if "\<forall>c \<in> set t. \<not> is_whitespace c" for t
    using that by (cases t) auto
  from assms drop [of "rev s"] drop [of s] show ?thesis
    by (simp add: trim_def trim_start_def trim_end_def)
qed

lemma dropWhile_hd_False: "dropWhile P xs \<noteq> [] \<Longrightarrow> \<not> P (hd (dropWhile P xs))"
  by (rule hd_dropWhile)

lemma dropWhile_idem [simp]: "dropWhile P (dropWhile P xs) = dropWhile P xs"
  by (induction xs) auto

lemma trim_end_not_space_last: "trim_end s \<noteq> [] \<Longrightarrow> \<not> is_whitespace (last (trim_end s))"
  using hd_dropWhile [of is_whitespace "rev s"]
  by (simp add: trim_end_def last_rev)

lemma trim_end_idem [simp]: "trim_end (trim_end s) = trim_end s"
  by (simp add: trim_end_def)

lemma trim_end_prefix: "prefix (trim_end s) s"
proof -
  have "suffix (dropWhile is_whitespace (rev s)) (rev s)"
    by (rule suffix_dropWhile)
  then show ?thesis
    by (simp add: trim_end_def suffix_to_prefix)
qed

lemma trim_start_trim_end_id:
  assumes "s \<noteq> [] \<longrightarrow> \<not> is_whitespace (hd s)"
  shows "trim_start (trim_end s) = trim_end s"
proof (cases "trim_end s")
  case Nil
  then show ?thesis by simp
next
  case (Cons c cs)
  with trim_end_prefix [of s] have "s \<noteq> []" and "hd s = c"
    by (auto simp: prefix_def)
  with assms Cons show ?thesis
    by (simp add: trim_start_def)
qed

lemma trim_idem [simp]: "trim (trim s) = trim s"
proof -
  have "trim_start s \<noteq> [] \<longrightarrow> \<not> is_whitespace (hd (trim_start s))"
    by (simp add: trim_start_def hd_dropWhile)
  then have "trim_start (trim_end (trim_start s)) = trim_end (trim_start s)"
    by (rule trim_start_trim_end_id)
  then show ?thesis by (simp add: trim_def)
qed

lemma str_lower_idem [simp]: "str_lower (str_lower s) = str_lower s"
  by (simp add: str_lower_def)

lemma length_str_lower [simp]: "length (str_lower s) = length s"
  by (simp add: str_lower_def)

lemma dropWhile_map_whitespace:
  "dropWhile is_whitespace (map char_lower s) = map char_lower (dropWhile is_whitespace s)"
  by (induction s) auto

lemma trim_str_lower: "trim (str_lower s) = str_lower (trim s)"
  by (simp add: trim_def trim_end_def trim_start_def str_lower_def dropWhile_map_whitespace
      rev_map)

lemma utf8_len_ascii: "\<forall>c \<in> set s. is_ascii c \<Longrightarrow> utf8_len s = length s"
  by (induction s) (auto simp: utf8_len_def utf8_width_def)

lemma utf8_len_ge: "length s \<le> utf8_len s"
  by (induction s) (auto simp: utf8_len_def utf8_width_def)

lemma contains_str_sublist: "contains_str s pat \<longleftrightarrow> sublist pat s"
  by (induction s) (auto simp: sublist_Cons_right)

lemma split_on_nonempty [simp]: "split_on c s \<noteq> []"
  by (cases s) (auto split: list.splits)

lemma join_split_on: "join_with [c] (split_on c s) = s"
proof (induction s)
  case Nil
  then show ?case by simp
next
  case (Cons x xs)
  obtain seg segs where sp: "split_on c xs = seg # segs"
    by (cases "split_on c xs") auto
  show ?case
  proof (cases segs)
    case Nil
    with sp Cons.IH show ?thesis by auto
  next
    case (Cons y ys)
    with sp Cons.IH show ?thesis by auto
  qed
qed

lemma split_on_no_sep: "seg \<in> set (split_on c s) \<Longrightarrow> c \<notin> set seg"
proof (induction s arbitrary: seg)
  case Nil
  then show ?case by simp
next
  case (Cons x xs)
  then show ?case
    by (cases "split_on c xs") (auto split: if_splits)
qed

lemma split_on_notin: "c \<notin> set s \<Longrightarrow> split_on c s = [s]"
  by (induction s) auto

lemma split_on_append_sep:
  "c \<notin> set s \<Longrightarrow> split_on c (s @ c # t) = s # split_on c t"
  by (induction s) auto

lemma split_on_append3:
  assumes "c \<notin> set p" "c \<notin> set q" "c \<notin> set r" "c \<notin> set t"
  shows "split_on c (p @ [c] @ q @ [c] @ r @ [c] @ t) = [p, q, r, t]"
  using assms by (simp add: split_on_append_sep split_on_notin)

section \<open>Generic lemmas: decimal text\<close>

lemma digit_char_code: "d < 10 \<Longrightarrow> code_of (digit_char d) = 48 + d"
  by (simp add: digit_char_def)

lemma digit_val_digit_char: "d < 10 \<Longrightarrow> digit_val (digit_char d) = Some d"
  by (simp add: digit_val_def is_ascii_digit_def digit_char_code)

lemma dec_digits: "\<forall>c \<in> set (dec n). is_ascii_digit c"
proof (induction n rule: dec.induct)
  case (1 n)
  then show ?case
    by (subst dec.simps) (auto simp: is_ascii_digit_def digit_char_code)
qed

lemma dec_nonempty [simp]: "dec n \<noteq> []"
  by (subst dec.simps) simp

lemma parse_digits_append:
  "parse_digits acc (xs @ ys) =
     (case parse_digits acc xs of None \<Rightarrow> None | Some v \<Rightarrow> parse_digits v ys)"
  by (induction xs arbitrary: acc) (auto split: option.splits)

lemma parse_digits_dec: "n < 2 ^ 64 \<Longrightarrow> parse_digits 0 (dec n) = Some n"
proof (induction n rule: dec.induct)
  case (1 n)
  show ?case
  proof (cases "n < 10")
    case True
    then show ?thesis by (subst dec.simps) (simp add: digit_val_digit_char)
  next
    case False
    with "1" have "parse_digits 0 (dec (n div 10)) = Some (n div 10)" by simp
    with False "1.prems" show ?thesis
      by (subst dec.simps) (simp add: parse_digits_append digit_val_digit_char)
  qed
qed

lemma plus_not_dec: "CHR ''+'' \<notin> set (dec n)"
  using dec_digits [of n] by (auto simp: is_ascii_digit_def)

lemma parse_u64_dec: "n < 2 ^ 64 \<Longrightarrow> parse_u64 (dec n) = Some n"
  using parse_digits_dec [of n] plus_not_dec [of n]
  by (cases "dec n") (auto simp: parse_u64_def)

lemma parse_digits_bound: "parse_digits acc s = Some n \<Longrightarrow> acc < 2 ^ 64 \<Longrightarrow> n < 2 ^ 64"
  by (induction acc s rule: parse_digits.induct) (auto split: option.splits if_splits)

lemma dec_inject: "dec m = dec n \<Longrightarrow> m < 2 ^ 64 \<Longrightarrow> n < 2 ^ 64 \<Longrightarrow> m = n"
  by (metis option.inject parse_u64_dec)

section \<open>Generic lemmas: association lists\<close>

text \<open>
  Rust's \<open>HashMap\<close> and \<open>BTreeMap\<close> are association lists with distinct keys, so that the
  program's iterations over them are computable; the order of a \<open>HashMap\<close> is not specified by
  Rust, and the model iterates in list order.  Insertion is \<open>AList.update\<close>, removal
  \<open>AList.delete\<close>, \<open>retain\<close> is \<open>filter\<close> and in-place mutation of a present key is \<open>adjust\<close>.
\<close>

abbreviation keys :: "('k \<times> 'v) list \<Rightarrow> 'k list" where
  "keys m \<equiv> map fst m"

abbreviation vals :: "('k \<times> 'v) list \<Rightarrow> 'v list" where
  "vals m \<equiv> map snd m"

definition adjust :: "'k \<Rightarrow> ('v \<Rightarrow> 'v) \<Rightarrow> ('k \<times> 'v) list \<Rightarrow> ('k \<times> 'v) list" where
  "adjust k f m = map (\<lambda>(k', v). (k', if k' = k then f v else v)) m"

definition map_vals :: "('v \<Rightarrow> 'w) \<Rightarrow> ('k \<times> 'v) list \<Rightarrow> ('k \<times> 'w) list" where
  "map_vals f m = map (\<lambda>(k, v). (k, f v)) m"

text \<open>Lookups stay lookups: the library would turn them into membership for distinct keys.\<close>

declare map_of_eq_Some_iff [simp del] Some_eq_map_of_iff [simp del]

lemma keys_adjust [simp]: "keys (adjust k f m) = keys m"
  by (induction m) (auto simp: adjust_def)

lemma length_adjust [simp]: "length (adjust k f m) = length m"
  by (simp add: adjust_def)

lemma map_of_adjust:
  "map_of (adjust k f m) = (map_of m)(k := map_option f (map_of m k))"
  by (induction m) (auto simp: adjust_def)

lemma keys_map_vals [simp]: "keys (map_vals f m) = keys m"
  by (induction m) (auto simp: map_vals_def)

lemma map_of_map_vals [simp]: "map_of (map_vals f m) k = map_option f (map_of m k)"
  by (induction m) (auto simp: map_vals_def)

lemma distinct_keys_update: "distinct (keys m) \<Longrightarrow> distinct (keys (AList.update k v m))"
  by (rule distinct_update)

lemma distinct_keys_delete: "distinct (keys m) \<Longrightarrow> distinct (keys (AList.delete k m))"
  by (rule distinct_delete)

lemma distinct_keys_filter: "distinct (keys m) \<Longrightarrow> distinct (keys (filter P m))"
  by (induction m) auto

lemma map_of_filter_distinct:
  "distinct (keys m) \<Longrightarrow>
   map_of (filter P m) k = (case map_of m k of None \<Rightarrow> None | Some v \<Rightarrow> if P (k, v) then Some v else None)"
  by (induction m) (auto split: option.splits dest: map_of_SomeD simp: rev_image_eqI)

lemma map_of_filter_keep:
  "map_of m k = Some v \<Longrightarrow> P (k, v) \<Longrightarrow> map_of (filter P m) k = Some v"
  by (induction m) (auto split: if_splits)

lemma map_of_update [simp]: "map_of (AList.update k v m) k' = (if k' = k then Some v else map_of m k')"
  by (simp add: update_conv')

lemma map_of_delete [simp]: "map_of (AList.delete k m) k' = (if k' = k then None else map_of m k')"
  by (simp add: delete_conv')

lemma length_update_le: "length (AList.update k v m) \<le> Suc (length m)"
  by (induction m) auto

lemma length_update_new: "map_of m k = None \<Longrightarrow> length (AList.update k v m) = Suc (length m)"
  by (induction m) (auto split: if_splits)

lemma length_update_old: "map_of m k \<noteq> None \<Longrightarrow> length (AList.update k v m) = length m"
  by (induction m) auto

lemma set_vals_update: "set (vals (AList.update k v m)) \<subseteq> insert v (set (vals m))"
  by (induction m) auto

lemma map_of_set_vals: "map_of m k = Some v \<Longrightarrow> v \<in> set (vals m)"
  by (induction m) (auto split: if_splits)

lemma filter_length_update:
  "length (filter P (vals (AList.update k v m))) \<le> length (filter P (vals m)) + (if P v then 1 else 0)"
  by (induction m) auto

lemma find_append: "find P (xs @ ys) = (case find P xs of None \<Rightarrow> find P ys | Some x \<Rightarrow> Some x)"
  by (induction xs) auto

text \<open>A set of Rust strings as a list without repetitions.\<close>

lemma distinct_List_insert [simp]: "distinct xs \<Longrightarrow> distinct (List.insert x xs)"
  by simp

lemma length_List_insert: "length (List.insert x xs) = (if x \<in> set xs then length xs else Suc (length xs))"
  by simp

end
