(* ===== verification/Rust_Bytes.thy ===== *)
theory Rust_Bytes
  imports Lqxp_Prelude
begin

text \<open>
  Bytes: the UTF-8 encoding of a string, big and little endian integers, the hexadecimal codecs
  of \<open>core/pqc.rs\<close> and \<open>services/phantom.rs\<close>, and the constant time comparison that
  \<open>core/cap.rs\<close>, \<open>services/privacy_pass.rs\<close>, \<open>core/rln.rs\<close> and \<open>core/vdf.rs\<close> each write out.
  Shown: the comparison decides equality, and decoding inverts encoding.
\<close>

unbundle bit_operations_syntax

type_synonym byte = "8 word"

definition char_bytes :: "char \<Rightarrow> byte list" where
  "char_bytes c = (let n = code_of c in
     if n < 128 then [word_of_nat n]
     else [word_of_nat (192 + n div 64), word_of_nat (128 + n mod 64)])"

definition utf8_bytes :: "string \<Rightarrow> byte list" where
  "utf8_bytes s = concat (map char_bytes s)"

definition u64_be :: "nat \<Rightarrow> byte list" where
  "u64_be n = map (\<lambda>i. word_of_nat (n div 256 ^ i)) [7, 6, 5, 4, 3, 2, 1, 0]"

definition u32_be :: "nat \<Rightarrow> byte list" where
  "u32_be n = map (\<lambda>i. word_of_nat (n div 256 ^ i)) [3, 2, 1, 0]"

text \<open>\<open>from_be_bytes\<close> and \<open>from_le_bytes\<close>.\<close>

definition be_nat :: "byte list \<Rightarrow> nat" where
  "be_nat bs = foldl (\<lambda>acc b. acc * 256 + unat b) 0 bs"

definition le_nat :: "byte list \<Rightarrow> nat" where
  "le_nat bs = be_nat (rev bs)"

section \<open>Constant time comparison\<close>

text \<open>The loop \<open>for (x, y) in a.bytes().zip(b.bytes()) { diff |= x ^ y }\<close>.\<close>

fun xor_diff :: "byte \<Rightarrow> (byte \<times> byte) list \<Rightarrow> byte" where
  "xor_diff diff [] = diff"
| "xor_diff diff ((x, y) # xys) = xor_diff (diff OR (x XOR y)) xys"

definition constant_time_eq :: "string \<Rightarrow> string \<Rightarrow> bool" where
  "constant_time_eq a b =
     (if utf8_len a \<noteq> utf8_len b then False
      else xor_diff 0 (zip (utf8_bytes a) (utf8_bytes b)) = 0)"

lemma xor_eq_0: "(x XOR y = 0) \<longleftrightarrow> x = (y :: byte)"
  by (auto simp: bit_eq_iff bit_simps)

lemma xor_diff_eq_0: "xor_diff d xys = 0 \<longleftrightarrow> d = 0 \<and> (\<forall>(x, y) \<in> set xys. x = y)"
  by (induction d xys rule: xor_diff.induct) (auto simp: or_eq_0_iff xor_eq_0)

lemma zip_all_eq: "length xs = length ys \<Longrightarrow> (\<forall>(x, y) \<in> set (zip xs ys). x = y) \<longleftrightarrow> xs = ys"
  by (induction xs ys rule: list_induct2) auto

lemma length_char_bytes [simp]: "length (char_bytes c) = utf8_width c"
  by (simp add: char_bytes_def Let_def utf8_width_def is_ascii_def)

lemma length_utf8_bytes [simp]: "length (utf8_bytes s) = utf8_len s"
  by (induction s) (simp_all add: utf8_bytes_def utf8_len_def)

text \<open>UTF-8 decoding on the modelled range, which shows that the encoding is injective.\<close>

fun utf8_decode :: "byte list \<Rightarrow> string" where
  "utf8_decode [] = []"
| "utf8_decode [b] = [char_of (unat b)]"
| "utf8_decode (b # b' # bs) =
     (if unat b < 128 then char_of (unat b) # utf8_decode (b' # bs)
      else char_of ((unat b - 192) * 64 + (unat b' - 128)) # utf8_decode bs)"

lemma unat_byte: "n < 256 \<Longrightarrow> unat (word_of_nat n :: byte) = n"
  by (simp add: unsigned_of_nat take_bit_nat_eq_self)

lemma byte_bound: "unat (b :: byte) < 256"
  using unsigned_less [of b] by simp

lemma byte_nibbles: "unat (b :: byte) div 16 < 16" "unat b mod 16 < 16"
  using byte_bound [of b] by (simp_all add: less_mult_imp_div_less)

lemma utf8_decode_ascii: "unat b < 128 \<Longrightarrow> utf8_decode (b # bs) = char_of (unat b) # utf8_decode bs"
  by (cases bs) auto

lemma utf8_decode_char: "utf8_decode (char_bytes c @ bs) = c # utf8_decode bs"
proof (cases "code_of c < 128")
  case True
  then show ?thesis
    by (simp add: char_bytes_def utf8_decode_ascii unat_byte)
next
  case False
  have b: "code_of c < 256" by (rule code_of_bound)
  then have "code_of c div 64 < 4" by (simp add: less_mult_imp_div_less)
  then have hi: "unat (word_of_nat (192 + code_of c div 64) :: byte) = 192 + code_of c div 64"
    by (intro unat_byte) simp
  have "code_of c mod 64 < 64" by simp
  then have lo: "unat (word_of_nat (128 + code_of c mod 64) :: byte) = 128 + code_of c mod 64"
    by (intro unat_byte) simp
  have "code_of c div 64 * 64 + code_of c mod 64 = code_of c" by simp
  with hi lo False show ?thesis
    by (simp add: char_bytes_def Let_def)
qed

lemma utf8_roundtrip: "utf8_decode (utf8_bytes s) = s"
  by (induction s) (simp_all add: utf8_bytes_def utf8_decode_char)

lemma utf8_bytes_inject [simp]: "utf8_bytes a = utf8_bytes b \<longleftrightarrow> a = b"
  by (metis utf8_roundtrip)

text \<open>The comparison returns exactly whether the two strings are equal.\<close>

lemma constant_time_eq_iff: "constant_time_eq a b \<longleftrightarrow> a = b"
proof (cases "utf8_len a = utf8_len b")
  case True
  then have "length (utf8_bytes a) = length (utf8_bytes b)" by simp
  from zip_all_eq [OF this] True show ?thesis
    by (simp add: constant_time_eq_def xor_diff_eq_0)
next
  case False
  then show ?thesis by (auto simp: constant_time_eq_def)
qed

section \<open>Hexadecimal codecs\<close>

text \<open>
  A call either returns, panics or does not end.  \<open>&value[i..i + 2]\<close> panics when it cuts a character in two,
  and that is the only panic here: the slices are taken in order and the first one that is not
  two digits ends the collection with \<open>None\<close>.  \<open>u8::from_str_radix\<close> takes an optional plus sign.
\<close>

datatype 'a outcome = Panic | Diverge | Ret 'a

definition hex_byte :: "char \<Rightarrow> char \<Rightarrow> byte option" where
  "hex_byte c d = (if c = CHR ''+'' then map_option word_of_nat (hex_val d)
     else (case (hex_val c, hex_val d) of (Some h, Some l) \<Rightarrow> Some (word_of_nat (16 * h + l))
           | _ \<Rightarrow> None))"

fun hex_pairs :: "string \<Rightarrow> byte list option outcome" where
  "hex_pairs [] = Ret (Some [])"
| "hex_pairs [c] = (if is_ascii c then Panic else Ret None)"
| "hex_pairs (c # d # cs) =
     (if \<not> is_ascii c then Ret None
      else if \<not> is_ascii d then Panic
      else (case hex_byte c d of None \<Rightarrow> Ret None
            | Some b \<Rightarrow> map_outcome (map_option (\<lambda>bs. b # bs)) (hex_pairs cs)))"

definition hex_decode :: "string \<Rightarrow> byte list option outcome" where
  "hex_decode s = (if utf8_len s mod 2 \<noteq> 0 then Ret None else hex_pairs s)"

definition hex_encode :: "byte list \<Rightarrow> string" where
  "hex_encode bs = concat (map (\<lambda>b. [hex_digit_char (unat b div 16), hex_digit_char (unat b mod 16)]) bs)"

lemma hex_digit_code: "d < 16 \<Longrightarrow> code_of (hex_digit_char d) = (if d < 10 then 48 + d else 87 + d)"
  by (simp add: hex_digit_char_def)

lemma hex_val_digit: "d < 16 \<Longrightarrow> hex_val (hex_digit_char d) = Some d"
  by (auto simp: hex_val_def is_ascii_digit_def hex_digit_code)

lemma hex_digit_ascii: "d < 16 \<Longrightarrow> is_ascii_hexdigit (hex_digit_char d)"
  by (auto simp: is_ascii_hexdigit_def is_ascii_digit_def hex_digit_code)

lemma hex_digit_not_plus: "d < 16 \<Longrightarrow> hex_digit_char d \<noteq> CHR ''+''"
  using hex_digit_code [of d] by (auto split: if_splits)

lemma hex_byte_digits:
  "hex_byte (hex_digit_char (unat b div 16)) (hex_digit_char (unat b mod 16)) = Some b"
proof -
  have "unat b div 16 < 16" by (rule byte_nibbles)
  moreover have "16 * (unat b div 16) + unat b mod 16 = unat b" by simp
  ultimately show ?thesis
    by (simp add: hex_byte_def hex_val_digit hex_digit_not_plus)
qed

lemma hex_encode_hexdigits: "c \<in> set (hex_encode bs) \<Longrightarrow> is_ascii_hexdigit c"
proof (induction bs)
  case Nil
  then show ?case by (simp add: hex_encode_def)
next
  case (Cons b bs)
  with byte_nibbles [of b] show ?case by (auto simp: hex_encode_def intro: hex_digit_ascii)
qed

lemma length_hex_encode [simp]: "length (hex_encode bs) = 2 * length bs"
  by (induction bs) (auto simp: hex_encode_def)

lemma hex_pairs_encode: "hex_pairs (hex_encode bs) = Ret (Some bs)"
proof (induction bs)
  case Nil
  then show ?case by (simp add: hex_encode_def)
next
  case (Cons b bs)
  have "is_ascii (hex_digit_char (unat b div 16))" "is_ascii (hex_digit_char (unat b mod 16))"
    by (simp_all add: hex_digit_ascii hexdigit_ascii byte_nibbles)
  with Cons show ?case
    by (simp add: hex_encode_def hex_byte_digits)
qed

text \<open>Decoding inverts encoding, and hexadecimal digits never panic.\<close>

lemma hex_roundtrip: "hex_decode (hex_encode bs) = Ret (Some bs)"
proof -
  have "utf8_len (hex_encode bs) = 2 * length bs"
    by (simp add: utf8_len_ascii hex_encode_hexdigits hexdigit_ascii)
  then show ?thesis by (simp add: hex_decode_def hex_pairs_encode)
qed

lemma hex_pairs_no_panic: "\<forall>c \<in> set s. is_ascii c \<Longrightarrow> even (length s) \<Longrightarrow> hex_pairs s \<noteq> Panic"
proof (induction s rule: hex_pairs.induct)
  case (3 c d cs)
  then show ?case by (cases "hex_byte c d"; cases "hex_pairs cs") auto
qed auto

lemma hex_decode_no_panic: "\<forall>c \<in> set s. is_ascii c \<Longrightarrow> hex_decode s \<noteq> Panic"
  by (simp add: hex_decode_def hex_pairs_no_panic utf8_len_ascii even_iff_mod_2_eq_zero)

text \<open>A character of two bytes at an odd offset makes the decoder panic: 61 C3 A9 62 is four
  bytes and its first slice ends inside the second character.\<close>

lemma hex_decode_panics: "hex_decode [CHR ''a'', char_of (233 :: nat), CHR ''b''] = Panic"
  by (simp add: hex_decode_def utf8_len_def utf8_width_def is_ascii_def)

end
