(* ===== verification/Api_Result.thy ===== *)
theory Api_Result
  imports Rust_Bytes
begin

text \<open>
  \<open>core/result.rs\<close>: the error every service returns, as the left side of a sum; and the
  interface of the single-use stores.  \<open>single_use\<close> is the contract that the rate limiting
  nullifiers, the CAPTCHA tokens, the deposit tokens and the ephemeral KEM keys share: a
  request is tried against a store at a time of the clock, and a key that has been accepted, or
  is already spent, is refused from then on, at every time at which the key is \<open>live\<close>.  Proved
  once inside the locale: over any run with a clock that does not go back, each key is accepted
  at most once at live times.
\<close>

record api_error =
  status_code :: nat
  ae_message :: string

type_synonym 'a api_result = "api_error + 'a"

definition api_error_new :: "nat \<Rightarrow> string \<Rightarrow> api_error" where
  "api_error_new status msg = \<lparr>status_code = status, ae_message = msg\<rparr>"

definition bad_request :: "string \<Rightarrow> api_error" where
  "bad_request msg = api_error_new 400 msg"

definition unauthorized :: "string \<Rightarrow> api_error" where
  "unauthorized msg = api_error_new 401 msg"

definition forbidden :: "string \<Rightarrow> api_error" where
  "forbidden msg = api_error_new 403 msg"

definition too_many_requests :: "string \<Rightarrow> api_error" where
  "too_many_requests msg = api_error_new 429 msg"

text \<open>The log line of \<open>internal\<close> is not part of its result.\<close>

definition internal :: "string \<Rightarrow> api_error" where
  "internal log_context = api_error_new 500 ''An internal error occurred. Please try again later.''"

lemmas api_error_defs = api_error_new_def bad_request_def unauthorized_def forbidden_def
  too_many_requests_def internal_def

definition is_ok :: "'e + 'a \<Rightarrow> bool" where
  "is_ok r = (case r of Inl _ \<Rightarrow> False | Inr _ \<Rightarrow> True)"

lemma is_ok_simps [simp]: "is_ok (Inr x)" "\<not> is_ok (Inl e)"
  by (simp_all add: is_ok_def)

lemma is_ok_iff: "is_ok r \<longleftrightarrow> (\<exists>x. r = Inr x)"
  by (cases r) (auto simp: is_ok_def)

section \<open>Single-use stores\<close>

text \<open>A run of requests: the answers, and the store after them.\<close>

fun run_tries :: "(nat \<Rightarrow> 'r \<Rightarrow> 's \<Rightarrow> (api_error + 'a) \<times> 's) \<Rightarrow> 's \<Rightarrow> (nat \<times> 'r) list \<Rightarrow> bool list \<times> 's" where
  "run_tries f s [] = ([], s)"
| "run_tries f s ((t, r) # trs) =
     (let (a, s') = f t r s; (oks, s'') = run_tries f s' trs in (is_ok a # oks, s''))"

definition clock_ok :: "(nat \<times> 'r) list \<Rightarrow> bool" where
  "clock_ok trs \<longleftrightarrow> sorted (map fst trs)"

definition accepted_of ::
  "(nat \<Rightarrow> 'k \<Rightarrow> bool) \<Rightarrow> ('r \<Rightarrow> 'k) \<Rightarrow> 'k \<Rightarrow> (nat \<times> 'r) list \<Rightarrow> bool list \<Rightarrow> nat" where
  "accepted_of live key k trs oks =
     length (filter (\<lambda>((t, r), ok). ok \<and> key r = k \<and> live t k) (zip trs oks))"

abbreviation always :: "nat \<Rightarrow> 'k \<Rightarrow> bool" where
  "always \<equiv> \<lambda>_ _. True"

lemma accepted_of_Nil [simp]: "accepted_of live key k [] oks = 0"
  by (simp add: accepted_of_def)

lemma accepted_of_Cons [simp]:
  "accepted_of live key k ((t, r) # trs) (ok # oks) =
     (if ok \<and> key r = k \<and> live t k then 1 else 0) + accepted_of live key k trs oks"
  by (simp add: accepted_of_def)

lemma clock_ok_Cons: "clock_ok ((t, r) # trs) \<longleftrightarrow> (\<forall>(u, _) \<in> set trs. t \<le> u) \<and> clock_ok trs"
  by (auto simp: clock_ok_def)

locale single_use =
  fixes try_use :: "nat \<Rightarrow> 'r \<Rightarrow> 's \<Rightarrow> (api_error + 'a) \<times> 's"
    and key :: "'r \<Rightarrow> 'k"
    and spent :: "'s \<Rightarrow> nat \<Rightarrow> 'k \<Rightarrow> bool"
    and live :: "nat \<Rightarrow> 'k \<Rightarrow> bool"
  assumes spent_after: "try_use now r s = (Inr x, s') \<Longrightarrow> spent s' now (key r)"
    and spent_keep: "spent s t k \<Longrightarrow> t \<le> now \<Longrightarrow> spent (snd (try_use now r s)) now k"
    and spent_refused: "spent s t (key r) \<Longrightarrow> t \<le> now \<Longrightarrow> live now (key r) \<Longrightarrow> \<not> is_ok (fst (try_use now r s))"
begin

lemma spent_run_none:
  "spent s t k \<Longrightarrow> clock_ok trs \<Longrightarrow> \<forall>(u, _) \<in> set trs. t \<le> u \<Longrightarrow>
     accepted_of live key k trs (fst (run_tries try_use s trs)) = 0"
proof (induction trs arbitrary: s t)
  case Nil
  then show ?case by simp
next
  case (Cons tr trs)
  obtain u r where tr: "tr = (u, r)" by (cases tr)
  obtain a s' where step: "try_use u r s = (a, s')" by (cases "try_use u r s")
  from Cons.prems tr have le: "t \<le> u" by simp
  from spent_keep [OF Cons.prems(1) le, of r] step have keep: "spent s' u k" by simp
  from spent_refused [of s t r u] Cons.prems(1) le step have no: "\<not> (is_ok a \<and> key r = k \<and> live u k)" by auto
  from Cons.prems(2) tr have "clock_ok trs" "\<forall>(u', _) \<in> set trs. u \<le> u'"
    by (auto simp: clock_ok_Cons)
  with Cons.IH [OF keep] no tr step show ?case
    by (auto simp: Let_def split: prod.splits)
qed

lemma accepted_once:
  "clock_ok trs \<Longrightarrow> accepted_of live key k trs (fst (run_tries try_use s trs)) \<le> 1"
proof (induction trs arbitrary: s)
  case Nil
  then show ?case by simp
next
  case (Cons tr trs)
  obtain u r where tr: "tr = (u, r)" by (cases tr)
  obtain a s' where step: "try_use u r s = (a, s')" by (cases "try_use u r s")
  from Cons.prems tr have ck: "clock_ok trs" "\<forall>(u', _) \<in> set trs. u \<le> u'"
    by (auto simp: clock_ok_Cons)
  show ?case
  proof (cases "is_ok a \<and> key r = k \<and> live u k")
    case True
    with step have "spent s' u k" by (auto simp: is_ok_iff intro: spent_after)
    from spent_run_none [OF this ck] True tr step show ?thesis
      by (auto simp: Let_def split: prod.splits)
  next
    case False
    with Cons.IH [OF ck(1), of s'] tr step show ?thesis
      by (auto simp: Let_def split: prod.splits)
  qed
qed

end

end
