(* ===== verification/Json_Value.thy ===== *)
theory Json_Value
  imports Api_Result
begin

text \<open>
  The values of \<open>serde_json\<close> as the handlers use them: the accessors \<open>get\<close>, \<open>as_str\<close>,
  \<open>as_bool\<close>, \<open>as_u64\<close>, \<open>as_array\<close> and \<open>as_object\<close>, and \<open>utils.rs\<close>: the request identifier that
  every answer carries back.  An object is an association list; a number is an integer or a
  float, whose text is kept and never computed with.
\<close>

datatype json = JNull | JBool bool | JInt int | JFloat string | JStr string
  | JArr "json list" | JObj "(string \<times> json) list"

definition obj_get :: "string \<Rightarrow> json \<Rightarrow> json option" where
  "obj_get k v = (case v of JObj kvs \<Rightarrow> map_of kvs k | _ \<Rightarrow> None)"

definition as_str :: "json \<Rightarrow> string option" where
  "as_str v = (case v of JStr s \<Rightarrow> Some s | _ \<Rightarrow> None)"

definition as_bool :: "json \<Rightarrow> bool option" where
  "as_bool v = (case v of JBool b \<Rightarrow> Some b | _ \<Rightarrow> None)"

definition as_u64 :: "json \<Rightarrow> nat option" where
  "as_u64 v = (case v of JInt i \<Rightarrow> if 0 \<le> i \<and> i < 2 ^ 64 then Some (nat i) else None | _ \<Rightarrow> None)"

definition as_array :: "json \<Rightarrow> json list option" where
  "as_array v = (case v of JArr vs \<Rightarrow> Some vs | _ \<Rightarrow> None)"

definition as_object :: "json \<Rightarrow> (string \<times> json) list option" where
  "as_object v = (case v of JObj kvs \<Rightarrow> Some kvs | _ \<Rightarrow> None)"

abbreviation obind :: "'a option \<Rightarrow> ('a \<Rightarrow> 'b option) \<Rightarrow> 'b option" where
  "obind \<equiv> Option.bind"

definition ofilter :: "('a \<Rightarrow> bool) \<Rightarrow> 'a option \<Rightarrow> 'a option" where
  "ofilter P x = (case x of None \<Rightarrow> None | Some v \<Rightarrow> if P v then Some v else None)"

definition or_else :: "'a option \<Rightarrow> 'a option \<Rightarrow> 'a option" where
  "or_else x y = (case x of None \<Rightarrow> y | Some v \<Rightarrow> Some v)"

definition unwrap_or :: "'a \<Rightarrow> 'a option \<Rightarrow> 'a" where
  "unwrap_or d x = (case x of None \<Rightarrow> d | Some v \<Rightarrow> v)"

text \<open>The two idioms of the handlers: \<open>d.get(k).and_then(Value::as_str)\<close>, and the same trimmed and
  with the empty text counting as absent.\<close>

definition str_field :: "string \<Rightarrow> json \<Rightarrow> string option" where
  "str_field k d = obind (obj_get k d) as_str"

definition bool_field :: "string \<Rightarrow> json \<Rightarrow> bool option" where
  "bool_field k d = obind (obj_get k d) as_bool"

definition u64_field :: "string \<Rightarrow> json \<Rightarrow> nat option" where
  "u64_field k d = obind (obj_get k d) as_u64"

definition trimmed :: "string option \<Rightarrow> string option" where
  "trimmed x = ofilter (\<lambda>v. v \<noteq> []) (map_option trim x)"

lemmas json_defs = obj_get_def as_str_def as_bool_def as_u64_def as_array_def as_object_def
  ofilter_def or_else_def unwrap_or_def str_field_def bool_field_def u64_field_def trimmed_def

lemma ofilter_simps [simp]: "ofilter P None = None" "ofilter P (Some v) = (if P v then Some v else None)"
  by (simp_all add: ofilter_def)

lemma ofilter_Some: "ofilter P x = Some v \<longleftrightarrow> x = Some v \<and> P v"
  by (cases x) auto

lemma or_else_simps [simp]: "or_else None y = y" "or_else (Some v) y = Some v"
  by (simp_all add: or_else_def)

lemma unwrap_or_simps [simp]: "unwrap_or d None = d" "unwrap_or d (Some v) = v"
  by (simp_all add: unwrap_or_def)

lemma trimmed_Some: "trimmed x = Some v \<longleftrightarrow> (\<exists>s. x = Some s \<and> v = trim s \<and> v \<noteq> [])"
  by (cases x) (auto simp: trimmed_def)

lemma obj_get_simps [simp]:
  "obj_get k (JObj kvs) = map_of kvs k" "obj_get k JNull = None"
  by (simp_all add: obj_get_def)

lemma as_simps [simp]: "as_str (JStr s) = Some s" "as_bool (JBool b) = Some b"
  by (simp_all add: as_str_def as_bool_def)

section \<open>Request identifiers (\<open>utils.rs\<close>)\<close>

definition request_id :: "json \<Rightarrow> string option" where
  "request_id value = map_option (take 128) (str_field ''requestId'' value)"

definition with_request_id :: "json \<Rightarrow> string option \<Rightarrow> json" where
  "with_request_id payload rid =
     (case rid of None \<Rightarrow> payload
      | Some r \<Rightarrow>
        (case payload of
           JObj root \<Rightarrow>
             (case map_of root ''d'' of
                Some (JObj d) \<Rightarrow> JObj (AList.update ''d'' (JObj (AList.update ''requestId'' (JStr r) d)) root)
              | _ \<Rightarrow> JObj (AList.update ''d'' (JObj [(''requestId'', JStr r)]) root))
         | _ \<Rightarrow> payload))"

text \<open>The identifier that comes back is the one that was sent, cut at 128 characters; the rest of
  the answer is not touched.\<close>

lemma request_id_bound: "request_id v = Some r \<Longrightarrow> length r \<le> 128"
  by (auto simp: request_id_def)

lemma with_request_id_echo:
  "with_request_id (JObj [(''op'', opv), (''d'', JObj d)]) (Some r)
     = JObj [(''op'', opv), (''d'', JObj (AList.update ''requestId'' (JStr r) d))]"
  by (simp add: with_request_id_def)

lemma with_request_id_None [simp]: "with_request_id p None = p"
  by (simp add: with_request_id_def)

text \<open>\<open>json!({"op": op, "d": {..}})\<close>.\<close>

definition op_json :: "nat \<Rightarrow> (string \<times> json) list \<Rightarrow> json" where
  "op_json opn d = JObj [(''op'', JInt (int opn)), (''d'', JObj d)]"

lemma op_json_inject [simp]: "op_json a d = op_json b e \<longleftrightarrow> a = b \<and> d = e"
  by (simp add: op_json_def)

definition strs_json :: "string list \<Rightarrow> json" where
  "strs_json xs = JArr (map JStr xs)"

end
