(* ===== verification/Security.thy ===== *)
theory Security
  imports Json_Value
begin

text \<open>
  \<open>core/security.rs\<close>: user names and their reserved forms, recovery phrases, password bounds,
  file names, and the rate limiter every socket operation and HTTP route goes through.  Argon2,
  SHA-256 and random text are third-party and are parameters where they are used.  Shown: a
  validated name is normal, bounded, unreserved and validates to itself; a sanitised file name is
  bounded and has no separator; the limiter implements a fixed window per key: exactly
  the first \<open>limit\<close> hits of a key pass in each of its windows.
\<close>

definition USERNAME_MIN :: nat where "USERNAME_MIN = 2"
definition USERNAME_MAX :: nat where "USERNAME_MAX = 32"
definition USERNAME_REGISTER_MAX :: nat where "USERNAME_REGISTER_MAX = 24"
definition PASSWORD_MIN :: nat where "PASSWORD_MIN = 8"
definition PASSWORD_MAX :: nat where "PASSWORD_MAX = 128"

definition RESERVED_USERNAMES :: "string list" where
  "RESERVED_USERNAMES = [''system'', ''official'', ''official_qxchat'', ''qxchat'', ''qx_protocol'',
     ''qxprotocol'', ''admin'', ''administrator'', ''moderator'', ''mod'', ''staff'', ''support'',
     ''help'', ''helpdesk'', ''root'', ''owner'', ''team'', ''noreply'', ''no_reply'', ''donotreply'',
     ''welcome'', ''dmca'', ''abuse'', ''security'', ''press'', ''contact'', ''announce'',
     ''announcement'', ''server'', ''bot'']"

definition RESERVED_USERNAME_SUBSTRINGS :: "string list" where
  "RESERVED_USERNAME_SUBSTRINGS = [''qxchat'', ''qx_protocol'', ''qxprotocol'']"

definition normalize_username :: "string \<Rightarrow> string" where
  "normalize_username username = str_lower (trim username)"

definition unleet :: "char \<Rightarrow> char" where
  "unleet ch =
     (if ch = CHR ''0'' then CHR ''o''
      else if ch = CHR ''1'' \<or> ch = CHR ''!'' \<or> ch = CHR ''|'' then CHR ''i''
      else if ch = CHR ''3'' then CHR ''e''
      else if ch = CHR ''4'' then CHR ''a''
      else if ch = CHR ''5'' \<or> ch = CHR ''$'' then CHR ''s''
      else if ch = CHR ''7'' then CHR ''t''
      else if ch = CHR ''@'' then CHR ''a''
      else ch)"

definition reserved_username_keys :: "string \<Rightarrow> string list" where
  "reserved_username_keys username =
     (let lowered = str_lower (trim username)
      in [filter is_alphanumeric lowered, filter is_alphanumeric (map unleet lowered)])"

definition hits_reserved_username :: "string \<Rightarrow> bool" where
  "hits_reserved_username username =
     list_ex (\<lambda>key. key \<noteq> [] \<and> (key \<in> set RESERVED_USERNAMES
        \<or> list_ex (\<lambda>token. contains_str key token) RESERVED_USERNAME_SUBSTRINGS))
      (reserved_username_keys username)"

definition normalize_recovery_phrase :: "string \<Rightarrow> string" where
  "normalize_recovery_phrase phrase_words = join_with '' '' (map str_lower (split_whitespace phrase_words))"

text \<open>The punctuation a name may contain; 39 and 34 are the two quotes.\<close>

definition username_char_ok :: "char \<Rightarrow> bool" where
  "username_char_ok ch \<longleftrightarrow> is_alphanumeric ch \<or> ch \<in> set ''_.- #@()[]!?'' \<or> code_of ch = 39 \<or> code_of ch = 34"

definition validate_username_with_max :: "string \<Rightarrow> nat \<Rightarrow> string api_result" where
  "validate_username_with_max username max_chars =
     (let normalized = normalize_username username;
          char_count = length normalized
      in if \<not> (USERNAME_MIN \<le> char_count \<and> char_count \<le> max_chars) then
           Inl (bad_request (''Username must be between '' @ dec USERNAME_MIN @ '' and ''
             @ dec max_chars @ '' characters.''))
         else if hits_reserved_username normalized then Inl (bad_request ''Username is reserved.'')
         else if \<not> list_all username_char_ok normalized then
           Inl (bad_request ''Username contains invalid characters.'')
         else Inr normalized)"

definition validate_username :: "string \<Rightarrow> string api_result" where
  "validate_username username = validate_username_with_max username USERNAME_MAX"

definition validate_registration_username :: "string \<Rightarrow> string api_result" where
  "validate_registration_username username = validate_username_with_max username USERNAME_REGISTER_MAX"

definition validate_password :: "string \<Rightarrow> unit api_result" where
  "validate_password password =
     (if \<not> (PASSWORD_MIN \<le> length password \<and> length password \<le> PASSWORD_MAX) then
        Inl (bad_request (''Password must be between '' @ dec PASSWORD_MIN @ '' and ''
          @ dec PASSWORD_MAX @ '' characters.''))
      else Inr ())"

definition username_hits_blocklist :: "string \<Rightarrow> string list \<Rightarrow> bool" where
  "username_hits_blocklist username blocklist =
     (let normalized = normalize_username username
      in list_ex (\<lambda>term. normalize_username term \<noteq> [] \<and> contains_str normalized (normalize_username term))
           blocklist)"

section \<open>File names\<close>

definition filename_bad :: "char \<Rightarrow> bool" where
  "filename_bad ch \<longleftrightarrow> is_control ch \<or> ch \<in> set ''/:*?<>|'' \<or> code_of ch = 92 \<or> code_of ch = 34"

definition filename_char :: "char \<Rightarrow> char" where
  "filename_char ch = (if filename_bad ch then CHR ''_'' else ch)"

definition is_dot :: "char \<Rightarrow> bool" where
  "is_dot ch \<longleftrightarrow> ch = CHR ''.''"

definition sanitize_filename :: "string \<Rightarrow> string \<Rightarrow> nat \<Rightarrow> string" where
  "sanitize_filename value fallback max_len =
     (let sanitized = map filename_char (trim value);
          sanitized = trim (trim_matches is_dot sanitized);
          sanitized = (if sanitized = [] then fallback else sanitized)
      in take max_len sanitized)"

section \<open>Secrets\<close>

text \<open>Argon2 verification is a parameter: \<open>None\<close> for a hash that does not parse.\<close>

type_synonym argon2 = "string \<Rightarrow> string \<Rightarrow> bool option"

definition verify_secret :: "argon2 \<Rightarrow> string \<Rightarrow> string \<Rightarrow> unit api_result" where
  "verify_secret argon secret hash =
     (case argon secret hash of Some True \<Rightarrow> Inr () | _ \<Rightarrow> Inl (unauthorized ''Invalid credentials.''))"

text \<open>Hashing under a random salt: \<open>None\<close> when the library reports an error.\<close>

definition hash_secret :: "(string \<Rightarrow> string \<Rightarrow> string option) \<Rightarrow> string \<Rightarrow> string \<Rightarrow> string api_result" where
  "hash_secret argon_hash slt secret =
     (case argon_hash slt secret of Some h \<Rightarrow> Inr h | None \<Rightarrow> Inl (internal ''password hashing''))"

text \<open>For an unknown account the comparison against the dummy hash only costs time.\<close>

definition verify_secret_constant_time :: "argon2 \<Rightarrow> string \<Rightarrow> string option \<Rightarrow> unit api_result" where
  "verify_secret_constant_time argon secret real_hash =
     (case real_hash of
        Some hash \<Rightarrow> verify_secret argon secret hash
      | None \<Rightarrow> Inl (unauthorized ''Invalid credentials.''))"

section \<open>The rate limiter\<close>

record rate_limit_bucket =
  window_start_ms :: nat
  window_ms :: nat
  bucket_count :: nat

type_synonym rate_limits = "(string \<times> rate_limit_bucket) list"

text \<open>True means that the limit is exceeded.\<close>

definition rate_limit_hit :: "nat \<Rightarrow> string \<Rightarrow> nat \<Rightarrow> nat \<Rightarrow> rate_limits \<Rightarrow> bool \<times> rate_limits" where
  "rate_limit_hit now key limit window buckets =
     (let buckets = (if length buckets > 5000
             then filter (\<lambda>(_, b). now - window_start_ms b \<le> window_ms b) buckets else buckets);
          bucket = (case map_of buckets key of Some b \<Rightarrow> b
             | None \<Rightarrow> \<lparr>window_start_ms = now, window_ms = window, bucket_count = 0\<rparr>);
          bucket = (if now - window_start_ms bucket > window
             then \<lparr>window_start_ms = now, window_ms = window, bucket_count = 0\<rparr> else bucket);
          bucket = bucket\<lparr>bucket_count := sat_add_u32 (bucket_count bucket) 1\<rparr>
      in (bucket_count bucket > limit, AList.update key bucket buckets))"

section \<open>Names\<close>

lemma normalize_username_idem [simp]: "normalize_username (normalize_username u) = normalize_username u"
  by (simp add: normalize_username_def trim_str_lower)

lemma validate_username_accepts:
  "validate_username_with_max u mx = Inr n \<longleftrightarrow>
     n = normalize_username u \<and> USERNAME_MIN \<le> length n \<and> length n \<le> mx
     \<and> \<not> hits_reserved_username n \<and> list_all username_char_ok n"
  by (auto simp: validate_username_with_max_def Let_def)

lemma set_trim_matches: "set (trim_matches p s) \<subseteq> set s"
  by (auto simp: trim_matches_def trim_end_matches_def trim_start_matches_def dest!: set_dropWhileD)

lemma sanitize_filename_chars:
  assumes "c \<in> set (sanitize_filename v fallback n)"
  shows "\<not> filename_bad c \<or> c \<in> set fallback"
proof -
  let ?s = "map filename_char (trim v)"
  have ok: "\<not> filename_bad c" if "c \<in> set ?s" for c
    using that by (auto simp: filename_char_def filename_bad_def is_control_def)
  have "set (trim (trim_matches is_dot ?s)) \<subseteq> set ?s"
    using set_trim_subset set_trim_matches by blast
  with assms ok show ?thesis
    by (auto simp: sanitize_filename_def Let_def split: if_splits dest!: in_set_takeD)
qed

text \<open>Dots inside a blank margin survive: the result can be the parent directory's name.\<close>

lemma dotdot_core:
  "trim (trim_matches is_dot
     (map filename_char (trim ''. .. .''))) = ''..''"
  by code_simp

lemma sanitize_filename_dotdot: "sanitize_filename ''. .. .'' ''file'' 128 = ''..''"
  by (simp only: sanitize_filename_def Let_def dotdot_core) simp

section \<open>The limiter is a fixed window\<close>

text \<open>One hit is (time, key, limit, window).  A run answers with whether each hit passed.\<close>

type_synonym rl_hit = "nat \<times> string \<times> nat \<times> nat"

fun rl_run :: "rl_hit list \<Rightarrow> rate_limits \<Rightarrow> bool list" where
  "rl_run [] m = []"
| "rl_run ((t, key, limit, window) # hits) m =
     (let (exceeded, m') = rate_limit_hit t key limit window m in (\<not> exceeded) # rl_run hits m')"

definition rl_passes :: "string \<Rightarrow> rl_hit list \<Rightarrow> rate_limits \<Rightarrow> nat" where
  "rl_passes k hits m = length (filter (\<lambda>((t, key, _), ok). key = k \<and> ok) (zip hits (rl_run hits m)))"

text \<open>The code gives one limit and one window to a key; the times lie within an interval.\<close>

definition rl_uniform :: "string \<Rightarrow> nat \<Rightarrow> nat \<Rightarrow> rl_hit list \<Rightarrow> bool" where
  "rl_uniform k limit window hits \<longleftrightarrow> (\<forall>(t, key, l, w) \<in> set hits. key = k \<longrightarrow> l = limit \<and> w = window)"

definition rl_between :: "nat \<Rightarrow> nat \<Rightarrow> rl_hit list \<Rightarrow> bool" where
  "rl_between lo hi hits \<longleftrightarrow> sorted (map fst hits) \<and> (\<forall>(t, _) \<in> set hits. lo \<le> t \<and> t \<le> hi)"

definition rl_inv :: "string \<Rightarrow> nat \<Rightarrow> rate_limits \<Rightarrow> bool" where
  "rl_inv k window m \<longleftrightarrow> distinct (keys m) \<and> (\<forall>b. map_of m k = Some b \<longrightarrow> window_ms b = window)"

lemma rl_passes_Nil [simp]: "rl_passes k [] m = 0"
  by (simp add: rl_passes_def)

lemma rl_passes_Cons:
  "rl_passes k ((t, key, limit, window) # hits) m =
     (if key = k \<and> \<not> fst (rate_limit_hit t key limit window m) then 1 else 0)
     + rl_passes k hits (snd (rate_limit_hit t key limit window m))"
  by (cases "rate_limit_hit t key limit window m") (simp add: rl_passes_def Let_def)

lemma rl_hit_other:
  assumes "key \<noteq> k" "distinct (keys m)"
  shows "map_of (snd (rate_limit_hit t key limit window m)) k = map_of m k
    \<or> (map_of (snd (rate_limit_hit t key limit window m)) k = None
       \<and> (\<exists>b. map_of m k = Some b \<and> t - window_start_ms b > window_ms b))"
  using assms
  by (auto simp: rate_limit_hit_def Let_def map_of_filter_distinct split: option.splits)

lemma rl_hit_distinct: "distinct (keys m) \<Longrightarrow> distinct (keys (snd (rate_limit_hit t key limit window m)))"
  by (auto simp: rate_limit_hit_def Let_def intro!: distinct_update distinct_keys_filter)

text \<open>A hit of the key itself: a live bucket counts one more, otherwise a new window opens.\<close>

lemma rl_hit_live:
  assumes "rl_inv k window m" "map_of m k = Some b" "t - window_start_ms b \<le> window"
  shows "map_of (snd (rate_limit_hit t k limit window m)) k
      = Some (b\<lparr>bucket_count := sat_add_u32 (bucket_count b) 1\<rparr>)"
    and "fst (rate_limit_hit t k limit window m) \<longleftrightarrow> sat_add_u32 (bucket_count b) 1 > limit"
  using assms
  by (auto simp: rate_limit_hit_def Let_def rl_inv_def map_of_filter_distinct)

lemma rl_hit_new:
  assumes "rl_inv k window m"
    and "case map_of m k of None \<Rightarrow> True | Some b \<Rightarrow> t - window_start_ms b > window"
  shows "map_of (snd (rate_limit_hit t k limit window m)) k
      = Some \<lparr>window_start_ms = t, window_ms = window, bucket_count = 1\<rparr>"
    and "fst (rate_limit_hit t k limit window m) \<longleftrightarrow> 1 > limit"
  using assms
  by (auto simp: rate_limit_hit_def Let_def rl_inv_def map_of_filter_distinct sat_add_u32_def
      split: option.splits)

lemma rl_inv_hit:
  assumes "rl_inv k window m" "key = k \<longrightarrow> w = window"
  shows "rl_inv k window (snd (rate_limit_hit t key limit w m))"
proof (cases "key = k")
  case True
  show ?thesis
  proof (cases "\<exists>b. map_of m k = Some b \<and> t - window_start_ms b \<le> window")
    case live: True
    then obtain b where "map_of m k = Some b" "t - window_start_ms b \<le> window" by blast
    from rl_hit_live(1) [OF assms(1) this] assms True \<open>map_of m k = Some b\<close> show ?thesis
      by (auto simp: rl_inv_def rl_hit_distinct)
  next
    case False
    then have "case map_of m k of None \<Rightarrow> True | Some b \<Rightarrow> t - window_start_ms b > window"
      by (auto split: option.splits)
    from rl_hit_new(1) [OF assms(1) this] assms True show ?thesis
      by (auto simp: rl_inv_def rl_hit_distinct)
  qed
next
  case False
  with rl_hit_other [of key k m t limit w] assms(1) show ?thesis
    by (auto simp: rl_inv_def rl_hit_distinct)
qed

lemma rl_uniform_Cons: "rl_uniform k l w ((t, key, l', w') # hits) \<longleftrightarrow>
    (key = k \<longrightarrow> l' = l \<and> w' = w) \<and> rl_uniform k l w hits"
  by (auto simp: rl_uniform_def)

lemma rl_between_Cons: "rl_between lo hi ((t, x) # hits) \<Longrightarrow> lo \<le> t \<and> t \<le> hi \<and> rl_between t hi hits"
  by (auto simp: rl_between_def)

text \<open>While the key's window is open, exactly what is left of the limit passes, if that many hits come.\<close>

definition rl_count :: "string \<Rightarrow> rl_hit list \<Rightarrow> nat" where
  "rl_count k hits = length (filter (\<lambda>(t, key, _). key = k) hits)"

lemma rl_count_simps [simp]:
  "rl_count k [] = 0"
  "rl_count k ((t, key, x) # hits) = (if key = k then 1 else 0) + rl_count k hits"
  by (simp_all add: rl_count_def)

lemma rl_passes_window:
  assumes "rl_inv k w m" "map_of m k = Some b" "hi \<le> window_start_ms b + w" "l < u32_max"
    "rl_uniform k l w hits" "rl_between lo hi hits"
  shows "rl_passes k hits m = min (l - bucket_count b) (rl_count k hits)"
  using assms
proof (induction hits arbitrary: m b lo)
  case Nil
  then show ?case by simp
next
  case (Cons h hits)
  obtain t key l' w' where h: "h = (t, key, l', w')" by (cases h)
  let ?m = "snd (rate_limit_hit t key l' w' m)"
  have u: "key = k \<longrightarrow> l' = l \<and> w' = w" "rl_uniform k l w hits" and bt: "lo \<le> t" "t \<le> hi" "rl_between t hi hits"
    using Cons.prems(5,6) h by (auto simp: rl_uniform_Cons dest: rl_between_Cons)
  have inv: "rl_inv k w ?m" using Cons.prems(1) u by (intro rl_inv_hit) auto
  have open_b: "t - window_start_ms b \<le> w" using Cons.prems(3) bt by simp
  show ?case
  proof (cases "key = k")
    case True
    with u have lw: "l' = l" "w' = w" by auto
    from rl_hit_live [OF Cons.prems(1,2) open_b, of l] True lw
    have next_b: "map_of ?m k = Some (b\<lparr>bucket_count := sat_add_u32 (bucket_count b) 1\<rparr>)"
      and ex: "fst (rate_limit_hit t key l' w' m) \<longleftrightarrow> sat_add_u32 (bucket_count b) 1 > l" by auto
    from Cons.IH [OF inv next_b _ Cons.prems(4) u(2) bt(3)] Cons.prems(3)
    have "rl_passes k hits ?m = min (l - sat_add_u32 (bucket_count b) 1) (rl_count k hits)" by simp
    with ex Cons.prems(4) True show ?thesis
      by (auto simp: h rl_passes_Cons sat_add_u32_def min_def)
  next
    case False
    with rl_hit_other [of key k m t l' w'] Cons.prems(1,2) open_b
    have "map_of ?m k = Some b" by (auto simp: rl_inv_def)
    from Cons.IH [OF inv this Cons.prems(3,4) u(2) bt(3)] False show ?thesis
      by (simp add: h rl_passes_Cons)
  qed
qed

text \<open>No window of the key is open at a time: it has no bucket, or one whose window is over.\<close>

definition rl_closed :: "string \<Rightarrow> nat \<Rightarrow> nat \<Rightarrow> rate_limits \<Rightarrow> bool" where
  "rl_closed k w t m \<longleftrightarrow> (case map_of m k of None \<Rightarrow> True | Some b \<Rightarrow> t - window_start_ms b > w)"

lemma rl_passes_closed:
  assumes "rl_inv k w m" "rl_closed k w lo m" "hi \<le> lo + w" "l < u32_max"
    "rl_uniform k l w hits" "rl_between lo hi hits"
  shows "rl_passes k hits m = min l (rl_count k hits)"
  using assms
proof (induction hits arbitrary: m lo)
  case Nil
  then show ?case by simp
next
  case (Cons h hits)
  obtain t key l' w' where h: "h = (t, key, l', w')" by (cases h)
  let ?m = "snd (rate_limit_hit t key l' w' m)"
  have u: "key = k \<longrightarrow> l' = l \<and> w' = w" "rl_uniform k l w hits" and bt: "lo \<le> t" "t \<le> hi" "rl_between t hi hits"
    using Cons.prems(5,6) h by (auto simp: rl_uniform_Cons dest: rl_between_Cons)
  have inv: "rl_inv k w ?m" using Cons.prems(1) u by (intro rl_inv_hit) auto
  have hi: "hi \<le> t + w" using Cons.prems(3) bt by simp
  have n: "case map_of m k of None \<Rightarrow> True | Some b \<Rightarrow> t - window_start_ms b > w"
    using Cons.prems(2) bt by (auto simp: rl_closed_def split: option.splits)
  show ?case
  proof (cases "key = k")
    case True
    with u have lw: "l' = l" "w' = w" by auto
    from rl_hit_new [OF Cons.prems(1) n, of l] True lw
    have nb: "map_of ?m k = Some \<lparr>window_start_ms = t, window_ms = w, bucket_count = 1\<rparr>"
      and ex: "fst (rate_limit_hit t key l' w' m) \<longleftrightarrow> 1 > l" by auto
    from rl_passes_window [OF inv nb _ Cons.prems(4) u(2) bt(3)] hi
    have "rl_passes k hits ?m = min (l - 1) (rl_count k hits)" by simp
    with ex True show ?thesis
      by (auto simp: h rl_passes_Cons min_def)
  next
    case False
    have "rl_closed k w t ?m"
      using rl_hit_other [OF False, of m t l' w'] Cons.prems(1) n
      by (auto simp: rl_inv_def rl_closed_def split: option.splits)
    from Cons.IH [OF inv this hi Cons.prems(4) u(2) bt(3)] False show ?thesis
      by (simp add: h rl_passes_Cons)
  qed
qed

lemma rl_between_weaken: "rl_between lo hi hits \<Longrightarrow> lo' \<le> lo \<Longrightarrow> rl_between lo' hi hits"
  by (fastforce simp: rl_between_def)

text \<open>An interval of a window's length touches two windows at most.\<close>

lemma rl_passes_interval:
  assumes "rl_inv k w m" "hi \<le> lo + w" "l < u32_max" "rl_uniform k l w hits" "rl_between lo hi hits"
  shows "rl_passes k hits m \<le> (case map_of m k of None \<Rightarrow> l | Some b \<Rightarrow> (l - bucket_count b) + l)"
  using assms
proof (induction hits arbitrary: m lo)
  case Nil
  then show ?case by simp
next
  case (Cons h hits)
  obtain t key l' w' where h: "h = (t, key, l', w')" by (cases h)
  let ?m = "snd (rate_limit_hit t key l' w' m)"
  have u: "key = k \<longrightarrow> l' = l \<and> w' = w" "rl_uniform k l w hits" and bt: "lo \<le> t" "t \<le> hi" "rl_between t hi hits"
    using Cons.prems(4,5) h by (auto simp: rl_uniform_Cons dest: rl_between_Cons)
  have inv: "rl_inv k w ?m" using Cons.prems(1) u by (intro rl_inv_hit) auto
  have hi: "hi \<le> t + w" using Cons.prems(2) bt by simp
  show ?case
  proof (cases "rl_closed k w t m")
    case True
    have "rl_between t hi (h # hits)" using bt h by (auto simp: rl_between_def)
    from rl_passes_closed [OF Cons.prems(1) True hi Cons.prems(3,4) this]
    show ?thesis by (auto split: option.splits)
  next
    case False
    then obtain b where b: "map_of m k = Some b" "t - window_start_ms b \<le> w"
      by (auto simp: rl_closed_def split: option.splits)
    show ?thesis
    proof (cases "key = k")
      case True
      with u have lw: "l' = l" "w' = w" by auto
      from rl_hit_live [OF Cons.prems(1) b, of l] True lw
        Cons.IH [OF inv hi Cons.prems(3) u(2) bt(3)] Cons.prems(3) b
      show ?thesis by (auto simp: h rl_passes_Cons sat_add_u32_def)
    next
      case False
      have "map_of ?m k = Some b"
        using rl_hit_other [OF False, of m t l' w'] Cons.prems(1) b by (auto simp: rl_inv_def)
      with Cons.IH [OF inv hi Cons.prems(3) u(2) bt(3)] False b show ?thesis
        by (simp add: h rl_passes_Cons)
    qed
  qed
qed

text \<open>The limiter's state after a run.\<close>

fun rl_after :: "rl_hit list \<Rightarrow> rate_limits \<Rightarrow> rate_limits" where
  "rl_after [] m = m"
| "rl_after ((t, key, limit, window) # hits) m = rl_after hits (snd (rate_limit_hit t key limit window m))"

lemma rl_inv_after: "rl_inv k w m \<Longrightarrow> rl_uniform k l w hits \<Longrightarrow> rl_inv k w (rl_after hits m)"
  by (induction hits m rule: rl_after.induct) (auto simp: rl_uniform_Cons intro!: rl_inv_hit)

lemma rl_run_append: "rl_run (xs @ ys) m = rl_run xs m @ rl_run ys (rl_after xs m)"
  by (induction xs m rule: rl_after.induct) (auto simp: Let_def split: prod.splits)

lemma rl_uniform_append: "rl_uniform k l w (xs @ ys) \<longleftrightarrow> rl_uniform k l w xs \<and> rl_uniform k l w ys"
  unfolding rl_uniform_def set_append ball_Un by (rule refl)

section \<open>Properties\<close>

text \<open>C21: the rate limiter, started empty and run on any earlier hits of any keys, lets through what
  its limit says, whatever other keys are hit and whenever it cleans its map.  When no window of
  the key is open, the next stretch of one window's length lets through exactly the first
  \<open>limit\<close> of the key's hits, and so does every later window; while one is open, exactly what it
  has left.  A stretch that straddles two windows lets through at most twice the limit.\<close>

theorem rate_limit_bound:
  assumes "rl_uniform k l w (before @ hits)" "l < u32_max" "rl_between lo hi hits"
  defines "m \<equiv> rl_after before []"
  shows "(rl_closed k w lo m \<longrightarrow> hi \<le> lo + w \<longrightarrow> rl_passes k hits m = min l (rl_count k hits))
    \<and> (\<forall>b. map_of m k = Some b \<longrightarrow> hi \<le> window_start_ms b + w
         \<longrightarrow> rl_passes k hits m = min (l - bucket_count b) (rl_count k hits))
    \<and> (hi \<le> lo + w \<longrightarrow> rl_passes k hits m \<le> 2 * l)"
proof -
  have u: "rl_uniform k l w before" "rl_uniform k l w hits" using assms(1) by (simp_all add: rl_uniform_append)
  have inv: "rl_inv k w m" unfolding m_def by (rule rl_inv_after [OF _ u(1)]) (simp add: rl_inv_def)
  have "rl_passes k hits m \<le> 2 * l" if "hi \<le> lo + w"
    using rl_passes_interval [OF inv that assms(2) u(2) assms(3)] by (auto split: option.splits)
  with rl_passes_closed [OF inv _ _ assms(2) u(2) assms(3)]
    rl_passes_window [OF inv _ _ assms(2) u(2) assms(3)]
  show ?thesis by blast
qed

theorem rate_limit_bound_witness:
  "rl_passes ''k'' [(200, ''k'', 1, 100), (206, ''j'', 9, 9), (207, ''k'', 1, 100)]
     (rl_after [(5, ''k'', 1, 100)] []) = 1"
  using rate_limit_bound [of "''k''" 1 100 "[(5, ''k'', 1, 100)]"
      "[(200, ''k'', 1, 100), (206, ''j'', 9, 9), (207, ''k'', 1, 100)]" 200 207]
  by (simp add: rl_uniform_def rl_between_def rl_closed_def rate_limit_hit_def sat_add_u32_def)

text \<open>An accepted user name is its own normal form, has between 2 and the given number of
  characters, all of the allowed kind, and hides none of the reserved names: neither it nor its
  reading with digits and signs taken as letters contains the brand once punctuation is dropped;
  and validating it again accepts it unchanged.\<close>

theorem username_validated:
  assumes "validate_username_with_max u mx = Inr n"
  shows "validate_username_with_max n mx = Inr n \<and> 2 \<le> length n \<and> length n \<le> mx
    \<and> list_all username_char_ok n
    \<and> (\<forall>key \<in> {filter is_alphanumeric n, filter is_alphanumeric (map unleet n)}.
         key \<notin> set RESERVED_USERNAMES - {[]} \<and> \<not> contains_str key ''qxchat'' \<and> \<not> contains_str key ''qxprotocol'')"
proof -
  from assms have n: "n = normalize_username u" "USERNAME_MIN \<le> length n" "length n \<le> mx"
    "\<not> hits_reserved_username n" "list_all username_char_ok n"
    by (auto simp: validate_username_accepts)
  have same: "normalize_username n = n" using n(1) by simp
  then have "str_lower (trim n) = n" by (simp add: normalize_username_def)
  with n(4) show ?thesis
    using n same
    by (auto simp: validate_username_accepts USERNAME_MIN_def hits_reserved_username_def
        reserved_username_keys_def RESERVED_USERNAME_SUBSTRINGS_def Let_def)
qed

theorem username_validated_witness:
  "validate_username ''alice'' = Inr ''alice'' \<and> (2 :: nat) \<le> length ''alice''"
proof -
  have "validate_username_with_max '' Alice '' 32 = Inr ''alice''"
    by code_simp
  from username_validated [OF this] show ?thesis
    by (simp add: validate_username_def USERNAME_MAX_def)
qed

text \<open>A sanitised file name has at most the given length and no control character, separator
  or other reserved character, unless the fallback has one.\<close>

theorem filename_sanitized:
  "length (sanitize_filename v fallback n) \<le> n
   \<and> set (sanitize_filename v fallback n) \<inter> {c. filename_bad c} \<subseteq> set fallback"
  using sanitize_filename_chars [where v = v and fallback = fallback and n = n]
  by (auto simp: sanitize_filename_def Let_def)

end
