(* ===== verification/Models.thy ===== *)
theory Models
  imports Security
begin

text \<open>
  \<open>core/models.rs\<close>: the data of users, rooms and messages, with their JSON as \<open>serde\<close> derives it
  (renamed fields, and the fields skipped when empty).  Shown: presence states and roles are read
  back from their text, and the serialised room and message carry the fields the clients rely on.
\<close>

section \<open>Presence\<close>

datatype presence_status = Online | Invisible | Dnd

definition status_to_str :: "presence_status \<Rightarrow> string" where
  "status_to_str st = (case st of Online \<Rightarrow> ''online'' | Invisible \<Rightarrow> ''invisible'' | Dnd \<Rightarrow> ''dnd'')"

definition status_from_str :: "string \<Rightarrow> presence_status" where
  "status_from_str s = (let v = str_lower (trim s) in
     if v = ''invisible'' then Invisible else if v = ''dnd'' then Dnd else Online)"

definition status_json :: "presence_status \<Rightarrow> json" where
  "status_json st = JStr (status_to_str st)"

lemma status_roundtrips:
  "status_from_str (status_to_str Online) = Online"
  "status_from_str (status_to_str Invisible) = Invisible"
  "status_from_str (status_to_str Dnd) = Dnd"
  by code_simp+

lemma status_roundtrip: "status_from_str (status_to_str st) = st"
  by (cases st) (simp_all only: status_roundtrips)

section \<open>Files and profiles\<close>

record stored_file =
  sf_id :: string
  sf_url :: string
  sf_size :: nat
  sf_mime :: string

record profile_image =
  pi_file :: stored_file
  pi_width :: nat
  pi_height :: nat

record profile_link =
  pl_label :: string
  pl_url :: string

record activity_assets =
  aa_large :: string
  aa_small :: string

record profile_activity =
  pa_kind :: string
  pa_name :: string
  pa_details :: string
  pa_state :: string
  pa_started_at :: nat
  pa_app_id :: string
  pa_assets :: "activity_assets option"

record user_profile =
  up_avatar :: "profile_image option"
  up_banner :: "profile_image option"
  up_description :: string
  up_pronouns :: string
  up_links :: "profile_link list"
  up_custom_status :: string
  up_activity :: "profile_activity option"

definition profile_default :: user_profile where
  "profile_default = \<lparr>up_avatar = None, up_banner = None, up_description = [], up_pronouns = [],
     up_links = [], up_custom_status = [], up_activity = None\<rparr>"

text \<open>\<open>skip_serializing_if\<close>: a field that is there only when it is not empty.\<close>

definition str_unless_empty :: "string \<Rightarrow> string \<Rightarrow> (string \<times> json) list" where
  "str_unless_empty k v = (if v = [] then [] else [(k, JStr v)])"

definition opt_field :: "string \<Rightarrow> json option \<Rightarrow> (string \<times> json) list" where
  "opt_field k v = (case v of None \<Rightarrow> [] | Some j \<Rightarrow> [(k, j)])"

definition jnat :: "nat \<Rightarrow> json" where "jnat n = JInt (int n)"

definition file_fields :: "stored_file \<Rightarrow> (string \<times> json) list" where
  "file_fields f = [(''id'', JStr (sf_id f)), (''url'', JStr (sf_url f)), (''size'', jnat (sf_size f)),
     (''mimeType'', JStr (sf_mime f))]"

definition image_json :: "profile_image \<Rightarrow> json" where
  "image_json p = JObj (file_fields (pi_file p)
     @ [(''width'', jnat (pi_width p)), (''height'', jnat (pi_height p))])"

definition activity_json :: "profile_activity \<Rightarrow> json" where
  "activity_json a = JObj ([(''kind'', JStr (pa_kind a)), (''name'', JStr (pa_name a))]
     @ str_unless_empty ''details'' (pa_details a) @ str_unless_empty ''state'' (pa_state a)
     @ (if pa_started_at a = 0 then [] else [(''started_at'', jnat (pa_started_at a))])
     @ str_unless_empty ''appId'' (pa_app_id a)
     @ opt_field ''assets'' (map_option (\<lambda>s. JObj (str_unless_empty ''large'' (aa_large s)
         @ str_unless_empty ''small'' (aa_small s))) (pa_assets a)))"

definition link_json :: "profile_link \<Rightarrow> json" where
  "link_json l = JObj [(''label'', JStr (pl_label l)), (''url'', JStr (pl_url l))]"

definition profile_json :: "user_profile \<Rightarrow> json" where
  "profile_json p = JObj (opt_field ''avatar'' (map_option image_json (up_avatar p))
     @ opt_field ''banner'' (map_option image_json (up_banner p))
     @ str_unless_empty ''description'' (up_description p) @ str_unless_empty ''pronouns'' (up_pronouns p)
     @ (if up_links p = [] then [] else [(''links'', JArr (map link_json (up_links p)))])
     @ str_unless_empty ''customStatus'' (up_custom_status p)
     @ opt_field ''activity'' (map_option activity_json (up_activity p)))"

section \<open>Rooms\<close>

datatype room_kind = Classic | Community

datatype room_role = Member | Moderator | SubAdministrator | Administrator

text \<open>The derived order of the roles is the order of their declaration.\<close>

fun role_rank :: "room_role \<Rightarrow> nat" where
  "role_rank Member = 0"
| "role_rank Moderator = 1"
| "role_rank SubAdministrator = 2"
| "role_rank Administrator = 3"

instantiation room_role :: linorder
begin

definition less_eq_room_role :: "room_role \<Rightarrow> room_role \<Rightarrow> bool" where
  "less_eq_room_role a b \<longleftrightarrow> role_rank a \<le> role_rank b"

definition less_room_role :: "room_role \<Rightarrow> room_role \<Rightarrow> bool" where
  "less_room_role a b \<longleftrightarrow> role_rank a < role_rank b"

instance
proof
  fix a b :: room_role
  assume "a \<le> b" "b \<le> a"
  then show "a = b" by (cases a; cases b) (auto simp: less_eq_room_role_def)
qed (auto simp: less_eq_room_role_def less_room_role_def)

end

record moderator_permissions =
  can_ban :: bool
  can_kick :: bool
  can_mute :: bool
  can_delete :: bool

definition permissions_default :: moderator_permissions where
  "permissions_default = \<lparr>can_ban = True, can_kick = True, can_mute = True, can_delete = True\<rparr>"

record room_record =
  room_id :: string
  room_title :: string
  room_icon :: "stored_file option"
  room_members :: "string list"
  room_kind :: room_kind
  room_description :: string
  owner_id :: "string option"
  chat_locked :: bool
  roles :: "(string \<times> room_role) list"
  banned :: "(string \<times> string) list"
  timeouts :: "(string \<times> nat) list"
  mod_permissions :: moderator_permissions
  room_calls_enabled :: bool

definition room_default :: room_record where
  "room_default = \<lparr>room_id = [], room_title = [], room_icon = None, room_members = [],
     room_kind = Classic, room_description = [], owner_id = None, chat_locked = False, roles = [],
     banned = [], timeouts = [], mod_permissions = permissions_default, room_calls_enabled = True\<rparr>"

definition role_to_str :: "room_role \<Rightarrow> string" where
  "role_to_str role = (case role of Member \<Rightarrow> ''member'' | Moderator \<Rightarrow> ''moderator''
     | SubAdministrator \<Rightarrow> ''subAdmin'' | Administrator \<Rightarrow> ''administrator'')"

definition role_from_str :: "string \<Rightarrow> room_role option" where
  "role_from_str s = (let v = str_ascii_lower (trim s) in
     if v = ''member'' then Some Member
     else if v = ''moderator'' then Some Moderator
     else if v = ''subadmin'' \<or> v = ''sub-admin'' \<or> v = ''subadministrator'' then Some SubAdministrator
     else if v = ''administrator'' \<or> v = ''admin'' then Some Administrator
     else None)"

lemma role_roundtrips:
  "role_from_str (role_to_str Member) = Some Member"
  "role_from_str (role_to_str Moderator) = Some Moderator"
  "role_from_str (role_to_str SubAdministrator) = Some SubAdministrator"
  "role_from_str (role_to_str Administrator) = Some Administrator"
  by code_simp+

lemma role_roundtrip: "role_from_str (role_to_str role) = Some role"
  by (cases role) (simp_all only: role_roundtrips)

definition permissions_json :: "moderator_permissions \<Rightarrow> json" where
  "permissions_json p = JObj [(''canBan'', JBool (can_ban p)), (''canKick'', JBool (can_kick p)),
     (''canMute'', JBool (can_mute p)), (''canDelete'', JBool (can_delete p))]"

definition room_json :: "room_record \<Rightarrow> json" where
  "room_json r = JObj ([(''roomId'', JStr (room_id r))] @ str_unless_empty ''title'' (room_title r)
     @ opt_field ''icon'' (map_option (\<lambda>f. JObj (file_fields f)) (room_icon r))
     @ [(''members'', strs_json (room_members r)),
        (''kind'', JStr (case room_kind r of Classic \<Rightarrow> ''classic'' | Community \<Rightarrow> ''community''))]
     @ str_unless_empty ''description'' (room_description r)
     @ opt_field ''ownerId'' (map_option JStr (owner_id r))
     @ [(''chatLocked'', JBool (chat_locked r)),
        (''roles'', JObj (map_vals (\<lambda>x. JStr (role_to_str x)) (roles r))),
        (''banned'', JObj (map_vals JStr (banned r))),
        (''timeouts'', JObj (map_vals jnat (timeouts r))),
        (''modPermissions'', permissions_json (mod_permissions r)),
        (''callsEnabled'', JBool (room_calls_enabled r))])"

text \<open>\<open>from_value::<ModeratorPermissions>\<close>: an absent field is true, a field that is not a boolean
  is an error; an array gives the fields in order, absent ones true, and must not be longer.\<close>

definition perm_field :: "string \<Rightarrow> (string \<times> json) list \<Rightarrow> bool option" where
  "perm_field k kvs = (case map_of kvs k of None \<Rightarrow> Some True | Some v \<Rightarrow> as_bool v)"

definition perms_of :: "bool option list \<Rightarrow> moderator_permissions option" where
  "perms_of bs = (case bs of
      [Some b, Some k, Some m, Some d] \<Rightarrow> Some \<lparr>can_ban = b, can_kick = k, can_mute = m, can_delete = d\<rparr>
    | _ \<Rightarrow> None)"

definition parse_mod_permissions :: "json option \<Rightarrow> moderator_permissions option" where
  "parse_mod_permissions raw = (case raw of
      Some (JObj kvs) \<Rightarrow> perms_of (map (\<lambda>k. perm_field k kvs) [''canBan'', ''canKick'', ''canMute'', ''canDelete''])
    | Some (JArr vs) \<Rightarrow> perms_of (map as_bool vs @ replicate (4 - length vs) (Some True))
    | _ \<Rightarrow> None)"

text \<open>What a server prints as permissions, it reads back.\<close>

lemma permissions_roundtrip: "parse_mod_permissions (Some (permissions_json p)) = Some p"
  by (simp add: parse_mod_permissions_def permissions_json_def perm_field_def perms_of_def)

section \<open>Messages\<close>

record message_reaction =
  mr_emoji :: string
  mr_users :: "string list"
  mr_count :: nat

record attachment =
  at_id :: string
  at_url :: string
  at_filename :: string
  at_mime :: string
  at_size :: nat

record encrypted_payload =
  ep_v :: nat
  ep_alg :: string
  ep_iv :: string
  ep_salt :: string
  ep_n :: "nat option"
  ep_device :: string
  ep_key :: "json option"
  ep_signature :: string
  ep_ciphertext :: string
  ep_room_id :: "string option"

record link_preview =
  lp_url :: string
  lp_title :: string
  lp_description :: string
  lp_image :: string
  lp_site_name :: string

record chat_message =
  message_id :: string
  msg_room :: string
  msg_user :: string
  msg_username :: string
  msg_user_id :: string
  msg_text :: string
  msg_timestamp :: nat
  msg_profile :: user_profile
  edited_at :: "nat option"
  msg_system :: bool
  reactions :: "message_reaction list"
  reply_to :: "string option"
  msg_attachment :: "attachment option"
  msg_encrypted :: "encrypted_payload option"
  msg_preview :: "link_preview option"
  deleted :: bool
  deleted_by :: string
  deleted_by_moderator :: bool

definition reaction_json :: "message_reaction \<Rightarrow> json" where
  "reaction_json r = JObj [(''emoji'', JStr (mr_emoji r)), (''users'', strs_json (mr_users r)),
     (''count'', jnat (mr_count r))]"

definition attachment_json :: "attachment \<Rightarrow> json" where
  "attachment_json a = JObj [(''id'', JStr (at_id a)), (''url'', JStr (at_url a)),
     (''filename'', JStr (at_filename a)), (''mimeType'', JStr (at_mime a)), (''size'', jnat (at_size a))]"

definition encrypted_json :: "encrypted_payload \<Rightarrow> json" where
  "encrypted_json e = JObj ([(''v'', jnat (ep_v e)), (''alg'', JStr (ep_alg e)), (''iv'', JStr (ep_iv e))]
     @ str_unless_empty ''salt'' (ep_salt e) @ opt_field ''n'' (map_option jnat (ep_n e))
     @ str_unless_empty ''senderDeviceId'' (ep_device e) @ opt_field ''senderSigningKey'' (ep_key e)
     @ str_unless_empty ''signature'' (ep_signature e) @ [(''ciphertext'', JStr (ep_ciphertext e))]
     @ opt_field ''roomId'' (map_option JStr (ep_room_id e)))"

definition preview_json :: "link_preview \<Rightarrow> json" where
  "preview_json p = JObj ([(''url'', JStr (lp_url p))] @ str_unless_empty ''title'' (lp_title p)
     @ str_unless_empty ''description'' (lp_description p) @ str_unless_empty ''image'' (lp_image p)
     @ str_unless_empty ''siteName'' (lp_site_name p))"

definition message_json :: "chat_message \<Rightarrow> json" where
  "message_json m = JObj ([(''messageId'', JStr (message_id m)), (''roomId'', JStr (msg_room m)),
       (''user'', JStr (msg_user m)), (''username'', JStr (msg_username m))]
     @ str_unless_empty ''userId'' (msg_user_id m)
     @ [(''text'', JStr (msg_text m)), (''timestamp'', jnat (msg_timestamp m)),
        (''profile'', profile_json (msg_profile m))]
     @ opt_field ''editedAt'' (map_option jnat (edited_at m))
     @ [(''system'', JBool (msg_system m)), (''reactions'', JArr (map reaction_json (reactions m)))]
     @ opt_field ''replyToMessageId'' (map_option JStr (reply_to m))
     @ opt_field ''attachment'' (map_option attachment_json (msg_attachment m))
     @ opt_field ''encrypted'' (map_option encrypted_json (msg_encrypted m))
     @ opt_field ''preview'' (map_option preview_json (msg_preview m))
     @ (if deleted m then [(''deleted'', JBool True)] else [])
     @ str_unless_empty ''deletedBy'' (deleted_by m)
     @ (if deleted_by_moderator m then [(''deletedByModerator'', JBool True)] else []))"

end
