(* ===== verification/Accounts_Db.thy ===== *)
theory Accounts_Db
  imports Models
begin

text \<open>
  \<open>core/database.rs\<close>, the account half: users, sessions, prekeys, block tags and roster blobs.
  A table is the list of its rows; each SQL statement is written out on that list (a primary key
  or unique column refuses a second row, \<open>ROW_NUMBER\<close> counts the older rows).  A column of JSON
  text is the value it encodes.  \<open>db_ok\<close> false makes every statement fail.  Argon2, the token
  hash and every random value are arguments.  Shown: the uniqueness invariant is kept by every
  operation; registering and logging in agree; authentication accepts only live sessions of
  usable accounts, and bans, recovery and deletion end the sessions they should; the roster
  blob's version only grows; custom badges can never be the reserved ones; the edit distance of
  the user search is the recursive one.
\<close>

definition SESSION_TTL_MS :: nat where "SESSION_TTL_MS = 7 * 24 * 60 * 60 * 1000"
definition MAX_USER_BADGES :: nat where "MAX_USER_BADGES = 16"
definition MAX_USER_BADGE_LEN :: nat where "MAX_USER_BADGE_LEN = 32"
definition MAX_BLOCKS_PER_ACCOUNT :: nat where "MAX_BLOCKS_PER_ACCOUNT = 512"

record user_row =
  us_id :: string
  us_username :: string
  us_password_hash :: string
  us_recovery_hash :: string
  us_profile :: user_profile
  us_status :: presence_status
  us_disabled :: bool
  us_banned :: bool
  us_created_at :: nat
  us_updated_at :: nat
  us_username_changes :: "nat list"
  us_custom_badges :: "string list"
  us_social_blob :: "string option"
  us_social_ver :: int

record session_row =
  ss_token_hash :: string
  ss_user :: string
  ss_created_at :: nat
  ss_expires_at :: nat

record block_row =
  bl_tag :: string
  bl_user :: string
  bl_created_at :: nat

record default_room =
  dr_room_id :: string
  dr_room_key :: string
  dr_title :: string

record account_db =
  db_ok :: bool
  admin_ids :: "string list"
  users :: "user_row list"
  sessions :: "session_row list"
  prekeys :: "(string \<times> string \<times> nat) list"
  blocks :: "block_row list"
  features :: "(string \<times> bool) list"
  default_rm :: "default_room option"

record public_user =
  pu_id :: string
  pu_username :: string
  pu_profile :: user_profile
  pu_status :: presence_status
  pu_disabled :: bool
  pu_banned :: bool
  pu_admin :: bool
  pu_badges :: "string list"
  pu_custom_badges :: "string list"
  pu_created_at :: nat

section \<open>Rows\<close>

text \<open>\<open>ROW_NUMBER() OVER (ORDER BY created_at ASC, id ASC)\<close>.\<close>

definition older :: "user_row \<Rightarrow> user_row \<Rightarrow> bool" where
  "older u v \<longleftrightarrow> us_created_at u < us_created_at v \<or> (us_created_at u = us_created_at v \<and> us_id u < us_id v)"

definition user_rank :: "account_db \<Rightarrow> user_row \<Rightarrow> nat" where
  "user_rank db u = 1 + length (filter (\<lambda>v. older v u) (users db))"

definition is_admin :: "account_db \<Rightarrow> string \<Rightarrow> bool" where
  "is_admin db user_id = list_ex (\<lambda>i. i = user_id) (admin_ids db)"

text \<open>The loop over the stored badges, \<open>badges\<close> being what is collected so far.\<close>

fun push_badges :: "string list \<Rightarrow> string list \<Rightarrow> string list" where
  "push_badges badges [] = badges"
| "push_badges badges (b # bs) = push_badges (if b \<in> set badges then badges else badges @ [b]) bs"

definition user_badges :: "account_db \<Rightarrow> user_row \<Rightarrow> string list" where
  "user_badges db u =
     push_badges ((if is_admin db (us_id u) then [''admin''] else [])
       @ (if user_rank db u > 0 \<and> user_rank db u \<le> 200 then [''early''] else [])) (us_custom_badges u)"

definition to_public_user :: "account_db \<Rightarrow> user_row \<Rightarrow> public_user" where
  "to_public_user db u = \<lparr>pu_id = us_id u, pu_username = us_username u, pu_profile = us_profile u,
     pu_status = us_status u, pu_disabled = us_disabled u, pu_banned = us_banned u,
     pu_admin = is_admin db (us_id u), pu_badges = user_badges db u,
     pu_custom_badges = us_custom_badges u, pu_created_at = us_created_at u\<rparr>"

definition user_by_id :: "account_db \<Rightarrow> string \<Rightarrow> user_row option api_result" where
  "user_by_id db user_id =
     (if db_ok db then Inr (find (\<lambda>u. us_id u = user_id) (users db)) else Inl (internal ''User lookup by ID''))"

definition user_by_username :: "account_db \<Rightarrow> string \<Rightarrow> user_row option api_result" where
  "user_by_username db username =
     (if db_ok db then Inr (find (\<lambda>u. us_username u = normalize_username username) (users db))
      else Inl (internal ''User lookup by username''))"

text \<open>\<open>UPDATE users SET .. WHERE id = ?\<close>.\<close>

definition update_user :: "string \<Rightarrow> (user_row \<Rightarrow> user_row) \<Rightarrow> account_db \<Rightarrow> account_db" where
  "update_user user_id f db = db\<lparr>users := map (\<lambda>u. if us_id u = user_id then f u else u) (users db)\<rparr>"

section \<open>Sessions\<close>

definition create_session ::
  "(string \<Rightarrow> string) \<Rightarrow> nat \<Rightarrow> string \<Rightarrow> string \<Rightarrow> account_db \<Rightarrow> string api_result \<times> account_db" where
  "create_session token_hash now token user_id db =
     (let hash = token_hash token in
      if \<not> db_ok db \<or> hash \<in> set (map ss_token_hash (sessions db)) then (Inl (internal ''Session creation''), db)
      else (Inr token, db\<lparr>sessions := sessions db @ [\<lparr>ss_token_hash = hash, ss_user = user_id,
              ss_created_at = now, ss_expires_at = now + SESSION_TTL_MS\<rparr>]\<rparr>))"

definition invalidate_user_sessions :: "string \<Rightarrow> account_db \<Rightarrow> unit api_result \<times> account_db" where
  "invalidate_user_sessions user_id db =
     (if \<not> db_ok db then (Inl (internal ''Session invalidation''), db)
      else (Inr (), db\<lparr>sessions := filter (\<lambda>s. ss_user s \<noteq> user_id) (sessions db)\<rparr>))"

definition authenticate_token ::
  "(string \<Rightarrow> string) \<Rightarrow> nat \<Rightarrow> string \<Rightarrow> account_db \<Rightarrow> public_user option api_result" where
  "authenticate_token token_hash now token db =
     (if \<not> db_ok db then Inl (internal ''Session authentication'')
      else (case find (\<lambda>s. ss_token_hash s = token_hash token \<and> ss_expires_at s > now) (sessions db) of
          None \<Rightarrow> Inr None
        | Some s \<Rightarrow> (case user_by_id db (ss_user s) of
              Inl e \<Rightarrow> Inl e
            | Inr None \<Rightarrow> Inr None
            | Inr (Some u) \<Rightarrow> if us_disabled u \<or> us_banned u then Inr None else Inr (Some (to_public_user db u)))))"

definition touch_session :: "(string \<Rightarrow> string) \<Rightarrow> nat \<Rightarrow> string \<Rightarrow> account_db \<Rightarrow> unit api_result \<times> account_db" where
  "touch_session token_hash now token db =
     (if \<not> db_ok db then (Inl (internal ''Session update''), db)
      else (Inr (), db\<lparr>sessions := map (\<lambda>s. if ss_token_hash s = token_hash token
              then s\<lparr>ss_expires_at := now + SESSION_TTL_MS\<rparr> else s) (sessions db)\<rparr>))"

definition logout :: "(string \<Rightarrow> string) \<Rightarrow> string \<Rightarrow> account_db \<Rightarrow> unit api_result \<times> account_db" where
  "logout token_hash token db =
     (if \<not> db_ok db then (Inl (internal ''Session deletion''), db)
      else (Inr (), db\<lparr>sessions := filter (\<lambda>s. ss_token_hash s \<noteq> token_hash token) (sessions db)\<rparr>))"

definition me :: "(string \<Rightarrow> string) \<Rightarrow> nat \<Rightarrow> string \<Rightarrow> account_db
    \<Rightarrow> (public_user \<times> string) option api_result \<times> account_db" where
  "me token_hash now token db =
     (case authenticate_token token_hash now token db of
        Inl e \<Rightarrow> (Inl e, db)
      | Inr None \<Rightarrow> (Inr None, db)
      | Inr (Some u) \<Rightarrow> (case touch_session token_hash now token db of
            (Inl e, db') \<Rightarrow> (Inl e, db')
          | (Inr _, db') \<Rightarrow> (Inr (Some (u, token)), db')))"

section \<open>Accounts\<close>

text \<open>The library functions, and the random values one operation draws.\<close>

record secret_lib =
  argon_verify :: argon2
  argon_hash :: "string \<Rightarrow> string \<Rightarrow> string option"
  tok_hash :: "string \<Rightarrow> string"

record draws =
  new_id :: string
  recovery_words :: "string list"
  salt1 :: string
  salt2 :: string
  new_token :: string

definition insert_user :: "user_row \<Rightarrow> account_db \<Rightarrow> account_db option" where
  "insert_user u db =
     (if \<not> db_ok db \<or> us_id u \<in> set (map us_id (users db)) \<or> us_username u \<in> set (map us_username (users db))
      then None else Some (db\<lparr>users := users db @ [u]\<rparr>))"

definition register ::
  "secret_lib \<Rightarrow> draws \<Rightarrow> nat \<Rightarrow> string \<Rightarrow> string \<Rightarrow> account_db
    \<Rightarrow> (public_user \<times> string \<times> string list) api_result \<times> account_db" where
  "register lib dr now uname password db =
    (case validate_registration_username uname of
       Inl e \<Rightarrow> (Inl e, db)
     | Inr username \<Rightarrow>
     (case validate_password password of
       Inl e \<Rightarrow> (Inl e, db)
     | Inr _ \<Rightarrow>
     (case user_by_username db username of
       Inl e \<Rightarrow> (Inl e, db)
     | Inr (Some _) \<Rightarrow> (Inl (bad_request ''Registration request could not be processed.''), db)
     | Inr None \<Rightarrow>
     (case hash_secret (argon_hash lib) (salt1 dr) password of
       Inl e \<Rightarrow> (Inl e, db)
     | Inr password_hash \<Rightarrow>
     (case hash_secret (argon_hash lib) (salt2 dr) (join_with '' '' (recovery_words dr)) of
       Inl e \<Rightarrow> (Inl e, db)
     | Inr recovery_hash \<Rightarrow>
     (case insert_user \<lparr>us_id = new_id dr, us_username = username, us_password_hash = password_hash,
             us_recovery_hash = recovery_hash, us_profile = profile_default, us_status = Online,
             us_disabled = False, us_banned = False, us_created_at = now, us_updated_at = now,
             us_username_changes = [], us_custom_badges = [], us_social_blob = None, us_social_ver = 0\<rparr> db of
       None \<Rightarrow> (Inl (bad_request ''Registration request could not be processed.''), db)
     | Some db1 \<Rightarrow>
     (case user_by_id db1 (new_id dr) of
       Inl e \<Rightarrow> (Inl e, db1)
     | Inr None \<Rightarrow> (Inl (bad_request ''Account was not created.''), db1)
     | Inr (Some user) \<Rightarrow>
     (case create_session (tok_hash lib) now (new_token dr) (new_id dr) db1 of
       (Inl e, db2) \<Rightarrow> (Inl e, db2)
     | (Inr token, db2) \<Rightarrow> (Inr (to_public_user db2 user, token, recovery_words dr), db2)))))))))"

definition login ::
  "secret_lib \<Rightarrow> draws \<Rightarrow> nat \<Rightarrow> string \<Rightarrow> string \<Rightarrow> account_db
    \<Rightarrow> (public_user \<times> string) api_result \<times> account_db" where
  "login lib dr now uname password db =
    (case user_by_username db (normalize_username uname) of
       Inl e \<Rightarrow> (Inl e, db)
     | Inr None \<Rightarrow> (Inl (unauthorized ''Invalid credentials.''), db)
     | Inr (Some user) \<Rightarrow>
     (case verify_secret (argon_verify lib) password (us_password_hash user) of
       Inl e \<Rightarrow> (Inl e, db)
     | Inr _ \<Rightarrow>
       if us_banned user then (Inl (forbidden ''Account is banned.''), db)
       else if us_disabled user then (Inl (forbidden ''Account is disabled.''), db)
       else (case create_session (tok_hash lib) now (new_token dr) (us_id user) db of
           (Inl e, db') \<Rightarrow> (Inl e, db')
         | (Inr token, db') \<Rightarrow> (Inr (to_public_user db' user, token), db'))))"

definition update_password_hash :: "string \<Rightarrow> string \<Rightarrow> nat \<Rightarrow> account_db \<Rightarrow> unit api_result \<times> account_db" where
  "update_password_hash user_id password_hash now db =
     (if \<not> db_ok db then (Inl (internal ''Update password hash''), db)
      else (Inr (), update_user user_id (\<lambda>u. u\<lparr>us_password_hash := password_hash, us_updated_at := now\<rparr>) db))"

definition recover ::
  "secret_lib \<Rightarrow> draws \<Rightarrow> nat \<Rightarrow> string \<Rightarrow> string \<Rightarrow> string \<Rightarrow> account_db
    \<Rightarrow> (public_user \<times> string) api_result \<times> account_db" where
  "recover lib dr now uname phrase new_password db =
    (case validate_password new_password of
       Inl e \<Rightarrow> (Inl e, db)
     | Inr _ \<Rightarrow>
     (case user_by_username db (normalize_username uname) of
       Inl e \<Rightarrow> (Inl e, db)
     | Inr None \<Rightarrow> (Inl (bad_request ''Invalid recovery credentials.''), db)
     | Inr (Some user) \<Rightarrow>
     (case verify_secret (argon_verify lib) (normalize_recovery_phrase phrase) (us_recovery_hash user) of
       Inl e \<Rightarrow> (Inl e, db)
     | Inr _ \<Rightarrow>
       if us_banned user then (Inl (forbidden ''Account is banned.''), db)
       else
     (case hash_secret (argon_hash lib) (salt1 dr) new_password of
       Inl e \<Rightarrow> (Inl e, db)
     | Inr password_hash \<Rightarrow>
     (case update_password_hash (us_id user) password_hash now db of
       (Inl e, db1) \<Rightarrow> (Inl e, db1)
     | (Inr _, db1) \<Rightarrow>
     (case invalidate_user_sessions (us_id user) db1 of
       (Inl e, db2) \<Rightarrow> (Inl e, db2)
     | (Inr _, db2) \<Rightarrow>
     (case create_session (tok_hash lib) now (new_token dr) (us_id user) db2 of
       (Inl e, db3) \<Rightarrow> (Inl e, db3)
     | (Inr token, db3) \<Rightarrow>
     (case user_by_id db3 (us_id user) of
       Inl e \<Rightarrow> (Inl e, db3)
     | Inr None \<Rightarrow> (Inl (bad_request ''Account not found.''), db3)
     | Inr (Some updated) \<Rightarrow> (Inr (to_public_user db3 updated, token), db3)))))))))"

text \<open>The four deletions run one after the other; a failing database fails the first.\<close>

definition delete_user_account :: "string \<Rightarrow> account_db \<Rightarrow> unit api_result \<times> account_db" where
  "delete_user_account user_id db =
    (case user_by_id db user_id of
       Inl e \<Rightarrow> (Inl e, db)
     | Inr None \<Rightarrow> (Inl (bad_request ''Account not found.''), db)
     | Inr (Some _) \<Rightarrow>
       (Inr (), db\<lparr>sessions := filter (\<lambda>s. ss_user s \<noteq> user_id) (sessions db),
          prekeys := filter (\<lambda>(u, _). u \<noteq> user_id) (prekeys db),
          blocks := filter (\<lambda>b. bl_user b \<noteq> user_id) (blocks db),
          users := filter (\<lambda>u. us_id u \<noteq> user_id) (users db)\<rparr>))"

definition delete_account ::
  "secret_lib \<Rightarrow> nat \<Rightarrow> string \<Rightarrow> string \<Rightarrow> account_db \<Rightarrow> unit api_result \<times> account_db" where
  "delete_account lib now token password db =
    (case authenticate_token (tok_hash lib) now token db of
       Inl e \<Rightarrow> (Inl e, db)
     | Inr None \<Rightarrow> (Inl (unauthorized ''Not authenticated.''), db)
     | Inr (Some user) \<Rightarrow>
     (case user_by_id db (pu_id user) of
       Inl e \<Rightarrow> (Inl e, db)
     | Inr None \<Rightarrow> (Inl (bad_request ''Account not found.''), db)
     | Inr (Some stored) \<Rightarrow>
     (case verify_secret (argon_verify lib) password (us_password_hash stored) of
       Inl e \<Rightarrow> (Inl e, db)
     | Inr _ \<Rightarrow> delete_user_account (pu_id user) db)))"

definition change_username ::
  "nat \<Rightarrow> string \<Rightarrow> string \<Rightarrow> account_db \<Rightarrow> public_user api_result \<times> account_db" where
  "change_username now user_id uname db =
    (case validate_username uname of
       Inl e \<Rightarrow> (Inl e, db)
     | Inr username \<Rightarrow>
     (case user_by_id db user_id of
       Inl e \<Rightarrow> (Inl e, db)
     | Inr None \<Rightarrow> (Inl (bad_request ''Account not found.''), db)
     | Inr (Some user) \<Rightarrow>
       if us_username user = username then (Inr (to_public_user db user), db)
       else
       (let window_start = now - 7 * 24 * 60 * 60 * 1000;
            changes = filter (\<lambda>stamp. stamp \<ge> window_start) (us_username_changes user) in
        if changes \<noteq> [] then
          (Inl (too_many_requests ''Username can only be changed once per week.''), db)
        else
        (case user_by_username db username of
          Inl e \<Rightarrow> (Inl e, db)
        | Inr existing \<Rightarrow>
          if (case existing of Some x \<Rightarrow> us_id x \<noteq> user_id | None \<Rightarrow> False) then
            (Inl (bad_request ''Username is not available.''), db)
          else
          (let db' = update_user user_id (\<lambda>u. u\<lparr>us_username := username,
                  us_username_changes := changes @ [now], us_updated_at := now\<rparr>) db in
           (case user_by_id db' user_id of
             Inl e \<Rightarrow> (Inl e, db')
           | Inr None \<Rightarrow> (Inl (bad_request ''Account not found.''), db')
           | Inr (Some updated) \<Rightarrow> (Inr (to_public_user db' updated), db')))))))"

section \<open>Profiles, moderation and badges\<close>

definition update_profile :: "nat \<Rightarrow> string \<Rightarrow> user_profile \<Rightarrow> account_db \<Rightarrow> unit api_result \<times> account_db" where
  "update_profile now user_id profile db =
     (if \<not> db_ok db then (Inl (internal ''Profile update''), db)
      else (Inr (), update_user user_id (\<lambda>u. u\<lparr>us_profile := profile, us_updated_at := now\<rparr>) db))"

definition update_status :: "nat \<Rightarrow> string \<Rightarrow> presence_status \<Rightarrow> account_db \<Rightarrow> unit api_result \<times> account_db" where
  "update_status now user_id st db =
     (if \<not> db_ok db then (Inl (internal ''Status update''), db)
      else (Inr (), update_user user_id
              (\<lambda>u. u\<lparr>us_status := status_from_str (status_to_str st), us_updated_at := now\<rparr>) db))"

definition set_user_disabled :: "nat \<Rightarrow> string \<Rightarrow> bool \<Rightarrow> account_db \<Rightarrow> unit api_result \<times> account_db" where
  "set_user_disabled now user_id b db =
     (if \<not> db_ok db then (Inl (internal ''Set user disabled''), db)
      else (Inr (), update_user user_id (\<lambda>u. u\<lparr>us_disabled := b, us_updated_at := now\<rparr>) db))"

definition set_user_banned :: "nat \<Rightarrow> string \<Rightarrow> bool \<Rightarrow> account_db \<Rightarrow> unit api_result \<times> account_db" where
  "set_user_banned now user_id b db =
     (if \<not> db_ok db then (Inl (internal ''Set user banned''), db)
      else (Inr (), update_user user_id (\<lambda>u. u\<lparr>us_banned := b, us_updated_at := now\<rparr>) db))"

definition RESERVED_BADGES :: "string list" where
  "RESERVED_BADGES = [''admin'', ''staff'', ''system'']"

definition badge_char :: "char \<Rightarrow> bool" where
  "badge_char ch \<longleftrightarrow> is_ascii_alphanumeric ch \<or> ch = CHR ''_'' \<or> ch = CHR ''-''"

definition sanitize_badge :: "string \<Rightarrow> string" where
  "sanitize_badge badge = take MAX_USER_BADGE_LEN (filter badge_char (str_lower (trim badge)))"

text \<open>The loop, \<open>cleaned\<close> being the vector it fills; it stops as soon as the vector is full.\<close>

fun clean_badges :: "string list \<Rightarrow> string list \<Rightarrow> string list" where
  "clean_badges cleaned [] = cleaned"
| "clean_badges cleaned (badge # rest) =
     (let sanitized = sanitize_badge badge in
      if sanitized = [] \<or> sanitized \<in> set RESERVED_BADGES \<or> sanitized \<in> set cleaned
      then clean_badges cleaned rest
      else (let cleaned' = cleaned @ [sanitized] in
        if length cleaned' \<ge> MAX_USER_BADGES then cleaned' else clean_badges cleaned' rest))"

definition sanitize_custom_badges :: "string list \<Rightarrow> string list" where
  "sanitize_custom_badges badges = clean_badges [] badges"

definition set_user_badges :: "nat \<Rightarrow> string \<Rightarrow> string list \<Rightarrow> account_db \<Rightarrow> public_user api_result \<times> account_db" where
  "set_user_badges now user_id badges db =
     (if \<not> db_ok db then (Inl (internal ''Set user badges''), db)
      else (let db' = update_user user_id
                (\<lambda>u. u\<lparr>us_custom_badges := sanitize_custom_badges badges, us_updated_at := now\<rparr>) db
            in (case user_by_id db' user_id of
                  Inl e \<Rightarrow> (Inl e, db')
                | Inr None \<Rightarrow> (Inl (bad_request ''Account not found.''), db')
                | Inr (Some updated) \<Rightarrow> (Inr (to_public_user db' updated), db'))))"

definition session_revalidation ::
  "string \<Rightarrow> account_db \<Rightarrow> (bool \<times> bool \<times> bool \<times> string list \<times> string) option api_result" where
  "session_revalidation user_id db =
     (case user_by_id db user_id of
        Inl e \<Rightarrow> Inl e
      | Inr None \<Rightarrow> Inr None
      | Inr (Some u) \<Rightarrow>
        if us_disabled u \<or> us_banned u then Inr None
        else Inr (Some (us_disabled u, us_banned u, is_admin db (us_id u), user_badges db u, us_username u)))"

definition public_user_by_id_or_username ::
  "string option \<Rightarrow> string option \<Rightarrow> account_db \<Rightarrow> public_user option api_result" where
  "public_user_by_id_or_username user_id uname db =
     (let by_name = (case trimmed uname of
          None \<Rightarrow> Inr None
        | Some n \<Rightarrow> (case user_by_username db n of Inl e \<Rightarrow> Inl e | Inr u \<Rightarrow> Inr (map_option (to_public_user db) u)))
      in (case trimmed user_id of
          None \<Rightarrow> by_name
        | Some i \<Rightarrow> (case user_by_id db i of
              Inl e \<Rightarrow> Inl e | Inr (Some u) \<Rightarrow> Inr (Some (to_public_user db u)) | Inr None \<Rightarrow> by_name)))"

section \<open>Prekeys, block tags and roster blobs\<close>

definition publish_prekey :: "nat \<Rightarrow> string \<Rightarrow> string \<Rightarrow> account_db \<Rightarrow> unit api_result \<times> account_db" where
  "publish_prekey now user_id bundle db =
     (if \<not> db_ok db then (Inl (internal ''Publish prekey''), db)
      else (Inr (), db\<lparr>prekeys := AList.update user_id (bundle, now) (prekeys db)\<rparr>))"

definition get_prekey_by_user_id :: "string \<Rightarrow> account_db \<Rightarrow> string option api_result" where
  "get_prekey_by_user_id user_id db =
     (if \<not> db_ok db then Inl (internal ''Fetch prekey'') else Inr (map_option fst (map_of (prekeys db) user_id)))"

definition get_prekey_by_username :: "string \<Rightarrow> account_db \<Rightarrow> string option api_result" where
  "get_prekey_by_username uname db =
     (case user_by_username db uname of
        Inl e \<Rightarrow> Inl e
      | Inr None \<Rightarrow> Inr None
      | Inr (Some u) \<Rightarrow> get_prekey_by_user_id (us_id u) db)"

definition count_block_tags :: "string \<Rightarrow> account_db \<Rightarrow> nat api_result" where
  "count_block_tags user_id db =
     (if \<not> db_ok db then Inl (internal ''Count block tags'')
      else Inr (length (filter (\<lambda>b. bl_user b = user_id) (blocks db))))"

text \<open>The tag is the primary key of the table: a tag that is there already is left alone.\<close>

definition add_block_tag :: "nat \<Rightarrow> string \<Rightarrow> string \<Rightarrow> account_db \<Rightarrow> bool api_result \<times> account_db" where
  "add_block_tag now user_id tag db =
     (case count_block_tags user_id db of
        Inl e \<Rightarrow> (Inl e, db)
      | Inr n \<Rightarrow>
        if n \<ge> MAX_BLOCKS_PER_ACCOUNT then (Inr False, db)
        else (Inr True, if tag \<in> set (map bl_tag (blocks db)) then db
              else db\<lparr>blocks := blocks db @ [\<lparr>bl_tag = tag, bl_user = user_id, bl_created_at = now\<rparr>]\<rparr>))"

definition remove_block_tag :: "string \<Rightarrow> string \<Rightarrow> account_db \<Rightarrow> unit api_result \<times> account_db" where
  "remove_block_tag user_id tag db =
     (if \<not> db_ok db then (Inl (internal ''Remove block tag''), db)
      else (Inr (), db\<lparr>blocks := filter (\<lambda>b. \<not> (bl_tag b = tag \<and> bl_user b = user_id)) (blocks db)\<rparr>))"

definition list_block_tags :: "string \<Rightarrow> account_db \<Rightarrow> string list api_result" where
  "list_block_tags user_id db =
     (if \<not> db_ok db then Inl (internal ''List block tags'')
      else Inr (map bl_tag (filter (\<lambda>b. bl_user b = user_id) (blocks db))))"

definition is_blocked_tag :: "string \<Rightarrow> account_db \<Rightarrow> bool api_result" where
  "is_blocked_tag tag db =
     (if \<not> db_ok db then Inl (internal ''Check block tag'') else Inr (tag \<in> set (map bl_tag (blocks db))))"

definition get_social_blob :: "string \<Rightarrow> account_db \<Rightarrow> (int \<times> string option) api_result" where
  "get_social_blob user_id db =
     (if \<not> db_ok db then Inl (internal ''Fetch social blob'')
      else Inr (case find (\<lambda>u. us_id u = user_id) (users db) of
          Some u \<Rightarrow> (us_social_ver u, us_social_blob u) | None \<Rightarrow> (0, None)))"

definition put_social_blob :: "string \<Rightarrow> int \<Rightarrow> string \<Rightarrow> account_db \<Rightarrow> int option api_result \<times> account_db" where
  "put_social_blob user_id ver blob db =
     (case get_social_blob user_id db of
        Inl e \<Rightarrow> (Inl e, db)
      | Inr (current_ver, _) \<Rightarrow>
        if ver \<le> current_ver then (Inr (Some current_ver), db)
        else (Inr None, update_user user_id (\<lambda>u. u\<lparr>us_social_blob := Some blob, us_social_ver := ver\<rparr>) db))"

section \<open>Feature flags and the default room\<close>

record flag_values =
  ff_register_enabled :: bool
  ff_calls_enabled :: bool

definition feature_value :: "string \<Rightarrow> account_db \<Rightarrow> bool option api_result" where
  "feature_value key db =
     (if \<not> db_ok db then Inl (internal ''Database feature query'') else Inr (map_of (features db) key))"

definition feature_flags :: "account_db \<Rightarrow> flag_values api_result" where
  "feature_flags db =
     (case feature_value ''register_enabled'' db of
        Inl e \<Rightarrow> Inl e
      | Inr r \<Rightarrow> (case feature_value ''calls_enabled'' db of
          Inl e \<Rightarrow> Inl e
        | Inr c \<Rightarrow> Inr \<lparr>ff_register_enabled = unwrap_or True r, ff_calls_enabled = unwrap_or True c\<rparr>))"

definition set_feature :: "string \<Rightarrow> bool \<Rightarrow> account_db \<Rightarrow> unit api_result \<times> account_db" where
  "set_feature key enabled db =
     (if \<not> db_ok db then (Inl (internal ''Database set feature''), db)
      else (Inr (), db\<lparr>features := AList.update key enabled (features db)\<rparr>))"

definition set_feature_default :: "string \<Rightarrow> bool \<Rightarrow> account_db \<Rightarrow> unit api_result \<times> account_db" where
  "set_feature_default key enabled db =
     (case feature_value key db of
        Inl e \<Rightarrow> (Inl e, db)
      | Inr (Some _) \<Rightarrow> (Inr (), db)
      | Inr None \<Rightarrow> set_feature key enabled db)"

definition set_default_room :: "string \<Rightarrow> string \<Rightarrow> string \<Rightarrow> account_db \<Rightarrow> unit api_result \<times> account_db" where
  "set_default_room rid rkey title db =
     (if \<not> db_ok db then (Inl (internal ''Database set default room''), db)
      else (Inr (), db\<lparr>default_rm := Some \<lparr>dr_room_id = rid, dr_room_key = rkey, dr_title = title\<rparr>\<rparr>))"

definition get_default_room :: "account_db \<Rightarrow> default_room option api_result" where
  "get_default_room db = (if \<not> db_ok db then Inl (internal ''Database get default room'') else Inr (default_rm db))"

definition clear_default_room :: "account_db \<Rightarrow> unit api_result \<times> account_db" where
  "clear_default_room db =
     (if \<not> db_ok db then (Inl (internal ''Database clear default room''), db) else (Inr (), db\<lparr>default_rm := None\<rparr>))"

section \<open>Bulk removal and search distance\<close>

text \<open>\<open>LIKE\<close> with the pattern between two percent signs and its wildcards escaped: containment.
  SQLite's \<open>LOWER\<close> and \<open>LIKE\<close> fold ASCII letters.\<close>

definition purge_candidates :: "nat option \<Rightarrow> nat option \<Rightarrow> string option \<Rightarrow> account_db \<Rightarrow> user_row list" where
  "purge_candidates after before contains db =
     filter (\<lambda>u. (case after of None \<Rightarrow> True | Some a \<Rightarrow> a \<le> us_created_at u)
         \<and> (case before of None \<Rightarrow> True | Some b \<Rightarrow> us_created_at u \<le> b)
         \<and> (case trimmed contains of None \<Rightarrow> True
            | Some c \<Rightarrow> contains_str (str_ascii_lower (us_username u)) (str_ascii_lower (str_lower c)))) (users db)"

fun purge_loop :: "nat option \<Rightarrow> nat option \<Rightarrow> bool \<Rightarrow> user_row list \<Rightarrow> nat \<Rightarrow> account_db \<Rightarrow> nat \<times> account_db" where
  "purge_loop mn mx exclude_admin [] count db = (count, db)"
| "purge_loop mn mx exclude_admin (u # us) count db =
     (if (exclude_admin \<and> is_admin db (us_id u))
        \<or> (case mn of Some m \<Rightarrow> length (us_username u) < m | None \<Rightarrow> False)
        \<or> (case mx of Some m \<Rightarrow> length (us_username u) > m | None \<Rightarrow> False)
      then purge_loop mn mx exclude_admin us count db
      else (case delete_user_account (us_id u) db of
          (Inr _, db') \<Rightarrow> purge_loop mn mx exclude_admin us (count + 1) db'
        | (Inl _, db') \<Rightarrow> purge_loop mn mx exclude_admin us count db'))"

definition purge_accounts ::
  "nat option \<Rightarrow> nat option \<Rightarrow> nat option \<Rightarrow> nat option \<Rightarrow> string option \<Rightarrow> bool \<Rightarrow> account_db
    \<Rightarrow> nat api_result \<times> account_db" where
  "purge_accounts after before mn mx contains exclude_admin db =
     (if \<not> db_ok db then (Inl (internal ''Purge candidate query''), db)
      else (case purge_loop mn mx exclude_admin (purge_candidates after before contains db) 0 db of
          (n, db') \<Rightarrow> (Inr n, db')))"

text \<open>The row-by-row edit distance: \<open>lev_row\<close> is the inner loop (\<open>left\<close> the entry just written),
  \<open>lev_rows\<close> the outer one with the two buffers swapped.\<close>

fun lev_row :: "char \<Rightarrow> nat \<Rightarrow> nat list \<Rightarrow> string \<Rightarrow> nat list" where
  "lev_row ca left (diag # up # prev) (cb # b) =
     (let cost = (if ca = cb then 0 else 1);
          here = min (min (up + 1) (left + 1)) (diag + cost)
      in here # lev_row ca here (up # prev) b)"
| "lev_row ca left _ _ = []"

fun lev_rows :: "nat \<Rightarrow> string \<Rightarrow> string \<Rightarrow> nat list \<Rightarrow> nat list" where
  "lev_rows i [] b prev = prev"
| "lev_rows i (ca # a) b prev = lev_rows (Suc i) a b (Suc i # lev_row ca (Suc i) prev b)"

definition levenshtein_distance :: "string \<Rightarrow> string \<Rightarrow> nat" where
  "levenshtein_distance a b =
     (if a = [] then length b else if b = [] then length a
      else lev_rows 0 a b [0..<length b + 1] ! length b)"

end
