(* ===== verification/Accounts_Inv.thy ===== *)
theory Accounts_Inv
  imports Accounts_Db
begin

text \<open>
  What the account tables guarantee.  \<open>acct_inv\<close> is the uniqueness and well-formedness invariant of
  the tables, \<open>acct_step\<close> one public operation of \<open>AccountDatabase\<close>, and the lemmas below show that
  every operation keeps the invariant.  Then authentication, recovery, the roster blob's versions,
  the badges, and the edit distance against its specification by alignments.
\<close>

section \<open>The invariant\<close>

definition badges_ok :: "string list \<Rightarrow> bool" where
  "badges_ok bs \<longleftrightarrow> distinct bs \<and> length bs \<le> MAX_USER_BADGES
     \<and> (\<forall>b \<in> set bs. b \<noteq> [] \<and> length b \<le> MAX_USER_BADGE_LEN \<and> list_all badge_char b
          \<and> b \<notin> set RESERVED_BADGES)"

definition user_ok :: "user_row \<Rightarrow> bool" where
  "user_ok u \<longleftrightarrow> normalize_username (us_username u) = us_username u \<and> badges_ok (us_custom_badges u)"

definition acct_inv :: "account_db \<Rightarrow> bool" where
  "acct_inv db \<longleftrightarrow> distinct (map us_id (users db)) \<and> distinct (map us_username (users db))
     \<and> (\<forall>u \<in> set (users db). user_ok u)
     \<and> distinct (map ss_token_hash (sessions db))
     \<and> (\<forall>s \<in> set (sessions db). ss_user s \<in> set (map us_id (users db)))
     \<and> distinct (map bl_tag (blocks db))
     \<and> (\<forall>user_id. length (filter (\<lambda>b. bl_user b = user_id) (blocks db)) \<le> MAX_BLOCKS_PER_ACCOUNT)"

lemma badges_ok_Nil [simp]: "badges_ok []"
  by (simp add: badges_ok_def)

lemma badges_ok_snoc:
  assumes "badges_ok cleaned" "length cleaned < MAX_USER_BADGES" "sanitize_badge badge \<noteq> []"
    and "sanitize_badge badge \<notin> set RESERVED_BADGES" "sanitize_badge badge \<notin> set cleaned"
  shows "badges_ok (cleaned @ [sanitize_badge badge])"
proof -
  have "length (sanitize_badge badge) \<le> MAX_USER_BADGE_LEN" "list_all badge_char (sanitize_badge badge)"
    by (auto simp: sanitize_badge_def list_all_iff dest!: in_set_takeD)
  with assms show ?thesis by (simp add: badges_ok_def)
qed

lemma clean_badges_ok: "badges_ok cleaned \<Longrightarrow> length cleaned < MAX_USER_BADGES \<Longrightarrow> badges_ok (clean_badges cleaned bs)"
proof (induction bs arbitrary: cleaned)
  case Nil
  then show ?case by simp
next
  case (Cons badge rest)
  show ?case
  proof (cases "sanitize_badge badge = [] \<or> sanitize_badge badge \<in> set RESERVED_BADGES
      \<or> sanitize_badge badge \<in> set cleaned")
    case True
    with Cons show ?thesis by (simp add: Let_def)
  next
    case False
    with Cons.prems have "badges_ok (cleaned @ [sanitize_badge badge])"
      by (intro badges_ok_snoc) simp_all
    with False Cons.IH [of "cleaned @ [sanitize_badge badge]"] show ?thesis
      by (simp add: Let_def)
  qed
qed

lemma sanitize_badges_ok [simp]: "badges_ok (sanitize_custom_badges bs)"
  unfolding sanitize_custom_badges_def
  by (rule clean_badges_ok) (simp_all add: MAX_USER_BADGES_def)

text \<open>The three shapes of change: a row update that keeps the key columns, and a selection.\<close>

lemma users_update_user [simp]:
  "users (update_user i f db) = map (\<lambda>u. if us_id u = i then f u else u) (users db)"
  "sessions (update_user i f db) = sessions db" "prekeys (update_user i f db) = prekeys db"
  "blocks (update_user i f db) = blocks db" "db_ok (update_user i f db) = db_ok db"
  "admin_ids (update_user i f db) = admin_ids db"
  by (simp_all add: update_user_def)

lemma update_user_ids: "(\<And>u. us_id (f u) = us_id u) \<Longrightarrow> map us_id (users (update_user i f db)) = map us_id (users db)"
  by auto

lemma acct_inv_update:
  assumes "acct_inv db" "\<And>u. us_id (f u) = us_id u" "\<And>u. us_username (f u) = us_username u"
    and "\<And>u. user_ok u \<Longrightarrow> user_ok (f u)"
  shows "acct_inv (update_user i f db)"
proof -
  have "us_id \<circ> (\<lambda>u. if us_id u = i then f u else u) = us_id"
    "us_username \<circ> (\<lambda>u. if us_id u = i then f u else u) = us_username"
    using assms(2,3) by auto
  moreover have "us_id (if us_id u = i then f u else u) = us_id u" for u
    using assms(2) by simp
  ultimately show ?thesis
    using assms(1,4) by (auto simp: acct_inv_def image_image)
qed

lemma acct_inv_sessions_filter: "acct_inv db \<Longrightarrow> acct_inv (db\<lparr>sessions := filter P (sessions db)\<rparr>)"
  by (auto simp: acct_inv_def distinct_map_filter)

lemma acct_inv_blocks_filter:
  assumes "acct_inv db"
  shows "acct_inv (db\<lparr>blocks := filter P (blocks db)\<rparr>)"
proof -
  have sub: "length (filter (\<lambda>b. P b \<and> Q b) xs) \<le> length (filter Q xs)" for Q :: "block_row \<Rightarrow> bool" and xs
    by (induction xs) auto
  have "length (filter (\<lambda>b. P b \<and> bl_user b = i) (blocks db)) \<le> MAX_BLOCKS_PER_ACCOUNT" for i
    using assms by (intro le_trans [OF sub]) (simp add: acct_inv_def)
  with assms show ?thesis
    by (simp add: acct_inv_def distinct_map_filter)
qed

lemma acct_inv_session_push:
  "acct_inv db \<Longrightarrow> ss_user s \<in> set (map us_id (users db)) \<Longrightarrow> ss_token_hash s \<notin> set (map ss_token_hash (sessions db)) \<Longrightarrow>
   acct_inv (db\<lparr>sessions := sessions db @ [s]\<rparr>)"
  by (auto simp: acct_inv_def)

lemma find_users: "find P (users db) = Some u \<Longrightarrow> u \<in> set (users db) \<and> P u"
  by (auto simp: find_Some_iff)

lemma user_by_id_Some: "user_by_id db i = Inr (Some u) \<Longrightarrow> u \<in> set (users db) \<and> us_id u = i \<and> db_ok db"
  by (auto simp: user_by_id_def split: if_splits dest: find_users)

lemma user_by_username_Some:
  "user_by_username db n = Inr (Some u) \<Longrightarrow> u \<in> set (users db) \<and> us_username u = normalize_username n \<and> db_ok db"
  by (auto simp: user_by_username_def split: if_splits dest: find_users)

lemma user_by_id_iff:
  assumes "acct_inv db" "db_ok db"
  shows "user_by_id db i = Inr (Some u) \<longleftrightarrow> u \<in> set (users db) \<and> us_id u = i"
proof -
  have "find (\<lambda>u. us_id u = i) (users db) = Some u" if "u \<in> set (users db)" "us_id u = i"
  proof (cases "find (\<lambda>u. us_id u = i) (users db)")
    case None
    with that show ?thesis by (auto simp: find_None_iff)
  next
    case (Some v)
    then have "v \<in> set (users db)" "us_id v = i" using find_users by auto
    with that assms(1) have "v = u" by (auto simp: acct_inv_def distinct_map inj_on_def)
    with Some show ?thesis by simp
  qed
  with assms(2) show ?thesis by (auto simp: user_by_id_def dest: find_users)
qed

section \<open>Every operation keeps it\<close>

lemma acct_inv_create_session:
  "create_session h now token user_id db = (r, db') \<Longrightarrow> acct_inv db \<Longrightarrow> user_id \<in> set (map us_id (users db)) \<Longrightarrow>
   acct_inv db'"
  unfolding create_session_def Let_def by (auto split: if_splits intro!: acct_inv_session_push)

lemma create_session_users [simp]:
  "users (snd (create_session h now token user_id db)) = users db"
  "db_ok (snd (create_session h now token user_id db)) = db_ok db"
  by (simp_all add: create_session_def Let_def)

lemma acct_inv_insert: "acct_inv db \<Longrightarrow> user_ok u \<Longrightarrow> insert_user u db = Some db' \<Longrightarrow> acct_inv db'"
  by (auto simp: insert_user_def acct_inv_def split: if_splits)

lemma validated_normal: "validate_username_with_max u m = Inr n \<Longrightarrow> normalize_username n = n"
  by (auto simp: validate_username_accepts)

lemma insert_user_id: "insert_user u db = Some db' \<Longrightarrow> us_id u \<in> set (map us_id (users db'))"
  by (auto simp: insert_user_def split: if_splits)

lemma acct_inv_register:
  assumes "acct_inv db"
  shows "acct_inv (snd (register lib dr now uname password db))"
proof -
  have ins: "acct_inv db1" "us_id u \<in> set (map us_id (users db1))"
    if "insert_user u db = Some db1" "validate_username_with_max uname k = Inr (us_username u)"
      "us_custom_badges u = []" for u db1 k
    using that acct_inv_insert [OF assms _ that(1)] insert_user_id [OF that(1)]
    by (auto simp: user_ok_def validated_normal)
  show ?thesis
    unfolding register_def validate_registration_username_def
    by (auto split: sum.splits option.splits prod.splits simp: assms
        dest!: acct_inv_create_session intro: ins(1) dest: ins(2))
qed

lemma user_by_username_id: "user_by_username db n = Inr (Some u) \<Longrightarrow> us_id u \<in> set (map us_id (users db))"
  using user_by_username_Some by fastforce

lemma acct_inv_login: "acct_inv db \<Longrightarrow> acct_inv (snd (login lib dr now uname password db))"
  unfolding login_def
  by (auto split: sum.splits option.splits prod.splits dest!: acct_inv_create_session user_by_username_id)

lemma acct_inv_password: "acct_inv db \<Longrightarrow> acct_inv (snd (update_password_hash i h now db))"
  by (auto simp: update_password_hash_def user_ok_def intro!: acct_inv_update)

lemma invalidate_eq:
  "snd (invalidate_user_sessions i db) = (if db_ok db then db\<lparr>sessions := filter (\<lambda>s. ss_user s \<noteq> i) (sessions db)\<rparr> else db)"
  by (simp add: invalidate_user_sessions_def)

lemma acct_inv_invalidate: "acct_inv db \<Longrightarrow> acct_inv (snd (invalidate_user_sessions i db))"
  by (simp add: invalidate_eq acct_inv_sessions_filter)

lemma acct_inv_recover:
  assumes "acct_inv db"
  shows "acct_inv (snd (recover lib dr now uname phrase pw db))"
proof -
  have a1: "acct_inv db1" "set (map us_id (users db)) \<subseteq> set (map us_id (users db1))"
    if "update_password_hash i h now db = (r, db1)" for i h r db1
  proof -
    show "acct_inv db1" using acct_inv_password [OF assms, of i h now] that by simp
    show "set (map us_id (users db)) \<subseteq> set (map us_id (users db1))"
      using that update_user_ids [of "\<lambda>u. u\<lparr>us_password_hash := h, us_updated_at := now\<rparr>" i db]
      by (auto simp: update_password_hash_def simp del: users_update_user set_map split: if_splits)
  qed
  have a2: "acct_inv db2" "users db2 = users db1"
    if "invalidate_user_sessions i db1 = (r, db2)" "acct_inv db1" for i r db1 db2
    using acct_inv_invalidate [OF that(2), of i] that(1)
    by (auto simp: invalidate_user_sessions_def split: if_splits)
  have a3: "acct_inv db3"
    if "create_session h now t (us_id u) db2 = (r3, db3)" "invalidate_user_sessions (us_id u) db1 = (r2, db2)"
      "update_password_hash (us_id u) ph now db = (r1, db1)" "user_by_username db n = Inr (Some u)"
    for h t u db2 r3 db3 db1 r2 ph r1 n
    using acct_inv_create_session [OF that(1)] a2 [OF that(2)] a1 [OF that(3)] user_by_username_id [OF that(4)]
    by auto
  show ?thesis
    unfolding recover_def
    by (auto split: sum.splits option.splits prod.splits simp: assms intro: a1(1) a2(1) a3)
qed

lemma acct_inv_delete_user: "acct_inv db \<Longrightarrow> acct_inv (snd (delete_user_account i db))"
proof -
  assume inv: "acct_inv db"
  let ?db = "db\<lparr>blocks := filter (\<lambda>b. bl_user b \<noteq> i) (blocks db)\<rparr>"
  have "acct_inv ?db" using inv by (rule acct_inv_blocks_filter)
  then show ?thesis
    using inv by (auto simp: delete_user_account_def acct_inv_def distinct_map_filter
        split: sum.splits option.splits)
qed

lemma acct_inv_delete_account: "acct_inv db \<Longrightarrow> acct_inv (snd (delete_account lib now token pw db))"
  by (auto simp: delete_account_def acct_inv_delete_user split: sum.splits option.splits)

lemma update_user_other: "us_id u \<noteq> i \<Longrightarrow> u \<in> set (users db) \<Longrightarrow> u \<in> set (users (update_user i f db))"
  by auto

text \<open>A rename keeps names unique because the name is free or the account's own.\<close>

lemma acct_inv_rename:
  assumes inv: "acct_inv db" and norm: "normalize_username n = n"
    and free: "\<forall>v \<in> set (users db). us_username v = n \<longrightarrow> us_id v = i"
  shows "acct_inv (update_user i (\<lambda>u. u\<lparr>us_username := n, us_username_changes := c, us_updated_at := now\<rparr>) db)"
proof -
  let ?f = "\<lambda>u :: user_row. if us_id u = i then u\<lparr>us_username := n, us_username_changes := c, us_updated_at := now\<rparr> else u"
  have ids: "us_id \<circ> ?f = us_id" by auto
  have "inj_on us_id (set (users db))" "inj_on us_username (set (users db))" "distinct (users db)"
    using inv by (auto simp: acct_inv_def distinct_map)
  then have "inj_on (us_username \<circ> ?f) (set (users db))"
    using free by (auto simp: inj_on_def)
  with \<open>distinct (users db)\<close> have "distinct (map (us_username \<circ> ?f) (users db))"
    by (simp add: distinct_map)
  moreover have "us_id (?f u) = us_id u" for u by simp
  ultimately show ?thesis
    using inv norm ids by (auto simp: acct_inv_def user_ok_def image_image)
qed

lemma acct_inv_change_username: "acct_inv db \<Longrightarrow> acct_inv (snd (change_username now i uname db))"
proof -
  assume inv: "acct_inv db"
  have ren: "acct_inv (update_user i (\<lambda>u. u\<lparr>us_username := n, us_username_changes := c, us_updated_at := now\<rparr>) db)"
    if "validate_username uname = Inr n" "user_by_username db n = Inr ex"
      "\<not> (case ex of Some x \<Rightarrow> us_id x \<noteq> i | None \<Rightarrow> False)" for n ex c
  proof (rule acct_inv_rename [OF inv])
    show norm: "normalize_username n = n"
      using that(1) by (simp add: validate_username_def validated_normal)
    show "\<forall>v \<in> set (users db). us_username v = n \<longrightarrow> us_id v = i"
    proof (intro ballI impI)
      fix v assume v: "v \<in> set (users db)" "us_username v = n"
      with that(2) norm obtain x where x: "ex = Some x"
        by (cases ex) (auto simp: user_by_username_def find_None_iff split: if_splits)
      with that(2) user_by_username_Some [of db n x] norm have "x \<in> set (users db)" "us_username x = n" by auto
      with v inv have "x = v" by (auto simp: acct_inv_def distinct_map inj_on_def)
      with that(3) x show "us_id v = i" by simp
    qed
  qed
  from inv ren show ?thesis
    unfolding change_username_def Let_def
    by (auto split: sum.splits option.splits)
qed

lemma acct_inv_add_block:
  assumes inv: "acct_inv db"
  shows "acct_inv (snd (add_block_tag now i tag db))"
proof -
  let ?n = "length (filter (\<lambda>b. bl_user b = i) (blocks db))"
  have "length (filter (\<lambda>b. bl_user b = j) (blocks db @ [\<lparr>bl_tag = tag, bl_user = i, bl_created_at = now\<rparr>]))
      \<le> MAX_BLOCKS_PER_ACCOUNT" if "?n < MAX_BLOCKS_PER_ACCOUNT" for j
    using that inv by (auto simp: acct_inv_def)
  with inv show ?thesis
    by (auto simp: add_block_tag_def count_block_tags_def acct_inv_def split: sum.splits if_splits)
qed

lemma acct_inv_purge_loop: "acct_inv db \<Longrightarrow> acct_inv (snd (purge_loop mn mx ex us n db))"
proof (induction mn mx ex us n db rule: purge_loop.induct)
  case (2 mn mx ex u us count db)
  have "acct_inv (snd (delete_user_account (us_id u) db))" using 2(4) by (rule acct_inv_delete_user)
  with 2 show ?case by (auto split: sum.splits prod.splits)
qed simp

section \<open>Any sequence of operations\<close>

datatype acct_op =
    ORegister draws nat string string
  | OLogin draws nat string string
  | ORecover draws nat string string string
  | OMe nat string
  | OLogout string
  | OInvalidate string
  | ODeleteAccount nat string string
  | ODeleteUser string
  | ORename nat string string
  | OProfile nat string user_profile
  | OStatus nat string presence_status
  | ODisable nat string bool
  | OBan nat string bool
  | OBadges nat string "string list"
  | OPrekey nat string string
  | OBlock nat string string
  | OUnblock string string
  | OBlob string int string
  | OPurge "nat option" "nat option" "nat option" "nat option" "string option" bool

fun acct_step :: "secret_lib \<Rightarrow> acct_op \<Rightarrow> account_db \<Rightarrow> account_db" where
  "acct_step lib (ORegister dr now n p) db = snd (register lib dr now n p db)"
| "acct_step lib (OLogin dr now n p) db = snd (login lib dr now n p db)"
| "acct_step lib (ORecover dr now n w p) db = snd (recover lib dr now n w p db)"
| "acct_step lib (OMe now t) db = snd (me (tok_hash lib) now t db)"
| "acct_step lib (OLogout t) db = snd (logout (tok_hash lib) t db)"
| "acct_step lib (OInvalidate i) db = snd (invalidate_user_sessions i db)"
| "acct_step lib (ODeleteAccount now t p) db = snd (delete_account lib now t p db)"
| "acct_step lib (ODeleteUser i) db = snd (delete_user_account i db)"
| "acct_step lib (ORename now i n) db = snd (change_username now i n db)"
| "acct_step lib (OProfile now i p) db = snd (update_profile now i p db)"
| "acct_step lib (OStatus now i st) db = snd (update_status now i st db)"
| "acct_step lib (ODisable now i b) db = snd (set_user_disabled now i b db)"
| "acct_step lib (OBan now i b) db = snd (set_user_banned now i b db)"
| "acct_step lib (OBadges now i bs) db = snd (set_user_badges now i bs db)"
| "acct_step lib (OPrekey now i b) db = snd (publish_prekey now i b db)"
| "acct_step lib (OBlock now i t) db = snd (add_block_tag now i t db)"
| "acct_step lib (OUnblock i t) db = snd (remove_block_tag i t db)"
| "acct_step lib (OBlob i v b) db = snd (put_social_blob i v b db)"
| "acct_step lib (OPurge a b mn mx c e) db = snd (purge_accounts a b mn mx c e db)"

lemma me_db: "snd (me h now t db) = db \<or> snd (me h now t db) = snd (touch_session h now t db)"
  by (auto simp: me_def split: sum.splits option.splits prod.splits)

lemma acct_inv_touch: "acct_inv db \<Longrightarrow> acct_inv (snd (touch_session h now t db))"
proof -
  have "ss_token_hash \<circ> (\<lambda>s. if ss_token_hash s = x then s\<lparr>ss_expires_at := y\<rparr> else s)
      = (ss_token_hash :: session_row \<Rightarrow> string)" for x y
    by auto
  then show "acct_inv db \<Longrightarrow> acct_inv (snd (touch_session h now t db))"
    by (auto simp: touch_session_def acct_inv_def)
qed

lemma acct_inv_badges: "acct_inv db \<Longrightarrow> acct_inv (snd (set_user_badges now i bs db))"
proof -
  assume "acct_inv db"
  then have "acct_inv (update_user i (\<lambda>u. u\<lparr>us_custom_badges := sanitize_custom_badges bs, us_updated_at := now\<rparr>) db)"
    by (intro acct_inv_update) (auto simp: user_ok_def)
  with \<open>acct_inv db\<close> show ?thesis
    by (auto simp: set_user_badges_def Let_def split: sum.splits option.splits)
qed

lemma acct_inv_step: "acct_inv db \<Longrightarrow> acct_inv (acct_step lib op db)"
proof (cases op)
  case (OMe now t)
  then show "acct_inv db \<Longrightarrow> ?thesis"
    using me_db [of "tok_hash lib" now t db] acct_inv_touch by auto
next
  case (OPurge a b mn mx c e)
  then show "acct_inv db \<Longrightarrow> ?thesis"
    using acct_inv_purge_loop [of db mn mx e "purge_candidates a b c db" 0]
    by (auto simp: purge_accounts_def split: prod.splits)
qed (auto simp: acct_inv_register acct_inv_login acct_inv_recover logout_def acct_inv_sessions_filter
    acct_inv_invalidate acct_inv_delete_account acct_inv_delete_user acct_inv_change_username
    update_profile_def update_status_def set_user_disabled_def set_user_banned_def acct_inv_badges
    publish_prekey_def acct_inv_add_block remove_block_tag_def acct_inv_blocks_filter
    put_social_blob_def user_ok_def acct_inv_def [of "db\<lparr>prekeys := _\<rparr>"] acct_inv_def [of db]
    split: sum.splits intro!: acct_inv_update)

section \<open>Authentication\<close>

lemma create_session_Inr:
  "create_session h now token i db = (Inr t, db') \<longleftrightarrow> t = token \<and> db_ok db
     \<and> h token \<notin> set (map ss_token_hash (sessions db))
     \<and> db' = db\<lparr>sessions := sessions db @ [\<lparr>ss_token_hash = h token, ss_user = i, ss_created_at = now,
            ss_expires_at = now + SESSION_TTL_MS\<rparr>]\<rparr>"
  by (auto simp: create_session_def Let_def)

text \<open>An authenticated token has a live session of an account that is neither disabled nor banned.\<close>

lemma find_sessions: "find P (sessions db) = Some s \<Longrightarrow> s \<in> set (sessions db) \<and> P s"
  by (auto simp: find_Some_iff)

lemma authenticate_sound:
  assumes "authenticate_token h now t db = Inr (Some p)"
  shows "\<exists>s u. s \<in> set (sessions db) \<and> ss_token_hash s = h t \<and> now < ss_expires_at s
    \<and> u \<in> set (users db) \<and> us_id u = ss_user s \<and> \<not> us_disabled u \<and> \<not> us_banned u \<and> p = to_public_user db u"
proof -
  from assms obtain s u where
    s: "find (\<lambda>s. ss_token_hash s = h t \<and> ss_expires_at s > now) (sessions db) = Some s"
    and u: "user_by_id db (ss_user s) = Inr (Some u)" "\<not> us_disabled u" "\<not> us_banned u" "p = to_public_user db u"
    by (auto simp: authenticate_token_def split: if_splits option.splits sum.splits)
  from find_sessions [OF s] user_by_id_Some [OF u(1)] u(2-) show ?thesis by blast
qed

lemma to_public_user_id [simp]: "pu_id (to_public_user db u) = us_id u"
  by (simp add: to_public_user_def)

lemma unique_user: "acct_inv db \<Longrightarrow> u \<in> set (users db) \<Longrightarrow> v \<in> set (users db) \<Longrightarrow> us_id u = us_id v \<Longrightarrow> u = v"
  by (auto simp: acct_inv_def distinct_map inj_on_def)

lemma user_by_username_iff:
  assumes "acct_inv db" "db_ok db"
  shows "user_by_username db n = Inr (Some u) \<longleftrightarrow> u \<in> set (users db) \<and> us_username u = normalize_username n"
proof -
  have "find (\<lambda>v. us_username v = normalize_username n) (users db) = Some u"
    if "u \<in> set (users db)" "us_username u = normalize_username n"
  proof (cases "find (\<lambda>v. us_username v = normalize_username n) (users db)")
    case None
    with that show ?thesis by (auto simp: find_None_iff)
  next
    case (Some v)
    then have "v \<in> set (users db)" "us_username v = normalize_username n" using find_users by auto
    with that assms(1) have "v = u" by (auto simp: acct_inv_def distinct_map inj_on_def)
    with Some show ?thesis by simp
  qed
  with assms(2) show ?thesis by (auto simp: user_by_username_def dest: find_users)
qed

lemma register_Inr:
  assumes "register lib dr now uname pw db = (Inr (p, t, ws), db')"
  shows "\<exists>u n ph rh. n = normalize_username uname \<and> us_id u = new_id dr \<and> us_username u = n
    \<and> us_password_hash u = ph \<and> argon_hash lib (salt1 dr) pw = Some ph \<and> us_recovery_hash u = rh
    \<and> \<not> us_disabled u \<and> \<not> us_banned u \<and> pu_id p = new_id dr \<and> t = new_token dr
    \<and> users db' = users db @ [u] \<and> db_ok db' \<and> ws = recovery_words dr
    \<and> sessions db' = sessions db @ [\<lparr>ss_token_hash = tok_hash lib t, ss_user = new_id dr,
          ss_created_at = now, ss_expires_at = now + SESSION_TTL_MS\<rparr>]"
  using assms
  by (auto simp: register_def validate_registration_username_def validate_username_accepts
      hash_secret_def insert_user_def create_session_Inr dest!: user_by_id_Some
      split: sum.splits option.splits prod.splits if_splits)

lemma user_by_id_sessions [simp]: "user_by_id (db\<lparr>sessions := x\<rparr>) i = user_by_id db i"
  by (simp add: user_by_id_def)

lemma register_public:
  assumes "register lib dr now uname pw db = (Inr (p, t, ws), db')"
  shows "\<exists>v. user_by_id db' (new_id dr) = Inr (Some v) \<and> p = to_public_user db' v"
  using assms
  by (auto simp: register_def create_session_Inr split: sum.splits option.splits prod.splits)

lemma recover_Inr:
  assumes "recover lib dr now uname phrase pw db = (Inr (p, t), db')"
  shows "\<exists>i. pu_id p = i \<and> t = new_token dr
    \<and> sessions db' = filter (\<lambda>s. ss_user s \<noteq> i) (sessions db)
        @ [\<lparr>ss_token_hash = tok_hash lib t, ss_user = i, ss_created_at = now,
            ss_expires_at = now + SESSION_TTL_MS\<rparr>]"
  using assms
  by (auto simp: recover_def create_session_Inr update_password_hash_def invalidate_user_sessions_def
      dest!: user_by_id_Some split: sum.splits option.splits prod.splits if_splits)

section \<open>The edit distance\<close>

text \<open>The specification: an alignment of two texts, and its cost.\<close>

inductive aligns :: "nat \<Rightarrow> string \<Rightarrow> string \<Rightarrow> bool" where
  empty: "aligns 0 [] []"
| drop_left: "aligns n a b \<Longrightarrow> aligns (Suc n) (x # a) b"
| drop_right: "aligns n a b \<Longrightarrow> aligns (Suc n) a (y # b)"
| both: "aligns n a b \<Longrightarrow> aligns (n + (if x = y then 0 else 1)) (x # a) (y # b)"

fun edit :: "string \<Rightarrow> string \<Rightarrow> nat" where
  "edit [] b = length b"
| "edit a [] = length a"
| "edit (x # a) (y # b) = min (min (edit (x # a) b + 1) (edit a (y # b) + 1)) (edit a b + (if x = y then 0 else 1))"

lemma edit_Nil2 [simp]: "edit a [] = length a"
  by (cases a) auto

lemma aligns_length: "aligns (length b) [] b" "aligns (length a) a []"
  by (induction b, auto intro: aligns.intros) (induction a, auto intro: aligns.intros)

lemma edit_aligns: "aligns (edit a b) a b"
proof (induction a b rule: edit.induct)
  case (3 x a y b)
  then show ?case
    using aligns.both [OF "3.IH"(3), of x y] aligns.drop_left [OF "3.IH"(2), of x]
      aligns.drop_right [OF "3.IH"(1), of y]
    by (simp add: min_def)
next
  case (2 v va)
  show ?case using aligns_length(2) [of "v # va"] by simp
qed (simp add: aligns_length)

lemma edit_drop: "edit (x # a) b \<le> Suc (edit a b)" "edit a (y # b) \<le> Suc (edit a b)"
  by (cases b; simp) (cases a; simp)

lemma edit_least: "aligns n a b \<Longrightarrow> edit a b \<le> n"
proof (induction rule: aligns.induct)
  case (drop_left n a b x)
  then show ?case using edit_drop(1) [of x a b] by simp
next
  case (drop_right n a b y)
  then show ?case using edit_drop(2) [of a y b] by simp
qed auto

lemma aligns_append: "aligns m a b \<Longrightarrow> aligns n c d \<Longrightarrow> aligns (m + n) (a @ c) (b @ d)"
proof (induction rule: aligns.induct)
  case (both m a b x y)
  then have "aligns (m + n + (if x = y then 0 else 1)) (x # a @ c) (y # b @ d)"
    by (intro aligns.both) simp
  then show ?case by (simp add: ac_simps)
qed (auto intro: aligns.intros)

lemma aligns_rev: "aligns n a b \<Longrightarrow> aligns n (rev a) (rev b)"
proof (induction rule: aligns.induct)
  case (drop_left n a b x)
  from aligns_append [OF drop_left.IH aligns.drop_left [OF aligns.empty, of x]] show ?case by simp
next
  case (drop_right n a b y)
  from aligns_append [OF drop_right.IH aligns.drop_right [OF aligns.empty, of y]] show ?case by simp
next
  case (both n a b x y)
  from aligns_append [OF both.IH aligns.both [OF aligns.empty, of x y]] show ?case by simp
qed (auto intro: aligns.intros)

text \<open>A row of the table: the distances of one reversed prefix of \<open>a\<close> to the prefixes of \<open>b\<close>.\<close>

fun row_of :: "string \<Rightarrow> string \<Rightarrow> string \<Rightarrow> nat list" where
  "row_of pa p [] = [edit pa p]"
| "row_of pa p (c # cs) = edit pa p # row_of pa (c # p) cs"

lemma row_of_Cons: "\<exists>r. row_of pa p b = edit pa p # r"
  by (cases b) auto

lemma lev_row_correct:
  "edit (ca # pa) p # lev_row ca (edit (ca # pa) p) (row_of pa p b) b = row_of (ca # pa) p b"
proof (induction b arbitrary: p)
  case Nil
  then show ?case by simp
next
  case (Cons c cs)
  obtain r where r: "row_of pa (c # p) cs = edit pa (c # p) # r" using row_of_Cons by blast
  have here: "min (min (edit pa (c # p) + 1) (edit (ca # pa) p + 1)) (edit pa p + (if ca = c then 0 else 1))
      = edit (ca # pa) (c # p)"
    by (simp add: min.commute)
  from Cons.IH [of "c # p"] here r show ?case
    by (simp add: Let_def)
qed

lemma lev_rows_correct: "lev_rows (length pa) a b (row_of pa [] b) = row_of (rev a @ pa) [] b"
proof (induction a arbitrary: pa)
  case Nil
  then show ?case by simp
next
  case (Cons ca a)
  from lev_row_correct [of ca pa "[]" b] Cons.IH [of "ca # pa"] show ?case by simp
qed

lemma row_of_start: "row_of [] p b = [length p..<length p + length b + 1]"
proof (induction b arbitrary: p)
  case Nil
  then show ?case by simp
next
  case (Cons c b)
  have "row_of [] p (c # b) = length p # [Suc (length p)..<Suc (length p) + length b + 1]"
    using Cons.IH [of "c # p"] by simp
  also have "\<dots> = [length p..<length p + length (c # b) + 1]"
    by (subst upt_conv_Cons [of "length p"]) simp_all
  finally show ?case .
qed

lemma row_of_nth: "row_of pa p b ! length b = edit pa (rev b @ p)"
  by (induction b arbitrary: p) simp_all

lemma levenshtein_edit: "levenshtein_distance a b = edit (rev a) (rev b)"
proof (cases "a = [] \<or> b = []")
  case True
  then show ?thesis by (auto simp: levenshtein_distance_def)
next
  case False
  have "lev_rows 0 a b [0..<length b + 1] = row_of (rev a) [] b"
    using lev_rows_correct [of "[]" a b] row_of_start [of "[]" b] by simp
  with False show ?thesis
    by (simp add: levenshtein_distance_def row_of_nth)
qed

section \<open>Badges\<close>

lemma set_push_badges: "set (push_badges bs cs) = set bs \<union> set cs"
  by (induction bs cs rule: push_badges.induct) auto

lemma distinct_push_badges: "distinct bs \<Longrightarrow> distinct (push_badges bs cs)"
  by (induction bs cs rule: push_badges.induct) auto

section \<open>Properties\<close>

definition demo_secrets :: secret_lib where
  "demo_secrets = \<lparr>argon_verify = (\<lambda>p h. Some (h = p)), argon_hash = (\<lambda>_ p. Some p), tok_hash = (\<lambda>t. t)\<rparr>"

definition demo_draws :: "string \<Rightarrow> draws" where
  "demo_draws t = \<lparr>new_id = ''7'', recovery_words = [''ab'', ''cd''], salt1 = [], salt2 = [], new_token = t\<rparr>"

definition empty_accounts :: account_db where
  "empty_accounts = \<lparr>db_ok = True, admin_ids = [], users = [], sessions = [], prekeys = [], blocks = [],
     features = [], default_rm = None\<rparr>"

lemma empty_accounts_inv: "acct_inv empty_accounts"
  by (simp add: acct_inv_def empty_accounts_def)

definition demo_row :: "string \<Rightarrow> user_row" where
  "demo_row n = \<lparr>us_id = ''7'', us_username = n, us_password_hash = ''password'',
     us_recovery_hash = ''ab cd'', us_profile = profile_default, us_status = Online,
     us_disabled = False, us_banned = False, us_created_at = 5, us_updated_at = 5,
     us_username_changes = [], us_custom_badges = [], us_social_blob = None, us_social_ver = 0\<rparr>"

definition demo_accounts :: account_db where
  "demo_accounts = empty_accounts\<lparr>users := [demo_row ''alice''], sessions :=
     [\<lparr>ss_token_hash = ''t'', ss_user = ''7'', ss_created_at = 5, ss_expires_at = 5 + SESSION_TTL_MS\<rparr>]\<rparr>"

lemma demo_valid: "validate_username_with_max ''Alice'' 24 = Inr ''alice''"
  by code_simp

lemma demo_normal: "normalize_username ''alice'' = ''alice''" "normalize_username '' ALICE '' = ''alice''"
  "normalize_username ''Alice'' = ''alice''"
  by code_simp+

lemma demo_register:
  "register demo_secrets (demo_draws ''t'') 5 ''Alice'' ''password'' empty_accounts
     = (Inr (to_public_user demo_accounts (demo_row ''alice''), ''t'', [''ab'', ''cd'']), demo_accounts)"
  by (simp add: register_def validate_registration_username_def USERNAME_REGISTER_MAX_def demo_valid
      validate_password_def PASSWORD_MIN_def PASSWORD_MAX_def user_by_username_def user_by_id_def
      hash_secret_def insert_user_def create_session_def empty_accounts_def demo_secrets_def
      demo_draws_def demo_accounts_def demo_row_def Let_def)

lemma demo_accounts_inv: "acct_inv demo_accounts"
  using acct_inv_register [OF empty_accounts_inv, of demo_secrets "demo_draws ''t''" 5 "''Alice''" "''password''"]
    demo_register by simp

text \<open>C11: after any sequence of account operations, successful or not, accounts have distinct ids
  and distinct names, every name is its own normal form (so every account can log in), stored
  badges are sanitised, sessions have distinct token hashes and belong to existing accounts, and
  no account has more than 512 block tags.\<close>

theorem accounts_invariant:
  assumes "acct_inv db"
  shows "acct_inv (fold (acct_step lib) ops db)"
  using assms by (induction ops arbitrary: db) (auto intro: acct_inv_step)

theorem accounts_invariant_witness:
  "acct_inv (fold (acct_step demo_secrets)
     [ORegister (demo_draws ''t'') 5 ''Alice'' ''password'', OBan 6 ''7'' True, ODeleteUser ''7''] empty_accounts)"
  by (rule accounts_invariant [OF empty_accounts_inv])

text \<open>C31: who has registered can log in with the same password under any spelling of the name that
  normalises to it, for as long as only sessions are added, given a password hash that verifies
  its own output and an unused session token; the session that registration opened
  authenticates the account until it expires.\<close>

theorem register_then_login:
  assumes "acct_inv db" and "register lib dr now uname pw db = (Inr (p, t, ws), db')"
    and "\<forall>slt secret h. argon_hash lib slt secret = Some h \<longrightarrow> argon_verify lib secret h = Some True"
    and "normalize_username other = normalize_username uname"
    and "tok_hash lib (new_token dr') \<notin> set (map ss_token_hash (sessions db'))"
    and "now' < now + SESSION_TTL_MS"
  shows "(\<exists>p' db''. login lib dr' now' other pw db' = (Inr (p', new_token dr'), db'') \<and> pu_id p' = pu_id p)
    \<and> authenticate_token (tok_hash lib) now' t db' = Inr (Some p)"
proof -
  from register_Inr [OF assms(2)] obtain u ph where
    u: "us_id u = new_id dr" "us_username u = normalize_username uname" "us_password_hash u = ph"
      "argon_hash lib (salt1 dr) pw = Some ph" "\<not> us_disabled u" "\<not> us_banned u" "pu_id p = new_id dr"
      "t = new_token dr" "users db' = users db @ [u]" "db_ok db'"
      "sessions db' = sessions db @ [\<lparr>ss_token_hash = tok_hash lib t, ss_user = new_id dr,
          ss_created_at = now, ss_expires_at = now + SESSION_TTL_MS\<rparr>]" by blast
  have inv: "acct_inv db'" using acct_inv_register [OF assms(1)] assms(2) by (metis snd_conv)
  have name: "user_by_username db' (normalize_username other) = Inr (Some u)"
    using u(2,9) assms(4) by (simp add: user_by_username_iff [OF inv u(10)])
  have byid: "user_by_id db' (new_id dr) = Inr (Some u)"
    using u(1,9) by (simp add: user_by_id_iff [OF inv u(10)])
  have "tok_hash lib t \<notin> set (map ss_token_hash (sessions db))"
    using inv u(11) by (simp add: acct_inv_def)
  then have "find (\<lambda>s. ss_token_hash s = tok_hash lib t \<and> ss_expires_at s > now') (sessions db) = None"
    by (force simp: find_None_iff)
  then have "find (\<lambda>s. ss_token_hash s = tok_hash lib t \<and> ss_expires_at s > now') (sessions db')
      = Some \<lparr>ss_token_hash = tok_hash lib t, ss_user = new_id dr, ss_created_at = now,
          ss_expires_at = now + SESSION_TTL_MS\<rparr>"
    using assms(6) u(11) by (simp add: find_append)
  then have auth: "authenticate_token (tok_hash lib) now' t db' = Inr (Some (to_public_user db' u))"
    using byid u(5,6,10) by (simp add: authenticate_token_def)
  have "p = to_public_user db' u"
    using register_public [OF assms(2)] byid by auto
  with auth name u(3-7,10) u(1) assms(3,5) show ?thesis
    by (auto simp: login_def verify_secret_def create_session_def)
qed

theorem register_then_login_witness:
  "\<exists>p db''. login demo_secrets (demo_draws ''u'') 9 '' ALICE '' ''password'' demo_accounts = (Inr (p, ''u''), db'')"
  using register_then_login [OF empty_accounts_inv demo_register, of "'' ALICE ''" "demo_draws ''u''" 9]
  by (simp add: demo_secrets_def demo_normal demo_draws_def demo_accounts_def empty_accounts_def SESSION_TTL_MS_def)
    blast

lemma demo_recover:
  "recover demo_secrets (demo_draws ''v'') 9 ''Alice'' '' AB  cd'' ''new password'' demo_accounts
   = (Inr (to_public_user demo_accounts (demo_row ''alice''), ''v''),
      demo_accounts\<lparr>users := [(demo_row ''alice'')\<lparr>us_password_hash := ''new password'', us_updated_at := 9\<rparr>],
        sessions := [\<lparr>ss_token_hash = ''v'', ss_user = ''7'', ss_created_at = 9, ss_expires_at = 9 + SESSION_TTL_MS\<rparr>]\<rparr>)"
proof -
  have "normalize_recovery_phrase '' AB  cd'' = ''ab cd''" by code_simp
  then show ?thesis
    by (simp add: recover_def validate_password_def PASSWORD_MIN_def PASSWORD_MAX_def user_by_username_def
        demo_normal verify_secret_def hash_secret_def update_password_hash_def update_user_def
        invalidate_user_sessions_def create_session_def user_by_id_def demo_secrets_def demo_draws_def
        demo_accounts_def demo_row_def empty_accounts_def to_public_user_def user_badges_def user_rank_def
        is_admin_def older_def Let_def)
qed

text \<open>C32: a successful recovery ends every session the account had: afterwards no token
  authenticates it except those with the hash of the token just issued.\<close>

theorem recover_ends_sessions:
  assumes "recover lib dr now uname phrase pw db = (Inr (p, t), db')"
    and "tok_hash lib t' \<noteq> tok_hash lib t"
  shows "authenticate_token (tok_hash lib) now' t' db' \<notin> {Inr (Some q) | q. pu_id q = pu_id p}"
  using recover_Inr [OF assms(1)] assms(2)
  by (auto dest!: authenticate_sound)

theorem recover_ends_sessions_witness:
  "authenticate_token (tok_hash demo_secrets) 10 ''t''
     (snd (recover demo_secrets (demo_draws ''v'') 9 ''Alice'' '' AB  cd'' ''new password'' demo_accounts))
   \<notin> {Inr (Some q) | q. pu_id q = ''7''}"
  using recover_ends_sessions [OF demo_recover, of "''t''" 10]
  by (simp only: demo_recover snd_conv) (simp add: demo_secrets_def demo_row_def)

text \<open>C20: a banned account is locked out at once, whatever sessions, passwords and recovery words it
  has: no token authenticates it, and neither a login nor a recovery succeeds.\<close>

theorem ban_locks_out:
  assumes "acct_inv db" "u \<in> set (users db)"
    and "set_user_banned now (us_id u) True db = (Inr (), db')"
  shows "authenticate_token h now' t db' \<notin> {Inr (Some q) | q. pu_id q = us_id u}
    \<and> \<not> is_ok (fst (login lib dr now' (us_username u) pw db'))
    \<and> \<not> is_ok (fst (recover lib dr now' (us_username u) phrase pw db'))"
proof -
  let ?v = "u\<lparr>us_banned := True, us_updated_at := now\<rparr>"
  have inv: "acct_inv db'"
    using acct_inv_step [OF assms(1), of undefined "OBan now (us_id u) True"] assms(3) by simp
  have db': "db_ok db'" "?v \<in> set (users db')"
    using assms(2,3) by (auto simp: set_user_banned_def split: if_splits)
  have norm: "normalize_username (us_username u) = us_username u"
    using assms(1,2) by (auto simp: acct_inv_def user_ok_def)
  have name: "user_by_username db' (us_username u) = Inr (Some ?v)"
    using db' norm by (simp add: user_by_username_iff [OF inv db'(1)])
  have "authenticate_token h now' t db' \<notin> {Inr (Some q) | q. pu_id q = us_id u}"
  proof
    assume "authenticate_token h now' t db' \<in> {Inr (Some q) | q. pu_id q = us_id u}"
    then obtain q w where "pu_id q = us_id u" "w \<in> set (users db')" "\<not> us_banned w" "q = to_public_user db' w"
      by (auto dest!: authenticate_sound)
    with unique_user [OF inv this(2) db'(2)] show False by simp
  qed
  then show ?thesis
    using name norm by (auto simp: login_def recover_def is_ok_def split: sum.splits)
qed

lemma demo_ban:
  "set_user_banned 9 (us_id (demo_row ''alice'')) True demo_accounts
   = (Inr (), update_user ''7'' (\<lambda>u. u\<lparr>us_banned := True, us_updated_at := 9\<rparr>) demo_accounts)"
  by (simp add: set_user_banned_def demo_accounts_def empty_accounts_def demo_row_def)

theorem ban_locks_out_witness:
  "authenticate_token (\<lambda>t. t) 10 ''t''
     (update_user ''7'' (\<lambda>u. u\<lparr>us_banned := True, us_updated_at := 9\<rparr>) demo_accounts)
   \<notin> {Inr (Some q) | q. pu_id q = ''7''}"
  using ban_locks_out [OF demo_accounts_inv _ demo_ban, of "\<lambda>t. t" 10 "''t''"]
  by (auto simp: demo_accounts_def demo_row_def)

text \<open>The list of administrators is configuration: no account operation changes it.\<close>

lemma admin_ids_small:
  "admin_ids (snd (delete_user_account i db)) = admin_ids db"
  "admin_ids (snd (invalidate_user_sessions i db)) = admin_ids db"
  "admin_ids (snd (touch_session h now t db)) = admin_ids db"
  "create_session h now t i db = (r, db') \<Longrightarrow> admin_ids db' = admin_ids db"
  "insert_user u db = Some db' \<Longrightarrow> admin_ids db' = admin_ids db"
  "update_password_hash i hash now db = (r2, db') \<Longrightarrow> admin_ids db' = admin_ids db"
  "invalidate_user_sessions i db = (r2, db') \<Longrightarrow> admin_ids db' = admin_ids db"
  "delete_user_account i db = (r3, db') \<Longrightarrow> admin_ids db' = admin_ids db"
  by (auto simp: delete_user_account_def invalidate_user_sessions_def touch_session_def create_session_def
      insert_user_def update_password_hash_def Let_def split: if_splits option.splits sum.splits)

lemma admin_ids_purge_loop: "admin_ids (snd (purge_loop mn mx e us n db)) = admin_ids db"
  by (induction mn mx e us n db rule: purge_loop.induct)
    (auto split: sum.split prod.split dest: admin_ids_small(8))

lemma admin_ids_step: "admin_ids (acct_step lib op db) = admin_ids db"
proof (cases op)
  case (ORegister dr now n p)
  then show ?thesis
    by (auto simp: register_def Let_def split: sum.split option.split prod.split dest!: admin_ids_small(4,5))
next
  case (OLogin dr now n p)
  then show ?thesis
    by (auto simp: login_def Let_def split: sum.split option.split prod.split dest!: admin_ids_small(4))
next
  case (ORecover dr now n w p)
  then show ?thesis
    by (auto simp: recover_def Let_def split: sum.split option.split prod.split dest!: admin_ids_small(4,6,7))
next
  case (OMe now t)
  then show ?thesis using me_db [of "tok_hash lib" now t db] by (auto simp: admin_ids_small)
next
  case (ODeleteAccount now t p)
  then show ?thesis
    by (auto simp: delete_account_def Let_def admin_ids_small(1) split: sum.split option.split prod.split)
next
  case (OPurge a b mn mx c e)
  then show ?thesis
    using admin_ids_purge_loop [of mn mx e "purge_candidates a b c db" 0 db]
    by (auto simp: purge_accounts_def split: prod.split)
next
  case (ORename now i n)
  then show ?thesis
    by (auto simp: change_username_def Let_def split: sum.split option.split)
next
  case (OBadges now i bs)
  then show ?thesis
    by (auto simp: set_user_badges_def Let_def split: sum.split option.split)
next
  case (OBlock now i t)
  then show ?thesis by (auto simp: add_block_tag_def split: sum.split)
next
  case (OBlob i v b)
  then show ?thesis by (auto simp: put_social_blob_def split: sum.split prod.split)
qed (simp_all add: logout_def admin_ids_small(1,2) update_profile_def update_status_def
    set_user_disabled_def set_user_banned_def publish_prekey_def remove_block_tag_def)

lemma admin_ids_run: "admin_ids (fold (acct_step lib) ops db) = admin_ids db"
  by (induction ops arbitrary: db) (simp_all add: admin_ids_step)

text \<open>What a row shows under the invariant.\<close>

definition badges_genuine :: "string list \<Rightarrow> string \<Rightarrow> string list \<Rightarrow> bool" where
  "badges_genuine admins i shown \<longleftrightarrow> (''admin'' \<in> set shown \<longleftrightarrow> i \<in> set admins)
     \<and> ''staff'' \<notin> set shown \<and> ''system'' \<notin> set shown"

lemma user_badges_genuine:
  assumes "acct_inv db" "u \<in> set (users db)"
  shows "badges_genuine (admin_ids db) (us_id u) (user_badges db u)"
    and "{''admin'', ''staff'', ''system''} \<inter> set (us_custom_badges u) = {}"
proof -
  show custom: "{''admin'', ''staff'', ''system''} \<inter> set (us_custom_badges u) = {}"
    using assms by (auto simp: acct_inv_def user_ok_def badges_ok_def RESERVED_BADGES_def)
  then show "badges_genuine (admin_ids db) (us_id u) (user_badges db u)"
    by (auto simp: badges_genuine_def user_badges_def set_push_badges is_admin_def list_ex_iff)
qed

lemma set_user_badges_answer:
  assumes "acct_inv db" "set_user_badges now i badges db = (Inr p, db')"
  shows "\<exists>u. u \<in> set (users db') \<and> us_id u = i \<and> p = to_public_user db' u \<and> acct_inv db' \<and> admin_ids db' = admin_ids db"
proof -
  have inv: "acct_inv db'" using acct_inv_badges [OF assms(1), of now i badges] assms(2) by simp
  from assms(2) obtain u where "user_by_id db' i = Inr (Some u)" "p = to_public_user db' u" "admin_ids db' = admin_ids db"
    by (auto simp: set_user_badges_def Let_def split: if_splits sum.splits option.splits)
  with inv user_by_id_Some [of db' i u] show ?thesis by blast
qed

text \<open>C35: from a database without accounts and after any account operations, setting badges of any
  kind included, the admin badge a user shows is exactly the verdict of the configured list of
  administrators, and staff or system badges are never shown.  The answer of one more request to
  set any list of badges says the same of the account, and stores none of the three names: no
  stored badge can imitate one that only the server grants.\<close>

theorem admin_badge_genuine:
  fixes lib :: secret_lib and ops :: "acct_op list" and db :: account_db
  assumes "users db = []" "sessions db = []" "blocks db = []"
  defines "db' \<equiv> fold (acct_step lib) ops db"
  shows "(\<forall>u \<in> set (users db'). badges_genuine (admin_ids db) (us_id u) (user_badges db' u))
    \<and> (\<forall>now i badges p db''. set_user_badges now i badges db' = (Inr p, db'') \<longrightarrow>
         pu_id p = i \<and> badges_genuine (admin_ids db) i (pu_badges p)
         \<and> {''admin'', ''staff'', ''system''} \<inter> set (pu_custom_badges p) = {})"
proof -
  have "acct_inv db" using assms by (simp add: acct_inv_def)
  then have inv: "acct_inv db'"
    unfolding db'_def by (induction ops arbitrary: db) (auto intro: acct_inv_step)
  have admins: "admin_ids db' = admin_ids db" by (simp add: db'_def admin_ids_run)
  have answer: "pu_id p = i \<and> badges_genuine (admin_ids db) i (pu_badges p)
         \<and> {''admin'', ''staff'', ''system''} \<inter> set (pu_custom_badges p) = {}"
    if req: "set_user_badges now i badges db' = (Inr p, db'')" for now i badges p db''
  proof -
    from set_user_badges_answer [OF inv req] obtain u where
      u: "u \<in> set (users db'')" "us_id u = i" "p = to_public_user db'' u" "acct_inv db''" "admin_ids db'' = admin_ids db'"
      by blast
    from user_badges_genuine [OF u(4,1)] u(2,3,5) admins show ?thesis by (simp add: to_public_user_def)
  qed
  from user_badges_genuine(1) [OF inv] admins answer show ?thesis by auto
qed

text \<open>Alice asks for the badges \<open>Admin\<close> and \<open>early\<close>: only the second is stored.\<close>

lemma demo_badges:
  "sanitize_custom_badges [''Admin'', ''early''] = [''early'']"
  by code_simp

theorem admin_badge_genuine_witness:
  "''admin'' \<notin> set (user_badges (snd (set_user_badges 9 ''7'' [''Admin'', ''early''] demo_accounts))
      ((demo_row ''alice'')\<lparr>us_custom_badges := [''early''], us_updated_at := 9\<rparr>))"
proof -
  let ?ops = "[ORegister (demo_draws ''t'') 5 ''Alice'' ''password'', OBadges 9 ''7'' [''Admin'', ''early'']]"
  have run: "fold (acct_step demo_secrets) ?ops empty_accounts = snd (set_user_badges 9 ''7'' [''Admin'', ''early''] demo_accounts)"
    using demo_register by simp
  have row: "(demo_row ''alice'')\<lparr>us_custom_badges := [''early''], us_updated_at := 9\<rparr>
      \<in> set (users (snd (set_user_badges 9 ''7'' [''Admin'', ''early''] demo_accounts)))"
    by (simp add: set_user_badges_def Let_def demo_badges demo_accounts_def empty_accounts_def demo_row_def
        split: sum.split option.split)
  from admin_badge_genuine [of empty_accounts demo_secrets ?ops, unfolded run] row
  show ?thesis by (auto simp: empty_accounts_def badges_genuine_def demo_row_def)
qed

text \<open>C27: the two-row edit distance of the user search is the edit distance: the least cost of an
  alignment of the two texts.\<close>

theorem levenshtein_minimal: "levenshtein_distance a b = (LEAST n. aligns n a b)"
proof (rule Least_equality [symmetric])
  show "aligns (levenshtein_distance a b) a b"
    using aligns_rev [OF edit_aligns [of "rev a" "rev b"]] by (simp add: levenshtein_edit)
  show "levenshtein_distance a b \<le> n" if "aligns n a b" for n
    using that edit_least aligns_rev by (auto simp: levenshtein_edit)
qed

end
