(* ===== verification/Images.thy ===== *)
theory Images
  imports Models
begin

text \<open>
  Images: \<open>strip_image_metadata\<close> of \<open>services/user.rs\<close> and the codec detection of
  \<open>websocket/protocol.rs\<close>.  The loops over byte offsets are recursive functions on the offset.
  An index outside a slice is a panic.  Shown: what the metadata filter prints parses back as the
  input's chunks (PNG) or segments (JPEG) without the metadata ones, so the filter is idempotent,
  keeps every other chunk in order and lets no metadata chunk through; and the size detection
  never indexes out of bounds on any input.
\<close>

section \<open>PNG\<close>

definition PNG_SIG :: "byte list" where
  "PNG_SIG = [0x89, 0x50, 0x4e, 0x47, 0x0d, 0x0a, 0x1a, 0x0a]"

definition slice_of :: "byte list \<Rightarrow> nat \<Rightarrow> nat \<Rightarrow> byte list" where
  "slice_of bs i n = take n (drop i bs)"

definition png_metadata :: "byte list \<Rightarrow> bool" where
  "png_metadata ty \<longleftrightarrow> ty \<in> set (map utf8_bytes [''eXIf'', ''tEXt'', ''zTXt'', ''iTXt'', ''tIME'', ''pHYs'', ''iCCP''])"

definition IEND :: "byte list" where "IEND = utf8_bytes ''IEND''"

function png_loop :: "byte list \<Rightarrow> nat \<Rightarrow> byte list \<Rightarrow> byte list" where
  "png_loop bytes offset out =
     (if offset + 12 \<le> length bytes then
        (let len = be_nat (slice_of bytes offset 4);
             chunk_type = slice_of bytes (offset + 4) 4;
             total_chunk_len = 12 + len
         in if offset + total_chunk_len > length bytes then out
            else (let out' = (if \<not> png_metadata chunk_type then out @ slice_of bytes offset total_chunk_len else out)
                  in if chunk_type = IEND then out' else png_loop bytes (offset + total_chunk_len) out'))
      else out)"
  by pat_completeness auto
termination
  by (relation "measure (\<lambda>(bytes, offset, _). length bytes - offset)") auto

declare png_loop.simps [simp del]

section \<open>JPEG\<close>

function skip_ff :: "byte list \<Rightarrow> nat \<Rightarrow> nat" where
  "skip_ff bytes i = (if i < length bytes \<and> bytes ! i = 0xff then skip_ff bytes (i + 1) else i)"
  by pat_completeness auto
termination
  by (relation "measure (\<lambda>(bytes, i). length bytes - i)") auto

declare skip_ff.simps [simp del]

lemma skip_ff_le: "i \<le> skip_ff bytes i"
proof (induction bytes i rule: skip_ff.induct)
  case (1 bytes i)
  then show ?case by (subst skip_ff.simps) auto
qed

lemma skip_ff_drop: "i \<le> length bytes \<Longrightarrow> drop (skip_ff bytes i) bytes = dropWhile (\<lambda>b. b = 0xff) (drop i bytes)"
proof (induction bytes i rule: skip_ff.induct)
  case (1 bytes i)
  show ?case
  proof (cases "i < length bytes")
    case True
    then have "drop i bytes = bytes ! i # drop (Suc i) bytes" by (simp add: Cons_nth_drop_Suc)
    with 1 True show ?thesis by (subst skip_ff.simps) auto
  next
    case False
    with 1 show ?thesis by (subst skip_ff.simps) auto
  qed
qed

lemma skip_ff_bound: "i \<le> length bytes \<Longrightarrow> skip_ff bytes i \<le> length bytes"
proof (induction bytes i rule: skip_ff.induct)
  case (1 bytes i)
  then show ?case by (subst skip_ff.simps) auto
qed

definition jpeg_metadata :: "byte \<Rightarrow> bool" where
  "jpeg_metadata marker \<longleftrightarrow> marker \<in> {0xe1, 0xe2, 0xed, 0xfe}"

function jpeg_loop :: "byte list \<Rightarrow> nat \<Rightarrow> byte list \<Rightarrow> byte list" where
  "jpeg_loop bytes i out =
     (if i < length bytes then
        (if bytes ! i \<noteq> 0xff then out @ drop i bytes
         else (let j = skip_ff bytes i in
           if j \<ge> length bytes then out
           else (let marker = bytes ! j; k = j + 1 in
             if marker = 0xd9 then out @ [0xff, 0xd9]
             else if marker = 0xda then out @ [0xff, 0xda] @ drop k bytes
             else if k + 2 > length bytes then out
             else (let len = be_nat (slice_of bytes k 2) in
               if len < 2 \<or> k + len > length bytes then out
               else jpeg_loop bytes (k + len)
                 (if \<not> jpeg_metadata marker then out @ [0xff, marker] @ slice_of bytes k len else out)))))
      else out)"
  by pat_completeness auto
termination
proof (relation "measure (\<lambda>(bytes, i, _). length bytes - i)", goal_cases)
  case 1
  then show ?case by simp
next
  case (2 bytes i out j marker k len)
  with skip_ff_le [of i bytes] show ?case by auto
qed

declare jpeg_loop.simps [simp del]

definition strip_image_metadata :: "byte list \<Rightarrow> string \<Rightarrow> byte list" where
  "strip_image_metadata bytes mime_type =
     (if mime_type = ''image/png'' \<or> mime_type = ''image/apng'' then
        (if length bytes < 8 \<or> take 8 bytes \<noteq> PNG_SIG then bytes else png_loop bytes 8 PNG_SIG)
      else if mime_type = ''image/jpeg'' \<or> mime_type = ''image/jpg'' then
        (if length bytes < 4 \<or> take 2 bytes \<noteq> [0xff, 0xd8] then bytes else jpeg_loop bytes 2 [0xff, 0xd8])
      else bytes)"

section \<open>Codec detection\<close>

definition sof_markers :: "byte list" where
  "sof_markers = [0xc0, 0xc1, 0xc2, 0xc3, 0xc5, 0xc6, 0xc7, 0xc9, 0xca, 0xcb, 0xcd, 0xce, 0xcf]"

text \<open>Each use of \<open>bytes[k]\<close> panics when \<open>k\<close> is not below the length.  The \<open>None\<close> of the result is the
  error \<open>JPEG dimensions are invalid\<close>.\<close>

function jpeg_dim_loop :: "byte list \<Rightarrow> nat \<Rightarrow> (nat \<times> nat) option outcome" where
  "jpeg_dim_loop bytes i =
     (if i + 9 < length bytes then
        (if \<not> i < length bytes then Panic
         else if bytes ! i \<noteq> 0xff then jpeg_dim_loop bytes (i + 1)
         else (let j = skip_ff bytes i in
           if j \<ge> length bytes then Ret None
           else if \<not> j < length bytes then Panic
           else (let marker = bytes ! j; k = j + 1 in
             if marker \<in> {0xd8, 0xd9, 0x01} then jpeg_dim_loop bytes k
             else if k + 1 \<ge> length bytes then Ret None
             else if \<not> k + 1 < length bytes then Panic
             else (let len = be_nat (slice_of bytes k 2) in
               if len < 2 \<or> k + len > length bytes then Ret None
               else if marker \<in> set sof_markers then
                 (if len < 7 \<or> k + 6 \<ge> length bytes then Ret None
                  else if \<not> k + 6 < length bytes then Panic
                  else Ret (Some (be_nat (slice_of bytes (k + 5) 2), be_nat (slice_of bytes (k + 3) 2))))
               else jpeg_dim_loop bytes (k + len)))))
      else Ret None)"
  by pat_completeness auto
termination
proof (relation "measure (\<lambda>(bytes, i). length bytes - i)", goal_cases)
  case 1
  then show ?case by simp
next
  case (2 bytes i)
  then show ?case by auto
next
  case (3 bytes i j marker k)
  with skip_ff_le [of i bytes] show ?case by auto
next
  case (4 bytes i j marker k len)
  with skip_ff_le [of i bytes] show ?case by auto
qed

declare jpeg_dim_loop.simps [simp del]

text \<open>An array of consecutive bytes \<open>[bytes[i], .., bytes[i + n - 1]]\<close>: the first index that is not
  below the length panics.\<close>

definition index_bytes :: "byte list \<Rightarrow> nat \<Rightarrow> nat \<Rightarrow> byte list outcome" where
  "index_bytes bytes i n = (if i + n \<le> length bytes then Ret (slice_of bytes i n) else Panic)"

text \<open>A result made of two reads, in their order.\<close>

fun both_reads :: "('a \<Rightarrow> 'b \<Rightarrow> 'c) \<Rightarrow> 'a outcome \<Rightarrow> 'b outcome \<Rightarrow> 'c outcome" where
  "both_reads f (Ret a) (Ret b) = Ret (f a b)"
| "both_reads f (Ret a) Panic = Panic"
| "both_reads f (Ret a) Diverge = Diverge"
| "both_reads f Panic _ = Panic"
| "both_reads f Diverge _ = Diverge"

definition detect_profile_image :: "byte list \<Rightarrow> string \<Rightarrow> (string + string \<times> nat \<times> nat) outcome" where
  "detect_profile_image bytes declared_mime =
     (let declared = str_ascii_lower declared_mime in
      if length bytes \<ge> 24 \<and> take 8 bytes = PNG_SIG then
        (if declared \<noteq> [] \<and> declared \<noteq> ''image/png'' \<and> declared \<noteq> ''image/apng'' then
           Ret (Inl ''Profile image MIME does not match PNG/APNG data'')
         else both_reads (\<lambda>w h. Inr (''image/png'', be_nat w, be_nat h))
           (index_bytes bytes 16 4) (index_bytes bytes 20 4))
      else if length bytes \<ge> 10 \<and> (take 6 bytes = utf8_bytes ''GIF87a'' \<or> take 6 bytes = utf8_bytes ''GIF89a'') then
        (if declared \<noteq> [] \<and> declared \<noteq> ''image/gif'' then
           Ret (Inl ''Profile image MIME does not match GIF data'')
         else both_reads (\<lambda>w h. Inr (''image/gif'', le_nat w, le_nat h))
           (index_bytes bytes 6 2) (index_bytes bytes 8 2))
      else if length bytes \<ge> 4 \<and> take 2 bytes = [0xff, 0xd8] then
        (if declared \<noteq> [] \<and> declared \<noteq> ''image/jpeg'' \<and> declared \<noteq> ''image/jpg'' then
           Ret (Inl ''Profile image MIME does not match JPEG data'')
         else (case jpeg_dim_loop bytes 2 of
             Ret None \<Rightarrow> Ret (Inl ''JPEG dimensions are invalid'')
           | Ret (Some (width, height)) \<Rightarrow> Ret (Inr (''image/jpeg'', width, height))
           | Panic \<Rightarrow> Panic | Diverge \<Rightarrow> Diverge))
      else Ret (Inl ''Unsupported profile image codec''))"

section \<open>The filter on a PNG\<close>

text \<open>The chunks of a byte string, read the way the loop reads them.\<close>

function png_chunks :: "byte list \<Rightarrow> byte list list" where
  "png_chunks rest =
     (if 12 \<le> length rest then
        (let total = 12 + be_nat (take 4 rest) in
         if total > length rest then []
         else if take 4 (drop 4 rest) = IEND then [take total rest]
         else take total rest # png_chunks (drop total rest))
      else [])"
  by pat_completeness auto
termination
  by (relation "measure length") auto

declare png_chunks.simps [simp del]

definition chunk_type :: "byte list \<Rightarrow> byte list" where
  "chunk_type c = take 4 (drop 4 c)"

definition chunk_kept :: "byte list \<Rightarrow> bool" where
  "chunk_kept c \<longleftrightarrow> \<not> png_metadata (chunk_type c)"

lemma take_slice: "n \<le> m \<Longrightarrow> take n (take m xs) = take n xs"
  by (simp add: min_def)

lemma chunk_type_take: "12 \<le> m \<Longrightarrow> chunk_type (take m xs) = take 4 (drop 4 xs)"
  by (simp add: chunk_type_def drop_take take_slice)

lemma png_loop_stop:
  "\<not> (offset + 12 \<le> length bytes \<and> offset + (12 + be_nat (slice_of bytes offset 4)) \<le> length bytes) \<Longrightarrow>
   png_loop bytes offset out = out"
  by (subst png_loop.simps) (simp only: Let_def not_le split: if_split, auto)

lemma png_chunks_stop:
  "\<not> (12 \<le> length rest \<and> 12 + be_nat (take 4 rest) \<le> length rest) \<Longrightarrow> png_chunks rest = []"
  by (subst png_chunks.simps) (simp only: Let_def not_le split: if_split, auto)

lemma png_chunks_step:
  "12 \<le> length rest \<Longrightarrow> 12 + be_nat (take 4 rest) \<le> length rest \<Longrightarrow>
   png_chunks rest = take (12 + be_nat (take 4 rest)) rest
     # (if take 4 (drop 4 rest) = IEND then [] else png_chunks (drop (12 + be_nat (take 4 rest)) rest))"
  by (subst png_chunks.simps) (simp add: Let_def)

lemma png_loop_step:
  "offset + 12 \<le> length bytes \<Longrightarrow> offset + (12 + be_nat (slice_of bytes offset 4)) \<le> length bytes \<Longrightarrow>
   png_loop bytes offset out =
     (let n = 12 + be_nat (slice_of bytes offset 4);
          out' = (if \<not> png_metadata (slice_of bytes (offset + 4) 4) then out @ slice_of bytes offset n else out)
      in if slice_of bytes (offset + 4) 4 = IEND then out' else png_loop bytes (offset + n) out')"
  by (subst png_loop.simps) (simp add: Let_def)

lemma png_loop_chunks:
  "offset \<le> length bytes \<Longrightarrow>
   png_loop bytes offset out = out @ concat (filter chunk_kept (png_chunks (drop offset bytes)))"
proof (induction bytes offset out rule: png_loop.induct)
  case (1 bytes offset out)
  let ?n = "12 + be_nat (slice_of bytes offset 4)"
  let ?rest = "drop offset bytes"
  show ?case
  proof (cases "offset + 12 \<le> length bytes \<and> offset + ?n \<le> length bytes")
    case False
    then have "\<not> (12 \<le> length ?rest \<and> 12 + be_nat (take 4 ?rest) \<le> length ?rest)"
      using "1.prems" unfolding slice_of_def length_drop by linarith
    from png_chunks_stop [OF this] png_loop_stop [OF False] show ?thesis by simp
  next
    case True
    let ?out = "if \<not> png_metadata (slice_of bytes (offset + 4) 4) then out @ slice_of bytes offset ?n else out"
    have ty: "take 4 (drop 4 ?rest) = slice_of bytes (offset + 4) 4" by (simp add: slice_of_def add.commute)
    have le: "12 \<le> length ?rest" "12 + be_nat (take 4 ?rest) \<le> length ?rest"
      using True unfolding slice_of_def length_drop by linarith+
    have kept: "chunk_kept (slice_of bytes offset ?n) \<longleftrightarrow> \<not> png_metadata (slice_of bytes (offset + 4) 4)"
      unfolding chunk_kept_def slice_of_def [of bytes offset] by (subst chunk_type_take, simp) (simp only: ty slice_of_def)
    have chunks: "png_chunks ?rest = slice_of bytes offset ?n
        # (if slice_of bytes (offset + 4) 4 = IEND then [] else png_chunks (drop (offset + ?n) bytes))"
      using png_chunks_step [OF le] unfolding ty by (simp add: slice_of_def add.commute)
    have IH: "png_loop bytes (offset + ?n) ?out
        = ?out @ concat (filter chunk_kept (png_chunks (drop (offset + ?n) bytes)))"
      if "slice_of bytes (offset + 4) 4 \<noteq> IEND"
      using "1.IH" [OF _ refl refl refl _ refl that] True by simp
    from True have t: "offset + 12 \<le> length bytes" "offset + ?n \<le> length bytes" by auto
    show ?thesis
      unfolding png_loop_step [OF t] chunks Let_def using IH kept by simp
  qed
qed

text \<open>A chunk as the reader wants it, and a list of them with the end chunk only at the end.\<close>

definition chunk_wf :: "byte list \<Rightarrow> bool" where
  "chunk_wf c \<longleftrightarrow> 12 \<le> length c \<and> length c = 12 + be_nat (take 4 c)"

fun chunks_wf :: "byte list list \<Rightarrow> bool" where
  "chunks_wf [] = True"
| "chunks_wf (c # cs) = (chunk_wf c \<and> (chunk_type c = IEND \<longrightarrow> cs = []) \<and> chunks_wf cs)"

lemma png_chunks_wf: "chunks_wf (png_chunks rest)"
proof (induction rest rule: png_chunks.induct)
  case (1 rest)
  show ?case
  proof (cases "12 \<le> length rest \<and> 12 + be_nat (take 4 rest) \<le> length rest")
    case True
    then have t: "12 \<le> length rest" "12 + be_nat (take 4 rest) \<le> length rest" by auto
    have "chunk_wf (take (12 + be_nat (take 4 rest)) rest)"
      "chunk_type (take (12 + be_nat (take 4 rest)) rest) = take 4 (drop 4 rest)"
      using t by (simp_all add: chunk_wf_def chunk_type_take take_slice)
    with "1.IH" [OF t(1) refl] t show ?thesis
      unfolding png_chunks_step [OF t] by auto
  next
    case False
    from png_chunks_stop [OF this] show ?thesis by simp
  qed
qed

lemma chunks_wf_filter: "chunks_wf cs \<Longrightarrow> chunks_wf (filter P cs)"
  by (induction cs) auto

lemma png_chunks_concat: "chunks_wf cs \<Longrightarrow> png_chunks (concat cs) = cs"
proof (induction cs)
  case Nil
  show ?case by (simp add: png_chunks_stop)
next
  case (Cons c cs)
  let ?r = "c @ concat cs" and ?n = "12 + be_nat (take 4 c)"
  have c: "12 \<le> length c" "length c = ?n" using Cons.prems unfolding chunks_wf.simps chunk_wf_def by blast+
  have tk: "take 4 ?r = take 4 c" "take 4 (drop 4 ?r) = chunk_type c"
    using c(1) by (simp_all add: chunk_type_def)
  have t: "12 \<le> length ?r" "12 + be_nat (take 4 ?r) \<le> length ?r"
    unfolding tk length_append using c by linarith+
  have cut: "take ?n ?r = c" "drop ?n ?r = concat cs"
    using c(2) by (metis append_eq_conv_conj)+
  from Cons show ?case
    using png_chunks_step [OF t] unfolding tk cut by auto
qed

section \<open>The filter on a JPEG\<close>

datatype jseg = JSeg byte "byte list" | JScan "byte list" | JEoi | JRaw "byte list"

fun seg_bytes :: "jseg \<Rightarrow> byte list" where
  "seg_bytes (JSeg m p) = [0xff, m] @ p"
| "seg_bytes (JScan r) = [0xff, 0xda] @ r"
| "seg_bytes JEoi = [0xff, 0xd9]"
| "seg_bytes (JRaw r) = r"

fun seg_kept :: "jseg \<Rightarrow> bool" where
  "seg_kept (JSeg m p) = (\<not> jpeg_metadata m)"
| "seg_kept _ = True"

function jpeg_segs :: "byte list \<Rightarrow> jseg list" where
  "jpeg_segs [] = []"
| "jpeg_segs (b # bs) =
     (if b \<noteq> 0xff then [JRaw (b # bs)]
      else (case dropWhile (\<lambda>b. b = 0xff) bs of
          [] \<Rightarrow> []
        | m # r \<Rightarrow>
          if m = 0xd9 then [JEoi]
          else if m = 0xda then [JScan r]
          else if length r < 2 \<or> be_nat (take 2 r) < 2 \<or> be_nat (take 2 r) > length r then []
          else JSeg m (take (be_nat (take 2 r)) r) # jpeg_segs (drop (be_nat (take 2 r)) r)))"
  by pat_completeness auto
termination
proof (relation "measure length", goal_cases)
  case (2 b bs m r)
  then have "length (m # r) \<le> length bs" by (metis length_dropWhile_le)
  then show ?case by simp
qed simp

declare jpeg_segs.simps(2) [simp del]

lemma jpeg_loop_segs:
  "i \<le> length bytes \<Longrightarrow>
   jpeg_loop bytes i out = out @ concat (map seg_bytes (filter seg_kept (jpeg_segs (drop i bytes))))"
proof (induction bytes i out rule: jpeg_loop.induct)
  case (1 bytes i out)
  show ?case
  proof (cases "i < length bytes \<and> bytes ! i = 0xff")
    case False
    show ?thesis
    proof (cases "i < length bytes")
      case True
      with False have d: "drop i bytes = bytes ! i # drop (Suc i) bytes" "bytes ! i \<noteq> 0xff"
        by (simp_all add: Cons_nth_drop_Suc)
      then show ?thesis
        using True by (subst jpeg_loop.simps, subst d(1), subst jpeg_segs.simps) simp
    qed (subst jpeg_loop.simps, simp)
  next
    case True
    let ?j = "skip_ff bytes i" let ?k = "?j + 1"
    have d: "drop i bytes = 0xff # drop (Suc i) bytes"
      using True by (metis Cons_nth_drop_Suc)
    have dw: "dropWhile (\<lambda>b. b = 0xff) (drop (Suc i) bytes) = drop ?j bytes"
      using skip_ff_drop [of i bytes] True by (simp add: d)
    have segs: "jpeg_segs (drop i bytes) = (case drop ?j bytes of [] \<Rightarrow> []
        | m # r \<Rightarrow> if m = 0xd9 then [JEoi] else if m = 0xda then [JScan r]
          else if length r < 2 \<or> be_nat (take 2 r) < 2 \<or> be_nat (take 2 r) > length r then []
          else JSeg m (take (be_nat (take 2 r)) r) # jpeg_segs (drop (be_nat (take 2 r)) r))"
      by (simp only: d jpeg_segs.simps(2) dw) simp
    show ?thesis
    proof (cases "?j < length bytes")
      case False
      with True segs show ?thesis by (subst jpeg_loop.simps) simp
    next
      case j: True
      then have dj: "drop ?j bytes = bytes ! ?j # drop ?k bytes" by (simp add: Cons_nth_drop_Suc)
      let ?m = "bytes ! ?j" let ?len = "be_nat (slice_of bytes ?k 2)"
      let ?out = "if \<not> jpeg_metadata ?m then out @ [0xff, ?m] @ slice_of bytes ?k ?len else out"
      have IH: "jpeg_loop bytes (?k + ?len) ?out
          = ?out @ concat (map seg_bytes (filter seg_kept (jpeg_segs (drop (?k + ?len) bytes))))"
        if "?m \<noteq> 0xd9" "?m \<noteq> 0xda" "\<not> ?k + 2 > length bytes" "\<not> (?len < 2 \<or> ?k + ?len > length bytes)"
        using "1.IH" [OF _ _ refl _ refl refl that(1,2,3) refl that(4)] True j that(4) by simp
      show ?thesis
        using True j segs IH
        by (subst jpeg_loop.simps) (auto simp: dj slice_of_def Let_def add.commute not_less)
    qed
  qed
qed

text \<open>Segments as the reader wants them: those without a length only at the end.\<close>

fun segs_wf :: "jseg list \<Rightarrow> bool" where
  "segs_wf [] = True"
| "segs_wf (JSeg m p # segs) = (m \<notin> {0xff, 0xd9, 0xda} \<and> 2 \<le> length p \<and> be_nat (take 2 p) = length p \<and> segs_wf segs)"
| "segs_wf (JRaw r # segs) = (segs = [] \<and> r \<noteq> [] \<and> hd r \<noteq> 0xff)"
| "segs_wf (JScan r # segs) = (segs = [])"
| "segs_wf (JEoi # segs) = (segs = [])"

lemma jpeg_segs_wf: "segs_wf (jpeg_segs rest)"
proof (induction rest rule: jpeg_segs.induct)
  case 1
  then show ?case by simp
next
  case (2 b bs)
  show ?case
  proof (cases "dropWhile (\<lambda>b. b = 0xff) bs")
    case Nil
    show ?thesis unfolding jpeg_segs.simps(2) Nil by simp
  next
    case (Cons m r)
    then have "m \<noteq> 0xff" using hd_dropWhile [of "\<lambda>b. b = 0xff" bs] by simp
    with 2 Cons show ?thesis
      by (subst jpeg_segs.simps) (auto simp: min_def not_less)
  qed
qed

lemma segs_wf_filter: "segs_wf segs \<Longrightarrow> segs_wf (filter seg_kept segs)"
  by (induction segs rule: segs_wf.induct) auto

lemma jpeg_segs_print: "segs_wf segs \<Longrightarrow> jpeg_segs (concat (map seg_bytes segs)) = segs"
proof (induction segs rule: segs_wf.induct)
  case 1
  then show ?case by simp
next
  case (2 m p segs)
  have "take 2 (p @ concat (map seg_bytes segs)) = take 2 p" using 2 by simp
  moreover have "length p \<le> length (p @ concat (map seg_bytes segs))" by simp
  ultimately show ?case using 2 by (simp add: jpeg_segs.simps(2))
next
  case (3 r segs)
  then show ?case by (cases r) (auto simp: jpeg_segs.simps(2))
qed (auto simp: jpeg_segs.simps(2))

lemma jpeg_segs_bytes_cons: "jpeg_segs (0xff # bs) = (case dropWhile (\<lambda>b. b = 0xff) bs of [] \<Rightarrow> []
        | m # r \<Rightarrow> if m = 0xd9 then [JEoi] else if m = 0xda then [JScan r]
          else if length r < 2 \<or> be_nat (take 2 r) < 2 \<or> be_nat (take 2 r) > length r then []
          else JSeg m (take (be_nat (take 2 r)) r) # jpeg_segs (drop (be_nat (take 2 r)) r))"
  by (simp only: jpeg_segs.simps(2)) simp

section \<open>No index out of bounds\<close>

definition returns :: "('a \<Rightarrow> bool) \<Rightarrow> 'a outcome \<Rightarrow> bool" where
  "returns P r \<longleftrightarrow> (case r of Ret x \<Rightarrow> P x | _ \<Rightarrow> False)"

lemma returns_Ret: "P x \<Longrightarrow> returns P (Ret x)"
  by (simp add: returns_def)

lemma returns_if: "(Q \<Longrightarrow> returns P a) \<Longrightarrow> (\<not> Q \<Longrightarrow> returns P b) \<Longrightarrow> returns P (if Q then a else b)"
  by simp

lemma be_nat_bound: "be_nat bs < 256 ^ length bs"
proof (induction bs rule: rev_induct)
  case (snoc b bs)
  have "unat b < 256" using unsigned_less [of b] by simp
  with snoc show ?case by (simp add: be_nat_def)
qed (simp add: be_nat_def)

lemma index_bytes_returns: "i + n \<le> length bytes \<Longrightarrow> returns (\<lambda>x. length x = n) (index_bytes bytes i n)"
  by (simp add: index_bytes_def returns_def slice_of_def)

lemma both_reads_returns:
  "returns P a \<Longrightarrow> returns Q b \<Longrightarrow> (\<And>x y. P x \<Longrightarrow> Q y \<Longrightarrow> R (f x y)) \<Longrightarrow> returns R (both_reads f a b)"
  by (cases a; cases b) (auto simp: returns_def)

text \<open>Two bytes fit 16 bits.\<close>

definition dims16 :: "(nat \<times> nat) option \<Rightarrow> bool" where
  "dims16 d = (case d of None \<Rightarrow> True | Some (w, h) \<Rightarrow> w < 2 ^ 16 \<and> h < 2 ^ 16)"

lemma dims16_None: "dims16 None"
  by (simp add: dims16_def)

lemma be_nat_slice2: "be_nat (slice_of bytes i 2) < 2 ^ 16"
proof -
  have "length (slice_of bytes i 2) \<le> 2" by (simp add: slice_of_def)
  then have "(256 :: nat) ^ length (slice_of bytes i 2) \<le> 256 ^ 2" by (rule power_increasing) simp
  with be_nat_bound [of "slice_of bytes i 2"] show ?thesis by simp
qed

lemma dims16_slices: "dims16 (Some (be_nat (slice_of bytes i 2), be_nat (slice_of bytes j 2)))"
  unfolding dims16_def option.case prod.case by (intro conjI be_nat_slice2)

lemma jpeg_dim_no_panic: "returns dims16 (jpeg_dim_loop bytes i)"
proof (induction "length bytes - i" arbitrary: i rule: less_induct)
  case less
  have IH: "returns dims16 (jpeg_dim_loop bytes k)" if "i < k" "i < length bytes" for k
    using less that by simp
  have le: "i \<le> skip_ff bytes i" by (rule skip_ff_le)
  show ?case
  proof (cases "i + 9 < length bytes")
    case False
    then have "jpeg_dim_loop bytes i = Ret None" by (subst jpeg_dim_loop.simps) simp
    then show ?thesis by (simp add: returns_Ret dims16_None)
  next
    case True
    then have lt: "i < length bytes" by simp
    have up: "i < i + 1" "i < skip_ff bytes i + 1" "i < skip_ff bytes i + 1 + n" for n using le by simp_all
    show ?thesis
      unfolding jpeg_dim_loop.simps [of bytes i] Let_def
      by (intro returns_if returns_Ret dims16_None dims16_slices IH lt up; (linarith | use lt in blast)?)
  qed
qed

text \<open>An answer of the detection that agrees with the bytes: the signature of the codec is there and
  the dimensions fit the \<open>u32\<close> they are returned as.\<close>

definition detected :: "byte list \<Rightarrow> string + string \<times> nat \<times> nat \<Rightarrow> bool" where
  "detected bytes r \<longleftrightarrow> (case r of Inl _ \<Rightarrow> True | Inr (mime, w, h) \<Rightarrow> w < 2 ^ 32 \<and> h < 2 ^ 32
     \<and> (mime = ''image/png'' \<and> take 8 bytes = PNG_SIG
        \<or> mime = ''image/gif'' \<and> take 4 bytes = utf8_bytes ''GIF8''
        \<or> mime = ''image/jpeg'' \<and> take 2 bytes = [0xff, 0xd8]))"

lemma be_nat_u32: "length bs \<le> 4 \<Longrightarrow> be_nat bs < 2 ^ 32"
proof -
  assume "length bs \<le> 4"
  then have "(256 :: nat) ^ length bs \<le> 256 ^ 4" by (rule power_increasing) simp
  with be_nat_bound [of bs] show ?thesis by simp
qed

lemma be_nat_u32': "length bs = n \<Longrightarrow> n \<le> 4 \<Longrightarrow> be_nat bs < 4294967296"
  using be_nat_u32 [of bs] by simp

lemma take4_GIF:
  assumes "take 6 bytes = utf8_bytes (''GIF8'' @ v)"
  shows "take 4 bytes = utf8_bytes ''GIF8''"
proof -
  have "take 4 (take 6 bytes) = take 4 (utf8_bytes (''GIF8'' @ v))" using assms by simp
  then show ?thesis by (simp add: utf8_bytes_def char_bytes_def)
qed

lemma detect_returns: "returns (detected bytes) (detect_profile_image bytes declared)"
proof -
  have png: "returns (detected bytes) (both_reads (\<lambda>w h. Inr (''image/png'', be_nat w, be_nat h))
      (index_bytes bytes 16 4) (index_bytes bytes 20 4))"
    if "24 \<le> length bytes" "take 8 bytes = PNG_SIG"
    by (rule both_reads_returns [OF index_bytes_returns index_bytes_returns])
      (use that in \<open>auto simp: detected_def intro: be_nat_u32'\<close>)
  have gif: "returns (detected bytes) (both_reads (\<lambda>w h. Inr (''image/gif'', le_nat w, le_nat h))
      (index_bytes bytes 6 2) (index_bytes bytes 8 2))"
    if "10 \<le> length bytes" "take 4 bytes = utf8_bytes ''GIF8''"
    by (rule both_reads_returns [OF index_bytes_returns index_bytes_returns])
      (use that in \<open>auto simp: detected_def le_nat_def intro: be_nat_u32'\<close>)
  have jpeg: "returns (detected bytes) (case jpeg_dim_loop bytes 2 of
             Ret None \<Rightarrow> Ret (Inl ''JPEG dimensions are invalid'')
           | Ret (Some (width, height)) \<Rightarrow> Ret (Inr (''image/jpeg'', width, height))
           | Panic \<Rightarrow> Panic | Diverge \<Rightarrow> Diverge)"
    if "take 2 bytes = [0xff, 0xd8]"
    using jpeg_dim_no_panic [of bytes 2] that
    by (auto simp: returns_def detected_def dims16_def split: outcome.splits option.splits)
  have err: "returns (detected bytes) (Ret (Inl e))" for e by (simp add: returns_def detected_def)
  show ?thesis
    unfolding detect_profile_image_def Let_def
    using png gif jpeg err take4_GIF [of bytes "''7a''"] take4_GIF [of bytes "''9a''"]
    by (intro returns_if) auto
qed

section \<open>Properties\<close>

text \<open>C28: what the metadata filter stores of a PNG parses as exactly the chunks of the upload that are
  not metadata, in their order: no EXIF, text, time, physical-size or colour-profile chunk
  survives, nothing else is lost, and filtering again changes nothing.\<close>

theorem png_metadata_stripped:
  assumes "8 \<le> length bytes" "take 8 bytes = PNG_SIG" and "mime \<in> {''image/png'', ''image/apng''}"
  shows "take 8 (strip_image_metadata bytes mime) = PNG_SIG
    \<and> png_chunks (drop 8 (strip_image_metadata bytes mime)) = filter chunk_kept (png_chunks (drop 8 bytes))
    \<and> strip_image_metadata (strip_image_metadata bytes mime) mime = strip_image_metadata bytes mime"
proof -
  have sig: "length PNG_SIG = 8" by (simp add: PNG_SIG_def)
  have out: "strip_image_metadata b mime = PNG_SIG @ concat (filter chunk_kept (png_chunks (drop 8 b)))"
    if "8 \<le> length b" "take 8 b = PNG_SIG" for b
    using that assms(3) by (auto simp: strip_image_metadata_def png_loop_chunks)
  let ?cs = "filter chunk_kept (png_chunks (drop 8 bytes))"
  have cs: "png_chunks (concat ?cs) = ?cs"
    by (intro png_chunks_concat chunks_wf_filter png_chunks_wf)
  have eq: "strip_image_metadata bytes mime = PNG_SIG @ concat ?cs" by (rule out [OF assms(1,2)])
  have t: "take 8 (PNG_SIG @ concat ?cs) = PNG_SIG" "drop 8 (PNG_SIG @ concat ?cs) = concat ?cs"
    "8 \<le> length (PNG_SIG @ concat ?cs)"
    using sig by simp_all
  show ?thesis
    unfolding eq out [OF t(3,1)] using t cs by simp
qed

theorem png_metadata_stripped_witness:
  "png_chunks (drop 8 (strip_image_metadata (PNG_SIG @ [0, 0, 0, 1] @ utf8_bytes ''tEXt'' @ [65, 1, 2, 3, 4]) ''image/png''))
   = []"
proof -
  let ?c = "[0, 0, 0, 1] @ utf8_bytes ''tEXt'' @ [65, 1, 2, 3, 4 :: byte]"
  have len: "length PNG_SIG = 8" by (simp add: PNG_SIG_def)
  have b: "utf8_bytes ''tEXt'' = [116, 69, 88, 116]" by (simp add: utf8_bytes_def char_bytes_def)
  have wf: "chunks_wf [?c]" by (simp add: chunk_wf_def b be_nat_def)
  from png_chunks_concat [OF wf] have cs: "png_chunks ?c = [?c]" by simp
  have meta: "\<not> chunk_kept ?c" by (simp add: chunk_kept_def chunk_type_def png_metadata_def b)
  from png_metadata_stripped [of "PNG_SIG @ ?c" "''image/png''"] len cs meta show ?thesis
    by simp
qed

text \<open>C29: what the filter stores of a JPEG parses as the segments of the upload without the EXIF,
  ICC, IPTC and comment segments, with the scan data untouched.\<close>

theorem jpeg_metadata_stripped:
  assumes "4 \<le> length bytes" "take 2 bytes = [0xff, 0xd8]" and "mime \<in> {''image/jpeg'', ''image/jpg''}"
  shows "jpeg_segs (drop 2 (strip_image_metadata bytes mime)) = filter seg_kept (jpeg_segs (drop 2 bytes))
    \<and> take 2 (strip_image_metadata bytes mime) = [0xff, 0xd8]"
proof -
  let ?ss = "filter seg_kept (jpeg_segs (drop 2 bytes))"
  have "strip_image_metadata bytes mime = [0xff, 0xd8] @ concat (map seg_bytes ?ss)"
    using assms by (auto simp: strip_image_metadata_def jpeg_loop_segs)
  moreover have "jpeg_segs (concat (map seg_bytes ?ss)) = ?ss"
    by (intro jpeg_segs_print segs_wf_filter jpeg_segs_wf)
  ultimately show ?thesis by simp
qed

theorem jpeg_metadata_stripped_witness:
  "jpeg_segs (drop 2 (strip_image_metadata [0xff, 0xd8, 0xff, 0xe1, 0, 2, 0xff, 0xd9] ''image/jpeg'')) = [JEoi]"
  using jpeg_metadata_stripped [of "[0xff, 0xd8, 0xff, 0xe1, 0, 2, 0xff, 0xd9]" "''image/jpeg''"]
  by (simp add: jpeg_segs.simps(2) be_nat_def jpeg_metadata_def)

text \<open>C30: reading the dimensions of an uploaded image never panics and always ends, whatever the
  bytes and the declared type: every index of the PNG, GIF and JPEG readers is within the bytes.
  The answer agrees with the bytes: a codec is reported only with its signature, and the
  dimensions fit 32 bits.\<close>

theorem detect_no_panic: "\<exists>r. detect_profile_image bytes declared = Ret r \<and> detected bytes r"
  using detect_returns [of bytes declared] by (auto simp: returns_def split: outcome.splits)

end
