(* ===== verification/App_State.thy ===== *)
theory App_State
  imports Accounts_Inv Images
begin

text \<open>
  \<open>core/presence.rs\<close>, the room half of \<open>core/database.rs\<close>, upload storage of \<open>services/user.rs\<close>
  and the helpers every socket handler of \<open>websocket/protocol.rs\<close> uses: the shared state, the
  session table, sending to sessions and rooms, who is in a room and who is visible there.  A
  handler is a function from the state to the answer and the state; it is atomic, as if every
  lock it takes were held until it returns.  The queue of a session is the list of messages not
  yet written to its socket; a full queue drops the message, as \<open>try_send\<close> does.  A message is
  the JSON value whose text is sent.  The collection \<open>frame\<close> says what sending leaves unchanged.
\<close>

definition PER_SESSION_QUEUE :: nat where "PER_SESSION_QUEUE = 512"
definition MAX_CONCURRENT_SESSIONS :: nat where "MAX_CONCURRENT_SESSIONS = 5000"
definition MIN_ROOM_ID_LEN :: nat where "MIN_ROOM_ID_LEN = 8"
definition MAX_ROOM_ID_LEN :: nat where "MAX_ROOM_ID_LEN = 64"
definition SYSTEM_USERNAME :: string where "SYSTEM_USERNAME = ''system''"

datatype ws_msg = WText json | WClose

text \<open>The sending half \<open>tx\<close> of a session's queue is named by the session's \<open>id\<close>: both are fixed
  together when the connection is registered.\<close>

record player_session =
  ps_id :: string
  ps_user_id :: string
  ps_is_admin :: bool
  ps_badges :: "string list"
  ps_username :: string
  ps_rooms :: "string list"
  ps_voice :: bool
  ps_call_room :: "string option"
  ps_camera :: bool
  ps_screen :: bool
  ps_deafened :: bool
  ps_client_id :: string
  ps_platform :: string
  ps_version :: string
  ps_last_message :: "nat option"
  ps_mobile :: "bool option"
  ps_secure :: "bool option"
  ps_muted :: "string list"
  ps_delete_on_leave :: bool
  ps_profile :: user_profile
  ps_status :: presence_status
  ps_identified_at :: nat
  ps_last_revalidation :: nat

definition is_call_in_room :: "player_session \<Rightarrow> string \<Rightarrow> bool" where
  "is_call_in_room p game_id \<longleftrightarrow> ps_voice p \<and> (case ps_call_room p of None \<Rightarrow> True | Some room \<Rightarrow> room = game_id)"

record poll_tally =
  pt_voters :: "string list"
  pt_counts :: "nat list"

record runtime_counters =
  messages_relayed :: nat
  sessions_opened :: nat
  peak_sessions :: nat

record net_config =
  latest_version :: string
  heartbeat_interval :: nat
  upload_public_base :: string

record app_state =
  config :: net_config
  runtime :: runtime_counters
  players :: "(string \<times> player_session) list"
  room_messages :: "(string \<times> chat_message list) list"
  rooms :: "(string \<times> room_record) list"
  rooms_read_ok :: bool
  rooms_write_ok :: bool
  accounts :: account_db
  limits :: rate_limits
  profile_cache :: "(string \<times> nat \<times> json) list"
  call_access_overrides :: "string list"
  poll_tallies :: "(string \<times> poll_tally) list"
  outbox :: "string \<Rightarrow> ws_msg list"
  disk :: "(string \<times> byte list) list"
  disk_ok :: bool

definition record_message :: "app_state \<Rightarrow> app_state" where
  "record_message s = s\<lparr>runtime := (runtime s)\<lparr>messages_relayed := messages_relayed (runtime s) + 1\<rparr>\<rparr>"

definition record_session_opened :: "nat \<Rightarrow> app_state \<Rightarrow> app_state" where
  "record_session_opened live s = s\<lparr>runtime := (runtime s)\<lparr>sessions_opened := sessions_opened (runtime s) + 1,
     peak_sessions := max (peak_sessions (runtime s)) live\<rparr>\<rparr>"

section \<open>Sending\<close>

definition try_send :: "string \<Rightarrow> ws_msg \<Rightarrow> app_state \<Rightarrow> app_state" where
  "try_send chan msg s =
     (if length (outbox s chan) < PER_SESSION_QUEUE
      then s\<lparr>outbox := (outbox s)(chan := outbox s chan @ [msg])\<rparr> else s)"

definition send_all :: "string list \<Rightarrow> ws_msg \<Rightarrow> app_state \<Rightarrow> app_state" where
  "send_all chans msg s = fold (\<lambda>c. try_send c msg) chans s"

definition respond_to_sender :: "string \<Rightarrow> json \<Rightarrow> app_state \<Rightarrow> app_state" where
  "respond_to_sender sid payload s =
     (case map_of (players s) sid of Some p \<Rightarrow> try_send (ps_id p) (WText payload) s | None \<Rightarrow> s)"

definition respond_error :: "string \<Rightarrow> nat \<Rightarrow> string \<Rightarrow> string option \<Rightarrow> app_state \<Rightarrow> bool \<times> app_state" where
  "respond_error sid opn msg rid s =
     (False, respond_to_sender sid (with_request_id (op_json opn [(''error'', JStr msg)]) rid) s)"

definition in_room :: "string \<Rightarrow> player_session \<Rightarrow> bool" where
  "in_room game_id p \<longleftrightarrow> game_id \<in> set (ps_rooms p)"

definition broadcast_to_room :: "string \<Rightarrow> json \<Rightarrow> app_state \<Rightarrow> app_state" where
  "broadcast_to_room game_id payload s =
     send_all (map ps_id (filter (in_room game_id) (vals (players s)))) (WText payload) s"

lemma try_send_frame [frame, simp]:
  "players (try_send c m s) = players s" "rooms (try_send c m s) = rooms s"
  "rooms_read_ok (try_send c m s) = rooms_read_ok s" "rooms_write_ok (try_send c m s) = rooms_write_ok s"
  "room_messages (try_send c m s) = room_messages s" "accounts (try_send c m s) = accounts s"
  "limits (try_send c m s) = limits s" "call_access_overrides (try_send c m s) = call_access_overrides s"
  "poll_tallies (try_send c m s) = poll_tallies s" "profile_cache (try_send c m s) = profile_cache s"
  "disk (try_send c m s) = disk s" "disk_ok (try_send c m s) = disk_ok s"
  "runtime (try_send c m s) = runtime s" "config (try_send c m s) = config s"
  by (simp_all add: try_send_def)

lemma send_all_frame [frame, simp]:
  "players (send_all cs m s) = players s" "rooms (send_all cs m s) = rooms s"
  "rooms_read_ok (send_all cs m s) = rooms_read_ok s" "rooms_write_ok (send_all cs m s) = rooms_write_ok s"
  "room_messages (send_all cs m s) = room_messages s" "accounts (send_all cs m s) = accounts s"
  "limits (send_all cs m s) = limits s" "call_access_overrides (send_all cs m s) = call_access_overrides s"
  "poll_tallies (send_all cs m s) = poll_tallies s" "profile_cache (send_all cs m s) = profile_cache s"
  "disk (send_all cs m s) = disk s" "disk_ok (send_all cs m s) = disk_ok s"
  "runtime (send_all cs m s) = runtime s" "config (send_all cs m s) = config s"
  unfolding send_all_def by (induction cs arbitrary: s) simp_all

lemma respond_frame [frame, simp]:
  "players (respond_to_sender sid m s) = players s" "rooms (respond_to_sender sid m s) = rooms s"
  "rooms_read_ok (respond_to_sender sid m s) = rooms_read_ok s"
  "rooms_write_ok (respond_to_sender sid m s) = rooms_write_ok s"
  "room_messages (respond_to_sender sid m s) = room_messages s" "accounts (respond_to_sender sid m s) = accounts s"
  "limits (respond_to_sender sid m s) = limits s"
  "call_access_overrides (respond_to_sender sid m s) = call_access_overrides s"
  "poll_tallies (respond_to_sender sid m s) = poll_tallies s" "profile_cache (respond_to_sender sid m s) = profile_cache s"
  "disk (respond_to_sender sid m s) = disk s" "disk_ok (respond_to_sender sid m s) = disk_ok s"
  "runtime (respond_to_sender sid m s) = runtime s" "config (respond_to_sender sid m s) = config s"
  by (simp_all add: respond_to_sender_def split: option.splits)

lemma broadcast_frame [frame, simp]:
  "players (broadcast_to_room g m s) = players s" "rooms (broadcast_to_room g m s) = rooms s"
  "rooms_read_ok (broadcast_to_room g m s) = rooms_read_ok s" "rooms_write_ok (broadcast_to_room g m s) = rooms_write_ok s"
  "room_messages (broadcast_to_room g m s) = room_messages s" "accounts (broadcast_to_room g m s) = accounts s"
  "limits (broadcast_to_room g m s) = limits s" "call_access_overrides (broadcast_to_room g m s) = call_access_overrides s"
  "poll_tallies (broadcast_to_room g m s) = poll_tallies s" "profile_cache (broadcast_to_room g m s) = profile_cache s"
  "disk (broadcast_to_room g m s) = disk s" "disk_ok (broadcast_to_room g m s) = disk_ok s"
  "runtime (broadcast_to_room g m s) = runtime s" "config (broadcast_to_room g m s) = config s"
  by (simp_all add: broadcast_to_room_def)

lemma respond_error_simps [simp]:
  "fst (respond_error sid opn msg rid s) = False"
  "snd (respond_error sid opn msg rid s)
     = respond_to_sender sid (with_request_id (op_json opn [(''error'', JStr msg)]) rid) s"
  by (simp_all add: respond_error_def)

text \<open>What the sends add to the queues: at most one copy of the message, at the end.\<close>

lemma outbox_try_send:
  "outbox (try_send c m s) d = (if d = c \<and> length (outbox s c) < PER_SESSION_QUEUE then outbox s c @ [m] else outbox s d)"
  by (simp add: try_send_def)

lemma outbox_send_all_notin: "d \<notin> set cs \<Longrightarrow> outbox (send_all cs m s) d = outbox s d"
  unfolding send_all_def by (induction cs arbitrary: s) (auto simp: outbox_try_send)

lemma outbox_send_all:
  "distinct cs \<Longrightarrow> outbox (send_all cs m s) d =
     (if d \<in> set cs \<and> length (outbox s d) < PER_SESSION_QUEUE then outbox s d @ [m] else outbox s d)"
proof (induction cs arbitrary: s)
  case Nil
  then show ?case by (simp add: send_all_def)
next
  case (Cons c cs)
  have step: "send_all (c # cs) m s = send_all cs m (try_send c m s)" by (simp add: send_all_def)
  from Cons show ?case
    by (cases "d = c") (auto simp: step outbox_send_all_notin outbox_try_send)
qed

section \<open>The rate limiter on the shared state\<close>

definition rate_hit :: "nat \<Rightarrow> string \<Rightarrow> nat \<Rightarrow> nat \<Rightarrow> app_state \<Rightarrow> bool \<times> app_state" where
  "rate_hit now key limit window s =
     (case rate_limit_hit now key limit window (limits s) of (hit, m) \<Rightarrow> (hit, s\<lparr>limits := m\<rparr>))"

lemma rate_hit_cases: "\<exists>hit m. rate_hit now key l w s = (hit, s\<lparr>limits := m\<rparr>)"
  by (cases "rate_limit_hit now key l w (limits s)") (auto simp: rate_hit_def)

section \<open>The rooms table\<close>

text \<open>A failing read is reported as no room.  The row's key is the \<open>room_id\<close> that is read back.\<close>

definition find_room :: "string \<Rightarrow> app_state \<Rightarrow> room_record option" where
  "find_room rid s =
     (if \<not> rooms_read_ok s then None else map_option (\<lambda>r. r\<lparr>room_id := rid\<rparr>) (map_of (rooms s) rid))"

definition create_room_if_absent :: "string \<Rightarrow> room_record \<Rightarrow> app_state \<Rightarrow> bool api_result \<times> app_state" where
  "create_room_if_absent rid room s =
     (if \<not> rooms_write_ok s then (Inl (internal ''Create room''), s)
      else if map_of (rooms s) rid \<noteq> None then (Inr False, s)
      else (Inr True, s\<lparr>rooms := AList.update rid room (rooms s)\<rparr>))"

definition set_room_record :: "string \<Rightarrow> room_record \<Rightarrow> app_state \<Rightarrow> unit api_result \<times> app_state" where
  "set_room_record rid room s =
     (if \<not> rooms_write_ok s then (Inl (internal ''Set room record''), s)
      else (Inr (), s\<lparr>rooms := AList.update rid room (rooms s)\<rparr>))"

definition room_icon_of :: "string \<Rightarrow> app_state \<Rightarrow> stored_file option" where
  "room_icon_of rid s = obind (find_room rid s) room_icon"

definition fresh_room :: "string \<Rightarrow> room_record" where
  "fresh_room rid = room_default\<lparr>room_id := rid, room_title := rid\<rparr>"

definition set_room_icon :: "string \<Rightarrow> stored_file \<Rightarrow> app_state \<Rightarrow> unit api_result \<times> app_state" where
  "set_room_icon rid icon s =
     set_room_record rid ((unwrap_or (fresh_room rid) (find_room rid s))\<lparr>room_icon := Some icon\<rparr>) s"

definition delete_room :: "string \<Rightarrow> app_state \<Rightarrow> bool api_result \<times> app_state" where
  "delete_room rid s =
     (if \<not> rooms_write_ok s then (Inl (internal ''Delete room''), s)
      else (Inr (map_of (rooms s) rid \<noteq> None), s\<lparr>rooms := AList.delete rid (rooms s)\<rparr>))"

section \<open>Uploads\<close>

text \<open>The name of a stored file is a fresh UUID, an argument, and the extension.\<close>

definition public_file_url :: "app_state \<Rightarrow> string \<Rightarrow> string" where
  "public_file_url s file_id =
     (let base = trim (upload_public_base (config s));
          base = (if base = [] then ''/uploads'' else base);
          base = (if take 1 base = ''/'' then trim_end_matches (\<lambda>c. c = CHR ''/'') base
                  else ''/'' @ trim_matches (\<lambda>c. c = CHR ''/'') base)
      in base @ ''/'' @ file_id)"

definition store_uploaded_bytes ::
  "string \<Rightarrow> string \<Rightarrow> byte list \<Rightarrow> string \<Rightarrow> app_state \<Rightarrow> stored_file api_result \<times> app_state" where
  "store_uploaded_bytes uuid extension bytes mime s =
     (if sum_list (map length (vals (disk s))) > 10 * 1024 * 1024 * 1024 then
        (Inl (api_error_new 507 ''Upload storage full.''), s)
      else
      (let clean = strip_image_metadata bytes mime;
           file_id = (if trim extension = [] then uuid
             else uuid @ ''.'' @ trim_start_matches (\<lambda>c. c = CHR ''.'') (trim extension))
       in if \<not> disk_ok s then (Inl (internal ''Failed to store file''), s)
          else (Inr \<lparr>sf_id = file_id, sf_url = public_file_url s file_id, sf_size = length clean, sf_mime = mime\<rparr>,
                s\<lparr>disk := AList.update file_id clean (disk s)\<rparr>)))"

definition remove_file :: "string \<Rightarrow> app_state \<Rightarrow> app_state" where
  "remove_file file_id s = s\<lparr>disk := AList.delete file_id (disk s)\<rparr>"

section \<open>Who asks, and in which room\<close>

definition is_reserved_system_username :: "string \<Rightarrow> bool" where
  "is_reserved_system_username username \<longleftrightarrow> str_ascii_lower (trim username) = str_ascii_lower SYSTEM_USERNAME"

definition session_identity :: "app_state \<Rightarrow> string \<Rightarrow> (string \<times> string) option" where
  "session_identity s sid =
     (case map_of (players s) sid of
        None \<Rightarrow> None
      | Some p \<Rightarrow> if ps_user_id p = [] \<or> ps_username p = [] then None else Some (ps_user_id p, ps_username p))"

definition validate_room_id :: "string \<Rightarrow> string + unit" where
  "validate_room_id rid =
     (if utf8_len rid < MIN_ROOM_ID_LEN then Inl ''Room name must be at least 8 characters''
      else if utf8_len rid > MAX_ROOM_ID_LEN then Inl ''Room name must be at most 64 characters''
      else if \<not> list_all is_ascii_alphanumeric rid then Inl ''Room name must be alphanumeric''
      else Inr ())"

definition resolve_room_for_session :: "app_state \<Rightarrow> string \<Rightarrow> string option \<Rightarrow> string + string" where
  "resolve_room_for_session s sid requested =
     (case map_of (players s) sid of
        None \<Rightarrow> Inl ''You need to be identified before''
      | Some p \<Rightarrow>
        if ps_username p = [] then Inl ''You need to be identified before''
        else (case trimmed requested of
            Some room \<Rightarrow>
              (case validate_room_id room of
                 Inl e \<Rightarrow> Inl e
               | Inr _ \<Rightarrow> if \<not> in_room room p then Inl ''Not a member of this room'' else Inr room)
          | None \<Rightarrow> (case ps_rooms p of [] \<Rightarrow> Inl ''Not a member of any room'' | room # _ \<Rightarrow> Inr room)))"

definition session_is_admin :: "app_state \<Rightarrow> string \<Rightarrow> bool" where
  "session_is_admin s sid =
     (case map_of (players s) sid of None \<Rightarrow> False | Some p \<Rightarrow> ps_is_admin p \<and> ps_username p \<noteq> [])"

definition username_for_user_id :: "app_state \<Rightarrow> string \<Rightarrow> string option" where
  "username_for_user_id s user_id =
     map_option ps_username (find (\<lambda>p. ps_user_id p = user_id) (vals (players s)))"

definition resolve_target :: "app_state \<Rightarrow> json \<Rightarrow> string + string \<times> string" where
  "resolve_target s d =
     (case trimmed (str_field ''targetUserId'' d) of
        Some i \<Rightarrow> Inr (i, unwrap_or [] (username_for_user_id s i))
      | None \<Rightarrow>
        (case trimmed (str_field ''targetUsername'' d) of
           Some name \<Rightarrow>
             (case find (\<lambda>p. str_ascii_lower (ps_username p) = str_ascii_lower name) (vals (players s)) of
                Some p \<Rightarrow> Inr (ps_user_id p, ps_username p)
              | None \<Rightarrow> Inl ''Unknown target user'')
         | None \<Rightarrow> Inl ''Missing target user''))"

text \<open>A resolved room is one the session is in.\<close>

lemma resolve_room_Inr:
  "resolve_room_for_session s sid r = Inr room \<Longrightarrow> \<exists>p. map_of (players s) sid = Some p \<and> in_room room p \<and> ps_username p \<noteq> []"
  by (auto simp: resolve_room_for_session_def in_room_def split: option.splits if_splits sum.splits list.splits)

lemma resolve_room_limits [simp]:
  "resolve_room_for_session (s\<lparr>limits := m\<rparr>) sid r = resolve_room_for_session s sid r"
  "session_identity (s\<lparr>limits := m\<rparr>) sid = session_identity s sid"
  "resolve_target (s\<lparr>limits := m\<rparr>) d = resolve_target s d"
  "find_room rid (s\<lparr>limits := m\<rparr>) = find_room rid s"
  by (simp_all add: resolve_room_for_session_def session_identity_def resolve_target_def
      username_for_user_id_def find_room_def split: option.split)

lemma room_record_id: "find_room rid s = Some r \<Longrightarrow> room_id r = rid"
  by (auto simp: find_room_def split: if_splits)

section \<open>Rosters\<close>

definition is_visible_to :: "player_session \<Rightarrow> string option \<Rightarrow> bool" where
  "is_visible_to p viewer \<longleftrightarrow> \<not> is_reserved_system_username (ps_username p)
     \<and> (ps_status p \<noteq> Invisible \<or> viewer = Some (ps_id p))"

definition visible_in :: "app_state \<Rightarrow> string \<Rightarrow> string option \<Rightarrow> player_session list" where
  "visible_in s game_id viewer = filter (\<lambda>p. in_room game_id p \<and> is_visible_to p viewer) (vals (players s))"

definition room_usernames :: "app_state \<Rightarrow> string \<Rightarrow> string option \<Rightarrow> string list" where
  "room_usernames s game_id viewer = map ps_username (visible_in s game_id viewer)"

definition room_players :: "app_state \<Rightarrow> string \<Rightarrow> string option \<Rightarrow> json list" where
  "room_players s game_id viewer = map (\<lambda>p. JObj [(''user'', JStr (ps_username p)),
       (''id'', JStr (ps_user_id p)), (''userId'', JStr (ps_user_id p)), (''uuid'', JStr (ps_user_id p)),
       (''clientId'', JStr (ps_client_id p)), (''platform'', JStr (ps_platform p)),
       (''status'', status_json (ps_status p)), (''profile'', profile_json (ps_profile p)),
       (''badges'', strs_json (ps_badges p))])
     (visible_in s game_id viewer)"

definition room_profiles :: "app_state \<Rightarrow> string \<Rightarrow> string option \<Rightarrow> json" where
  "room_profiles s game_id viewer =
     JObj (fold (\<lambda>p m. AList.update (ps_username p) (profile_json (ps_profile p)) m) (visible_in s game_id viewer) [])"

definition room_statuses :: "app_state \<Rightarrow> string \<Rightarrow> string option \<Rightarrow> json" where
  "room_statuses s game_id viewer =
     JObj (fold (\<lambda>p m. AList.update (ps_username p) (status_json (ps_status p)) m) (visible_in s game_id viewer) [])"

definition sanitize_platform :: "string option \<Rightarrow> string" where
  "sanitize_platform v = (let p = str_ascii_lower (trim (unwrap_or [] v)) in
     if p \<in> set [''android'', ''ios'', ''mobile'', ''desktop'', ''web''] then p else ''web'')"

definition sanitize_client_id :: "string option \<Rightarrow> string" where
  "sanitize_client_id v = take 48 (filter badge_char (trim (unwrap_or [] v)))"

definition room_platforms :: "app_state \<Rightarrow> string \<Rightarrow> string option \<Rightarrow> json" where
  "room_platforms s game_id viewer =
     JObj (map_vals strs_json (fold (\<lambda>p m.
        (let ps = unwrap_or [] (map_of m (ps_username p));
             platform = sanitize_platform (Some (ps_platform p))
         in AList.update (ps_username p) (if platform \<in> set ps then ps else ps @ [platform]) m))
       (visible_in s game_id viewer) []))"

definition voice_in :: "app_state \<Rightarrow> string \<Rightarrow> string option \<Rightarrow> player_session list" where
  "voice_in s game_id viewer = filter (\<lambda>p. in_room game_id p \<and> is_call_in_room p game_id \<and> is_visible_to p viewer)
     (vals (players s))"

definition room_voice_usernames :: "app_state \<Rightarrow> string \<Rightarrow> string option \<Rightarrow> string list" where
  "room_voice_usernames s game_id viewer = map ps_username (voice_in s game_id viewer)"

definition call_media_json :: "bool \<Rightarrow> bool \<Rightarrow> bool \<Rightarrow> json" where
  "call_media_json audio camera screen =
     JObj [(''audio'', JBool audio), (''camera'', JBool camera), (''screen'', JBool screen)]"

definition room_call_players :: "app_state \<Rightarrow> string \<Rightarrow> string option \<Rightarrow> json list" where
  "room_call_players s game_id viewer = map (\<lambda>p. JObj [(''user'', JStr (ps_username p)),
       (''isVoiceChat'', JBool (ps_voice p)), (''clientId'', JStr (ps_client_id p)),
       (''platform'', JStr (ps_platform p)),
       (''media'', call_media_json (ps_voice p) (ps_camera p) (ps_screen p)),
       (''deafened'', JBool (ps_deafened p)), (''status'', status_json (ps_status p))])
     (voice_in s game_id viewer)"

text \<open>The six roster fields that go together in the join, leave and profile messages.\<close>

definition roster_fields :: "app_state \<Rightarrow> string \<Rightarrow> string option \<Rightarrow> (string \<times> json) list" where
  "roster_fields s game_id viewer =
     [(''players'', JArr (room_players s game_id viewer)), (''profiles'', room_profiles s game_id viewer),
      (''statuses'', room_statuses s game_id viewer), (''platforms'', room_platforms s game_id viewer),
      (''voicePlayers'', strs_json (room_voice_usernames s game_id viewer)),
      (''callPlayers'', JArr (room_call_players s game_id viewer))]"

lemma voice_subset_visible: "set (voice_in s g v) \<subseteq> set (visible_in s g v)"
  by (auto simp: voice_in_def visible_in_def)

section \<open>The record of a room\<close>

definition sync_room_record :: "string \<Rightarrow> app_state \<Rightarrow> room_record api_result \<times> app_state" where
  "sync_room_record rid s =
     (let room = unwrap_or (fresh_room rid) (find_room rid s);
          room = (if trim (room_title room) = [] then room\<lparr>room_title := rid\<rparr> else room);
          room = room\<lparr>room_members := room_usernames s rid None\<rparr>
      in case set_room_record rid room s of
           (Inl e, s') \<Rightarrow> (Inl e, s') | (Inr _, s') \<Rightarrow> (Inr room, s'))"

definition broadcast_room_record_to_members ::
  "string \<Rightarrow> nat \<Rightarrow> string option \<Rightarrow> bool \<Rightarrow> room_record \<Rightarrow> app_state \<Rightarrow> app_state" where
  "broadcast_room_record_to_members rid opn req system room s =
     broadcast_to_room rid (with_request_id (op_json opn [(''ok'', JBool True), (''system'', JBool system),
       (''gameId'', JStr rid), (''room'', room_json room)]) req) s"

end
