(* ===== verification/Room_Roles.thy ===== *)
theory Room_Roles
  imports App_State
begin

text \<open>
  \<open>websocket/protocol.rs\<close>, operations 40 to 52, 57 and 33: creating a community room and running
  it.  \<open>community_op\<close> is the opening every such handler repeats (rate limit, identity, membership,
  stored record, kind); a handler is that opening and its own body.  Shown in \<open>Room_Roles_Inv\<close>: the
  role invariant of a community room and that every handler keeps it, and who may do what.
\<close>

definition MAX_ROOM_DESCRIPTION_CHARS :: nat where "MAX_ROOM_DESCRIPTION_CHARS = 140"
definition MAX_ROOM_MODERATORS :: nat where "MAX_ROOM_MODERATORS = 5"
definition MAX_ROOM_SUB_ADMINS :: nat where "MAX_ROOM_SUB_ADMINS = 3"
definition MIN_TIMEOUT_SECS :: nat where "MIN_TIMEOUT_SECS = 60"
definition MAX_TIMEOUT_SECS :: nat where "MAX_TIMEOUT_SECS = 7 * 24 * 60 * 60"
definition MAX_ROOM_ICON_UPLOAD_BYTES :: nat where "MAX_ROOM_ICON_UPLOAD_BYTES = 5 * 1024 * 1024"
definition MAX_ROOM_ICON_UPLOAD_B64_LEN :: nat where
  "MAX_ROOM_ICON_UPLOAD_B64_LEN = (MAX_ROOM_ICON_UPLOAD_BYTES + 2) div 3 * 4 + 4"
definition MAX_FILENAME_LEN :: nat where "MAX_FILENAME_LEN = 128"

section \<open>Roles\<close>

definition role_in_room :: "room_record \<Rightarrow> string \<Rightarrow> room_role" where
  "role_in_room room user_id =
     (if owner_id room = Some user_id then Administrator else unwrap_or Member (map_of (roles room) user_id))"

definition count_role :: "room_record \<Rightarrow> room_role \<Rightarrow> nat" where
  "count_role room role = length (filter (\<lambda>r. r = role) (vals (roles room)))"

definition can_speak :: "nat \<Rightarrow> room_record \<Rightarrow> string \<Rightarrow> bool" where
  "can_speak now room user_id =
     (if map_of (banned room) user_id \<noteq> None then False
      else if (case map_of (timeouts room) user_id of Some expiry \<Rightarrow> expiry > now | None \<Rightarrow> False) then False
      else if chat_locked room then
        (let role = role_in_room room user_id in role = Administrator \<or> role = SubAdministrator)
      else True)"

datatype mod_action = Ban | Kick | Mute

definition can_moderate :: "room_record \<Rightarrow> room_role \<Rightarrow> room_role \<Rightarrow> mod_action \<Rightarrow> bool" where
  "can_moderate room actor target action =
     (case actor of
        Administrator \<Rightarrow> True
      | SubAdministrator \<Rightarrow> target \<noteq> Administrator
      | Moderator \<Rightarrow>
        if target \<noteq> Member then False
        else (case action of Ban \<Rightarrow> can_ban (mod_permissions room) | Kick \<Rightarrow> can_kick (mod_permissions room)
              | Mute \<Rightarrow> can_mute (mod_permissions room))
      | Member \<Rightarrow> False)"

section \<open>The common opening and ending\<close>

type_synonym handler_result = "bool \<times> app_state"

definition community_op ::
  "string \<Rightarrow> nat \<Rightarrow> nat \<Rightarrow> nat \<Rightarrow> string \<Rightarrow> nat \<Rightarrow> string \<Rightarrow> json
    \<Rightarrow> (string \<Rightarrow> string \<Rightarrow> string \<Rightarrow> room_record \<Rightarrow> app_state \<Rightarrow> handler_result) \<Rightarrow> app_state \<Rightarrow> handler_result" where
  "community_op bucket limit window opn kind_msg now sid d body s =
     (let req = request_id d in
      case rate_hit now (bucket @ '':session:'' @ sid) limit window s of (hit, s) \<Rightarrow>
      if hit then respond_error sid opn ''Rate limit exceeded'' req s
      else (case session_identity s sid of
          None \<Rightarrow> respond_error sid opn ''You need to be identified before'' req s
        | Some (actor_id, actor_name) \<Rightarrow>
      (case resolve_room_for_session s sid (str_field ''gameId'' d) of
          Inl message \<Rightarrow> respond_error sid opn message req s
        | Inr rid \<Rightarrow>
      (case find_room rid s of
          None \<Rightarrow> respond_error sid opn ''Unknown room'' req s
        | Some room \<Rightarrow>
          if room_kind room \<noteq> Community then respond_error sid opn kind_msg req s
          else body actor_id actor_name rid room s))))"

text \<open>Persist the changed record, then announce the record that is read back.\<close>

definition persist_and_announce ::
  "nat \<Rightarrow> string \<Rightarrow> string \<Rightarrow> json \<Rightarrow> string \<Rightarrow> room_record \<Rightarrow> app_state \<Rightarrow> handler_result" where
  "persist_and_announce opn fail_msg sid d rid room s =
     (case set_room_record rid room s of
        (Inl _, s) \<Rightarrow> respond_error sid opn fail_msg (request_id d) s
      | (Inr _, s) \<Rightarrow>
        (let room = unwrap_or room (find_room rid s);
             s = broadcast_room_record_to_members rid opn (request_id d) True room s
         in (False, respond_to_sender sid (with_request_id (op_json opn [(''ok'', JBool True),
               (''gameId'', JStr rid), (''room'', room_json room)]) (request_id d)) s)))"

section \<open>Removing a member\<close>

definition remove_user_from_room :: "string \<Rightarrow> string \<Rightarrow> string \<Rightarrow> app_state \<Rightarrow> app_state" where
  "remove_user_from_room rid user_id reason s =
     (let gone = filter (\<lambda>p. ps_user_id p = user_id \<and> in_room rid p) (vals (players s));
          s = s\<lparr>players := map_vals (\<lambda>p. if ps_user_id p = user_id
                 then p\<lparr>ps_rooms := removeAll rid (ps_rooms p)\<rparr> else p) (players s)\<rparr>
      in send_all (map ps_id gone) (WText (op_json 4 [(''ok'', JBool True), (''gameId'', JStr rid),
           (''removed'', JBool True), (''reason'', JStr reason)])) s)"

definition broadcast_member_removed :: "string \<Rightarrow> string \<Rightarrow> room_record \<Rightarrow> app_state \<Rightarrow> app_state" where
  "broadcast_member_removed rid target_name room s =
     broadcast_to_room rid (op_json 4 ([(''gameId'', JStr rid), (''left'', JStr target_name)]
       @ roster_fields s rid None @ [(''room'', room_json room)])) s"

section \<open>Creating a room\<close>

text \<open>The detection always returns (\<open>detect_no_panic\<close>), so its answer is used directly.\<close>

definition detect_image :: "byte list \<Rightarrow> string \<Rightarrow> string + string \<times> nat \<times> nat" where
  "detect_image bytes mime = (case detect_profile_image bytes mime of Ret r \<Rightarrow> r | _ \<Rightarrow> Inl [])"

definition file_extension :: "string \<Rightarrow> string \<Rightarrow> string" where
  "file_extension filename mime =
     (let segment = last (split_on (CHR ''.'') filename) in
      if segment \<noteq> filename then segment
      else if mime = ''image/png'' then ''png'' else if mime = ''image/gif'' then ''gif''
      else if mime = ''image/jpeg'' then ''jpg'' else ''bin'')"

text \<open>Base64 decoding is third-party: the parameter \<open>b64\<close>.\<close>

definition store_room_icon_from_payload ::
  "(string \<Rightarrow> byte list option) \<Rightarrow> string \<Rightarrow> json \<Rightarrow> string \<Rightarrow> app_state
    \<Rightarrow> (string + stored_file option) \<times> app_state" where
  "store_room_icon_from_payload b64 uuid d rid s =
    (case obj_get ''file'' d of
       None \<Rightarrow> (Inr None, s)
     | Some JNull \<Rightarrow> (Inr None, s)
     | Some raw \<Rightarrow>
    (case as_object raw of
       None \<Rightarrow> (Inl ''Invalid file payload'', s)
     | Some _ \<Rightarrow>
    (case trimmed (str_field ''dataB64'' raw) of
       None \<Rightarrow> (Inl ''Missing file data'', s)
     | Some data_b64 \<Rightarrow>
       if utf8_len data_b64 > MAX_ROOM_ICON_UPLOAD_B64_LEN then (Inl ''Room icon too large (5MB max)'', s)
       else
    (case b64 data_b64 of
       None \<Rightarrow> (Inl ''Invalid file base64'', s)
     | Some decoded \<Rightarrow>
       if length decoded > MAX_ROOM_ICON_UPLOAD_BYTES then (Inl ''Room icon too large (5MB max)'', s)
       else
    (case detect_image decoded (unwrap_or [] (map_option trim (str_field ''mimeType'' raw))) of
       Inl e \<Rightarrow> (Inl e, s)
     | Inr (mime, _, _) \<Rightarrow>
       (let filename = sanitize_filename (unwrap_or ''room-icon'' (str_field ''filename'' raw)) ''room-icon'' MAX_FILENAME_LEN;
            extension = file_extension filename mime;
            s = (case room_icon_of rid s of Some icon \<Rightarrow> remove_file (sf_id icon) s | None \<Rightarrow> s)
        in case store_uploaded_bytes uuid extension decoded mime s of
             (Inl _, s) \<Rightarrow> (Inl ''Failed to save icon'', s)
           | (Inr stored, s) \<Rightarrow> (Inr (Some stored), s)))))))"

text \<open>The second half of the creation: insert the record, store its icon, answer with what is read back.\<close>

definition persist_new_room ::
  "(string \<Rightarrow> byte list option) \<Rightarrow> string \<Rightarrow> string \<Rightarrow> room_record \<Rightarrow> string \<Rightarrow> json \<Rightarrow> app_state \<Rightarrow> handler_result" where
  "persist_new_room b64 uuid rid room sid d s =
    (case create_room_if_absent rid room s of
       (Inl _, s) \<Rightarrow> respond_error sid 40 ''Failed to persist room'' (request_id d) s
     | (Inr False, s) \<Rightarrow> respond_error sid 40 ''This room name is already taken'' (request_id d) s
     | (Inr True, s) \<Rightarrow>
    (case (case store_room_icon_from_payload b64 uuid d rid s of
             (Inr (Some icon), s) \<Rightarrow> (room\<lparr>room_icon := Some icon\<rparr>,
                snd (set_room_record rid (room\<lparr>room_icon := Some icon\<rparr>) s))
           | (_, s) \<Rightarrow> (room, s)) of (room, s) \<Rightarrow>
       (False, respond_to_sender sid (with_request_id (op_json 40 [(''ok'', JBool True), (''gameId'', JStr rid),
           (''room'', room_json (unwrap_or room (find_room rid s))), (''myRole'', JStr ''administrator'')])
         (request_id d)) s)))"

definition create_room ::
  "(string \<Rightarrow> byte list option) \<Rightarrow> string \<Rightarrow> nat \<Rightarrow> string \<Rightarrow> json \<Rightarrow> app_state \<Rightarrow> handler_result" where
  "create_room b64 uuid now sid d s =
    (let req = request_id d in
     case rate_hit now (''create_room:session:'' @ sid) 5 60000 s of (hit, s) \<Rightarrow>
     if hit then respond_error sid 40 ''Create room rate limit exceeded'' req s
     else
    (case session_identity s sid of
       None \<Rightarrow> respond_error sid 40 ''You need to be identified before'' req s
     | Some (user_id, _) \<Rightarrow>
    (case trimmed (obind (or_else (obj_get ''roomId'' d) (obj_get ''gameId'' d)) as_str) of
       None \<Rightarrow> respond_error sid 40 ''Missing roomId'' req s
     | Some rid \<Rightarrow>
    (case validate_room_id rid of
       Inl message \<Rightarrow> respond_error sid 40 message req s
     | Inr _ \<Rightarrow>
       (let kind_text = unwrap_or ''community'' (map_option trim (str_field ''kind'' d)) in
        if kind_text = ''classic'' then respond_error sid 40 ''Classic rooms are created locally'' req s
        else if kind_text \<noteq> ''community'' then respond_error sid 40 ''Invalid room kind'' req s
        else
       (let room = \<lparr>room_id = rid,
              room_title = unwrap_or rid (map_option (take 64) (trimmed (str_field ''title'' d))),
              room_icon = None, room_members = [], room_kind = Community,
              room_description = take MAX_ROOM_DESCRIPTION_CHARS (unwrap_or [] (map_option trim (str_field ''description'' d))),
              owner_id = Some user_id, chat_locked = False, roles = [(user_id, Administrator)],
              banned = [], timeouts = [],
              mod_permissions = unwrap_or permissions_default (parse_mod_permissions (obj_get ''modPermissions'' d)),
              room_calls_enabled = True\<rparr>
        in if find_room rid s \<noteq> None then respond_error sid 40 ''This room name is already taken'' req s
           else persist_new_room b64 uuid rid room sid d s))))))"

section \<open>The handlers\<close>

definition manages :: "room_role \<Rightarrow> bool" where
  "manages role \<longleftrightarrow> role = Administrator \<or> role = SubAdministrator"

definition update_room_description :: "nat \<Rightarrow> string \<Rightarrow> json \<Rightarrow> app_state \<Rightarrow> handler_result" where
  "update_room_description now sid d =
     community_op ''room_desc'' 5 30000 41 ''Not available for classic rooms'' now sid d
      (\<lambda>actor_id _ rid room s. let req = request_id d in
        if \<not> manages (role_in_room room actor_id) then
          respond_error sid 41 ''You are not allowed to change this room'' req s
        else
        (let room = room\<lparr>room_description := take MAX_ROOM_DESCRIPTION_CHARS
               (unwrap_or [] (map_option trim (str_field ''description'' d)))\<rparr> in
         case set_room_record rid room s of
           (Inl _, s) \<Rightarrow> respond_error sid 41 ''Failed to persist description'' req s
         | (Inr _, s) \<Rightarrow>
           (let s = broadcast_room_record_to_members rid 41 req True room s
            in (False, respond_to_sender sid (with_request_id (op_json 41 [(''ok'', JBool True),
                  (''gameId'', JStr rid), (''room'', room_json room)]) req) s))))"

definition set_member_role :: "nat \<Rightarrow> string \<Rightarrow> json \<Rightarrow> app_state \<Rightarrow> handler_result" where
  "set_member_role now sid d =
     community_op ''set_role'' 10 30000 42 ''Not a community room'' now sid d
      (\<lambda>actor_id _ rid room s. let req = request_id d; err = (\<lambda>m. respond_error sid 42 m req s) in
        if \<not> manages (role_in_room room actor_id) then err ''Only administrators can manage roles''
        else (case obind (str_field ''role'' d) role_from_str of
            None \<Rightarrow> err ''Invalid role''
          | Some new_role \<Rightarrow>
            if new_role = Administrator then err ''Use transfer ownership''
            else (case resolve_target s d of
                Inl message \<Rightarrow> err message
              | Inr (target_id, _) \<Rightarrow>
                if target_id = actor_id then err ''You cannot change your own role''
                else (let current_role = role_in_room room target_id in
                  if current_role = Administrator then err ''Cannot change the administrator's role''
                  else if new_role = Moderator \<and> current_role \<noteq> Moderator
                      \<and> count_role room Moderator \<ge> MAX_ROOM_MODERATORS
                    then err ''Moderator limit reached (5 max)''
                  else if new_role = SubAdministrator \<and> current_role \<noteq> SubAdministrator
                      \<and> count_role room SubAdministrator \<ge> MAX_ROOM_SUB_ADMINS
                    then err ''Sub-administrator limit reached (3 max)''
                  else persist_and_announce 42 ''Failed to persist role'' sid d rid
                    (if new_role = Member then room\<lparr>roles := AList.delete target_id (roles room)\<rparr>
                     else room\<lparr>roles := AList.update target_id new_role (roles room)\<rparr>) s))))"

text \<open>After a ban or a kick: the sessions leave, the record is brought up to date, the room is told.\<close>

definition removal_tail :: "nat \<Rightarrow> string \<Rightarrow> string \<Rightarrow> json \<Rightarrow> string \<Rightarrow> string \<Rightarrow> string \<Rightarrow> room_record
    \<Rightarrow> app_state \<Rightarrow> handler_result" where
  "removal_tail opn reason sid d rid target_id target_name room s =
     (let s = remove_user_from_room rid target_id reason s;
          s = snd (sync_room_record rid s);
          room = unwrap_or room (find_room rid s);
          s = broadcast_member_removed rid target_name room s
      in (False, respond_to_sender sid (with_request_id (op_json opn [(''ok'', JBool True),
            (''gameId'', JStr rid), (''room'', room_json room)]) (request_id d)) s))"

definition ban_member :: "nat \<Rightarrow> string \<Rightarrow> json \<Rightarrow> app_state \<Rightarrow> handler_result" where
  "ban_member now sid d =
     community_op ''ban'' 10 30000 43 ''Not a community room'' now sid d
      (\<lambda>actor_id _ rid room s. let req = request_id d; err = (\<lambda>m. respond_error sid 43 m req s) in
        case resolve_target s d of
          Inl message \<Rightarrow> err message
        | Inr (target_id, target_name) \<Rightarrow>
          if target_id = actor_id then err ''You cannot target yourself''
          else if \<not> can_moderate room (role_in_room room actor_id) (role_in_room room target_id) Ban
            then err ''You are not allowed to ban this member''
          else (let room = room\<lparr>banned := AList.update target_id target_name (banned room)\<rparr> in
            case set_room_record rid room s of
              (Inl _, s) \<Rightarrow> respond_error sid 43 ''Failed to persist ban'' req s
            | (Inr _, s) \<Rightarrow> removal_tail 43 ''banned'' sid d rid target_id target_name room s))"

definition unban_member :: "nat \<Rightarrow> string \<Rightarrow> json \<Rightarrow> app_state \<Rightarrow> handler_result" where
  "unban_member now sid d =
     community_op ''unban'' 10 30000 44 ''Not a community room'' now sid d
      (\<lambda>actor_id _ rid room s. let req = request_id d; err = (\<lambda>m. respond_error sid 44 m req s) in
        if \<not> manages (role_in_room room actor_id) then err ''You are not allowed to unban''
        else (case resolve_target s d of
            Inl message \<Rightarrow> err message
          | Inr (target_id, _) \<Rightarrow> persist_and_announce 44 ''Failed to persist unban'' sid d rid
              (room\<lparr>banned := AList.delete target_id (banned room)\<rparr>) s))"

definition kick_member :: "nat \<Rightarrow> string \<Rightarrow> json \<Rightarrow> app_state \<Rightarrow> handler_result" where
  "kick_member now sid d =
     community_op ''kick'' 10 30000 45 ''Not a community room'' now sid d
      (\<lambda>actor_id _ rid room s. let req = request_id d; err = (\<lambda>m. respond_error sid 45 m req s) in
        case resolve_target s d of
          Inl message \<Rightarrow> err message
        | Inr (target_id, target_name) \<Rightarrow>
          if target_id = actor_id then err ''You cannot target yourself''
          else if \<not> can_moderate room (role_in_room room actor_id) (role_in_room room target_id) Kick
            then err ''You are not allowed to kick this member''
          else removal_tail 45 ''kicked'' sid d rid target_id target_name room s)"

definition timeout_member :: "nat \<Rightarrow> string \<Rightarrow> json \<Rightarrow> app_state \<Rightarrow> handler_result" where
  "timeout_member now sid d =
     community_op ''timeout'' 10 30000 46 ''Not a community room'' now sid d
      (\<lambda>actor_id _ rid room s. let req = request_id d; err = (\<lambda>m. respond_error sid 46 m req s) in
        case resolve_target s d of
          Inl message \<Rightarrow> err message
        | Inr (target_id, _) \<Rightarrow>
          if target_id = actor_id then err ''You cannot target yourself''
          else if \<not> can_moderate room (role_in_room room actor_id) (role_in_room room target_id) Mute
            then err ''You are not allowed to mute this member''
          else (let seconds = clamp MIN_TIMEOUT_SECS MAX_TIMEOUT_SECS (unwrap_or MIN_TIMEOUT_SECS
                  (obind (or_else (obj_get ''durationSecs'' d) (obj_get ''duration'' d)) as_u64))
                in persist_and_announce 46 ''Failed to persist timeout'' sid d rid
                     (room\<lparr>timeouts := AList.update target_id (now + seconds * 1000) (timeouts room)\<rparr>) s))"

definition transfer_ownership :: "nat \<Rightarrow> string \<Rightarrow> json \<Rightarrow> app_state \<Rightarrow> handler_result" where
  "transfer_ownership now sid d =
     community_op ''transfer'' 5 60000 47 ''Not a community room'' now sid d
      (\<lambda>actor_id _ rid room s. let req = request_id d; err = (\<lambda>m. respond_error sid 47 m req s) in
        if owner_id room \<noteq> Some actor_id then err ''Only the owner can transfer the room''
        else (case resolve_target s d of
            Inl message \<Rightarrow> err message
          | Inr (target_id, _) \<Rightarrow>
            (let target_role = role_in_room room target_id in
             if target_role \<noteq> Moderator \<and> target_role \<noteq> SubAdministrator
               then err ''The new owner must be a moderator or sub-administrator''
             else if target_role \<noteq> SubAdministrator \<and> count_role room SubAdministrator \<ge> MAX_ROOM_SUB_ADMINS
               then err ''No sub-administrator slot available for the current owner''
             else persist_and_announce 47 ''Failed to persist transfer'' sid d rid
               (room\<lparr>owner_id := Some target_id,
                  roles := AList.update actor_id SubAdministrator (AList.update target_id Administrator (roles room))\<rparr>) s)))"

definition set_chat_lock :: "nat \<Rightarrow> string \<Rightarrow> json \<Rightarrow> app_state \<Rightarrow> handler_result" where
  "set_chat_lock now sid d =
     community_op ''chat_lock'' 10 30000 48 ''Not a community room'' now sid d
      (\<lambda>actor_id _ rid room s.
        if \<not> manages (role_in_room room actor_id) then
          respond_error sid 48 ''You are not allowed to change chat mode'' (request_id d) s
        else persist_and_announce 48 ''Failed to persist chat lock'' sid d rid
          (room\<lparr>chat_locked := unwrap_or False (bool_field ''locked'' d)\<rparr>) s)"

definition set_moderator_permissions :: "nat \<Rightarrow> string \<Rightarrow> json \<Rightarrow> app_state \<Rightarrow> handler_result" where
  "set_moderator_permissions now sid d =
     community_op ''mod_perms'' 10 30000 49 ''Not a community room'' now sid d
      (\<lambda>actor_id _ rid room s. let req = request_id d; err = (\<lambda>m. respond_error sid 49 m req s) in
        if \<not> manages (role_in_room room actor_id) then
          err ''Only administrators can configure moderator permissions''
        else (case parse_mod_permissions (obj_get ''modPermissions'' d) of
            None \<Rightarrow> err ''Invalid permissions payload''
          | Some permissions \<Rightarrow> persist_and_announce 49 ''Failed to persist permissions'' sid d rid
              (room\<lparr>mod_permissions := permissions\<rparr>) s))"

definition set_calls_enabled :: "nat \<Rightarrow> string \<Rightarrow> json \<Rightarrow> app_state \<Rightarrow> handler_result" where
  "set_calls_enabled now sid d =
     community_op ''calls_enabled'' 10 30000 50 ''Not a community room'' now sid d
      (\<lambda>actor_id _ rid room s.
        if \<not> manages (role_in_room room actor_id) then
          respond_error sid 50 ''You are not allowed to change call mode'' (request_id d) s
        else persist_and_announce 50 ''Failed to persist call mode'' sid d rid
          (room\<lparr>room_calls_enabled := unwrap_or True (bool_field ''enabled'' d)\<rparr>) s)"

definition set_call_access :: "nat \<Rightarrow> string \<Rightarrow> json \<Rightarrow> app_state \<Rightarrow> handler_result" where
  "set_call_access now sid d =
     community_op ''call_access'' 10 30000 51 ''Not a community room'' now sid d
      (\<lambda>actor_id _ rid room s. let req = request_id d in
        if \<not> manages (role_in_room room actor_id) then
          respond_error sid 51 ''You are not allowed to change call access'' req s
        else
        (let allow = unwrap_or False (bool_field ''allowMembers'' d);
             s = s\<lparr>call_access_overrides := (if allow then List.insert rid (call_access_overrides s)
                   else removeAll rid (call_access_overrides s))\<rparr>;
             s = broadcast_to_room rid (op_json 51 [(''gameId'', JStr rid), (''allowMembers'', JBool allow)]) s
         in (False, respond_to_sender sid (with_request_id (op_json 51 [(''ok'', JBool True),
               (''gameId'', JStr rid), (''allowMembers'', JBool allow)]) req) s)))"

definition unmute_member :: "nat \<Rightarrow> string \<Rightarrow> json \<Rightarrow> app_state \<Rightarrow> handler_result" where
  "unmute_member now sid d =
     community_op ''unmute'' 10 30000 52 ''Not a community room'' now sid d
      (\<lambda>actor_id _ rid room s. let req = request_id d; err = (\<lambda>m. respond_error sid 52 m req s) in
        case resolve_target s d of
          Inl message \<Rightarrow> err message
        | Inr (target_id, _) \<Rightarrow>
          if \<not> can_moderate room (role_in_room room actor_id) (role_in_room room target_id) Mute
            then err ''You are not allowed to unmute this member''
          else persist_and_announce 52 ''Failed to persist unmute'' sid d rid
            (room\<lparr>timeouts := AList.delete target_id (timeouts room)\<rparr>) s)"

definition delete_room_op :: "nat \<Rightarrow> string \<Rightarrow> json \<Rightarrow> app_state \<Rightarrow> handler_result" where
  "delete_room_op now sid d =
     community_op ''delete_room'' 5 60000 57 ''Not a community room'' now sid d
      (\<lambda>actor_id actor_name rid room s. let req = request_id d in
        if owner_id room \<noteq> Some actor_id
           \<and> \<not> (case map_of (players s) sid of Some p \<Rightarrow> ps_is_admin p | None \<Rightarrow> False)
        then respond_error sid 57 ''Only the room owner can delete it'' req s
        else
        (let s = (case room_icon room of Some icon \<Rightarrow> remove_file (sf_id icon) s | None \<Rightarrow> s) in
         case delete_room rid s of
           (Inl _, s) \<Rightarrow> respond_error sid 57 ''Failed to delete room'' req s
         | (Inr _, s) \<Rightarrow>
           (let s = s\<lparr>room_messages := AList.delete rid (room_messages s)\<rparr>;
                member_txs = map ps_id (filter (in_room rid) (vals (players s)));
                s = s\<lparr>players := map_vals (\<lambda>p. p\<lparr>ps_rooms := removeAll rid (ps_rooms p)\<rparr>) (players s)\<rparr>;
                s = send_all member_txs (WText (op_json 58 [(''gameId'', JStr rid), (''deleted'', JBool True),
                      (''by'', JStr actor_name)])) s
            in (False, respond_to_sender sid (with_request_id (op_json 57 [(''ok'', JBool True),
                  (''gameId'', JStr rid)]) req) s))))"

text \<open>The second half of the handler: bring the record up to date, then store and announce the title.\<close>

definition retitle_room :: "string \<Rightarrow> string \<Rightarrow> string option \<Rightarrow> string \<Rightarrow> app_state \<Rightarrow> handler_result" where
  "retitle_room rid title req sid s =
    (case sync_room_record rid s of
       (Inl _, s) \<Rightarrow> respond_error sid 33 ''Failed to persist room title'' req s
     | (Inr room, s) \<Rightarrow>
       (case set_room_record rid (room\<lparr>room_title := title\<rparr>) s of
          (Inl _, s) \<Rightarrow> respond_error sid 33 ''Failed to persist room title'' req s
        | (Inr _, s) \<Rightarrow> (False, respond_to_sender sid (with_request_id (op_json 33 [(''ok'', JBool True),
              (''gameId'', JStr rid), (''room'', room_json (room\<lparr>room_title := title\<rparr>))]) req)
            (broadcast_room_record_to_members rid 33 req True (room\<lparr>room_title := title\<rparr>) s))))"

text \<open>The title is open to every member of a classic room, and of a room whose record cannot be read.\<close>

definition update_room_title :: "nat \<Rightarrow> string \<Rightarrow> json \<Rightarrow> app_state \<Rightarrow> handler_result" where
  "update_room_title now sid d s =
    (let req = request_id d;
         user_id = (case map_of (players s) sid of Some p \<Rightarrow> ps_user_id p | None \<Rightarrow> []);
         rate_key = (if user_id = [] then ''room_title:session:'' @ sid else ''room_title:user:'' @ user_id) in
     case rate_hit now rate_key 5 30000 s of (hit, s) \<Rightarrow>
     if hit then respond_error sid 33 ''Rate limit exceeded. Please wait.'' req s
     else
    (case resolve_room_for_session s sid (str_field ''gameId'' d) of
       Inl message \<Rightarrow> respond_error sid 33 message req s
     | Inr rid \<Rightarrow>
       if (case find_room rid s of
             Some room \<Rightarrow> room_kind room = Community \<and> \<not> manages (role_in_room room user_id)
           | None \<Rightarrow> False)
       then respond_error sid 33 ''You are not allowed to change this room'' req s
       else retitle_room rid (unwrap_or rid (map_option (take 64) (trimmed (str_field ''title'' d)))) req sid s))"

section \<open>The room operations of the dispatcher\<close>

definition room_step ::
  "(string \<Rightarrow> byte list option) \<Rightarrow> string \<Rightarrow> nat \<Rightarrow> string \<Rightarrow> nat \<Rightarrow> json \<Rightarrow> app_state \<Rightarrow> handler_result" where
  "room_step b64 uuid now sid opn d s =
     (if opn = 33 then update_room_title now sid d s
      else if opn = 40 then create_room b64 uuid now sid d s
      else if opn = 41 then update_room_description now sid d s
      else if opn = 42 then set_member_role now sid d s
      else if opn = 43 then ban_member now sid d s
      else if opn = 44 then unban_member now sid d s
      else if opn = 45 then kick_member now sid d s
      else if opn = 46 then timeout_member now sid d s
      else if opn = 47 then transfer_ownership now sid d s
      else if opn = 48 then set_chat_lock now sid d s
      else if opn = 49 then set_moderator_permissions now sid d s
      else if opn = 50 then set_calls_enabled now sid d s
      else if opn = 51 then set_call_access now sid d s
      else if opn = 52 then unmute_member now sid d s
      else if opn = 57 then delete_room_op now sid d s
      else (False, s))"

end
