(* ===== verification/Messages.thy ===== *)
theory Messages
  imports Room_Roles "HOL-Library.List_Lexorder" "HOL-Library.Char_ord"
begin

text \<open>
  \<open>websocket/protocol.rs\<close>, the chat: parsing attachments and encrypted payloads, storing, sending,
  editing and deleting messages, reactions and history (operations 7, 18, 19, 21, 29), and
  \<open>services/messaging.rs\<close>.  A message id and a file name are random draws, arguments; base64 is the
  parameter \<open>b64\<close> and the length of a JSON value's text the parameter \<open>json_len\<close>.  Fetching a link
  preview is a spawned task: its last step, which patches the stored message, is an operation of
  its own that may run at any later time.  \<open>rooms.iter()\<close> goes through the association list.
\<close>

definition MAX_ROOM_MESSAGES :: nat where "MAX_ROOM_MESSAGES = 150"
definition MAX_ATTACHMENT_BYTES :: nat where "MAX_ATTACHMENT_BYTES = 25 * 1024 * 1024"
definition MAX_ATTACHMENT_B64_LEN :: nat where
  "MAX_ATTACHMENT_B64_LEN = (MAX_ATTACHMENT_BYTES + 2) div 3 * 4 + 4"
definition MAX_MIMETYPE_LEN :: nat where "MAX_MIMETYPE_LEN = 96"
definition MAX_MESSAGE_CHARS :: nat where "MAX_MESSAGE_CHARS = 2000"
definition MAX_ENCRYPTED_ALG_LEN :: nat where "MAX_ENCRYPTED_ALG_LEN = 32"
definition MAX_ENCRYPTED_IV_LEN :: nat where "MAX_ENCRYPTED_IV_LEN = 128"
definition MAX_ENCRYPTED_SALT_LEN :: nat where "MAX_ENCRYPTED_SALT_LEN = 128"
definition MAX_ENCRYPTED_DEVICE_ID_LEN :: nat where "MAX_ENCRYPTED_DEVICE_ID_LEN = 64"
definition MAX_ENCRYPTED_SIGNATURE_LEN :: nat where "MAX_ENCRYPTED_SIGNATURE_LEN = 256"
definition MAX_ENCRYPTED_SIGNING_KEY_LEN :: nat where "MAX_ENCRYPTED_SIGNING_KEY_LEN = 2048"
definition MAX_ENCRYPTED_CIPHERTEXT_LEN :: nat where "MAX_ENCRYPTED_CIPHERTEXT_LEN = 18 * 1024 * 1024"
definition MAX_ENCRYPTED_ROOM_ID_LEN :: nat where "MAX_ENCRYPTED_ROOM_ID_LEN = 64"
definition MAX_REACTION_EMOJI_CHARS :: nat where "MAX_REACTION_EMOJI_CHARS = 32"
definition MIN_BETWEEN_MESSAGE_INTERVAL :: nat where "MIN_BETWEEN_MESSAGE_INTERVAL = 400"

section \<open>Parsing what a message carries\<close>

definition ok_or :: "'e \<Rightarrow> 'a option \<Rightarrow> 'e + 'a" where
  "ok_or e x = (case x of None \<Rightarrow> Inl e | Some v \<Rightarrow> Inr v)"

definition parse_attachment ::
  "(string \<Rightarrow> byte list option) \<Rightarrow> string \<Rightarrow> json option \<Rightarrow> app_state \<Rightarrow> (string + attachment option) \<times> app_state" where
  "parse_attachment b64 uuid raw s =
    (case raw of None \<Rightarrow> (Inr None, s) | Some JNull \<Rightarrow> (Inr None, s)
     | Some obj \<Rightarrow>
       (case as_object obj of None \<Rightarrow> (Inl ''Attachment must be an object'', s) | Some _ \<Rightarrow>
       (case str_field ''dataB64'' obj of None \<Rightarrow> (Inl ''Attachment missing dataB64'', s) | Some data_b64 \<Rightarrow>
        if data_b64 = [] then (Inl ''Attachment dataB64 is empty'', s)
        else if utf8_len data_b64 > MAX_ATTACHMENT_B64_LEN then (Inl ''Attachment too large (25MB max)'', s)
        else
       (case b64 data_b64 of None \<Rightarrow> (Inl ''Attachment dataB64 is not valid base64'', s) | Some decoded \<Rightarrow>
        if length decoded > MAX_ATTACHMENT_BYTES then (Inl ''Attachment too large (25MB max)'', s)
        else
       (let filename = sanitize_filename (unwrap_or ''file'' (str_field ''filename'' obj)) ''file'' MAX_FILENAME_LEN;
            mime_type = take MAX_MIMETYPE_LEN (unwrap_or ''application/octet-stream'' (trimmed (str_field ''mimeType'' obj)));
            segment = last (split_on (CHR ''.'') filename);
            extension = (if segment \<noteq> filename then segment else [])
        in case store_uploaded_bytes uuid extension decoded mime_type s of
             (Inl _, s) \<Rightarrow> (Inl ''Failed to store attachment'', s)
           | (Inr stored, s) \<Rightarrow> (Inr (Some \<lparr>at_id = sf_id stored, at_url = sf_url stored, at_filename = filename,
                at_mime = mime_type, at_size = length decoded\<rparr>), s))))))"

definition parse_encrypted_payload :: "(json \<Rightarrow> nat) \<Rightarrow> json option \<Rightarrow> string + encrypted_payload option" where
  "parse_encrypted_payload json_len raw =
    (case raw of None \<Rightarrow> Inr None | Some JNull \<Rightarrow> Inr None
     | Some obj \<Rightarrow>
       (case as_object obj of None \<Rightarrow> Inl ''Encrypted payload must be an object'' | Some _ \<Rightarrow>
       (case u64_field ''v'' obj of None \<Rightarrow> Inl ''Encrypted payload missing version'' | Some v \<Rightarrow>
        if v \<noteq> 2 then Inl ''Unsupported encrypted payload version'' else
       (case trimmed (str_field ''alg'' obj) of None \<Rightarrow> Inl ''Encrypted payload missing algorithm'' | Some alg \<Rightarrow>
       (case trimmed (str_field ''iv'' obj) of None \<Rightarrow> Inl ''Encrypted payload missing iv'' | Some iv \<Rightarrow>
       (case trimmed (str_field ''salt'' obj) of None \<Rightarrow> Inl ''Encrypted payload missing salt'' | Some slt \<Rightarrow>
       (case ofilter (\<lambda>n. n > 0) (u64_field ''n'' obj) of
          None \<Rightarrow> Inl ''Encrypted payload missing ratchet counter'' | Some n \<Rightarrow>
       (case trimmed (str_field ''senderDeviceId'' obj) of
          None \<Rightarrow> Inl ''Encrypted payload missing sender device'' | Some dev \<Rightarrow>
       (case ofilter (\<lambda>k. as_object k \<noteq> None) (obj_get ''senderSigningKey'' obj) of
          None \<Rightarrow> Inl ''Encrypted payload missing sender signing key'' | Some key \<Rightarrow>
        if json_len key > MAX_ENCRYPTED_SIGNING_KEY_LEN then Inl ''Encrypted payload signing key too large'' else
       (case trimmed (str_field ''signature'' obj) of None \<Rightarrow> Inl ''Encrypted payload missing signature'' | Some sig \<Rightarrow>
       (case trimmed (str_field ''ciphertext'' obj) of None \<Rightarrow> Inl ''Encrypted payload missing ciphertext'' | Some ct \<Rightarrow>
        if utf8_len ct > MAX_ENCRYPTED_CIPHERTEXT_LEN then Inl ''Encrypted payload too large'' else
        Inr (Some \<lparr>ep_v = 2, ep_alg = take MAX_ENCRYPTED_ALG_LEN alg, ep_iv = take MAX_ENCRYPTED_IV_LEN iv,
          ep_salt = take MAX_ENCRYPTED_SALT_LEN slt, ep_n = Some n, ep_device = take MAX_ENCRYPTED_DEVICE_ID_LEN dev,
          ep_key = Some key, ep_signature = take MAX_ENCRYPTED_SIGNATURE_LEN sig, ep_ciphertext = ct,
          ep_room_id = map_option (take MAX_ENCRYPTED_ROOM_ID_LEN) (trimmed (str_field ''roomId'' obj))\<rparr>))))))))))))"

section \<open>The stored messages\<close>

definition messages_of :: "app_state \<Rightarrow> string \<Rightarrow> chat_message list" where
  "messages_of s rid = unwrap_or [] (map_of (room_messages s) rid)"

definition store_room_message :: "string \<Rightarrow> chat_message \<Rightarrow> app_state \<Rightarrow> app_state" where
  "store_room_message rid message s =
     (let s = record_message s;
          room = messages_of s rid @ [message];
          room = (if length room > MAX_ROOM_MESSAGES then drop (length room - MAX_ROOM_MESSAGES) room else room)
      in s\<lparr>room_messages := AList.update rid room (room_messages s)\<rparr>)"

text \<open>\<open>iter_mut().find\<close> followed by a change of the message found.\<close>

fun update_first :: "('a \<Rightarrow> bool) \<Rightarrow> ('a \<Rightarrow> 'a) \<Rightarrow> 'a list \<Rightarrow> 'a list" where
  "update_first P f [] = []"
| "update_first P f (x # xs) = (if P x then f x # xs else x # update_first P f xs)"

definition find_message :: "string \<Rightarrow> chat_message list \<Rightarrow> chat_message option" where
  "find_message mid = find (\<lambda>m. message_id m = mid)"

definition update_message :: "string \<Rightarrow> string \<Rightarrow> (chat_message \<Rightarrow> chat_message) \<Rightarrow> app_state \<Rightarrow> app_state" where
  "update_message rid mid f s =
     s\<lparr>room_messages := AList.update rid (update_first (\<lambda>m. message_id m = mid) f (messages_of s rid)) (room_messages s)\<rparr>"

text \<open>The room of a message: the hinted one, or the first that has it.\<close>

definition has_message :: "string \<Rightarrow> chat_message list \<Rightarrow> bool" where
  "has_message mid ms = list_ex (\<lambda>m. message_id m = mid) ms"

definition room_of_message :: "app_state \<Rightarrow> string option \<Rightarrow> string \<Rightarrow> string option" where
  "room_of_message s hint mid =
     (case hint of
        Some h \<Rightarrow> if has_message mid (messages_of s h) then Some h else None
      | None \<Rightarrow> map_option fst (find (\<lambda>(_, ms). has_message mid ms) (room_messages s)))"

section \<open>Reactions\<close>

definition sanitize_reaction_emoji :: "string \<Rightarrow> string option" where
  "sanitize_reaction_emoji v =
     (let t = trim v in
      if t = [] \<or> length t > MAX_REACTION_EMOJI_CHARS then None
      else if list_ex (\<lambda>c. is_control c \<or> is_whitespace c) t then None
      else Some t)"

definition toggle_user :: "string \<Rightarrow> message_reaction \<Rightarrow> message_reaction" where
  "toggle_user username r =
     (let us = (if username \<in> set (mr_users r) then filter (\<lambda>u. u \<noteq> username) (mr_users r)
                else sort (mr_users r @ [username]))
      in r\<lparr>mr_users := us, mr_count := length us\<rparr>)"

text \<open>The reaction at the first position with the emoji; \<open>None\<close> when there is none.\<close>

fun toggle_existing :: "string \<Rightarrow> string \<Rightarrow> message_reaction list \<Rightarrow> message_reaction list option" where
  "toggle_existing emoji username [] = None"
| "toggle_existing emoji username (r # rs) =
     (if mr_emoji r = emoji then
        (let r' = toggle_user username r in Some (if mr_count r' = 0 then rs else r' # rs))
      else map_option (\<lambda>rs'. r # rs') (toggle_existing emoji username rs))"

definition toggle_reaction_list :: "string \<Rightarrow> string \<Rightarrow> message_reaction list \<Rightarrow> message_reaction list" where
  "toggle_reaction_list emoji username rs =
     (case toggle_existing emoji username rs of
        Some rs' \<Rightarrow> rs'
      | None \<Rightarrow> sort_key mr_emoji (rs @ [\<lparr>mr_emoji = emoji, mr_users = [username], mr_count = 1\<rparr>]))"

definition toggle_reaction_in_message :: "string \<Rightarrow> string \<Rightarrow> chat_message \<Rightarrow> chat_message" where
  "toggle_reaction_in_message emoji username m =
     m\<lparr>reactions := toggle_reaction_list emoji username (reactions m)\<rparr>"

text \<open>With a blank hint, or one whose room lacks the message, every room is searched.\<close>

definition update_message_reactions ::
  "string \<Rightarrow> string \<Rightarrow> string \<Rightarrow> string option \<Rightarrow> app_state \<Rightarrow> (string \<times> message_reaction list) option \<times> app_state" where
  "update_message_reactions mid emoji username hint s =
     (let rid = (case obind (trimmed hint) (\<lambda>h. room_of_message s (Some h) mid) of
                   Some h \<Rightarrow> Some h | None \<Rightarrow> room_of_message s None mid)
      in case rid of
           None \<Rightarrow> (None, s)
         | Some rid \<Rightarrow>
           (let s = update_message rid mid (toggle_reaction_in_message emoji username) s
            in (Some (rid, (case find_message mid (messages_of s rid) of Some m \<Rightarrow> reactions m | None \<Rightarrow> [])), s)))"

section \<open>Sending\<close>

text \<open>What the lock of the session table is held for: the membership, the pace, and who speaks.\<close>

definition claim_chat_slot :: "nat \<Rightarrow> string \<Rightarrow> string \<Rightarrow> app_state \<Rightarrow> (string + player_session) \<times> app_state" where
  "claim_chat_slot now sid game_id s =
    (case map_of (players s) sid of
       None \<Rightarrow> (Inl ''You need to be identified before sending message'', s)
     | Some p \<Rightarrow>
       if ps_username p = [] then (Inl ''You need to be identified before sending message'', s)
       else if \<not> in_room game_id p then (Inl ''Not a member of this room'', s)
       else if (case ps_last_message p of Some t \<Rightarrow> now - t < MIN_BETWEEN_MESSAGE_INTERVAL | None \<Rightarrow> False) then
         (Inl (''You need to wait '' @ dec (now - unwrap_or 0 (ps_last_message p)) @ ''ms until the next message''), s)
       else (Inr p, s\<lparr>players := adjust sid (\<lambda>p. p\<lparr>ps_last_message := Some now\<rparr>) (players s)\<rparr>))"

definition speech_refused :: "nat \<Rightarrow> string \<Rightarrow> string \<Rightarrow> app_state \<Rightarrow> bool" where
  "speech_refused now rid user_id s =
     (case find_room rid s of
        Some room \<Rightarrow> room_kind room = Community \<and> \<not> can_speak now room user_id | None \<Rightarrow> False)"

definition encrypted_mismatch :: "encrypted_payload option \<Rightarrow> string \<Rightarrow> bool" where
  "encrypted_mismatch enc game_id =
     (case obind enc ep_room_id of Some r \<Rightarrow> r \<noteq> game_id | None \<Rightarrow> False)"

definition new_chat_message ::
  "nat \<Rightarrow> string \<Rightarrow> string \<Rightarrow> player_session \<Rightarrow> string \<Rightarrow> string option \<Rightarrow> attachment option
    \<Rightarrow> encrypted_payload option \<Rightarrow> chat_message" where
  "new_chat_message now mid rid p text reply att enc =
     \<lparr>message_id = mid, msg_room = rid,
      msg_user = (if rid = ''lobby'' then ''[lobby]'' else ''[in-game]'') @ '' '' @ ps_username p,
      msg_username = ps_username p, msg_user_id = ps_user_id p,
      msg_text = (if enc \<noteq> None then [] else text), msg_timestamp = now, msg_profile = ps_profile p,
      edited_at = None, msg_system = False, reactions = [], reply_to = reply,
      msg_attachment = (if enc \<noteq> None then None else att), msg_encrypted = enc, msg_preview = None,
      deleted = False, deleted_by = [], deleted_by_moderator = False\<rparr>"

definition publish_chat_message ::
  "string \<Rightarrow> string option \<Rightarrow> string \<Rightarrow> chat_message \<Rightarrow> app_state \<Rightarrow> handler_result" where
  "publish_chat_message sid req rid message s =
     (let s = store_room_message rid message s;
          s = broadcast_to_room rid (JObj [(''op'', JInt 7), (''d'', message_json message)]) s
      in (False, respond_to_sender sid (with_request_id (op_json 7 [(''ok'', JBool True),
            (''messageId'', JStr (message_id message))]) req) s))"

definition chat_text :: "json \<Rightarrow> string" where
  "chat_text d = take MAX_MESSAGE_CHARS (trim (unwrap_or [] (str_field ''text'' d)))"

definition send_chat_message ::
  "(string \<Rightarrow> byte list option) \<Rightarrow> (json \<Rightarrow> nat) \<Rightarrow> string \<Rightarrow> string \<Rightarrow> nat \<Rightarrow> string \<Rightarrow> json \<Rightarrow> app_state \<Rightarrow> handler_result" where
  "send_chat_message b64 json_len uuid mid now sid d s =
    (let err = (\<lambda>m s. respond_error sid 7 m (request_id d) s) in
     case parse_encrypted_payload json_len (obj_get ''encrypted'' d) of Inl m \<Rightarrow> err m s | Inr enc \<Rightarrow>
    (case map_option trim (str_field ''gameId'' d) of None \<Rightarrow> err ''Missing gameId'' s | Some rid \<Rightarrow>
     if encrypted_mismatch enc rid then err ''Encrypted room mismatch'' s else
    (case validate_room_id rid of Inl m \<Rightarrow> err m s | Inr _ \<Rightarrow>
    (case parse_attachment b64 uuid (obj_get ''attachment'' d) s of (Inl m, s) \<Rightarrow> err m s | (Inr att, s) \<Rightarrow>
     if enc \<noteq> None \<and> (chat_text d \<noteq> [] \<or> att \<noteq> None) then err ''Encrypted messages cannot include plaintext fields'' s
     else if chat_text d = [] \<and> att = None \<and> enc = None then err ''Empty message'' s else
    (case rate_hit now (''chat:session:'' @ sid) 15 10000 s of (hit, s) \<Rightarrow>
     if hit then err ''Message rate limited'' s else
    (case claim_chat_slot now sid rid s of (Inl m, s) \<Rightarrow> err m s | (Inr p, s) \<Rightarrow>
     if speech_refused now rid (ps_user_id p) s then err ''You are not allowed to speak in this room'' s
     else publish_chat_message sid (request_id d) rid
       (new_chat_message now mid rid p (chat_text d)
          (map_option (take 80) (trimmed (str_field ''replyToMessageId'' d))) att enc) s))))))"

section \<open>Reactions, deletion and edits\<close>

definition toggle_message_reaction :: "nat \<Rightarrow> string \<Rightarrow> json \<Rightarrow> app_state \<Rightarrow> handler_result" where
  "toggle_message_reaction now sid d s =
    (let req = request_id d; err = (\<lambda>m s. respond_error sid 19 m req s) in
     case rate_hit now (''reaction:session:'' @ sid) 15 5000 s of (hit, s) \<Rightarrow>
     if hit then err ''Rate limit exceeded'' s else
    (case map_option trim (str_field ''messageId'' d) of None \<Rightarrow> err ''Missing messageId'' s | Some mid \<Rightarrow>
    (case str_field ''reaction'' d of None \<Rightarrow> err ''Missing reaction'' s | Some raw_emoji \<Rightarrow>
    (case sanitize_reaction_emoji raw_emoji of None \<Rightarrow> err ''Invalid reaction'' s | Some emoji \<Rightarrow>
    (case ofilter (\<lambda>p. ps_username p \<noteq> []) (map_of (players s) sid) of
       None \<Rightarrow> err ''You need to be identified before'' s | Some p \<Rightarrow>
    (case room_of_message s (trimmed (str_field ''gameId'' d)) mid of
       None \<Rightarrow> err ''Unknown messageId'' s | Some target_room \<Rightarrow>
     if \<not> in_room target_room p then err ''Not a member of this room'' s
     else if speech_refused now target_room (ps_user_id p) s then err ''You are not allowed to speak in this room'' s
     else
    (case update_message_reactions mid emoji (ps_username p) (str_field ''gameId'' d) s of
       (None, s) \<Rightarrow> err ''Unknown messageId'' s
     | (Some (rid, rs), s) \<Rightarrow>
       (let s = broadcast_to_room rid (op_json 20 [(''roomId'', JStr rid), (''messageId'', JStr mid),
              (''reactions'', JArr (map reaction_json rs))]) s
        in (False, respond_to_sender sid (with_request_id (op_json 19 [(''ok'', JBool True),
              (''messageId'', JStr mid)]) req) s)))))))))"

definition is_message_author :: "string \<Rightarrow> string \<Rightarrow> string \<Rightarrow> string \<Rightarrow> bool" where
  "is_message_author message_user_id message_username actor_user_id actor_username =
     (if message_user_id = [] then message_username \<noteq> [] \<and> message_username = actor_username
      else actor_user_id \<noteq> [] \<and> message_user_id = actor_user_id)"

definition authored_by :: "player_session \<Rightarrow> chat_message \<Rightarrow> bool" where
  "authored_by p m = is_message_author (msg_user_id m) (msg_username m) (ps_user_id p) (ps_username p)"

text \<open>Whether a member may delete another's message in a community room.\<close>

definition moderates_message :: "room_record \<Rightarrow> string \<Rightarrow> string \<Rightarrow> bool" where
  "moderates_message room actor_id author_id =
     (case role_in_room room actor_id of
        Administrator \<Rightarrow> True
      | SubAdministrator \<Rightarrow> role_in_room room author_id \<in> {Member, Moderator}
      | Moderator \<Rightarrow> can_delete (mod_permissions room) \<and> role_in_room room author_id = Member
      | Member \<Rightarrow> False)"

definition community_room :: "string \<Rightarrow> app_state \<Rightarrow> room_record option" where
  "community_room rid s = ofilter (\<lambda>room. room_kind room = Community) (find_room rid s)"

text \<open>Whether it may be deleted, and whether as a moderator.\<close>

definition delete_verdict :: "string \<Rightarrow> player_session \<Rightarrow> chat_message \<Rightarrow> app_state \<Rightarrow> bool \<times> bool" where
  "delete_verdict rid p m s =
     (case community_room rid s of
        Some room \<Rightarrow> if authored_by p m then (True, False)
          else let allowed = moderates_message room (ps_user_id p) (msg_user_id m) in (allowed, allowed)
      | None \<Rightarrow> (ps_is_admin p \<or> authored_by p m, False))"

definition erase_message :: "string \<Rightarrow> bool \<Rightarrow> chat_message \<Rightarrow> chat_message" where
  "erase_message username moderator m =
     m\<lparr>msg_text := [], msg_attachment := None, msg_encrypted := None, msg_preview := None, reactions := [],
       edited_at := None, deleted := True, deleted_by := username, deleted_by_moderator := moderator\<rparr>"

section \<open>Uploads in use (\<open>services/messaging.rs\<close>)\<close>

definition path_file_name :: "string \<Rightarrow> string option" where
  "path_file_name path =
     (case rev (filter (\<lambda>c. c \<noteq> [] \<and> c \<noteq> ''.'') (split_on (CHR ''/'') path)) of
        [] \<Rightarrow> None | c # _ \<Rightarrow> if c = ''..'' then None else Some c)"

definition profile_uses_file_id :: "string \<Rightarrow> account_db \<Rightarrow> bool api_result" where
  "profile_uses_file_id file_id db =
     (if \<not> db_ok db then Inl (internal ''Profile file search'')
      else Inr (list_ex (\<lambda>u. map_option (\<lambda>i. sf_id (pi_file i)) (up_avatar (us_profile u)) = Some file_id
        \<or> map_option (\<lambda>i. sf_id (pi_file i)) (up_banner (us_profile u)) = Some file_id) (users db)))"

definition room_icon_uses_file_id :: "string \<Rightarrow> app_state \<Rightarrow> bool api_result" where
  "room_icon_uses_file_id file_id s =
     (if \<not> rooms_read_ok s then Inl (internal ''Room icon search'')
      else Inr (list_ex (\<lambda>r. map_option sf_id (room_icon r) = Some file_id) (vals (rooms s))))"

definition upload_is_live :: "string \<Rightarrow> app_state \<Rightarrow> bool" where
  "upload_is_live raw_path s =
    (case path_file_name (trim_start_matches (\<lambda>c. c = CHR ''/'') raw_path) of
       None \<Rightarrow> False
     | Some file_id \<Rightarrow>
       if list_ex (list_ex (\<lambda>m. \<not> deleted m \<and> map_option at_id (msg_attachment m) = Some file_id)) (vals (room_messages s))
       then True
       else if profile_uses_file_id file_id (accounts s) = Inr True then True
       else room_icon_uses_file_id file_id s = Inr True)"

text \<open>The attachment's file goes with the message unless something else still uses it.\<close>

definition release_upload :: "string option \<Rightarrow> app_state \<Rightarrow> app_state" where
  "release_upload file_id s =
     (case file_id of None \<Rightarrow> s | Some i \<Rightarrow> if upload_is_live i s then s else remove_file i s)"

text \<open>What is done once the message is found: nothing for a deleted one.\<close>

definition apply_delete ::
  "nat \<Rightarrow> string \<Rightarrow> json \<Rightarrow> player_session \<Rightarrow> string \<Rightarrow> string \<Rightarrow> chat_message \<Rightarrow> app_state \<Rightarrow> handler_result" where
  "apply_delete now sid d p rid mid m s =
    (let done = (\<lambda>s. respond_to_sender sid (with_request_id (op_json 21 [(''ok'', JBool True),
           (''gameId'', JStr rid), (''messageId'', JStr mid)]) (request_id d)) s) in
     if deleted m then (False, done s)
     else (case delete_verdict rid p m s of (allowed, moderator) \<Rightarrow>
       if \<not> allowed then respond_error sid 21 ''You are not allowed to delete this message'' (request_id d) s
       else (let s = update_message rid mid (erase_message (ps_username p) moderator) s;
                 s = broadcast_to_room rid (op_json 22 [(''gameId'', JStr rid), (''messageId'', JStr mid),
                   (''deletedBy'', JStr (ps_username p)), (''deletedByModerator'', JBool moderator),
                   (''deletedAt'', jnat now)]) s
             in (False, release_upload (map_option at_id (msg_attachment m)) (done s)))))"

definition delete_message :: "nat \<Rightarrow> string \<Rightarrow> json \<Rightarrow> app_state \<Rightarrow> handler_result" where
  "delete_message now sid d s =
    (let err = (\<lambda>m s. respond_error sid 21 m (request_id d) s) in
     case rate_hit now (''delete_message:session:'' @ sid) 10 10000 s of (hit, s) \<Rightarrow>
     if hit then err ''Rate limit exceeded'' s else
    (case trimmed (str_field ''messageId'' d) of None \<Rightarrow> err ''Missing messageId'' s | Some mid \<Rightarrow>
    (case ofilter (\<lambda>p. ps_username p \<noteq> []) (map_of (players s) sid) of
       None \<Rightarrow> err ''You need to be identified before'' s | Some p \<Rightarrow>
    (case room_of_message s (trimmed (str_field ''gameId'' d)) mid of
       None \<Rightarrow> err ''Unknown messageId'' s | Some rid \<Rightarrow>
    (case find_message mid (messages_of s rid) of
       None \<Rightarrow> err ''Unknown messageId'' s | Some m \<Rightarrow> apply_delete now sid d p rid mid m s)))))"

definition edited_message :: "nat \<Rightarrow> player_session \<Rightarrow> string \<Rightarrow> encrypted_payload option \<Rightarrow> chat_message \<Rightarrow> chat_message" where
  "edited_message now p text enc m =
     m\<lparr>msg_text := (if enc \<noteq> None then [] else text), msg_profile := ps_profile p, msg_attachment := None,
       msg_encrypted := enc, msg_preview := None, edited_at := Some now\<rparr>"

text \<open>The edit once the request is well-formed.  Nothing asks whether the author may speak.\<close>

definition apply_edit ::
  "nat \<Rightarrow> string \<Rightarrow> json \<Rightarrow> string \<Rightarrow> string \<Rightarrow> string \<Rightarrow> encrypted_payload option \<Rightarrow> app_state \<Rightarrow> handler_result" where
  "apply_edit now sid d mid rid text enc s =
    (let req = request_id d; err = (\<lambda>m s. respond_error sid 29 m req s) in
     case ofilter (\<lambda>p. ps_username p \<noteq> []) (map_of (players s) sid) of
       None \<Rightarrow> err ''You need to be identified before'' s | Some p \<Rightarrow>
     if \<not> in_room rid p then err ''Not a member of this room'' s else
    (case find_message mid (messages_of s rid) of None \<Rightarrow> err ''Unknown messageId'' s | Some m \<Rightarrow>
     if deleted m then err ''Message was deleted'' s
     else if msg_system m then err ''System messages cannot be edited'' s
     else if \<not> authored_by p m then err ''Only the author can edit this message'' s
     else
       (let s = update_message rid mid (edited_message now p text enc) s;
            s = broadcast_to_room rid (JObj [(''op'', JInt 30), (''d'', message_json (edited_message now p text enc m))]) s
        in (False, respond_to_sender sid (with_request_id (op_json 29 [(''ok'', JBool True), (''gameId'', JStr rid),
              (''messageId'', JStr mid), (''editedAt'', jnat now)]) req) s))))"

definition edit_message :: "(json \<Rightarrow> nat) \<Rightarrow> nat \<Rightarrow> string \<Rightarrow> json \<Rightarrow> app_state \<Rightarrow> handler_result" where
  "edit_message json_len now sid d s =
    (let err = (\<lambda>m s. respond_error sid 29 m (request_id d) s) in
     case rate_hit now (''edit_message:session:'' @ sid) 10 10000 s of (hit, s) \<Rightarrow>
     if hit then err ''Rate limit exceeded'' s else
    (case trimmed (str_field ''messageId'' d) of None \<Rightarrow> err ''Missing messageId'' s | Some mid \<Rightarrow>
    (case parse_encrypted_payload json_len (obj_get ''encrypted'' d) of Inl m \<Rightarrow> err m s | Inr enc \<Rightarrow>
    (case map_option trim (str_field ''gameId'' d) of None \<Rightarrow> err ''Missing gameId'' s | Some rid \<Rightarrow>
     if encrypted_mismatch enc rid then err ''Encrypted room mismatch'' s else
    (case validate_room_id rid of Inl m \<Rightarrow> err m s | Inr _ \<Rightarrow>
     if enc \<noteq> None \<and> chat_text d \<noteq> [] then err ''Encrypted edits cannot include plaintext fields'' s
     else if enc = None \<and> chat_text d = [] then err ''Empty message'' s
     else apply_edit now sid d mid rid (chat_text d) enc s)))))"

section \<open>Link previews\<close>

definition MAX_PREVIEW_URL_LEN :: nat where "MAX_PREVIEW_URL_LEN = 2048"

definition sanitize_preview_url :: "string \<Rightarrow> string option" where
  "sanitize_preview_url v =
     (let t = trim v in
      if t = [] \<or> length t > MAX_PREVIEW_URL_LEN then None
      else if take 7 (str_ascii_lower t) \<noteq> ''http://'' \<and> take 8 (str_ascii_lower t) \<noteq> ''https://'' then None
      else Some t)"

text \<open>A spawned fetch: whose message it is for, and the edit it belongs to.\<close>

datatype preview_task =
    Chat_Preview string string
  | Edit_Preview string string nat
  | Encrypted_Preview string string "nat option"

definition announce_preview :: "string \<Rightarrow> string \<Rightarrow> link_preview \<Rightarrow> app_state \<Rightarrow> app_state" where
  "announce_preview rid mid preview = broadcast_to_room rid
     (op_json 23 [(''gameId'', JStr rid), (''messageId'', JStr mid), (''preview'', preview_json preview)])"

text \<open>Its last step.  A sent message that is no longer stored is announced all the same; the others
  are not.\<close>

definition preview_wanted :: "preview_task \<Rightarrow> chat_message \<Rightarrow> bool" where
  "preview_wanted task m =
     (case task of
        Chat_Preview _ _ \<Rightarrow> \<not> deleted m \<and> edited_at m = None
      | Edit_Preview _ _ t \<Rightarrow> \<not> deleted m \<and> msg_preview m = None \<and> edited_at m = Some t
      | Encrypted_Preview _ _ t \<Rightarrow> \<not> deleted m \<and> msg_encrypted m \<noteq> None \<and> msg_preview m = None \<and> edited_at m = t)"

fun task_room :: "preview_task \<Rightarrow> string" where
  "task_room (Chat_Preview r _) = r" | "task_room (Edit_Preview r _ _) = r" | "task_room (Encrypted_Preview r _ _) = r"

fun task_message :: "preview_task \<Rightarrow> string" where
  "task_message (Chat_Preview _ m) = m" | "task_message (Edit_Preview _ m _) = m"
| "task_message (Encrypted_Preview _ m _) = m"

definition finish_preview :: "preview_task \<Rightarrow> link_preview \<Rightarrow> app_state \<Rightarrow> app_state" where
  "finish_preview task preview s =
     (let rid = task_room task; mid = task_message task in
      case find_message mid (messages_of s rid) of
        None \<Rightarrow> (case task of Chat_Preview _ _ \<Rightarrow> announce_preview rid mid preview s | _ \<Rightarrow> s)
      | Some m \<Rightarrow> if preview_wanted task m then announce_preview rid mid preview
            (update_message rid mid (\<lambda>m. m\<lparr>msg_preview := Some preview\<rparr>) s) else s)"

text \<open>The answer, the state and the fetch to start, if any.\<close>

definition request_link_preview :: "nat \<Rightarrow> string \<Rightarrow> json \<Rightarrow> app_state \<Rightarrow> handler_result \<times> (preview_task \<times> string) option" where
  "request_link_preview now sid d s =
    (let err = (\<lambda>m s. (respond_error sid 28 m (request_id d) s, None)) in
     case map_option trim (str_field ''gameId'' d) of None \<Rightarrow> err ''Missing gameId'' s | Some rid \<Rightarrow>
    (case validate_room_id rid of Inl m \<Rightarrow> err m s | Inr _ \<Rightarrow>
    (case trimmed (str_field ''messageId'' d) of None \<Rightarrow> err ''Missing messageId'' s | Some mid \<Rightarrow>
    (case str_field ''url'' d of None \<Rightarrow> err ''Missing url'' s | Some raw_url \<Rightarrow>
    (case sanitize_preview_url raw_url of None \<Rightarrow> err ''Invalid url'' s | Some url \<Rightarrow>
    (case ofilter (\<lambda>p. ps_username p \<noteq> []) (map_of (players s) sid) of
       None \<Rightarrow> err ''You need to be identified before'' s | Some p \<Rightarrow>
     if \<not> in_room rid p then err ''Not a member of this room'' s else
    (case rate_hit now (if ps_user_id p = [] then ''link_preview:session:'' @ sid else ''link_preview:user:'' @ ps_user_id p)
        40 30000 s of (hit, s) \<Rightarrow>
     if hit then err ''Rate limit exceeded'' s else
    (case find_message mid (messages_of s rid) of None \<Rightarrow> err ''Unknown messageId'' s | Some m \<Rightarrow>
     if deleted m then err ''Message was deleted'' s
     else if msg_encrypted m = None then err ''Preview requests are only needed for encrypted messages'' s
     else ((False, respond_to_sender sid (with_request_id (op_json 28 [(''ok'', JBool True),
             (''messageId'', JStr mid)]) (request_id d)) s),
           if msg_preview m \<noteq> None then None else Some (Encrypted_Preview rid mid (edited_at m), url))))))))))"

end
