(* ===== verification/Socket_Sessions.thy ===== *)
theory Socket_Sessions
  imports Polls
begin

text \<open>
  \<open>websocket/mod.rs\<close>, the forced disconnections of \<open>core/presence.rs\<close>, and the operations of
  \<open>websocket/protocol.rs\<close> on a session: connecting, identifying (2), joining (3) and leaving (4)
  rooms, kill reports (5), the room signals (55), the mesh of an account's own devices (60, 62) and
  the check that a session's account still exists.  A token's digest is third-party: the parameter
  \<open>token_hash\<close>; \<open>json_len\<close> is the length of the text of a JSON value.
\<close>

definition MAX_ROOMS_PER_PLAYER :: nat where "MAX_ROOMS_PER_PLAYER = 100"
definition MAX_ROOM_SIGNAL_BYTES :: nat where "MAX_ROOM_SIGNAL_BYTES = 64 * 1024"
definition MAX_CLOUD_SYNC_BYTES :: nat where "MAX_CLOUD_SYNC_BYTES = 64 * 1024"
definition CLOUD_SYNC_RATE_LIMIT :: nat where "CLOUD_SYNC_RATE_LIMIT = 240"
definition CLOUD_SYNC_RATE_WINDOW_MS :: nat where "CLOUD_SYNC_RATE_WINDOW_MS = 10000"
definition SYNC_PEERS_RATE_LIMIT :: nat where "SYNC_PEERS_RATE_LIMIT = 15"
definition SYNC_PEERS_RATE_WINDOW_MS :: nat where "SYNC_PEERS_RATE_WINDOW_MS = 10000"

section \<open>Connecting\<close>

definition new_session :: "string \<Rightarrow> player_session" where
  "new_session sid = \<lparr>ps_id = sid, ps_user_id = [], ps_is_admin = False, ps_badges = [], ps_username = [],
     ps_rooms = [], ps_voice = False, ps_call_room = None, ps_camera = False, ps_screen = False,
     ps_deafened = False, ps_client_id = [], ps_platform = ''web'', ps_version = ''unknown'',
     ps_last_message = None, ps_mobile = None, ps_secure = None, ps_muted = [], ps_delete_on_leave = False,
     ps_profile = profile_default, ps_status = Online, ps_identified_at = 0, ps_last_revalidation = 0\<rparr>"

text \<open>The fresh channel of the connection has an empty queue.\<close>

definition register_connection :: "string \<Rightarrow> app_state \<Rightarrow> bool \<times> app_state" where
  "register_connection sid s =
     (if length (players s) \<ge> MAX_CONCURRENT_SESSIONS then (False, s)
      else (let s = s\<lparr>players := AList.update sid (new_session sid) (players s), outbox := (outbox s)(sid := [])\<rparr>
            in (True, record_session_opened (length (players s)) s)))"

section \<open>The devices of an account\<close>

definition broadcast_sync_peer_event ::
  "string \<Rightarrow> string \<Rightarrow> string \<Rightarrow> string \<Rightarrow> string option \<Rightarrow> app_state \<Rightarrow> app_state" where
  "broadcast_sync_peer_event user_id event client_id platform exclude s =
     (if trim user_id = [] \<or> trim client_id = [] then s
      else send_all (map (\<lambda>(_, p). ps_id p)
             (filter (\<lambda>(i, p). ps_user_id p = user_id \<and> Some i \<noteq> exclude) (players s)))
           (WText (op_json 63 [(''event'', JStr event), (''clientId'', JStr client_id),
              (''platform'', JStr platform)])) s)"

definition broadcast_sync_peer_leave :: "string \<Rightarrow> string \<Rightarrow> string \<Rightarrow> app_state \<Rightarrow> app_state" where
  "broadcast_sync_peer_leave user_id client_id platform s =
     broadcast_sync_peer_event user_id ''leave'' client_id platform None s"

definition sync_siblings :: "string \<Rightarrow> player_session \<Rightarrow> app_state \<Rightarrow> player_session list" where
  "sync_siblings sid sender s =
     map snd (filter (\<lambda>(i, p). i \<noteq> sid \<and> ps_user_id p = ps_user_id sender) (players s))"

text \<open>The sends with what they report: delivered, dropped, and the clients reached.\<close>

fun sync_fan_out ::
  "json \<Rightarrow> player_session list \<Rightarrow> nat \<Rightarrow> nat \<Rightarrow> string list \<Rightarrow> app_state \<Rightarrow> (nat \<times> nat \<times> string list) \<times> app_state" where
  "sync_fan_out payload [] delivered dropped reached s = ((delivered, dropped, reached), s)"
| "sync_fan_out payload (p # ps) delivered dropped reached s =
     (if length (outbox s (ps_id p)) < PER_SESSION_QUEUE
      then sync_fan_out payload ps (delivered + 1) dropped
             (if ps_client_id p = [] then reached else List.insert (ps_client_id p) reached)
             (try_send (ps_id p) (WText payload) s)
      else sync_fan_out payload ps delivered (dropped + 1) reached s)"

definition object_field :: "string \<Rightarrow> json \<Rightarrow> json option" where
  "object_field k d = ofilter (\<lambda>v. as_object v \<noteq> None) (obj_get k d)"

definition relay_cloud_sync_op :: "(json \<Rightarrow> nat) \<Rightarrow> nat \<Rightarrow> string \<Rightarrow> json \<Rightarrow> app_state \<Rightarrow> handler_result" where
  "relay_cloud_sync_op json_len now sid d s =
    (let req = request_id d; err = (\<lambda>m s. respond_error sid 60 m req s) in
     case rate_hit now (''cloud_sync:session:'' @ sid) CLOUD_SYNC_RATE_LIMIT CLOUD_SYNC_RATE_WINDOW_MS s of (hit, s) \<Rightarrow>
     if hit then err ''Rate limit exceeded'' s else
    (case object_field ''encrypted'' d of None \<Rightarrow> err ''Missing payload'' s | Some encrypted \<Rightarrow>
     if json_len encrypted > MAX_CLOUD_SYNC_BYTES then err ''Payload too large'' s else
    (case map_of (players s) sid of None \<Rightarrow> err ''You need to be identified before'' s | Some sender \<Rightarrow>
     if trim (ps_user_id sender) = [] \<or> ps_username sender = [] then err ''You need to be identified before'' s
     else if ps_client_id sender = [] then err ''Missing clientId'' s
     else
      (let to_client = sanitize_client_id (str_field ''toClientId'' d);
           siblings = sync_siblings sid sender s;
           targets = filter (\<lambda>p. to_client = [] \<or> ps_client_id p = to_client) siblings;
           payload = op_json 61 [(''fromClientId'', JStr (ps_client_id sender)), (''toClientId'', JStr to_client),
                       (''encrypted'', encrypted)]
       in case sync_fan_out payload targets 0 0 [] s of ((delivered, dropped, reached), s) \<Rightarrow>
          (False, if req = None then s
             else respond_to_sender sid (with_request_id (op_json 60 [(''ok'', JBool True),
               (''delivered'', jnat delivered), (''dropped'', jnat dropped), (''peers'', strs_json (sort reached)),
               (''peerCount'', jnat (length siblings))]) req) s)))))"

definition sync_peers_op :: "nat \<Rightarrow> string \<Rightarrow> json \<Rightarrow> app_state \<Rightarrow> handler_result" where
  "sync_peers_op now sid d s =
    (let req = request_id d; err = (\<lambda>m s. respond_error sid 62 m req s) in
     case rate_hit now (''sync_peers:session:'' @ sid) SYNC_PEERS_RATE_LIMIT SYNC_PEERS_RATE_WINDOW_MS s of (hit, s) \<Rightarrow>
     if hit then err ''Rate limit exceeded'' s else
    (case map_of (players s) sid of None \<Rightarrow> err ''You need to be identified before'' s | Some p \<Rightarrow>
     if trim (ps_user_id p) = [] \<or> ps_username p = [] then err ''You need to be identified before'' s
     else
      (let peers = sort_key ps_client_id (filter (\<lambda>q. ps_client_id q \<noteq> []) (sync_siblings sid p s))
       in (False, respond_to_sender sid (with_request_id (op_json 62 [(''ok'', JBool True),
            (''self'', JStr (ps_client_id p)),
            (''peers'', JArr (map (\<lambda>q. JObj [(''clientId'', JStr (ps_client_id q)),
               (''platform'', JStr (ps_platform q))]) peers))]) req) s))))"

section \<open>Identifying\<close>

definition parse_user_status :: "json option \<Rightarrow> presence_status" where
  "parse_user_status raw =
     (case map_option trim (obind raw as_str) of
        None \<Rightarrow> Online
      | Some t \<Rightarrow> if t = ''invisible'' then Invisible
          else if t = ''dnd'' \<or> t = ''doNotDisturb'' \<or> t = ''do_not_disturb'' then Dnd else Online)"

definition default_room_json :: "default_room option \<Rightarrow> json" where
  "default_room_json r = (case r of None \<Rightarrow> JNull | Some r \<Rightarrow> JObj [(''roomId'', JStr (dr_room_id r)),
     (''roomKey'', JStr (dr_room_key r)), (''title'', JStr (dr_title r))])"

definition requested_status :: "json \<Rightarrow> presence_status option" where
  "requested_status d = map_option (\<lambda>v. parse_user_status (Some v)) (or_else (obj_get ''status'' d) (obj_get ''presenceStatus'' d))"

text \<open>What the session becomes.  The room and the media of a call are left as they are.\<close>

definition identified :: "nat \<Rightarrow> public_user \<Rightarrow> presence_status \<Rightarrow> json \<Rightarrow> player_session \<Rightarrow> player_session" where
  "identified now account st d p =
     p\<lparr>ps_user_id := pu_id account, ps_is_admin := pu_admin account, ps_badges := pu_badges account,
       ps_username := pu_username account, ps_voice := unwrap_or False (bool_field ''isVoiceChat'' d),
       ps_delete_on_leave := unwrap_or False (bool_field ''deleteMessagesOnLeave'' d),
       ps_version := unwrap_or ''unknown'' (str_field ''v'' d),
       ps_client_id := sanitize_client_id (str_field ''clientId'' d),
       ps_platform := sanitize_platform (str_field ''platform'' d),
       ps_mobile := bool_field ''isMobile'' d, ps_secure := bool_field ''isSecure'' d,
       ps_profile := pu_profile account, ps_status := st,
       ps_identified_at := now, ps_last_revalidation := now\<rparr>"

definition identify_player :: "(string \<Rightarrow> string) \<Rightarrow> nat \<Rightarrow> string \<Rightarrow> json \<Rightarrow> app_state \<Rightarrow> handler_result" where
  "identify_player token_hash now sid d s =
    (let req = request_id d; err = (\<lambda>m s. respond_error sid 2 m req s) in
     case trimmed (obind (or_else (obj_get ''token'' d) (obj_get ''authToken'' d)) as_str) of
       None \<Rightarrow> err ''Account session required'' s
     | Some token \<Rightarrow>
    (case authenticate_token token_hash now token (accounts s) of
       Inl e \<Rightarrow> err ''Authentication failed'' s
     | Inr None \<Rightarrow> err ''Invalid account session'' s
     | Inr (Some account) \<Rightarrow>
      (let st = unwrap_or (pu_status account) (requested_status d);
           s = (if st \<noteq> pu_status account then s\<lparr>accounts := snd (update_status now (pu_id account) st (accounts s))\<rparr> else s)
       in case map_of (players s) sid of None \<Rightarrow> (False, s) | Some before \<Rightarrow>
          (let after = identified now account st d before;
               s = s\<lparr>players := adjust sid (identified now account st d) (players s)\<rparr>;
               default_room = (case get_default_room (accounts s) of Inr r \<Rightarrow> r | Inl _ \<Rightarrow> None);
               s = respond_to_sender sid (with_request_id (op_json 2 [(''userId'', JStr (pu_id account)),
                     (''username'', JStr (pu_username account)), (''admin'', JBool (pu_admin account)),
                     (''profile'', profile_json (pu_profile account)), (''status'', status_json st),
                     (''badges'', strs_json (pu_badges account)), (''defaultRoom'', default_room_json default_room)]) req) s
           in (False, if ps_client_id after \<noteq> [] \<and> ps_client_id before \<noteq> ps_client_id after
                then broadcast_sync_peer_event (pu_id account) ''join'' (ps_client_id after) (ps_platform after) (Some sid) s
                else s)))))"

text \<open>Whether the session may go on; the account is asked again every five minutes.\<close>

definition revalidate_session :: "nat \<Rightarrow> string \<Rightarrow> app_state \<Rightarrow> bool \<times> app_state" where
  "revalidate_session now sid s =
    (case map_of (players s) sid of None \<Rightarrow> (True, s) | Some p \<Rightarrow>
     if ps_user_id p = [] then (True, s)
     else if ps_identified_at p \<noteq> 0 \<and> now - ps_identified_at p > 30 * 24 * 60 * 60 * 1000 then (False, s)
     else if now - ps_last_revalidation p < 5 * 60 * 1000 then (True, s)
     else (case session_revalidation (ps_user_id p) (accounts s) of
         Inl _ \<Rightarrow> (True, s)
       | Inr None \<Rightarrow> (False, s)
       | Inr (Some (_, _, admin, badges, username)) \<Rightarrow>
           (True, s\<lparr>players := adjust sid (\<lambda>p. p\<lparr>ps_is_admin := admin, ps_badges := badges,
               ps_username := username, ps_last_revalidation := now\<rparr>) (players s)\<rparr>)))"

section \<open>Joining and leaving rooms\<close>

definition session_status :: "app_state \<Rightarrow> string \<Rightarrow> presence_status option" where
  "session_status s sid = map_option ps_status (map_of (players s) sid)"

text \<open>What is done while the session table is locked: the room is entered before it is looked up.\<close>

definition enter_room :: "string \<Rightarrow> string \<Rightarrow> app_state \<Rightarrow> (string + bool \<times> player_session) \<times> app_state" where
  "enter_room sid game_id s =
    (case map_of (players s) sid of
       None \<Rightarrow> (Inl ''You need to be identified before'', s)
     | Some p \<Rightarrow>
       if ps_username p = [] then (Inl ''You need to be identified before'', s)
       else if \<not> in_room game_id p \<and> length (ps_rooms p) \<ge> MAX_ROOMS_PER_PLAYER then
         (Inl ''Maximum room limit reached (100 rooms max)'', s)
       else (Inr (in_room game_id p, p),
             s\<lparr>players := adjust sid (\<lambda>p. p\<lparr>ps_rooms := List.insert game_id (ps_rooms p)\<rparr>) (players s)\<rparr>))"

definition exit_room :: "string \<Rightarrow> string \<Rightarrow> app_state \<Rightarrow> app_state" where
  "exit_room sid game_id s =
     s\<lparr>players := adjust sid (\<lambda>p. p\<lparr>ps_rooms := removeAll game_id (ps_rooms p)\<rparr>) (players s)\<rparr>"

definition banned_from :: "string \<Rightarrow> string \<Rightarrow> app_state \<Rightarrow> bool" where
  "banned_from game_id user_id s =
     (case find_room game_id s of
        Some room \<Rightarrow> room_kind room = Community \<and> user_id \<in> dom (map_of (banned room)) | None \<Rightarrow> False)"

text \<open>The record as it is announced: the stored one, or a fresh one with the visible members.\<close>

definition shown_room :: "string \<Rightarrow> string option \<Rightarrow> app_state \<Rightarrow> room_record" where
  "shown_room game_id viewer s =
     unwrap_or ((fresh_room game_id)\<lparr>room_members := room_usernames s game_id viewer\<rparr>) (find_room game_id s)"

definition room_icon_url :: "room_record \<Rightarrow> string" where
  "room_icon_url room = (case room_icon room of Some f \<Rightarrow> sf_url f | None \<Rightarrow> [])"

definition announce_join ::
  "voter_hash \<Rightarrow> string \<Rightarrow> string option \<Rightarrow> string \<Rightarrow> bool \<Rightarrow> bool \<Rightarrow> player_session \<Rightarrow> app_state \<Rightarrow> app_state" where
  "announce_join voter_hash sid req game_id already_in silent p s =
    (let room = shown_room game_id (Some sid) s;
         roster = roster_fields s game_id None;
         own = roster_fields s game_id (Some sid);
         s = (if \<not> already_in \<and> \<not> silent \<and> session_status s sid \<noteq> Some Invisible
              then broadcast_to_room game_id (op_json 3 ([(''ok'', JBool True), (''system'', JBool True),
                (''gameId'', JStr game_id), (''joined'', JStr (ps_username p))] @ roster
                @ [(''iconUrl'', JStr (room_icon_url room)), (''room'', room_json room)])) s
              else s);
         s = respond_to_sender sid (with_request_id (op_json 3 ([(''ok'', JBool True), (''gameId'', JStr game_id)]
               @ own @ [(''alreadyJoined'', JBool already_in), (''iconUrl'', JStr (room_icon_url room)),
                 (''myRole'', JStr (role_to_str (role_in_room room (ps_user_id p)))), (''room'', room_json room)])) req) s
     in dispatch_room_history voter_hash sid game_id None s)"

definition join_game :: "voter_hash \<Rightarrow> nat \<Rightarrow> string \<Rightarrow> json \<Rightarrow> app_state \<Rightarrow> handler_result" where
  "join_game voter_hash now sid d s =
    (let req = request_id d; err = (\<lambda>m s. respond_error sid 3 m req s) in
     case rate_hit now (''join:session:'' @ sid) 150 10000 s of (hit, s) \<Rightarrow>
     if hit then err ''Join rate limit exceeded'' s else
    (case map_option trim (str_field ''gameId'' d) of None \<Rightarrow> err ''Malformed request'' s | Some game_id \<Rightarrow>
    (case validate_room_id game_id of Inl m \<Rightarrow> err m s | Inr _ \<Rightarrow>
    (case enter_room sid game_id s of (Inl m, s) \<Rightarrow> err m s | (Inr (already_in, p), s) \<Rightarrow>
     if \<not> already_in \<and> banned_from game_id (ps_user_id p) s then
       (False, respond_to_sender sid (with_request_id (op_json 3 [(''error'', JStr ''You are banned from this room''),
          (''gameId'', JStr game_id), (''banned'', JBool True)]) req) (exit_room sid game_id s))
     else (False, announce_join voter_hash sid req game_id already_in (unwrap_or False (bool_field ''silentJoin'' d)) p
            (if already_in then s else snd (sync_room_record game_id s)))))))"

text \<open>The messages are found by the name of who leaves; the files of their attachments stay.\<close>

definition cleared_message :: "chat_message \<Rightarrow> chat_message" where
  "cleared_message m = m\<lparr>msg_text := [], msg_attachment := None, msg_encrypted := None, msg_preview := None,
     reactions := [], deleted := True\<rparr>"

definition delete_user_messages_in_room_and_broadcast ::
  "nat \<Rightarrow> string \<Rightarrow> string \<Rightarrow> app_state \<Rightarrow> string list \<times> app_state" where
  "delete_user_messages_in_room_and_broadcast now game_id deleted_by_name s =
    (case map_of (room_messages s) game_id of None \<Rightarrow> ([], s) | Some ms \<Rightarrow>
      (let mine = (\<lambda>m. \<not> deleted m \<and> msg_username m = deleted_by_name);
           ids = map message_id (filter mine ms);
           s = s\<lparr>room_messages := AList.update game_id (map (\<lambda>m. if mine m then cleared_message m else m) ms) (room_messages s)\<rparr>
       in if ids = [] then (ids, s)
          else (ids, broadcast_to_room game_id (op_json 25 [(''ok'', JBool True), (''gameId'', JStr game_id),
             (''deletedBy'', JStr deleted_by_name), (''deletedAt'', jnat now), (''deletedCount'', jnat (length ids)),
             (''messageIds'', strs_json ids)]) s)))"

definition announce_leave :: "nat \<Rightarrow> string \<Rightarrow> string option \<Rightarrow> string \<Rightarrow> player_session \<Rightarrow> app_state \<Rightarrow> app_state" where
  "announce_leave now sid req game_id p s =
    (let s = snd (sync_room_record game_id s);
         s = broadcast_to_room game_id (op_json 4 ([(''gameId'', JStr game_id), (''left'', JStr (ps_username p)),
               (''clientId'', JStr (ps_client_id p))] @ roster_fields s game_id None
               @ [(''room'', room_json (shown_room game_id None s))])) s
     in case (if ps_delete_on_leave p then delete_user_messages_in_room_and_broadcast now game_id (ps_username p) s
              else ([], s)) of (ids, s) \<Rightarrow>
        respond_to_sender sid (with_request_id (op_json 4 [(''ok'', JBool True), (''gameId'', JStr game_id),
           (''messagesDeleted'', JBool (ps_delete_on_leave p)), (''deletedCount'', jnat (length ids)),
           (''deletedMessageIds'', strs_json ids)]) req) s)"

definition leave_game :: "nat \<Rightarrow> string \<Rightarrow> json \<Rightarrow> app_state \<Rightarrow> handler_result" where
  "leave_game now sid d s =
    (let req = request_id d; err = (\<lambda>m s. respond_error sid 4 m req s) in
     case rate_hit now (''leave:session:'' @ sid) 25 10000 s of (hit, s) \<Rightarrow>
     if hit then err ''Leave rate limit exceeded'' s else
    (case map_option trim (str_field ''gameId'' d) of None \<Rightarrow> err ''Missing gameId'' s | Some game_id \<Rightarrow>
    (case validate_room_id game_id of Inl m \<Rightarrow> err m s | Inr _ \<Rightarrow>
    (case map_of (players s) sid of None \<Rightarrow> err ''You need to be identified before'' s | Some p \<Rightarrow>
     if \<not> in_room game_id p then err ''Not a member of this room'' s
     else (False, announce_leave now sid req game_id p (exit_room sid game_id s))))))"

section \<open>Kill reports and room signals\<close>

definition report_kill :: "nat \<Rightarrow> string \<Rightarrow> json \<Rightarrow> app_state \<Rightarrow> handler_result" where
  "report_kill now sid d s =
    (let req = request_id d; err = (\<lambda>m s. respond_error sid 5 m req s);
         name = (\<lambda>k. map_option (\<lambda>v. take 64 (trim v)) (str_field k d)) in
     case rate_hit now (''report_kill:session:'' @ sid) 10 10000 s of (hit, s) \<Rightarrow>
     if hit then err ''Kill report rate limit exceeded'' s else
    (case (name ''killer'', name ''killed'') of (Some killer, Some killed) \<Rightarrow>
       if killer = [] \<or> killed = [] then err ''Malformed request'' s else
      (case trimmed (str_field ''gameId'' d) of None \<Rightarrow> err ''Missing gameId'' s | Some game_id \<Rightarrow>
       if \<not> (case map_of (players s) sid of Some p \<Rightarrow> in_room game_id p | None \<Rightarrow> False)
       then err ''Not a member of this room'' s
       else (False, respond_to_sender sid (with_request_id (op_json 5 [(''ok'', JBool True), (''gameId'', JStr game_id)]) req)
              (broadcast_to_room game_id (op_json 5 [(''gameId'', JStr game_id), (''killer'', JStr killer),
                 (''killed'', JStr killed), (''timestamp'', jnat now)]) s)))
     | _ \<Rightarrow> err ''Malformed request'' s))"

definition relay_room_signal :: "(json \<Rightarrow> nat) \<Rightarrow> nat \<Rightarrow> string \<Rightarrow> json \<Rightarrow> app_state \<Rightarrow> handler_result" where
  "relay_room_signal json_len now sid d s =
    (let req = request_id d; err = (\<lambda>m s. respond_error sid 55 m req s) in
     case rate_hit now (''room_signal:session:'' @ sid) 60 10000 s of (hit, s) \<Rightarrow>
     if hit then err ''Rate limit exceeded'' s else
    (case trimmed (str_field ''gameId'' d) of None \<Rightarrow> err ''Missing gameId'' s | Some rid \<Rightarrow>
    (case object_field ''encrypted'' d of None \<Rightarrow> err ''Missing payload'' s | Some encrypted \<Rightarrow>
     if json_len encrypted > MAX_ROOM_SIGNAL_BYTES then err ''Payload too large'' s else
    (case map_of (players s) sid of None \<Rightarrow> err ''You need to be identified before'' s | Some sender \<Rightarrow>
     if ps_username sender = [] \<or> \<not> in_room rid sender then err ''Not a member of this room'' s
     else (False, send_all (map (\<lambda>(_, p). ps_id p) (filter (\<lambda>(i, p). i \<noteq> sid \<and> in_room rid p) (players s)))
       (WText (op_json 56 [(''roomId'', JStr rid), (''from'', JStr (ps_username sender)), (''encrypted'', encrypted)])) s)))))"

section \<open>Disconnecting\<close>

text \<open>What one room sees of a session that is gone.\<close>

definition depart_room :: "nat \<Rightarrow> player_session \<Rightarrow> string \<Rightarrow> app_state \<Rightarrow> app_state" where
  "depart_room now p game_id s =
    (let visible = ps_status p \<noteq> Invisible;
         s = snd (sync_room_record game_id s);
         s = (if visible then broadcast_to_room game_id (op_json 4 [(''gameId'', JStr game_id),
                (''left'', JStr (ps_username p)), (''clientId'', JStr (ps_client_id p)),
                (''room'', room_json (unwrap_or (fresh_room game_id) (find_room game_id s)))]) s else s);
         s = (if ps_delete_on_leave p
              then snd (delete_user_messages_in_room_and_broadcast now game_id (ps_username p) s) else s)
     in if visible then broadcast_to_room game_id (op_json 98 [(''gameId'', JStr game_id), (''user'', JStr (ps_username p)),
            (''status'', status_json (ps_status p)), (''isVoiceChat'', JBool False),
            (''clientId'', JStr (ps_client_id p)), (''platform'', JStr (ps_platform p))]) s else s)"

definition disconnect_player :: "nat \<Rightarrow> string \<Rightarrow> app_state \<Rightarrow> app_state" where
  "disconnect_player now sid s =
    (case map_of (players s) sid of None \<Rightarrow> s | Some p \<Rightarrow>
      (let s = s\<lparr>players := AList.delete sid (players s)\<rparr>;
           s = (if ps_user_id p \<noteq> [] \<and> ps_client_id p \<noteq> []
                then broadcast_sync_peer_leave (ps_user_id p) (ps_client_id p) (ps_platform p) s else s)
       in fold (depart_room now p) (ps_rooms p) s))"

definition close_with :: "nat \<Rightarrow> json \<Rightarrow> string \<Rightarrow> app_state \<Rightarrow> app_state" where
  "close_with now payload user_id s =
    (fold (\<lambda>i s. disconnect_player now i (try_send i WClose (try_send i (WText payload) s)))
       (map ps_id (filter (\<lambda>p. ps_user_id p = user_id) (vals (players s)))) s)"

definition evict_user :: "nat \<Rightarrow> string \<Rightarrow> string \<Rightarrow> app_state \<Rightarrow> app_state" where
  "evict_user now user_id reason s = close_with now (op_json 999 [(''reason'', JStr reason)]) user_id s"

definition disconnect_user_sessions :: "nat \<Rightarrow> string \<Rightarrow> string \<Rightarrow> app_state \<Rightarrow> app_state" where
  "disconnect_user_sessions now user_id reason s = close_with now (op_json 0 [(''error'', JStr reason)]) user_id s"

definition invalidate_public_profile_cache :: "string option \<Rightarrow> string option \<Rightarrow> app_state \<Rightarrow> app_state" where
  "invalidate_public_profile_cache user_id uname s =
     s\<lparr>profile_cache := filter (\<lambda>(key, _).
        (case user_id of Some i \<Rightarrow> key \<noteq> ''id:'' @ trim i | None \<Rightarrow> True)
        \<and> (case uname of Some n \<Rightarrow> key \<noteq> ''username:'' @ str_ascii_lower (trim n) | None \<Rightarrow> True)) (profile_cache s)\<rparr>"

end
