(* ===== verification/Calls.thy ===== *)
theory Calls
  imports Socket_Sessions
begin

text \<open>
  \<open>websocket/protocol.rs\<close>, calls: joining and leaving a call (98), its media (110), signalling
  between two of its members (111) and the deafened state (112); the list of muted users (100),
  typing (31) and the administrator's status and broadcast (101, 104).
\<close>

definition VOICE_JOINS_PER_MINUTE :: nat where "VOICE_JOINS_PER_MINUTE = 6"
definition MAX_MUTED_USERS_PER_PLAYER :: nat where "MAX_MUTED_USERS_PER_PLAYER = 200"

definition normalize_call_media :: "json option \<Rightarrow> bool \<Rightarrow> bool \<times> bool \<times> bool" where
  "normalize_call_media media fallback_audio =
     (let flag = (\<lambda>k. obind media (bool_field k)) in
      (unwrap_or fallback_audio (flag ''audio''), unwrap_or False (flag ''camera''), unwrap_or False (flag ''screen'')))"

definition calls_on :: "app_state \<Rightarrow> bool" where
  "calls_on s = (case feature_flags (accounts s) of Inr f \<Rightarrow> ff_calls_enabled f | Inl _ \<Rightarrow> True)"

section \<open>Joining and leaving a call\<close>

definition leads_room :: "room_record \<Rightarrow> string \<Rightarrow> bool" where
  "leads_room room user_id \<longleftrightarrow> role_in_room room user_id \<in> {Administrator, SubAdministrator}"

definition calls_refused :: "string option \<Rightarrow> string \<Rightarrow> app_state \<Rightarrow> bool" where
  "calls_refused call_room user_id s =
     (case obind call_room (\<lambda>rid. find_room rid s) of
        Some room \<Rightarrow> room_kind room = Community \<and> \<not> room_calls_enabled room
          \<and> \<not> leads_room room user_id \<and> the call_room \<notin> set (call_access_overrides s)
      | None \<Rightarrow> False)"

text \<open>Who leads a room and leaves a call there takes back the members' access.\<close>

definition revoke_call_access :: "string option \<Rightarrow> string \<Rightarrow> app_state \<Rightarrow> app_state" where
  "revoke_call_access call_room user_id s =
     (case call_room of None \<Rightarrow> s | Some rid \<Rightarrow>
       (case find_room rid s of None \<Rightarrow> s | Some room \<Rightarrow>
         if leads_room room user_id
         then broadcast_to_room rid (op_json 51 [(''gameId'', JStr rid), (''allowMembers'', JBool False)])
                (s\<lparr>call_access_overrides := removeAll rid (call_access_overrides s)\<rparr>)
         else s))"

definition out_of_call :: "player_session \<Rightarrow> player_session" where
  "out_of_call p = p\<lparr>ps_voice := False, ps_camera := False, ps_screen := False, ps_call_room := None, ps_deafened := False\<rparr>"

definition stale_voice :: "string \<Rightarrow> string \<Rightarrow> player_session \<Rightarrow> bool" where
  "stale_voice sid user_id p \<longleftrightarrow> ps_id p \<noteq> sid \<and> ps_user_id p = user_id \<and> ps_voice p"

text \<open>The other sessions of the account that are in a call leave it.\<close>

definition evict_stale :: "bool \<Rightarrow> string \<Rightarrow> app_state \<Rightarrow> player_session list \<times> app_state" where
  "evict_stale joins sid s =
     (case (if joins then ofilter (\<lambda>i. i \<noteq> []) (map_option ps_user_id (map_of (players s) sid)) else None) of
        None \<Rightarrow> ([], s)
      | Some user_id \<Rightarrow> (filter (stale_voice sid user_id) (vals (players s)),
          s\<lparr>players := map_vals (\<lambda>p. if stale_voice sid user_id p then out_of_call p else p) (players s)\<rparr>))"

definition with_call :: "bool \<Rightarrow> bool \<Rightarrow> bool \<Rightarrow> string option \<Rightarrow> player_session \<Rightarrow> player_session" where
  "with_call voice camera screen call_room p =
     p\<lparr>ps_voice := voice, ps_camera := voice \<and> camera, ps_screen := voice \<and> screen,
       ps_call_room := (if voice then call_room else None), ps_deafened := voice \<and> ps_deafened p\<rparr>"

definition call_notice :: "nat \<Rightarrow> player_session \<Rightarrow> bool \<Rightarrow> (string \<times> json) list \<Rightarrow> string \<Rightarrow> app_state \<Rightarrow> app_state" where
  "call_notice opn p voice media game_id = broadcast_to_room game_id (op_json opn ([(''gameId'', JStr game_id),
     (''user'', JStr (ps_username p)), (''status'', status_json (ps_status p)), (''isVoiceChat'', JBool voice),
     (''clientId'', JStr (ps_client_id p)), (''platform'', JStr (ps_platform p))] @ media))"

definition join_call :: "string \<Rightarrow> bool \<Rightarrow> bool \<Rightarrow> bool \<Rightarrow> string option \<Rightarrow> app_state \<Rightarrow> (string + player_session \<times> string list) \<times> app_state" where
  "join_call sid voice camera screen call_room s =
    (case map_of (players s) sid of None \<Rightarrow> (Inl ''You need to be identified before'', s) | Some p \<Rightarrow>
     if voice \<and> ps_status p = Invisible then (Inl ''Invisible users cannot join voice chat'', s)
     else if (case call_room of Some rid \<Rightarrow> \<not> in_room rid p | None \<Rightarrow> False) then (Inl ''Not a member of this room'', s)
     else (Inr (with_call voice camera screen call_room p, case call_room of Some rid \<Rightarrow> [rid] | None \<Rightarrow> ps_rooms p),
           s\<lparr>players := adjust sid (with_call voice camera screen call_room) (players s)\<rparr>))"

definition commit_voice :: "string \<Rightarrow> string option \<Rightarrow> bool \<Rightarrow> bool \<Rightarrow> bool \<Rightarrow> string option \<Rightarrow> app_state \<Rightarrow> handler_result" where
  "commit_voice sid req voice camera screen call_room s =
    (case evict_stale voice sid s of (evicted, s) \<Rightarrow>
     case join_call sid voice camera screen call_room s of
       (Inl m, s) \<Rightarrow> respond_error sid 98 m req s
     | (Inr (p, rids), s) \<Rightarrow>
       (let s = fold (call_notice 98 p voice [(''media'', call_media_json (ps_voice p) (ps_camera p) (ps_screen p))]) rids s;
            s = fold (\<lambda>q s. fold (call_notice 98 q False []) (ps_rooms q) s) evicted s
        in (False, respond_to_sender sid (with_request_id (op_json 98 [(''ok'', JBool True)]) req) s)))"

text \<open>The account and whether it is in a call already; a session that is gone has neither.\<close>

definition voice_context :: "app_state \<Rightarrow> string \<Rightarrow> string \<times> bool" where
  "voice_context s sid = (case map_of (players s) sid of Some p \<Rightarrow> (ps_user_id p, ps_voice p) | None \<Rightarrow> ([], False))"

definition voice_join_key :: "string \<Rightarrow> string \<Rightarrow> string" where
  "voice_join_key sid user_id =
     (if user_id = [] then ''voice_join:session:'' @ sid else ''voice_join:user:'' @ user_id)"

definition update_voice_chat :: "nat \<Rightarrow> string \<Rightarrow> json \<Rightarrow> app_state \<Rightarrow> handler_result" where
  "update_voice_chat now sid d s =
    (let req = request_id d; err = (\<lambda>m s. respond_error sid 98 m req s);
         voice = unwrap_or False (bool_field ''isVoiceChat'' d) in
     case rate_hit now (''voice_chat:session:'' @ sid) 10 5000 s of (hit, s) \<Rightarrow>
     if hit then err ''Voice chat rate limit exceeded'' s
     else if voice \<and> \<not> calls_on s then err ''Calls are disabled by the server'' s else
    (case normalize_call_media (obj_get ''media'' d) voice of (_, camera, screen) \<Rightarrow>
    (case voice_context s sid of (user_id, in_voice) \<Rightarrow>
    (let call_room = trimmed (str_field ''gameId'' d) in
     case (if voice \<and> \<not> in_voice then rate_hit now (voice_join_key sid user_id) VOICE_JOINS_PER_MINUTE 60000 s
           else (False, s)) of (hit, s) \<Rightarrow>
     if hit then err ''Too many call joins, wait a moment'' s
     else if voice \<and> calls_refused call_room user_id s then err ''Calls are disabled in this room'' s
     else commit_voice sid req voice camera screen call_room
            (if voice then s else revoke_call_access call_room user_id s)))))"

section \<open>The media of a call\<close>

definition in_call_elsewhere :: "string \<Rightarrow> app_state \<Rightarrow> bool" where
  "in_call_elsewhere sid s =
     (case map_of (players s) sid of
        Some p \<Rightarrow> ps_user_id p \<noteq> [] \<and> list_ex (stale_voice sid (ps_user_id p)) (vals (players s)) | None \<Rightarrow> False)"

definition claim_call :: "string \<Rightarrow> bool \<Rightarrow> bool \<Rightarrow> bool \<Rightarrow> string option \<Rightarrow> app_state \<Rightarrow> (string + player_session \<times> string list) \<times> app_state" where
  "claim_call sid voice camera screen call_room s =
    (case map_of (players s) sid of None \<Rightarrow> (Inl ''You need to be identified before'', s) | Some p \<Rightarrow>
     if ps_username p = [] then (Inl ''You need to be identified before'', s)
     else if voice \<and> ps_status p = Invisible then (Inl ''Invisible users cannot join calls'', s)
     else if voice \<and> in_call_elsewhere sid s then (Inl ''This account is already connected to a call'', s)
     else if (case call_room of Some rid \<Rightarrow> \<not> in_room rid p | None \<Rightarrow> False) then (Inl ''Not a member of this room'', s)
     else (Inr (with_call voice camera screen call_room p, case call_room of Some rid \<Rightarrow> [rid] | None \<Rightarrow> ps_rooms p),
           s\<lparr>players := adjust sid (with_call voice camera screen call_room) (players s)\<rparr>))"

definition update_call_media_state :: "nat \<Rightarrow> string \<Rightarrow> json \<Rightarrow> app_state \<Rightarrow> handler_result" where
  "update_call_media_state now sid d s =
    (let req = request_id d; err = (\<lambda>m s. respond_error sid 110 m req s);
         voice = unwrap_or False (bool_field ''isVoiceChat'' d) in
     case rate_hit now (''call_media:session:'' @ sid) 10 5000 s of (hit, s) \<Rightarrow>
     if hit then err ''Media state rate limit exceeded'' s
     else if voice \<and> \<not> calls_on s then err ''Calls are disabled by the server'' s else
    (case normalize_call_media (obj_get ''media'' d) voice of (audio, camera, screen) \<Rightarrow>
    (case claim_call sid voice camera screen (trimmed (str_field ''gameId'' d)) s of
       (Inl m, s) \<Rightarrow> err m s
     | (Inr (p, rids), s) \<Rightarrow>
       (let s = fold (call_notice 110 p voice [(''media'', call_media_json (audio \<and> voice) (ps_camera p) (ps_screen p))]) rids s
        in (False, respond_to_sender sid (with_request_id (op_json 110 [(''ok'', JBool True)]) req) s)))))"

section \<open>Signalling\<close>

text \<open>A member of the call in that room: a candidate to be signalled to.\<close>

definition in_call :: "string \<Rightarrow> player_session \<Rightarrow> bool" where
  "in_call game_id p \<longleftrightarrow> in_room game_id p \<and> is_call_in_room p game_id"

definition signal_target :: "string \<Rightarrow> string \<Rightarrow> string \<Rightarrow> player_session \<Rightarrow> bool" where
  "signal_target game_id to_user to_client p \<longleftrightarrow>
     ps_username p = to_user \<and> in_call game_id p \<and> (to_client = [] \<or> ps_client_id p = to_client)"

definition clean_signal :: "(json \<Rightarrow> nat) \<Rightarrow> player_session \<Rightarrow> string \<Rightarrow> string \<Rightarrow> string \<Rightarrow> string \<Rightarrow> json \<Rightarrow> (string \<times> json) list" where
  "clean_signal json_len sender game_id to_user to_client signal_type d =
     [(''gameId'', JStr game_id), (''from'', JStr (ps_username sender)), (''fromClientId'', JStr (ps_client_id sender)),
      (''fromPlatform'', JStr (ps_platform sender)), (''to'', JStr to_user), (''toClientId'', JStr to_client),
      (''type'', JStr signal_type)]
     @ (case str_field ''sdp'' d of Some sdp \<Rightarrow> [(''sdp'', JStr (take 128000 sdp))] | None \<Rightarrow> [])
     @ (case object_field ''candidate'' d of
          Some c \<Rightarrow> if json_len c \<le> 64 * 1024 then [(''candidate'', c)] else [] | None \<Rightarrow> [])"

definition relay_call_signal :: "(json \<Rightarrow> nat) \<Rightarrow> nat \<Rightarrow> string \<Rightarrow> json \<Rightarrow> app_state \<Rightarrow> handler_result" where
  "relay_call_signal json_len now sid d s =
    (let req = request_id d; err = (\<lambda>m s. respond_error sid 111 m req s) in
     case rate_hit now (''call_signal:session:'' @ sid) 40 3000 s of (hit, s) \<Rightarrow>
     if hit then err ''Signaling rate limit exceeded'' s
     else if \<not> calls_on s then err ''Calls are disabled by the server'' s else
    (case map_option trim (str_field ''gameId'' d) of None \<Rightarrow> err ''Missing gameId'' s | Some game_id \<Rightarrow>
    (case validate_room_id game_id of Inl m \<Rightarrow> err m s | Inr _ \<Rightarrow>
    (case map_option trim (str_field ''to'' d) of None \<Rightarrow> err ''Missing target'' s | Some to_user \<Rightarrow>
    (let to_client = sanitize_client_id (str_field ''toClientId'' d);
         signal_type = unwrap_or [] (map_option trim (str_field ''type'' d)) in
     if signal_type \<notin> {''offer'', ''answer'', ''ice''} then err ''Invalid signal type'' s else
    (case map_of (players s) sid of None \<Rightarrow> err ''You need to be identified before'' s | Some sender \<Rightarrow>
     if \<not> in_call game_id sender then err ''Not in this call'' s else
    (case find (signal_target game_id to_user to_client) (vals (players s)) of
       None \<Rightarrow> err ''Target is not in this call'' s
     | Some target \<Rightarrow> (False, try_send (ps_id target)
         (WText (op_json 111 (clean_signal json_len sender game_id to_user to_client signal_type d))) s))))))))"

definition update_call_deafened_state :: "string \<Rightarrow> json \<Rightarrow> app_state \<Rightarrow> handler_result" where
  "update_call_deafened_state sid d s =
    (let req = request_id d; err = (\<lambda>m s. respond_error sid 112 m req s);
         deafened = unwrap_or False (bool_field ''isDeafened'' d) in
     case trimmed (str_field ''gameId'' d) of None \<Rightarrow> err ''Missing gameId'' s | Some game_id \<Rightarrow>
    (case validate_room_id game_id of Inl m \<Rightarrow> err m s | Inr _ \<Rightarrow>
    (case map_of (players s) sid of None \<Rightarrow> err ''You need to be identified before'' s | Some p \<Rightarrow>
     if ps_username p = [] then err ''You need to be identified before'' s
     else if \<not> in_room game_id p then err ''Not a member of this room'' s
     else if \<not> is_call_in_room p game_id then err ''Not in this call'' s
     else
      (let s = s\<lparr>players := adjust sid (\<lambda>p. p\<lparr>ps_deafened := deafened\<rparr>) (players s)\<rparr>;
           s = broadcast_to_room game_id (op_json 112 [(''gameId'', JStr game_id), (''user'', JStr (ps_username p)),
                 (''status'', status_json (ps_status p)), (''isDeafened'', JBool deafened),
                 (''clientId'', JStr (ps_client_id p)), (''platform'', JStr (ps_platform p))]) s
       in (False, respond_to_sender sid (with_request_id (op_json 112 [(''ok'', JBool True)]) req) s)))))"

section \<open>Muted users, typing, and the administrator\<close>

definition update_mute_state :: "string \<Rightarrow> json \<Rightarrow> app_state \<Rightarrow> handler_result" where
  "update_mute_state sid d s =
    (let err = (\<lambda>m. respond_error sid 100 m (request_id d) s) in
     case map_option (\<lambda>u. take 32 (trim u)) (str_field ''user'' d) of None \<Rightarrow> err ''Malformed request'' | Some uname \<Rightarrow>
     if uname = [] then err ''Malformed request'' else
    (case bool_field ''isMuted'' d of None \<Rightarrow> err ''Malformed request'' | Some muted \<Rightarrow>
    (case ofilter (\<lambda>p. ps_username p \<noteq> []) (map_of (players s) sid) of
       None \<Rightarrow> err ''You need to be identified before'' | Some p \<Rightarrow>
     if muted \<and> length (ps_muted p) \<ge> MAX_MUTED_USERS_PER_PLAYER \<and> uname \<notin> set (ps_muted p)
     then err ''Too many muted users (200 max)''
     else (False, s\<lparr>players := adjust sid (\<lambda>p. p\<lparr>ps_muted :=
            (if muted then List.insert uname (ps_muted p) else removeAll uname (ps_muted p))\<rparr>) (players s)\<rparr>))))"

definition player_status_json :: "player_session \<Rightarrow> json" where
  "player_status_json p =
     (let opt = (\<lambda>b. case b of Some b \<Rightarrow> JBool b | None \<Rightarrow> JNull) in
      JObj [(''username'', JStr (ps_username p)), (''id'', JStr (ps_user_id p)), (''isVoiceChat'', JBool (ps_voice p)),
        (''rooms'', strs_json (sort (ps_rooms p))), (''version'', JStr (ps_version p)), (''mobile'', opt (ps_mobile p)),
        (''secureContext'', opt (ps_secure p)), (''deleteMessagesOnLeave'', JBool (ps_delete_on_leave p)),
        (''profile'', profile_json (ps_profile p)), (''status'', status_json (ps_status p)),
        (''badges'', strs_json (ps_badges p))])"

definition admin_status :: "string \<Rightarrow> json \<Rightarrow> app_state \<Rightarrow> handler_result" where
  "admin_status sid d s =
    (if \<not> session_is_admin s sid then respond_error sid 101 ''Unauthorized'' (request_id d) s
     else (False, respond_to_sender sid (with_request_id (op_json 101 [(''ok'', JBool True),
            (''onlineCount'', jnat (length (players s))),
            (''players'', JArr (map player_status_json (vals (players s))))]) (request_id d)) s))"

definition as_i64 :: "json \<Rightarrow> int option" where
  "as_i64 v = (case v of JInt i \<Rightarrow> if - (2 ^ 63) \<le> i \<and> i < 2 ^ 63 then Some i else None | _ \<Rightarrow> None)"

definition admin_broadcast :: "string \<Rightarrow> json \<Rightarrow> app_state \<Rightarrow> handler_result" where
  "admin_broadcast sid d s =
    (let err = (\<lambda>m. respond_error sid 104 m (request_id d) s) in
     if \<not> session_is_admin s sid then err ''Unauthorized'' else
    (case map_option (\<lambda>m. take 2000 (trim m)) (str_field ''msg'' d) of None \<Rightarrow> err ''Missing msg'' | Some msg \<Rightarrow>
     if msg = [] then err ''Missing msg''
     else (let x = unwrap_or 0 (obind (obj_get ''x'' d) as_i64);
               s = send_all (map ps_id (filter (\<lambda>p. x \<noteq> 1 \<or> contains_str (ps_version p) ''Ksx'') (vals (players s))))
                     (WText (op_json 87 [(''msg'', JStr msg)])) s
           in (False, respond_to_sender sid (with_request_id (op_json 104 [(''ok'', JBool True), (''msg'', JStr msg)]) (request_id d)) s))))"

definition update_typing_state :: "nat \<Rightarrow> string \<Rightarrow> json \<Rightarrow> app_state \<Rightarrow> handler_result" where
  "update_typing_state now sid d s =
    (let err = (\<lambda>m s. respond_error sid 31 m (request_id d) s) in
     case rate_hit now (''typing:session:'' @ sid) 10 5000 s of (hit, s) \<Rightarrow>
     if hit then (False, s) else
    (case resolve_room_for_session s sid (str_field ''gameId'' d) of Inl m \<Rightarrow> err m s | Inr rid \<Rightarrow>
    (case map_of (players s) sid of None \<Rightarrow> err ''You need to be identified before'' s | Some p \<Rightarrow>
     if \<not> in_room rid p then err ''You are not in this room'' s
     else (False, broadcast_to_room rid (op_json 31 [(''gameId'', JStr rid), (''username'', JStr (ps_username p)),
            (''typing'', JBool (unwrap_or False (bool_field ''typing'' d)))]) s))))"

end
