(* ===== verification/Profiles.thy ===== *)
theory Profiles
  imports Calls
begin

text \<open>
  \<open>websocket/protocol.rs\<close>, what a session says of itself and asks about others: its profile and
  settings (8), the room icon (32), the public profiles with their cache (35) and the head counts
  (105).  Base64 decoding is the parameter \<open>b64\<close>; the names of the stored files are drawn, two of
  them for a profile.
\<close>

definition MAX_PROFILE_AVATAR_BYTES :: nat where "MAX_PROFILE_AVATAR_BYTES = 10 * 1024 * 1024"
definition MAX_PROFILE_AVATAR_B64_LEN :: nat where
  "MAX_PROFILE_AVATAR_B64_LEN = (MAX_PROFILE_AVATAR_BYTES + 2) div 3 * 4 + 4"
definition MAX_PROFILE_BANNER_BYTES :: nat where "MAX_PROFILE_BANNER_BYTES = 15 * 1024 * 1024"
definition MAX_PROFILE_BANNER_B64_LEN :: nat where
  "MAX_PROFILE_BANNER_B64_LEN = (MAX_PROFILE_BANNER_BYTES + 2) div 3 * 4 + 4"
definition MAX_PROFILE_DESCRIPTION_CHARS :: nat where "MAX_PROFILE_DESCRIPTION_CHARS = 200"
definition MAX_PROFILE_PRONOUNS_CHARS :: nat where "MAX_PROFILE_PRONOUNS_CHARS = 24"
definition PUBLIC_PROFILE_CACHE_TTL_MS :: nat where "PUBLIC_PROFILE_CACHE_TTL_MS = 5 * 60 * 1000"
definition PUBLIC_PROFILE_RATE_LIMIT_WINDOW_MS :: nat where "PUBLIC_PROFILE_RATE_LIMIT_WINDOW_MS = 15000"
definition PUBLIC_PROFILE_RATE_LIMIT_MAX :: nat where "PUBLIC_PROFILE_RATE_LIMIT_MAX = 20"
definition PUBLIC_PROFILE_MAX_LOOKUPS :: nat where "PUBLIC_PROFILE_MAX_LOOKUPS = 32"

section \<open>Parsing a profile\<close>

definition sanitize_profile_text :: "string \<Rightarrow> nat \<Rightarrow> string" where
  "sanitize_profile_text v limit =
     take limit (filter (\<lambda>c. \<not> is_control c \<or> code_of c \<in> {9, 10, 13}) (trim v))"

definition text_of :: "string \<Rightarrow> json \<Rightarrow> string" where
  "text_of k v = unwrap_or [] (str_field k v)"

definition parse_profile_image ::
  "(string \<Rightarrow> byte list option) \<Rightarrow> string \<Rightarrow> json option \<Rightarrow> nat \<Rightarrow> nat \<Rightarrow> app_state
    \<Rightarrow> (string + profile_image option) \<times> app_state" where
  "parse_profile_image b64 uuid raw max_bytes max_b64_len s =
    (case raw of None \<Rightarrow> (Inr None, s) | Some JNull \<Rightarrow> (Inr None, s) | Some obj \<Rightarrow>
    (case as_object obj of None \<Rightarrow> (Inl ''Profile image must be an object'', s) | Some _ \<Rightarrow>
    (case trimmed (str_field ''dataB64'' obj) of None \<Rightarrow> (Inl ''Profile image missing dataB64'', s) | Some data_b64 \<Rightarrow>
     if utf8_len data_b64 > max_b64_len then (Inl ''Profile image too large'', s) else
    (case b64 data_b64 of None \<Rightarrow> (Inl ''Profile image dataB64 is not valid base64'', s) | Some decoded \<Rightarrow>
     if length decoded > max_bytes then (Inl ''Profile image too large'', s) else
    (case detect_image decoded (trim (text_of ''mimeType'' obj)) of Inl m \<Rightarrow> (Inl m, s) | Inr (mime, width, height) \<Rightarrow>
     if width = 0 \<or> height = 0 then (Inl ''Profile image dimensions are invalid'', s) else
    (case store_uploaded_bytes uuid (if mime = ''image/png'' then ''png'' else if mime = ''image/gif'' then ''gif''
            else if mime = ''image/jpeg'' then ''jpg'' else ''bin'') decoded mime s of
       (Inl _, s) \<Rightarrow> (Inl ''Failed to store profile image'', s)
     | (Inr stored, s) \<Rightarrow> (Inr (Some \<lparr>pi_file = stored, pi_width = width, pi_height = height\<rparr>), s)))))))"

definition link_url_ok :: "string \<Rightarrow> bool" where
  "link_url_ok url \<longleftrightarrow> take 8 url = ''https://'' \<and> length url \<le> 200 \<and> \<not> list_ex (\<lambda>c. is_whitespace c \<or> is_control c) url"

definition parse_link :: "json \<Rightarrow> profile_link option" where
  "parse_link item =
     (case map_option trim (str_field ''url'' item) of None \<Rightarrow> None | Some url \<Rightarrow>
      if link_url_ok url then Some \<lparr>pl_label = sanitize_profile_text (text_of ''label'' item) 32, pl_url = url\<rparr> else None)"

definition parse_links :: "json option \<Rightarrow> profile_link list" where
  "parse_links raw = take 4 (List.map_filter parse_link (unwrap_or [] (obind raw as_array)))"

definition asset_char :: "char \<Rightarrow> bool" where
  "asset_char c \<longleftrightarrow> is_ascii_alphanumeric c \<or> c \<in> set '':_-. /''"

definition asset_ref :: "json option \<Rightarrow> string" where
  "asset_ref v = unwrap_or [] (ofilter (\<lambda>t. t \<noteq> [] \<and> utf8_len t \<le> 512 \<and> (take 8 t = ''https://'' \<or> list_all asset_char t))
     (map_option trim (obind v as_str)))"

definition parse_assets :: "json option \<Rightarrow> activity_assets option" where
  "parse_assets raw =
     (case raw of Some (JObj kvs) \<Rightarrow>
        let large = asset_ref (map_of kvs ''large''); small = asset_ref (map_of kvs ''small'') in
        if large = [] \<and> small = [] then None else Some \<lparr>aa_large = large, aa_small = small\<rparr>
      | _ \<Rightarrow> None)"

definition parse_activity :: "json option \<Rightarrow> string + profile_activity option" where
  "parse_activity raw =
    (case raw of None \<Rightarrow> Inr None | Some JNull \<Rightarrow> Inr None
     | Some (JObj kvs) \<Rightarrow>
       (let obj = JObj kvs; kind = trim (text_of ''kind'' obj); name = sanitize_profile_text (text_of ''name'' obj) 64;
            app_id = unwrap_or [] (ofilter (\<lambda>t. t \<noteq> [] \<and> utf8_len t \<le> 64 \<and> list_all badge_char t)
              (map_option trim (obind (or_else (obj_get ''appId'' obj) (obj_get ''app_id'' obj)) as_str)))
        in if kind \<notin> {''game'', ''app'', ''media'', ''call''} then Inl ''Invalid activity kind''
           else if name = [] then Inl ''Activity name required''
           else Inr (Some \<lparr>pa_kind = kind, pa_name = name,
             pa_details = sanitize_profile_text (text_of ''details'' obj) 64,
             pa_state = sanitize_profile_text (text_of ''state'' obj) 64,
             pa_started_at = unwrap_or 0 (obind (or_else (obj_get ''startedAt'' obj) (obj_get ''started_at'' obj)) as_u64),
             pa_app_id = app_id, pa_assets = parse_assets (obj_get ''assets'' obj)\<rparr>))
     | Some _ \<Rightarrow> Inl ''Activity must be an object or null'')"

text \<open>A key that is there replaces the field; one that is not keeps it.\<close>

definition profile_image_field ::
  "(string \<Rightarrow> byte list option) \<Rightarrow> string \<Rightarrow> string \<Rightarrow> nat \<Rightarrow> nat \<Rightarrow> profile_image option \<Rightarrow> json \<Rightarrow> app_state
    \<Rightarrow> (string + profile_image option) \<times> app_state" where
  "profile_image_field b64 uuid k max_bytes max_b64_len current obj s =
     (if obj_get k obj \<noteq> None then parse_profile_image b64 uuid (obj_get k obj) max_bytes max_b64_len s else (Inr current, s))"

definition profile_text_field :: "string \<Rightarrow> nat \<Rightarrow> string \<Rightarrow> json \<Rightarrow> string" where
  "profile_text_field k limit current obj =
     (if obj_get k obj \<noteq> None then sanitize_profile_text (text_of k obj) limit else current)"

definition parse_user_profile ::
  "(string \<Rightarrow> byte list option) \<Rightarrow> string \<times> string \<Rightarrow> user_profile \<Rightarrow> json option \<Rightarrow> app_state
    \<Rightarrow> (string + user_profile) \<times> app_state" where
  "parse_user_profile b64 uuids current raw s =
    (case raw of None \<Rightarrow> (Inr current, s) | Some JNull \<Rightarrow> (Inr profile_default, s) | Some obj \<Rightarrow>
    (case as_object obj of None \<Rightarrow> (Inl ''Profile must be an object'', s) | Some _ \<Rightarrow>
    (case profile_image_field b64 (fst uuids) ''avatar'' MAX_PROFILE_AVATAR_BYTES MAX_PROFILE_AVATAR_B64_LEN (up_avatar current) obj s of
       (Inl m, s) \<Rightarrow> (Inl m, s) | (Inr avatar, s) \<Rightarrow>
    (case profile_image_field b64 (snd uuids) ''banner'' MAX_PROFILE_BANNER_BYTES MAX_PROFILE_BANNER_B64_LEN (up_banner current) obj s of
       (Inl m, s) \<Rightarrow> (Inl m, s) | (Inr banner, s) \<Rightarrow>
    (case (if obj_get ''activity'' obj \<noteq> None then parse_activity (obj_get ''activity'' obj) else Inr (up_activity current)) of
       Inl m \<Rightarrow> (Inl m, s) | Inr activity \<Rightarrow>
       (Inr \<lparr>up_avatar = avatar, up_banner = banner,
          up_description = profile_text_field ''description'' MAX_PROFILE_DESCRIPTION_CHARS (up_description current) obj,
          up_pronouns = profile_text_field ''pronouns'' MAX_PROFILE_PRONOUNS_CHARS (up_pronouns current) obj,
          up_links = (if obj_get ''links'' obj \<noteq> None then parse_links (obj_get ''links'' obj) else up_links current),
          up_custom_status = profile_text_field ''customStatus'' 60 (up_custom_status current) obj,
          up_activity = activity\<rparr>, s))))))"

section \<open>Settings\<close>

text \<open>What the settings make of a session; leaving the flag out switches it off.\<close>

definition apply_settings :: "user_profile option \<Rightarrow> presence_status option \<Rightarrow> json \<Rightarrow> player_session \<Rightarrow> player_session" where
  "apply_settings profile st d p =
     (let p = (case str_field ''clientId'' d of Some c \<Rightarrow> p\<lparr>ps_client_id := sanitize_client_id (Some c)\<rparr> | None \<Rightarrow> p);
          p = (case str_field ''platform'' d of Some v \<Rightarrow> p\<lparr>ps_platform := sanitize_platform (Some v)\<rparr> | None \<Rightarrow> p);
          p = p\<lparr>ps_delete_on_leave := unwrap_or False (bool_field ''deleteMessagesOnLeave'' d)\<rparr>;
          p = (case profile of Some f \<Rightarrow> p\<lparr>ps_profile := f\<rparr> | None \<Rightarrow> p)
      in case st of None \<Rightarrow> p
         | Some x \<Rightarrow> if x = Invisible then out_of_call (p\<lparr>ps_status := x\<rparr>) else p\<lparr>ps_status := x\<rparr>)"

definition announce_profile :: "player_session \<Rightarrow> string \<Rightarrow> app_state \<Rightarrow> app_state" where
  "announce_profile p rid s = broadcast_to_room rid (op_json 26 ([(''gameId'', JStr rid), (''user'', JStr (ps_username p)),
     (''id'', JStr (ps_user_id p)), (''userId'', JStr (ps_user_id p)), (''uuid'', JStr (ps_user_id p)),
     (''profile'', profile_json (ps_profile p))] @ roster_fields s rid None)) s"

definition announce_status :: "player_session \<Rightarrow> bool \<Rightarrow> string \<Rightarrow> app_state \<Rightarrow> app_state" where
  "announce_status p was_in_voice rid s =
    (let s = broadcast_to_room rid (op_json 27 ([(''gameId'', JStr rid), (''user'', JStr (ps_username p)),
           (''id'', JStr (ps_user_id p)), (''userId'', JStr (ps_user_id p)), (''uuid'', JStr (ps_user_id p)),
           (''status'', status_json (ps_status p)), (''visible'', JBool (ps_status p \<noteq> Invisible)),
           (''clientId'', JStr (ps_client_id p)), (''platform'', JStr (ps_platform p)),
           (''profile'', profile_json (ps_profile p))] @ roster_fields s rid None)) s
     in if ps_status p = Invisible \<and> was_in_voice
        then call_notice 110 p False [(''media'', call_media_json False False False)] rid s else s)"

text \<open>What follows the change of the session from \<open>q\<close> to \<open>p\<close>.\<close>

definition publish_settings ::
  "nat \<Rightarrow> string \<Rightarrow> json \<Rightarrow> user_profile option \<Rightarrow> bool \<Rightarrow> player_session \<Rightarrow> player_session \<Rightarrow> app_state \<Rightarrow> app_state" where
  "publish_settings now sid d profile st_given q p s =
    (let db = accounts s;
         db = (if profile \<noteq> None then snd (update_profile now (ps_user_id p) (ps_profile p) db) else db);
         db = (if st_given then snd (update_status now (ps_user_id p) (ps_status p) db) else db);
         s = s\<lparr>accounts := db\<rparr>;
         s = respond_to_sender sid (with_request_id (op_json 8 [(''ok'', JBool True),
               (''deleteMessagesOnLeave'', JBool (ps_delete_on_leave p)),
               (''profile'', (case profile of Some f \<Rightarrow> profile_json f | None \<Rightarrow> JNull)),
               (''status'', status_json (ps_status p))]) (request_id d)) s;
         s = (if profile \<noteq> None \<and> ps_status p \<noteq> Invisible then fold (announce_profile p) (ps_rooms p) s else s);
         s = (if st_given \<and> ps_status p \<noteq> ps_status q then fold (announce_status p (ps_voice q)) (ps_rooms p) s else s)
     in if ps_client_id p \<noteq> [] \<and> ps_client_id p \<noteq> ps_client_id q
        then broadcast_sync_peer_event (ps_user_id p) ''join'' (ps_client_id p) (ps_platform p) (Some sid) s
        else if ps_client_id p \<noteq> [] \<and> ps_platform p \<noteq> ps_platform q
        then broadcast_sync_peer_event (ps_user_id p) ''update'' (ps_client_id p) (ps_platform p) (Some sid) s
        else s)"

definition update_client_settings ::
  "(string \<Rightarrow> byte list option) \<Rightarrow> string \<times> string \<Rightarrow> nat \<Rightarrow> string \<Rightarrow> json \<Rightarrow> app_state \<Rightarrow> handler_result" where
  "update_client_settings b64 uuids now sid d s =
    (let req = request_id d; err = (\<lambda>m s. respond_error sid 8 m req s) in
     case rate_hit now (''settings:session:'' @ sid) 30 10000 s of (hit, s) \<Rightarrow>
     if hit then err ''Settings update rate limit exceeded'' s else
    (let current = (case map_of (players s) sid of Some p \<Rightarrow> ps_profile p | None \<Rightarrow> profile_default) in
     case (if obj_get ''profile'' d \<noteq> None
           then (case parse_user_profile b64 uuids current (obj_get ''profile'' d) s of
                   (Inl m, s) \<Rightarrow> (Inl m, s) | (Inr f, s) \<Rightarrow> (Inr (Some f), s))
           else (Inr None, s)) of
       (Inl m, s) \<Rightarrow> err m s
     | (Inr profile, s) \<Rightarrow>
       (case map_of (players s) sid of None \<Rightarrow> err ''You need to be identified before'' s | Some q \<Rightarrow>
        (False, publish_settings now sid d profile (requested_status d \<noteq> None) q
           (apply_settings profile (requested_status d) d q)
           (s\<lparr>players := adjust sid (apply_settings profile (requested_status d) d) (players s)\<rparr>)))))"

section \<open>The room icon\<close>

definition upload_room_icon ::
  "(string \<Rightarrow> byte list option) \<Rightarrow> string \<Rightarrow> nat \<Rightarrow> string \<Rightarrow> json \<Rightarrow> app_state \<Rightarrow> handler_result" where
  "upload_room_icon b64 uuid now sid d s =
    (let req = request_id d; err = (\<lambda>m s. respond_error sid 32 m req s);
         user_id = (case map_of (players s) sid of Some p \<Rightarrow> ps_user_id p | None \<Rightarrow> []) in
     case rate_hit now (if user_id = [] then ''room_icon:session:'' @ sid else ''room_icon:user:'' @ user_id) 3 60000 s of (hit, s) \<Rightarrow>
     if hit then err ''Rate limit exceeded. Please wait a minute.'' s else
    (case resolve_room_for_session s sid (str_field ''gameId'' d) of Inl m \<Rightarrow> err m s | Inr rid \<Rightarrow>
     if (case find_room rid s of Some room \<Rightarrow> room_kind room = Community \<and> \<not> leads_room room user_id | None \<Rightarrow> False)
     then err ''You are not allowed to change this room'' s else
    (case store_room_icon_from_payload b64 uuid d rid s of
       (Inl m, s) \<Rightarrow> err m s
     | (Inr None, s) \<Rightarrow> err ''Missing file'' s
     | (Inr (Some icon), s) \<Rightarrow>
       (case set_room_icon rid icon s of (Inl _, s) \<Rightarrow> err ''Failed to persist icon'' s | (Inr _, s) \<Rightarrow>
         (let s = snd (sync_room_record rid s);
              room = unwrap_or ((fresh_room rid)\<lparr>room_icon := Some icon, room_members := room_usernames s rid (Some sid)\<rparr>) (find_room rid s);
              s = broadcast_room_record_to_members rid 32 req True room s
          in (False, respond_to_sender sid (with_request_id (op_json 32 [(''ok'', JBool True), (''gameId'', JStr rid),
                (''icon'', JObj (file_fields icon)), (''room'', room_json room)]) req) s))))))"

section \<open>Public profiles\<close>

definition public_profile_cache_key :: "string option \<Rightarrow> string option \<Rightarrow> string" where
  "public_profile_cache_key user_id uname =
     (case trimmed user_id of
        Some i \<Rightarrow> ''id:'' @ i
      | None \<Rightarrow> ''username:'' @ str_ascii_lower (trim (unwrap_or [] uname)))"

record profile_answer =
  pr_users :: "(string \<times> json) list"
  pr_profiles :: "(string \<times> json) list"
  pr_badges :: "(string \<times> json) list"

definition insert_public_profile_payload :: "json \<Rightarrow> profile_answer \<Rightarrow> profile_answer" where
  "insert_public_profile_payload v acc =
     (let uname = trim (text_of ''username'' v) in
      if uname = [] then acc
      else \<lparr>pr_users = AList.update uname v (pr_users acc),
            pr_profiles = (case obj_get ''profile'' v of Some j \<Rightarrow> AList.update uname j (pr_profiles acc) | None \<Rightarrow> pr_profiles acc),
            pr_badges = (case obj_get ''badges'' v of Some j \<Rightarrow> AList.update uname j (pr_badges acc) | None \<Rightarrow> pr_badges acc)\<rparr>)"

definition public_profile_value :: "public_user \<Rightarrow> json" where
  "public_profile_value u = JObj [(''userId'', JStr (pu_id u)), (''id'', JStr (pu_id u)), (''username'', JStr (pu_username u)),
     (''profile'', profile_json (pu_profile u)), (''badges'', strs_json (pu_badges u)), (''createdAt'', jnat (pu_created_at u))]"

definition cached_profile :: "nat \<Rightarrow> string \<Rightarrow> app_state \<Rightarrow> json option" where
  "cached_profile now key s = map_option snd (ofilter (\<lambda>(expires, _). expires > now) (map_of (profile_cache s) key))"

definition cache_profile :: "nat \<Rightarrow> string \<Rightarrow> json \<Rightarrow> app_state \<Rightarrow> app_state" where
  "cache_profile now key v s =
     (let cache = profile_cache s;
          cache = (if length cache > 10000 then filter (\<lambda>(_, expires, _). expires > now) cache else cache)
      in s\<lparr>profile_cache := AList.update key (now + PUBLIC_PROFILE_CACHE_TTL_MS, v) cache\<rparr>)"

text \<open>The lookups one after the other; the first that fails fails the request.\<close>

fun lookup_profiles :: "nat \<Rightarrow> (string option \<times> string option) list \<Rightarrow> profile_answer \<Rightarrow> app_state \<Rightarrow> profile_answer option \<times> app_state" where
  "lookup_profiles now [] acc s = (Some acc, s)"
| "lookup_profiles now ((user_id, uname) # ls) acc s =
     (let key = public_profile_cache_key user_id uname in
      case cached_profile now key s of
        Some v \<Rightarrow> lookup_profiles now ls (insert_public_profile_payload v acc) s
      | None \<Rightarrow>
        (case public_user_by_id_or_username user_id uname (accounts s) of
           Inl _ \<Rightarrow> (None, s)
         | Inr None \<Rightarrow> lookup_profiles now ls acc s
         | Inr (Some u) \<Rightarrow> lookup_profiles now ls (insert_public_profile_payload (public_profile_value u) acc)
             (cache_profile now key (public_profile_value u) s)))"

definition lookup_of :: "json \<Rightarrow> string option \<times> string option" where
  "lookup_of item =
     (trimmed (obind (or_else (obj_get ''userId'' item) (obj_get ''id'' item)) as_str),
      trimmed (obind (or_else (obj_get ''username'' item) (obj_get ''user'' item)) as_str))"

definition requested_lookups :: "json \<Rightarrow> (string option \<times> string option) list" where
  "requested_lookups d = filter (\<lambda>(i, n). i \<noteq> None \<or> n \<noteq> None)
     (case obind (obj_get ''users'' d) as_array of
        Some items \<Rightarrow> map lookup_of (take PUBLIC_PROFILE_MAX_LOOKUPS items) | None \<Rightarrow> [lookup_of d])"

definition session_user_id :: "app_state \<Rightarrow> string \<Rightarrow> string option" where
  "session_user_id s sid = map_option ps_user_id (ofilter (\<lambda>p. trim (ps_user_id p) \<noteq> []) (map_of (players s) sid))"

definition request_public_profiles :: "nat \<Rightarrow> string \<Rightarrow> json \<Rightarrow> app_state \<Rightarrow> handler_result" where
  "request_public_profiles now sid d s =
    (let req = request_id d; err = (\<lambda>m s. respond_error sid 35 m req s) in
     case session_user_id s sid of None \<Rightarrow> err ''You need to be identified before'' s | Some caller \<Rightarrow>
    (case rate_hit now (''public-profile:user:'' @ caller) PUBLIC_PROFILE_RATE_LIMIT_MAX PUBLIC_PROFILE_RATE_LIMIT_WINDOW_MS s of (hit, s) \<Rightarrow>
     if hit then err ''Rate limit exceeded'' s
     else if requested_lookups d = [] then err ''Missing userId or username'' s else
    (case lookup_profiles now (requested_lookups d) \<lparr>pr_users = [], pr_profiles = [], pr_badges = []\<rparr> s of
       (None, s) \<Rightarrow> err ''Profile lookup failed'' s
     | (Some a, s) \<Rightarrow> (False, respond_to_sender sid (with_request_id (op_json 35 [(''ok'', JBool True),
         (''users'', JArr (vals (sort_key fst (pr_users a)))), (''profiles'', JObj (pr_profiles a)),
         (''badges'', JObj (pr_badges a)), (''ttlMs'', jnat PUBLIC_PROFILE_CACHE_TTL_MS)]) req) s))))"

definition stats_query :: "nat \<Rightarrow> string \<Rightarrow> json \<Rightarrow> app_state \<Rightarrow> handler_result" where
  "stats_query now sid d s =
    (let req = request_id d; err = (\<lambda>m s. respond_error sid 105 m req s);
         answer = (\<lambda>n g s. (False, respond_to_sender sid (with_request_id (op_json 105 [(''ok'', JBool True),
            (''count'', jnat n), (''gameId'', g)]) req) s)) in
     case rate_hit now (''stats_query:session:'' @ sid) 10 5000 s of (hit, s) \<Rightarrow>
     if hit then err ''Stats query rate limit exceeded'' s else
    (case str_field ''gameId'' d of
       Some g \<Rightarrow> (case resolve_room_for_session s sid (Some g) of Inl m \<Rightarrow> err m s
          | Inr rid \<Rightarrow> answer (length (room_usernames s rid None)) (JStr rid) s)
     | None \<Rightarrow> if ofilter (\<lambda>p. ps_username p \<noteq> []) (map_of (players s) sid) = None then err ''You need to be identified before'' s
         else answer (length (players s)) JNull s))"

end
