(* ===== verification/Rln.thy ===== *)
theory Rln
  imports Api_Result
begin

text \<open>
  \<open>core/rln.rs\<close>: epoch-bound anonymous quota tokens and their nullifiers.  The HMAC under the
  server secret (\<open>hmac\<close>, from text to lowercase hexadecimal text) and SHA-256 (\<open>sha\<close>, from bytes
  to lowercase hexadecimal text) are third-party code and parameters.  The store is the map of
  nullifiers to expiry times.  Shown: the functional contract of the check on each branch, that
  generated tokens verify, and, through the interface \<open>single_use\<close>, that one token is accepted
  at most once per action whatever the order of requests and of the store's clean-ups.
\<close>

type_synonym hmac = "string \<Rightarrow> string"
type_synonym sha = "byte list \<Rightarrow> string"
type_synonym expiry_map = "(string \<times> nat) list"

definition EPOCH_WINDOW_MS :: nat where "EPOCH_WINDOW_MS = 15000"
definition NULLIFIER_TTL_MS :: nat where "NULLIFIER_TTL_MS = 3 * 60 * 1000"

record quota_token =
  epoch :: nat
  ticket :: string
  qt_signature :: string

definition current_epoch :: "nat \<Rightarrow> nat" where
  "current_epoch now = now div EPOCH_WINDOW_MS"

definition sign_ticket :: "hmac \<Rightarrow> string \<Rightarrow> string" where
  "sign_ticket hmac ticket_data = hmac ticket_data"

definition verify_ticket_signature :: "hmac \<Rightarrow> string \<Rightarrow> string \<Rightarrow> bool" where
  "verify_ticket_signature hmac ticket_data sig =
     (let expected = hmac ticket_data in
      if utf8_len expected \<noteq> utf8_len sig then False
      else xor_diff 0 (zip (utf8_bytes expected) (utf8_bytes sig)) = 0)"

text \<open>The nonce is random: its hexadecimal text is an argument.\<close>

definition generate_quota_token :: "hmac \<Rightarrow> nat \<Rightarrow> string \<Rightarrow> quota_token" where
  "generate_quota_token hmac now nonce_hex =
     (let ep = current_epoch now;
          tick = sign_ticket hmac (dec ep @ '':'' @ nonce_hex)
      in \<lparr>epoch = ep, ticket = tick, qt_signature = sign_ticket hmac (dec ep @ '':'' @ tick)\<rparr>)"

definition compute_nullifier :: "sha \<Rightarrow> string \<Rightarrow> nat \<Rightarrow> string \<Rightarrow> string" where
  "compute_nullifier sha tick ep action =
     sha (utf8_bytes ''qxprotocol_rln_nullifier:'' @ utf8_bytes tick @ utf8_bytes '':''
          @ u64_be ep @ utf8_bytes '':'' @ utf8_bytes action)"

definition verify_and_consume_nullifier ::
  "hmac \<Rightarrow> sha \<Rightarrow> nat \<Rightarrow> quota_token \<times> string \<times> string \<Rightarrow> expiry_map \<Rightarrow> unit api_result \<times> expiry_map" where
  "verify_and_consume_nullifier hmac sha now req nullifiers =
     (case req of (token, nullifier, expected_action) \<Rightarrow>
      let curr_epoch = current_epoch now in
      if epoch token > curr_epoch + 1 \<or> curr_epoch - epoch token > 4 then
        (Inl (bad_request ''Anonymous quota token expired. Please obtain a fresh token.''), nullifiers)
      else if \<not> verify_ticket_signature hmac (dec (epoch token) @ '':'' @ ticket token) (qt_signature token) then
        (Inl (bad_request ''Invalid anonymous quota token signature.''), nullifiers)
      else if nullifier \<noteq> compute_nullifier sha (ticket token) (epoch token) expected_action then
        (Inl (bad_request ''Malformed rate-limiting nullifier.''), nullifiers)
      else
        (let ns = (if length nullifiers > 10000 then filter (\<lambda>(_, expires). expires > now) nullifiers
                   else nullifiers)
         in (case map_of ns nullifier of
               Some expires \<Rightarrow>
                 if expires > now then
                   (Inl (too_many_requests ''Rate limit quota exceeded for this epoch. Please wait.''), ns)
                 else (Inr (), AList.update nullifier (now + NULLIFIER_TTL_MS) ns)
             | None \<Rightarrow> (Inr (), AList.update nullifier (now + NULLIFIER_TTL_MS) ns))))"

section \<open>Correctness\<close>

lemma verify_ticket_signature_iff: "verify_ticket_signature hmac data sig \<longleftrightarrow> sig = hmac data"
  using constant_time_eq_iff [of "hmac data" sig]
  by (auto simp: verify_ticket_signature_def constant_time_eq_def Let_def)

definition rln_key :: "quota_token \<times> string \<times> string \<Rightarrow> string \<times> nat \<times> string" where
  "rln_key req = (case req of (token, _, action) \<Rightarrow> (ticket token, epoch token, action))"

text \<open>The first millisecond at which a token of an epoch is refused as expired.\<close>

definition token_end :: "nat \<Rightarrow> nat" where
  "token_end ep = (ep + 5) * EPOCH_WINDOW_MS"

text \<open>A spent unit: its nullifier is held until the token expires, or the token has expired.\<close>

definition rln_spent :: "sha \<Rightarrow> expiry_map \<Rightarrow> nat \<Rightarrow> string \<times> nat \<times> string \<Rightarrow> bool" where
  "rln_spent sha ns t k = (case k of (tick, ep, action) \<Rightarrow> token_end ep \<le> t
     \<or> (\<exists>expires. map_of ns (compute_nullifier sha tick ep action) = Some expires
          \<and> token_end ep \<le> expires))"

lemma epoch_window_refused:
  "token_end ep \<le> now \<Longrightarrow> current_epoch now - ep > 4"
proof -
  assume "token_end ep \<le> now"
  then have "(ep + 5) * 15000 \<le> now" by (simp add: token_end_def EPOCH_WINDOW_MS_def)
  then have "ep + 5 \<le> now div 15000" by (simp add: less_eq_div_iff_mult_less_eq)
  then show ?thesis by (simp add: current_epoch_def EPOCH_WINDOW_MS_def)
qed

lemma epoch_window_ttl:
  "\<not> ep > current_epoch now + 1 \<Longrightarrow> token_end ep \<le> now + NULLIFIER_TTL_MS"
  by (simp add: token_end_def current_epoch_def EPOCH_WINDOW_MS_def NULLIFIER_TTL_MS_def)

text \<open>The accepting branch, as the client of the interface sees it.\<close>

lemma nullifier_accepted:
  assumes "verify_and_consume_nullifier hmac sha now (token, nullifier, action) ns = (Inr (), ns')"
  shows "nullifier = compute_nullifier sha (ticket token) (epoch token) action"
    and "qt_signature token = hmac (dec (epoch token) @ '':'' @ ticket token)"
    and "\<not> epoch token > current_epoch now + 1" and "\<not> current_epoch now - epoch token > 4"
    and "map_of ns' nullifier = Some (now + NULLIFIER_TTL_MS)"
  using assms
  by (auto simp: verify_and_consume_nullifier_def verify_ticket_signature_iff Let_def
      split: if_splits option.splits)

lemma nullifier_store:
  "snd (verify_and_consume_nullifier hmac sha now req ns) \<in> {ns, filter (\<lambda>(_, e). e > now) ns}
   \<or> (\<exists>null m. m \<in> {ns, filter (\<lambda>(_, e). e > now) ns}
       \<and> snd (verify_and_consume_nullifier hmac sha now req ns)
           = AList.update null (now + NULLIFIER_TTL_MS) m
       \<and> (case map_of m null of None \<Rightarrow> True | Some e \<Rightarrow> e \<le> now))"
  by (cases req)
    (force simp: verify_and_consume_nullifier_def Let_def split: if_splits option.splits)

lemma rln_spent_keep:
  assumes sp: "rln_spent sha ns t k" and le: "t \<le> now"
  shows "rln_spent sha (snd (verify_and_consume_nullifier hmac sha now req ns)) now k"
proof -
  obtain tick ep action where k: "k = (tick, ep, action)" by (cases k)
  define n where "n = compute_nullifier sha tick ep action"
  show ?thesis
  proof (cases "token_end ep \<le> now")
    case True
    then show ?thesis by (simp add: rln_spent_def k)
  next
    case False
    with sp le k obtain e where e: "map_of ns n = Some e" "token_end ep \<le> e"
      by (auto simp: rln_spent_def n_def)
    with False have now: "now < e" by simp
    from e now have kept: "map_of (filter (\<lambda>(_, e). e > now) ns) n = Some e"
      by (intro map_of_filter_keep) auto
    consider "snd (verify_and_consume_nullifier hmac sha now req ns) \<in> {ns, filter (\<lambda>(_, e). e > now) ns}"
      | null m where "m \<in> {ns, filter (\<lambda>(_, e). e > now) ns}"
        "snd (verify_and_consume_nullifier hmac sha now req ns) = AList.update null (now + NULLIFIER_TTL_MS) m"
        "case map_of m null of None \<Rightarrow> True | Some e \<Rightarrow> e \<le> now"
      using nullifier_store [of hmac sha now req ns] by blast
    then show ?thesis
    proof cases
      case 1
      with e kept show ?thesis by (auto simp: rln_spent_def k n_def)
    next
      case (2 null m)
      from 2(1) e kept have m: "map_of m n = Some e" by auto
      with 2(3) now have "null \<noteq> n" by (auto split: option.splits)
      with 2(2) m e show ?thesis by (auto simp: rln_spent_def k n_def)
    qed
  qed
qed

interpretation rln: single_use "verify_and_consume_nullifier hmac sha" rln_key "rln_spent sha" always
  for hmac :: hmac and sha :: sha
proof (unfold_locales, goal_cases)
  case (1 now r s x s')
  obtain token null action where r: "r = (token, null, action)" by (cases r)
  from 1 r have "verify_and_consume_nullifier hmac sha now (token, null, action) s = (Inr (), s')"
    by simp
  from nullifier_accepted [OF this] epoch_window_ttl [where ep = "epoch token" and now = now]
  show ?case by (auto simp: rln_spent_def rln_key_def r)
next
  case (2 s t k now r)
  then show ?case by (rule rln_spent_keep)
next
  case (3 s t r now)
  obtain token null action where r: "r = (token, null, action)" by (cases r)
  show ?case
  proof (cases "token_end (epoch token) \<le> now")
    case True
    from epoch_window_refused [OF True] show ?thesis
      by (simp add: verify_and_consume_nullifier_def r Let_def)
  next
    case False
    with 3 r obtain e where e: "map_of s (compute_nullifier sha (ticket token) (epoch token) action) = Some e"
      "token_end (epoch token) \<le> e" by (auto simp: rln_spent_def rln_key_def)
    with False have now: "now < e" by simp
    have "map_of (filter (\<lambda>(_, e). e > now) s)
        (compute_nullifier sha (ticket token) (epoch token) action) = Some e"
      using e now by (intro map_of_filter_keep) auto
    with e now show ?thesis
      by (auto simp: verify_and_consume_nullifier_def r Let_def)
  qed
qed

text \<open>A freshly generated token passes every check while its nullifier is unused.\<close>

lemma generated_token_accepted:
  assumes "now \<le> later" "later < token_end (current_epoch now)"
    and "map_of ns (compute_nullifier sha (ticket (generate_quota_token hmac now nonce))
           (current_epoch now) action) = None"
  shows "\<exists>ns'. verify_and_consume_nullifier hmac sha later
      (generate_quota_token hmac now nonce,
       compute_nullifier sha (ticket (generate_quota_token hmac now nonce)) (current_epoch now) action,
       action) ns = (Inr (), ns')"
proof -
  let ?n = "compute_nullifier sha (ticket (generate_quota_token hmac now nonce)) (current_epoch now) action"
  have "later div EPOCH_WINDOW_MS < current_epoch now + 5"
    using assms(2) by (simp add: token_end_def EPOCH_WINDOW_MS_def less_mult_imp_div_less)
  then have "\<not> current_epoch later - current_epoch now > 4" by (simp add: current_epoch_def)
  moreover have "current_epoch now \<le> current_epoch later"
    using assms(1) by (simp add: current_epoch_def div_le_mono)
  moreover have "map_of (filter (\<lambda>(_, e). e > later) ns) ?n = None"
    using assms(3) by (auto simp: map_of_eq_None_iff)
  ultimately show ?thesis
    using assms(3)
    by (auto simp: verify_and_consume_nullifier_def Let_def verify_ticket_signature_iff
        generate_quota_token_def sign_ticket_def)
qed

section \<open>Properties\<close>

text \<open>C22: one anonymous quota token is accepted at most once per action, in any run of requests
  whose clock does not go back, whatever other tokens are checked and whenever the store is
  cleaned up: a nullifier is held longer than its token is valid.\<close>

theorem rln_single_use:
  assumes "clock_ok trs"
  shows "accepted_of always rln_key k trs
    (fst (run_tries (verify_and_consume_nullifier hmac sha) nullifiers trs)) \<le> 1"
  using assms by (rule rln.accepted_once)

definition demo_token :: quota_token where
  "demo_token = \<lparr>epoch = 2, ticket = ''t'', qt_signature = ''s''\<rparr>"

theorem rln_single_use_witness:
  "accepted_of always rln_key (''t'', 2, ''a'')
     [(30000, demo_token, ''n'', ''a''), (104999, demo_token, ''n'', ''a'')]
     (fst (run_tries (verify_and_consume_nullifier (\<lambda>_. ''s'') (\<lambda>_. ''n'')) []
       [(30000, demo_token, ''n'', ''a''), (104999, demo_token, ''n'', ''a'')])) \<le> 1"
  by (rule rln_single_use) (simp add: clock_ok_def)

text \<open>A token the server generates is accepted with its own nullifier for an unused action
  at any time from its creation until five epochs after the start of its epoch.\<close>

theorem rln_generated_accepted:
  assumes "now \<le> later" "later < token_end (current_epoch now)"
    and "map_of ns (compute_nullifier sha (ticket (generate_quota_token hmac now nonce))
           (current_epoch now) action) = None"
  shows "\<exists>ns'. verify_and_consume_nullifier hmac sha later
      (generate_quota_token hmac now nonce,
       compute_nullifier sha (ticket (generate_quota_token hmac now nonce)) (current_epoch now) action,
       action) ns = (Inr (), ns')
    \<and> map_of ns' (compute_nullifier sha (ticket (generate_quota_token hmac now nonce))
           (current_epoch now) action) = Some (later + NULLIFIER_TTL_MS)"
  using generated_token_accepted [OF assms] nullifier_accepted(5) by blast

theorem rln_generated_accepted_witness:
  "\<exists>ns'. verify_and_consume_nullifier (\<lambda>_. ''h'') (\<lambda>_. ''n'') 40000
      (generate_quota_token (\<lambda>_. ''h'') 30000 ''ab'',
       compute_nullifier (\<lambda>_. ''n'') (ticket (generate_quota_token (\<lambda>_. ''h'') 30000 ''ab''))
         (current_epoch 30000) ''act'', ''act'') [] = (Inr (), ns')
    \<and> map_of ns' (compute_nullifier (\<lambda>_. ''n'') (ticket (generate_quota_token (\<lambda>_. ''h'') 30000 ''ab''))
         (current_epoch 30000) ''act'') = Some (40000 + NULLIFIER_TTL_MS)"
  by (rule rln_generated_accepted)
    (simp_all add: token_end_def current_epoch_def EPOCH_WINDOW_MS_def)

end
