(* ===== verification/Vdf.thy ===== *)
theory Vdf
  imports Rln
begin

text \<open>
  \<open>core/vdf.rs\<close>: the Wesolowski delay challenge.  A \<open>BigUint\<close> is a natural number with the
  operators of arithmetic; the methods of the third-party crates (\<open>modpow\<close>, text and byte
  conversions, SHA-256) are the fields of the record \<open>big_lib\<close>, and \<open>big_ok\<close> is their documented
  behaviour.  The search for a prime is a \<open>partial_function\<close>: \<open>None\<close> is a search that does not
  end.  Shown: the verification accepts exactly the proofs that satisfy the Wesolowski equation,
  the honest prover's proof is one of them, a challenge is accepted once before its expiry, and
  once more at the very millisecond of its expiry.
\<close>

record big_lib =
  modpow :: "nat \<Rightarrow> nat \<Rightarrow> nat \<Rightarrow> nat"
  parse_hex :: "string \<Rightarrow> nat option"
  to_hex :: "nat \<Rightarrow> string"
  to_bytes_be :: "nat \<Rightarrow> byte list"
  from_bytes_be :: "byte list \<Rightarrow> nat"
  sha_raw :: "byte list \<Rightarrow> byte list"
  sha_hex :: "byte list \<Rightarrow> string"

definition big_ok :: "big_lib \<Rightarrow> bool" where
  "big_ok big \<longleftrightarrow> (\<forall>b e m. 0 < m \<longrightarrow> modpow big b e m = b ^ e mod m)"

definition DEFAULT_VDF_ITERATIONS :: nat where "DEFAULT_VDF_ITERATIONS = 30000"
definition VDF_TTL_MS :: nat where "VDF_TTL_MS = 3 * 60 * 1000"

definition vdf_modulus :: nat where
  "vdf_modulus = 0xc4193b2a8d3e91f07cb658da841793cf445037d0fa049c636fdb3a726ea7b21802d33454b5df5b5463690d3d52674e2a9b3425ea3f4581f14ec6e19f7e84124991a5db4b4b20a4b3d758f12cb84931a7f0524cb11efaa73d32cb5e09841f39bef8da463e26cb3b9a7c36a43e4980a31ebf9a74070a256920f065365e94b281f3"

record vdf_challenge =
  vc_modulus :: string
  vc_x :: string
  vc_t :: nat
  target_hash :: string
  salt :: string
  vc_signature :: string
  vc_issued_at :: nat
  vc_expires_at :: nat

record vdf_proof =
  vp_y :: string
  vp_pi :: string

definition hash_target :: "big_lib \<Rightarrow> string \<Rightarrow> string" where
  "hash_target big target = take 16 (sha_hex big (utf8_bytes (str_lower (trim target))))"

definition hash_to_element :: "big_lib \<Rightarrow> string \<Rightarrow> string \<Rightarrow> nat \<Rightarrow> nat" where
  "hash_to_element big target slt modulus =
     from_bytes_be big (sha_raw big (utf8_bytes ''qxprotocol_vdf_x_element:''
        @ utf8_bytes (str_lower (trim target)) @ utf8_bytes '':'' @ utf8_bytes slt))
      mod (modulus - 3) + 2"

section \<open>The primality test\<close>

definition small_primes :: "nat list" where
  "small_primes = [2, 3, 5, 7, 11, 13, 17, 19, 23, 29, 31, 37]"

text \<open>The trial division loop: \<open>Some\<close> of the answer when it returns early.\<close>

fun trial_division :: "nat \<Rightarrow> nat list \<Rightarrow> bool option" where
  "trial_division n [] = None"
| "trial_division n (p # ps) =
     (if n = p then Some True else if n mod p = 0 then Some False else trial_division n ps)"

text \<open>\<open>while d % 2 == 0 { d /= 2; s += 1 }\<close>; zero, which would not end, does not occur.\<close>

function factor_twos :: "nat \<Rightarrow> nat \<Rightarrow> nat \<times> nat" where
  "factor_twos d s = (if d \<noteq> 0 \<and> d mod 2 = 0 then factor_twos (d div 2) (s + 1) else (d, s))"
  by pat_completeness auto
termination
  by (relation "measure fst") auto

declare factor_twos.simps [simp del]

text \<open>The squarings \<open>for _ in 1..s\<close>: whether the value minus one is met.\<close>

fun squarings_meet :: "big_lib \<Rightarrow> nat \<Rightarrow> nat \<Rightarrow> nat \<Rightarrow> bool" where
  "squarings_meet big n 0 x = False"
| "squarings_meet big n (Suc k) x =
     (let x' = modpow big x 2 n in if x' = n - 1 then True else squarings_meet big n k x')"

fun miller_rabin :: "big_lib \<Rightarrow> nat \<Rightarrow> nat \<Rightarrow> nat \<Rightarrow> nat list \<Rightarrow> bool" where
  "miller_rabin big n d s [] = True"
| "miller_rabin big n d s (a # bases) =
     (if a \<ge> n then miller_rabin big n d s bases
      else (let x = modpow big a d n in
        if x = 1 \<or> x = n - 1 then miller_rabin big n d s bases
        else if squarings_meet big n (s - 1) x then miller_rabin big n d s bases
        else False))"

definition is_probable_prime :: "big_lib \<Rightarrow> nat \<Rightarrow> bool" where
  "is_probable_prime big n =
     (if n < 2 then False
      else (case trial_division n small_primes of
              Some answer \<Rightarrow> answer
            | None \<Rightarrow> (case factor_twos (n - 1) 0 of (d, s) \<Rightarrow> miller_rabin big n d s small_primes)))"

section \<open>The Fiat-Shamir prime\<close>

definition prime_candidate :: "big_lib \<Rightarrow> nat \<Rightarrow> nat \<Rightarrow> nat \<Rightarrow> nat" where
  "prime_candidate big x y counter =
     (let digest = sha_raw big (utf8_bytes ''qxprotocol_vdf_prime_l:'' @ to_bytes_be big x
            @ utf8_bytes '':'' @ to_bytes_be big y @ utf8_bytes '':'' @ u32_be counter);
          bytes = take 16 digest;
          bytes = bytes[15 := bytes ! 15 OR 1];
          bytes = bytes[0 := bytes ! 0 OR 0x80]
      in from_bytes_be big bytes)"

partial_function (option) hash_to_prime_from :: "big_lib \<Rightarrow> nat \<Rightarrow> nat \<Rightarrow> nat \<Rightarrow> nat option" where
  "hash_to_prime_from big x y counter =
     (let c = prime_candidate big x y counter in
      if is_probable_prime big c then Some c else hash_to_prime_from big x y (counter + 1))"

definition hash_to_prime :: "big_lib \<Rightarrow> nat \<Rightarrow> nat \<Rightarrow> nat option" where
  "hash_to_prime big x y = hash_to_prime_from big x y 0"

section \<open>Challenges\<close>

definition vdf_content :: "nat \<Rightarrow> nat \<Rightarrow> string \<Rightarrow> string \<Rightarrow> string \<Rightarrow> nat \<Rightarrow> string" where
  "vdf_content issued t th slt x ex =
     dec issued @ '':'' @ dec t @ '':'' @ th @ '':'' @ slt @ '':'' @ x @ '':'' @ dec ex"

text \<open>The salt is random text, an argument.\<close>

definition generate_vdf_challenge ::
  "hmac \<Rightarrow> big_lib \<Rightarrow> nat \<Rightarrow> string \<Rightarrow> string option \<Rightarrow> nat option \<Rightarrow> vdf_challenge" where
  "generate_vdf_challenge hmac big now slt target iterations_override =
     (let expires = now + VDF_TTL_MS;
          t = (case iterations_override of Some n \<Rightarrow> n | None \<Rightarrow> DEFAULT_VDF_ITERATIONS);
          th = (case target of Some tg \<Rightarrow> hash_target big tg | None \<Rightarrow> ''none'');
          x = to_hex big (hash_to_element big (case target of Some tg \<Rightarrow> tg | None \<Rightarrow> []) slt vdf_modulus)
      in \<lparr>vc_modulus = to_hex big vdf_modulus, vc_x = x, vc_t = t, target_hash = th, salt = slt,
          vc_signature = hmac (vdf_content now t th slt x expires),
          vc_issued_at = now, vc_expires_at = expires\<rparr>)"

text \<open>\<open>verify_vdf\<close>; \<open>None\<close> when the search for the prime does not end.\<close>

definition verify_vdf ::
  "hmac \<Rightarrow> big_lib \<Rightarrow> nat \<Rightarrow> vdf_challenge \<Rightarrow> vdf_proof \<Rightarrow> string option \<Rightarrow> unit api_result option" where
  "verify_vdf hmac big now ch pf expected_target =
     (if now > vc_expires_at ch then Some (Inl (bad_request ''VDF security challenge expired.''))
      else if \<not> verify_ticket_signature hmac
          (vdf_content (vc_issued_at ch) (vc_t ch) (target_hash ch) (salt ch) (vc_x ch) (vc_expires_at ch))
          (vc_signature ch)
        then Some (Inl (bad_request ''Invalid VDF security challenge signature.''))
      else if (case expected_target of None \<Rightarrow> False | Some tg \<Rightarrow> target_hash ch \<noteq> hash_target big tg)
        then Some (Inl (bad_request ''VDF security challenge was not bound to this target username.''))
      else if utf8_len (vc_x ch) > 1024 \<or> utf8_len (vp_y pf) > 1024 \<or> utf8_len (vp_pi pf) > 1024
        then Some (Inl (bad_request ''VDF parameters exceed size bound.''))
      else (case parse_hex big (vc_x ch) of
        None \<Rightarrow> Some (Inl (bad_request ''Malformed VDF parameter x.''))
      | Some x \<Rightarrow> (case parse_hex big (vp_y pf) of
        None \<Rightarrow> Some (Inl (bad_request ''Malformed VDF result y.''))
      | Some y \<Rightarrow> (case parse_hex big (vp_pi pf) of
        None \<Rightarrow> Some (Inl (bad_request ''Malformed VDF proof pi.''))
      | Some p \<Rightarrow>
        if x < 2 \<or> y < 2 \<or> p < 2 \<or> x \<ge> vdf_modulus \<or> y \<ge> vdf_modulus \<or> p \<ge> vdf_modulus
        then Some (Inl (bad_request ''VDF values exceed modulus bound.''))
        else (case hash_to_prime big x y of
            None \<Rightarrow> None
          | Some l \<Rightarrow>
            (let r = modpow big 2 (vc_t ch) l;
                 check = (modpow big p l vdf_modulus * modpow big x r vdf_modulus) mod vdf_modulus
             in if check \<noteq> y then Some (Inl (bad_request ''Invalid VDF delay proof.''))
                else Some (Inr ())))))))"

definition verify_and_consume_vdf ::
  "hmac \<Rightarrow> big_lib \<Rightarrow> nat \<Rightarrow> vdf_challenge \<Rightarrow> vdf_proof \<Rightarrow> string option \<Rightarrow> expiry_map
    \<Rightarrow> (unit api_result \<times> expiry_map) option" where
  "verify_and_consume_vdf hmac big now ch pf expected_target consumed =
     (case verify_vdf hmac big now ch pf expected_target of
        None \<Rightarrow> None
      | Some (Inl e) \<Rightarrow> Some (Inl e, consumed)
      | Some (Inr _) \<Rightarrow>
        (let cs = (if length consumed > 10000 then filter (\<lambda>(_, expires). expires > now) consumed
                   else consumed)
         in Some (case map_of cs (vc_signature ch) of
               Some expires \<Rightarrow>
                 if expires > now then
                   (Inl (too_many_requests ''Security challenge has already been used. Please request a new one.''), cs)
                 else (Inr (), AList.update (vc_signature ch) (vc_expires_at ch) cs)
             | None \<Rightarrow> (Inr (), AList.update (vc_signature ch) (vc_expires_at ch) cs))))"

section \<open>Correctness\<close>

text \<open>The accepting branch: signature, bounds and the Wesolowski equation.\<close>

lemma verify_vdf_accept:
  assumes "verify_vdf hmac big now ch pf tgt = Some (Inr u)"
  obtains x y p l where "parse_hex big (vc_x ch) = Some x" "parse_hex big (vp_y pf) = Some y"
    "parse_hex big (vp_pi pf) = Some p" "hash_to_prime big x y = Some l"
    "2 \<le> x" "2 \<le> y" "2 \<le> p" "x < vdf_modulus" "y < vdf_modulus" "p < vdf_modulus"
    "(modpow big p l vdf_modulus * modpow big x (modpow big 2 (vc_t ch) l) vdf_modulus) mod vdf_modulus = y"
    "now \<le> vc_expires_at ch"
    "vc_signature ch = hmac (vdf_content (vc_issued_at ch) (vc_t ch) (target_hash ch) (salt ch)
        (vc_x ch) (vc_expires_at ch))"
  using assms
  by (auto simp: verify_vdf_def Let_def verify_ticket_signature_iff not_less
      split: if_splits option.splits)

lemma power_split: "x ^ (2 ^ t) = (x ^ (2 ^ t div l)) ^ l * x ^ (2 ^ t mod l)" for x :: nat
proof -
  have "(2 :: nat) ^ t = (2 ^ t div l) * l + 2 ^ t mod l" by simp
  then show ?thesis by (metis power_add power_mult)
qed

lemma vdf_modulus_pos [simp]: "0 < vdf_modulus"
  by (simp add: vdf_modulus_def)

lemma mod_mult_power: "((a mod N) ^ l mod N * (b mod N)) mod N = (a ^ l * b) mod (N :: nat)"
  by (simp add: power_mod mod_mult_eq)

definition vdf_key :: "vdf_challenge \<times> vdf_proof \<times> string option \<Rightarrow> string \<times> nat" where
  "vdf_key r = (case r of (ch, _, _) \<Rightarrow> (vc_signature ch, vc_expires_at ch))"

text \<open>The answer to a request, a search that does not end counting as no answer.\<close>

definition vdf_try :: "hmac \<Rightarrow> big_lib \<Rightarrow> nat \<Rightarrow> vdf_challenge \<times> vdf_proof \<times> string option
    \<Rightarrow> expiry_map \<Rightarrow> unit api_result \<times> expiry_map" where
  "vdf_try hmac big now r consumed = (case r of (ch, pf, tgt) \<Rightarrow>
     (case verify_and_consume_vdf hmac big now ch pf tgt consumed of
        None \<Rightarrow> (Inl (internal []), consumed) | Some res \<Rightarrow> res))"

definition vdf_spent :: "expiry_map \<Rightarrow> nat \<Rightarrow> string \<times> nat \<Rightarrow> bool" where
  "vdf_spent cs t k = (case k of (sig, ex) \<Rightarrow>
     ex \<le> t \<or> (\<exists>e. map_of cs sig = Some e \<and> ex \<le> e))"

definition vdf_live :: "nat \<Rightarrow> string \<times> nat \<Rightarrow> bool" where
  "vdf_live t k \<longleftrightarrow> t < snd k"

lemma vdf_store:
  "snd (vdf_try hmac big now r cs) \<in> {cs, filter (\<lambda>(_, e). e > now) cs}
   \<or> (\<exists>m. m \<in> {cs, filter (\<lambda>(_, e). e > now) cs}
       \<and> snd (vdf_try hmac big now r cs) = AList.update (fst (vdf_key r)) (snd (vdf_key r)) m
       \<and> (case map_of m (fst (vdf_key r)) of None \<Rightarrow> True | Some e \<Rightarrow> e \<le> now))"
  by (cases r)
    (force simp: vdf_try_def vdf_key_def verify_and_consume_vdf_def Let_def
      split: if_splits option.splits sum.splits)

lemma vdf_spent_keep:
  assumes sp: "vdf_spent cs t k" and le: "t \<le> now"
  shows "vdf_spent (snd (vdf_try hmac big now r cs)) now k"
proof -
  obtain sig ex where k: "k = (sig, ex)" by (cases k)
  show ?thesis
  proof (cases "ex \<le> now")
    case True
    then show ?thesis by (simp add: vdf_spent_def k)
  next
    case False
    with sp le k obtain e where e: "map_of cs sig = Some e" "ex \<le> e" by (auto simp: vdf_spent_def)
    with False have now: "now < e" by simp
    from e now have kept: "map_of (filter (\<lambda>(_, e). e > now) cs) sig = Some e"
      by (intro map_of_filter_keep) auto
    consider "snd (vdf_try hmac big now r cs) \<in> {cs, filter (\<lambda>(_, e). e > now) cs}"
      | m where "m \<in> {cs, filter (\<lambda>(_, e). e > now) cs}"
        "snd (vdf_try hmac big now r cs) = AList.update (fst (vdf_key r)) (snd (vdf_key r)) m"
        "case map_of m (fst (vdf_key r)) of None \<Rightarrow> True | Some e \<Rightarrow> e \<le> now"
      using vdf_store [of hmac big now r cs] by blast
    then show ?thesis
    proof cases
      case 1
      with e kept show ?thesis by (auto simp: vdf_spent_def k)
    next
      case (2 m)
      from 2(1) e kept have m: "map_of m sig = Some e" by auto
      with 2(3) now have "fst (vdf_key r) \<noteq> sig" by (auto split: option.splits)
      with 2(2) m e show ?thesis by (auto simp: vdf_spent_def k)
    qed
  qed
qed

interpretation vdf: single_use "vdf_try hmac big" vdf_key vdf_spent vdf_live
  for hmac :: hmac and big :: big_lib
proof (unfold_locales, goal_cases)
  case (1 now r s x s')
  then show ?case
    by (cases r) (auto simp: vdf_try_def verify_and_consume_vdf_def Let_def vdf_spent_def vdf_key_def
        split: option.splits sum.splits if_splits)
next
  case (2 s t k now r)
  then show ?case by (rule vdf_spent_keep)
next
  case (3 s t r now)
  obtain ch pf tgt where r: "r = (ch, pf, tgt)" by (cases r)
  from 3 r obtain e where e: "map_of s (vc_signature ch) = Some e" "now < e"
    by (auto simp: vdf_spent_def vdf_key_def vdf_live_def)
  then have "map_of (filter (\<lambda>(_, e). e > now) s) (vc_signature ch) = Some e"
    by (intro map_of_filter_keep) auto
  with e show ?case
    by (auto simp: vdf_try_def verify_and_consume_vdf_def Let_def r split: option.splits sum.splits)
qed

text \<open>A concrete library for the evaluated examples: decimal text, and a hash that is constant.\<close>

definition demo_big :: big_lib where
  "demo_big = \<lparr>modpow = (\<lambda>b e m. b ^ e mod m), parse_hex = parse_u64, to_hex = dec,
     to_bytes_be = u64_be, from_bytes_be = (\<lambda>_. 3), sha_raw = (\<lambda>_. replicate 32 0),
     sha_hex = (\<lambda>_. replicate 64 (CHR ''a''))\<rparr>"

definition demo_challenge :: vdf_challenge where
  "demo_challenge = \<lparr>vc_modulus = ''35'', vc_x = ''2'', vc_t = 2, target_hash = ''none'', salt = ''s'',
     vc_signature = ''sig'', vc_issued_at = 0, vc_expires_at = 180000\<rparr>"

lemma demo_big_ok: "big_ok demo_big"
  by (simp add: big_ok_def demo_big_def)

lemma demo_prime: "hash_to_prime demo_big x y = Some 3"
  by (simp add: hash_to_prime_def hash_to_prime_from.simps prime_candidate_def demo_big_def
      is_probable_prime_def small_primes_def Let_def)

definition demo_proof :: vdf_proof where
  "demo_proof = \<lparr>vp_y = ''16'', vp_pi = ''2''\<rparr>"

lemma demo_parse:
  "parse_hex demo_big ''2'' = Some 2" "parse_hex demo_big ''16'' = Some 16"
  by (simp_all add: demo_big_def parse_u64_def digit_val_def is_ascii_digit_def)

lemma vdf_example_run:
  "verify_vdf (\<lambda>_. ''sig'') demo_big 5 demo_challenge demo_proof None = Some (Inr ())"
  by (simp add: verify_vdf_def verify_ticket_signature_iff demo_challenge_def demo_proof_def
      demo_parse demo_prime utf8_len_def utf8_width_def is_ascii_def vdf_modulus_def Let_def)
    (simp add: demo_big_def)

section \<open>Properties\<close>

text \<open>C23: the proof an honest client computes, y = x^(2^T) and pi = x^(2^T div l) modulo the
  modulus for the Fiat-Shamir prime l, passes the verification of a signed, unexpired challenge
  of any size within the code's bounds (Wesolowski completeness).\<close>

theorem vdf_honest_accepted:
  assumes "big_ok big" "now \<le> vc_expires_at ch"
    and "vc_signature ch = hmac (vdf_content (vc_issued_at ch) (vc_t ch) (target_hash ch) (salt ch)
           (vc_x ch) (vc_expires_at ch))"
    and "case tgt of None \<Rightarrow> True | Some tg \<Rightarrow> target_hash ch = hash_target big tg"
    and "utf8_len (vc_x ch) \<le> 1024" "utf8_len (vp_y pf) \<le> 1024" "utf8_len (vp_pi pf) \<le> 1024"
    and "parse_hex big (vc_x ch) = Some x" "parse_hex big (vp_y pf) = Some y"
    and "parse_hex big (vp_pi pf) = Some p"
    and "2 \<le> x" "2 \<le> y" "2 \<le> p" "x < vdf_modulus"
    and "hash_to_prime big x y = Some l" "0 < l"
    and "y = x ^ (2 ^ vc_t ch) mod vdf_modulus"
    and "p = x ^ (2 ^ vc_t ch div l) mod vdf_modulus"
  shows "verify_vdf hmac big now ch pf tgt = Some (Inr ())"
proof -
  have mp: "modpow big b e m = b ^ e mod m" if "0 < m" for b e m
    using assms(1) that by (simp add: big_ok_def)
  have "(modpow big p l vdf_modulus * modpow big x (modpow big 2 (vc_t ch) l) vdf_modulus) mod vdf_modulus
      = (p ^ l mod vdf_modulus * (x ^ (2 ^ vc_t ch mod l) mod vdf_modulus)) mod vdf_modulus"
    using assms(16) by (simp add: mp)
  also have "\<dots> = ((x ^ (2 ^ vc_t ch div l)) ^ l * x ^ (2 ^ vc_t ch mod l)) mod vdf_modulus"
    unfolding assms(18) by (rule mod_mult_power)
  also have "\<dots> = y"
    unfolding assms(17) by (simp add: power_split [symmetric])
  finally have eq: "(modpow big p l vdf_modulus * modpow big x (modpow big 2 (vc_t ch) l) vdf_modulus)
      mod vdf_modulus = y" .
  have "y < vdf_modulus" "p < vdf_modulus" by (simp_all add: assms(17,18))
  with eq show ?thesis
    using assms(2-15)
    by (simp add: verify_vdf_def verify_ticket_signature_iff Let_def not_less split: option.splits)
qed

theorem vdf_honest_accepted_witness:
  "verify_vdf (\<lambda>_. ''sig'') demo_big 5 demo_challenge demo_proof None = Some (Inr ())"
  by (rule vdf_honest_accepted [where x = 2 and y = 16 and p = 2 and l = 3])
    (simp_all add: demo_big_ok demo_prime demo_challenge_def demo_proof_def demo_parse
      utf8_len_def utf8_width_def is_ascii_def vdf_modulus_def)

text \<open>An accepted proof carries the server's signature on the challenge, lies within the
  modulus, and satisfies the Wesolowski equation for the Fiat-Shamir prime.\<close>

theorem vdf_accepted_sound:
  assumes "big_ok big" and "verify_vdf hmac big now ch pf tgt = Some (Inr u)"
  shows "now \<le> vc_expires_at ch
    \<and> vc_signature ch = hmac (vdf_content (vc_issued_at ch) (vc_t ch) (target_hash ch) (salt ch)
         (vc_x ch) (vc_expires_at ch))
    \<and> (\<exists>x y p l. parse_hex big (vc_x ch) = Some x \<and> parse_hex big (vp_y pf) = Some y
         \<and> parse_hex big (vp_pi pf) = Some p \<and> hash_to_prime big x y = Some l
         \<and> 2 \<le> x \<and> 2 \<le> y \<and> 2 \<le> p \<and> x < vdf_modulus \<and> y < vdf_modulus \<and> p < vdf_modulus
         \<and> (0 < l \<longrightarrow> (p ^ l * x ^ (2 ^ vc_t ch mod l)) mod vdf_modulus = y))"
  using assms(2)
proof (rule verify_vdf_accept, goal_cases)
  case (1 x y p l)
  have mp: "modpow big b e m = b ^ e mod m" if "0 < m" for b e m
    using assms(1) that by (simp add: big_ok_def)
  have "(p ^ l * x ^ (2 ^ vc_t ch mod l)) mod vdf_modulus = y" if "0 < l"
    using 1(11) that by (simp add: mp mod_mult_eq)
  with 1 show ?case by blast
qed

theorem vdf_accepted_sound_witness:
  "(5 :: nat) \<le> vc_expires_at demo_challenge"
  using vdf_accepted_sound [OF demo_big_ok vdf_example_run] by blast

text \<open>Before its expiry a challenge is consumed at most once, in any run of requests whose
  clock does not go back, whatever else is consumed and cleaned up in between.\<close>

theorem vdf_single_use:
  assumes "clock_ok trs"
  shows "accepted_of vdf_live vdf_key k trs (fst (run_tries (vdf_try hmac big) consumed trs)) \<le> 1"
  using assms by (rule vdf.accepted_once)

theorem vdf_single_use_witness:
  "accepted_of vdf_live vdf_key (''sig'', 180000)
     [(5, demo_challenge, demo_proof, None), (6, demo_challenge, demo_proof, None)]
     (fst (run_tries (vdf_try (\<lambda>_. ''sig'') demo_big) []
       [(5, demo_challenge, demo_proof, None), (6, demo_challenge, demo_proof, None)])) \<le> 1"
  by (rule vdf_single_use) (simp add: clock_ok_def)

text \<open>C39: at the millisecond of its expiry a challenge that verifies is accepted again although
  it is already consumed: \<open>verify_vdf\<close> refuses only \<open>now > expires_at\<close>, while the store counts an
  entry as spent only while \<open>expires > now\<close>.\<close>

theorem vdf_replay_at_expiry:
  assumes "now = vc_expires_at ch" and "verify_vdf hmac big now ch pf tgt = Some (Inr ())"
    and "distinct (keys consumed)"
    and "map_of consumed (vc_signature ch) = Some (vc_expires_at ch)"
  shows "\<exists>consumed'. verify_and_consume_vdf hmac big now ch pf tgt consumed = Some (Inr (), consumed')"
proof -
  have "map_of (filter (\<lambda>(_, e). e > now) consumed) (vc_signature ch) = None"
    using assms by (simp add: map_of_filter_distinct)
  with assms show ?thesis
    by (auto simp: verify_and_consume_vdf_def Let_def)
qed

theorem vdf_replay_at_expiry_witness:
  "\<exists>consumed'. verify_and_consume_vdf (\<lambda>_. ''sig'') demo_big 180000 demo_challenge demo_proof None
     [(''sig'', 180000)] = Some (Inr (), consumed')"
  by (rule vdf_replay_at_expiry)
    (simp_all add: demo_challenge_def demo_proof_def verify_vdf_def verify_ticket_signature_iff
      demo_parse demo_prime utf8_len_def utf8_width_def is_ascii_def vdf_modulus_def Let_def,
     simp add: demo_big_def)

end
