(* ===== verification/Prekeys.thy ===== *)
theory Prekeys
  imports Profiles Vdf
begin

text \<open>
  \<open>services/phantom_crypto.rs\<close>, the prekeys and block tags of \<open>services/phantom.rs\<close>, and the
  operations 36, 37 and 39 of \<open>websocket/protocol.rs\<close>: an account publishes a bundle of public keys
  signed twice, others fetch it, and its owner blocks senders.  The curve, the lattice signature,
  Base64, SHA-256 and the text of a JSON value are third-party: the record \<open>key_lib\<close>.  The decoder of
  hexadecimal text can panic, so an operation returns an \<open>outcome\<close>.
\<close>

record prekey_bundle =
  pb_version :: nat
  mlkem768_pk :: string
  ecdsa_p256_pk :: json
  mldsa65_pk :: string
  sig_ecdsa :: string
  sig_mldsa :: string
  block_filter :: "string list"
  pb_updated_at :: nat

record key_lib =
  json_text :: "json \<Rightarrow> string"
  parse_json :: "string \<Rightarrow> json option"
  b64url :: "string \<Rightarrow> byte list option"
  p256_point_ok :: "byte list \<Rightarrow> bool"
  p256_scalars_ok :: "byte list \<Rightarrow> bool"
  p256_verifies :: "byte list \<Rightarrow> byte list \<Rightarrow> byte list \<Rightarrow> bool"
  mldsa_key_ok :: "byte list \<Rightarrow> bool"
  mldsa_sig_ok :: "byte list \<Rightarrow> bool"
  mldsa_verifies :: "byte list \<Rightarrow> byte list \<Rightarrow> byte list \<Rightarrow> bool"
  sha256_hex :: "byte list \<Rightarrow> string"

section \<open>The bundle as JSON\<close>

definition as_u32 :: "json \<Rightarrow> nat option" where
  "as_u32 v = ofilter (\<lambda>n. n < 2 ^ 32) (as_u64 v)"

fun all_some :: "'a option list \<Rightarrow> 'a list option" where
  "all_some [] = Some []"
| "all_some (None # xs) = None"
| "all_some (Some x # xs) = map_option (\<lambda>ys. x # ys) (all_some xs)"

definition as_strings :: "json \<Rightarrow> string list option" where
  "as_strings v = obind (as_array v) (\<lambda>vs. all_some (map as_str vs))"

definition bundle_json :: "prekey_bundle \<Rightarrow> (string \<times> json) list" where
  "bundle_json b = [(''version'', jnat (pb_version b)), (''mlkem768Pk'', JStr (mlkem768_pk b)),
     (''ecdsaP256Pk'', ecdsa_p256_pk b), (''mldsa65Pk'', JStr (mldsa65_pk b)), (''sigEcdsa'', JStr (sig_ecdsa b)),
     (''sigMldsa'', JStr (sig_mldsa b)), (''blockFilter'', strs_json (block_filter b)), (''updatedAt'', jnat (pb_updated_at b))]"

text \<open>The derived reader takes an object by the names of its fields, an absent filter being empty, or
  an array of exactly the eight fields in order.\<close>

definition bundle_of_fields ::
  "json option \<Rightarrow> json option \<Rightarrow> json option \<Rightarrow> json option \<Rightarrow> json option \<Rightarrow> json option \<Rightarrow> json option \<Rightarrow> json option
    \<Rightarrow> prekey_bundle option" where
  "bundle_of_fields ver mlkem ecdsa mldsa se sm filt upd =
     (case (obind ver as_u32, obind mlkem as_str, ecdsa, obind mldsa as_str, obind se as_str, obind sm as_str,
            (case filt of None \<Rightarrow> Some [] | Some f \<Rightarrow> as_strings f), obind upd as_u64) of
        (Some v, Some k, Some e, Some l, Some s1, Some s2, Some f, Some u) \<Rightarrow>
          Some \<lparr>pb_version = v, mlkem768_pk = k, ecdsa_p256_pk = e, mldsa65_pk = l, sig_ecdsa = s1, sig_mldsa = s2,
            block_filter = f, pb_updated_at = u\<rparr>
      | _ \<Rightarrow> None)"

definition bundle_of_json :: "json \<Rightarrow> prekey_bundle option" where
  "bundle_of_json v =
     (case v of
        JObj kvs \<Rightarrow> bundle_of_fields (map_of kvs ''version'') (map_of kvs ''mlkem768Pk'') (map_of kvs ''ecdsaP256Pk'')
          (map_of kvs ''mldsa65Pk'') (map_of kvs ''sigEcdsa'') (map_of kvs ''sigMldsa'') (map_of kvs ''blockFilter'')
          (map_of kvs ''updatedAt'')
      | JArr [a, b, c, d, e, f, g, h] \<Rightarrow> bundle_of_fields (Some a) (Some b) (Some c) (Some d) (Some e) (Some f) (Some g) (Some h)
      | _ \<Rightarrow> None)"

section \<open>The signed form\<close>

text \<open>Objects sorted by key, no spaces; keys and scalars as the library writes them.\<close>

function (sequential) canonical_json :: "(json \<Rightarrow> string) \<Rightarrow> json \<Rightarrow> string" where
  "canonical_json ser (JObj kvs) =
     ''{'' @ join_with '','' (map (\<lambda>(k, v). ser (JStr k) @ '':'' @ canonical_json ser v) (sort_key fst kvs)) @ ''}''"
| "canonical_json ser (JArr vs) = ''['' @ join_with '','' (map (canonical_json ser) vs) @ '']''"
| "canonical_json ser v = ser v"
  by pat_completeness auto

termination
proof (relation "measure (size \<circ> snd)", goal_cases)
  case 1
  then show ?case by simp
next
  case (2 ser kvs x k v)
  then have "(k, v) \<in> set kvs" by simp
  then have "size v < Suc (size_list (size_prod (\<lambda>_. 0) size) kvs)"
    by (induction kvs) auto
  then show ?case by simp
next
  case (3 ser vs v)
  then have "size v < Suc (size_list size vs)" by (induction vs) auto
  then show ?case by simp
qed

definition canonical_prekey_bundle_bytes :: "(json \<Rightarrow> string) \<Rightarrow> prekey_bundle \<Rightarrow> byte list" where
  "canonical_prekey_bundle_bytes ser b =
     utf8_bytes (canonical_json ser (JObj (filter (\<lambda>(k, _). k \<noteq> ''sigEcdsa'' \<and> k \<noteq> ''sigMldsa'') (bundle_json b))))"

section \<open>The two signatures\<close>

definition decode_b64url :: "key_lib \<Rightarrow> string \<Rightarrow> byte list option" where
  "decode_b64url lib v = b64url lib (trim_end_matches (\<lambda>c. c = CHR ''='') v)"

text \<open>The uncompressed point of the key.\<close>

definition jwk_to_verifying_key :: "key_lib \<Rightarrow> json \<Rightarrow> byte list api_result" where
  "jwk_to_verifying_key lib jwk =
    (if text_of ''kty'' jwk \<noteq> ''EC'' \<or> text_of ''crv'' jwk \<noteq> ''P-256'' then Inl (bad_request ''Unsupported device signing key.'') else
    (case str_field ''x'' jwk of None \<Rightarrow> Inl (bad_request ''Missing JWK x coordinate.'') | Some x \<Rightarrow>
    (case str_field ''y'' jwk of None \<Rightarrow> Inl (bad_request ''Missing JWK y coordinate.'') | Some y \<Rightarrow>
    (case decode_b64url lib x of None \<Rightarrow> Inl (bad_request ''Invalid JWK x encoding.'') | Some x_bytes \<Rightarrow>
    (case decode_b64url lib y of None \<Rightarrow> Inl (bad_request ''Invalid JWK y encoding.'') | Some y_bytes \<Rightarrow>
     if length x_bytes \<noteq> 32 \<or> length y_bytes \<noteq> 32 then Inl (bad_request ''Invalid JWK coordinate length.'')
     else if \<not> p256_point_ok lib (0x04 # x_bytes @ y_bytes) then Inl (bad_request ''Invalid P-256 public key.'')
     else Inr (0x04 # x_bytes @ y_bytes))))))"

definition verify_ecdsa_p256 :: "key_lib \<Rightarrow> json \<Rightarrow> byte list \<Rightarrow> string \<Rightarrow> unit api_result" where
  "verify_ecdsa_p256 lib jwk msg sig_b64url =
    (case jwk_to_verifying_key lib jwk of Inl e \<Rightarrow> Inl e | Inr point \<Rightarrow>
    (case decode_b64url lib sig_b64url of None \<Rightarrow> Inl (bad_request ''Invalid ECDSA signature encoding.'') | Some raw \<Rightarrow>
     if length raw \<noteq> 64 then Inl (bad_request ''Invalid ECDSA signature length.'')
     else if \<not> p256_scalars_ok lib raw then Inl (bad_request ''Invalid ECDSA signature scalars.'')
     else if \<not> p256_verifies lib point msg raw then Inl (bad_request ''Invalid ECDSA signature.'')
     else Inr ()))"

text \<open>The two decodings come first, so a panic in either ends the call.\<close>

definition verify_mldsa65 :: "key_lib \<Rightarrow> string \<Rightarrow> byte list \<Rightarrow> string \<Rightarrow> unit api_result outcome" where
  "verify_mldsa65 lib pk_hex msg sig_hex =
    (case hex_decode pk_hex of Panic \<Rightarrow> Panic | Diverge \<Rightarrow> Diverge
     | Ret None \<Rightarrow> Ret (Inl (bad_request ''Invalid ML-DSA public key encoding.'')) | Ret (Some pk) \<Rightarrow>
    (case hex_decode sig_hex of Panic \<Rightarrow> Panic | Diverge \<Rightarrow> Diverge
     | Ret None \<Rightarrow> Ret (Inl (bad_request ''Invalid ML-DSA signature encoding.'')) | Ret (Some sig_bytes) \<Rightarrow>
     if \<not> mldsa_key_ok lib pk then Ret (Inl (bad_request ''Invalid ML-DSA-65 public key length.''))
     else if \<not> mldsa_sig_ok lib sig_bytes then Ret (Inl (bad_request ''Invalid ML-DSA-65 signature.''))
     else if \<not> mldsa_verifies lib pk msg sig_bytes then Ret (Inl (bad_request ''Invalid ML-DSA-65 signature.''))
     else Ret (Inr ())))"

definition verify_prekey_bundle :: "key_lib \<Rightarrow> prekey_bundle \<Rightarrow> unit api_result outcome" where
  "verify_prekey_bundle lib b =
    (let msg = canonical_prekey_bundle_bytes (json_text lib) b in
     case verify_ecdsa_p256 lib (ecdsa_p256_pk b) msg (sig_ecdsa b) of
       Inl e \<Rightarrow> Ret (Inl e)
     | Inr _ \<Rightarrow> verify_mldsa65 lib (mldsa65_pk b) msg (sig_mldsa b))"

section \<open>Publishing, fetching and blocking\<close>

definition is_hex64 :: "string \<Rightarrow> bool" where
  "is_hex64 v \<longleftrightarrow> utf8_len v = 64 \<and> list_all is_ascii_hexdigit v"

definition block_tag :: "(byte list \<Rightarrow> string) \<Rightarrow> string \<Rightarrow> string \<Rightarrow> string" where
  "block_tag sha recipient_fp sender_hint = sha (utf8_bytes recipient_fp @ utf8_bytes sender_hint)"

definition fingerprint_of_mlkem_hex :: "key_lib \<Rightarrow> string \<Rightarrow> string option outcome" where
  "fingerprint_of_mlkem_hex lib hex = map_outcome (map_option (sha256_hex lib)) (hex_decode hex)"

text \<open>\<open>services/phantom.rs\<close>: the handler \<open>publish_prekey\<close> of the service.\<close>

definition phantom_publish_prekey ::
  "key_lib \<Rightarrow> nat \<Rightarrow> string \<Rightarrow> prekey_bundle \<Rightarrow> account_db \<Rightarrow> (string \<times> json) list api_result outcome \<times> account_db" where
  "phantom_publish_prekey lib now user_id b db =
    (case verify_prekey_bundle lib b of
       Panic \<Rightarrow> (Panic, db) | Diverge \<Rightarrow> (Diverge, db) | Ret (Inl e) \<Rightarrow> (Ret (Inl e), db)
     | Ret (Inr _) \<Rightarrow>
       (case publish_prekey now user_id (json_text lib (JObj (bundle_json b))) db of
          (Inl e, db) \<Rightarrow> (Ret (Inl e), db)
        | (Inr _, db) \<Rightarrow> (Ret (Inr [(''ok'', JBool True), (''version'', jnat (pb_version b))]), db)))"

definition read_bundle :: "key_lib \<Rightarrow> string \<Rightarrow> prekey_bundle option" where
  "read_bundle lib ser = obind (parse_json lib ser) bundle_of_json"

definition fetch_prekey ::
  "key_lib \<Rightarrow> nat \<Rightarrow> string \<Rightarrow> app_state \<Rightarrow> prekey_bundle option api_result \<times> app_state" where
  "fetch_prekey lib now uname s =
    (case rate_hit now ''phantom:prekey:global'' 60 60000 s of (hit, s) \<Rightarrow>
     if hit then (Inl (too_many_requests ''Prekey lookup rate limit exceeded.''), s) else
    (case get_prekey_by_username uname (accounts s) of
       Inl e \<Rightarrow> (Inl e, s)
     | Inr None \<Rightarrow> (Inr None, s)
     | Inr (Some ser) \<Rightarrow> (case read_bundle lib ser of
          None \<Rightarrow> (Inl (internal ''Prekey bundle decode''), s) | Some b \<Rightarrow> (Inr (Some b), s))))"

fun fetch_prekeys :: "key_lib \<Rightarrow> string list \<Rightarrow> (string \<times> json) list \<Rightarrow> account_db \<Rightarrow> (string \<times> json) list api_result" where
  "fetch_prekeys lib [] bundles db = Inr bundles"
| "fetch_prekeys lib (n # ns) bundles db =
     (case get_prekey_by_username n db of
        Inl e \<Rightarrow> Inl e
      | Inr stored \<Rightarrow> fetch_prekeys lib ns
          (case obind stored (read_bundle lib) of
             Some b \<Rightarrow> AList.update n (JObj (bundle_json b)) bundles | None \<Rightarrow> bundles) db)"

definition owner_fingerprint :: "key_lib \<Rightarrow> string \<Rightarrow> account_db \<Rightarrow> string api_result outcome" where
  "owner_fingerprint lib user_id db =
    (case get_prekey_by_user_id user_id db of
       Inl e \<Rightarrow> Ret (Inl e)
     | Inr None \<Rightarrow> Ret (Inl (bad_request ''Publish a prekey before updating blocks.''))
     | Inr (Some ser) \<Rightarrow>
       (case read_bundle lib ser of None \<Rightarrow> Ret (Inl (internal ''Prekey bundle decode'')) | Some b \<Rightarrow>
         map_outcome (\<lambda>fp. case fp of None \<Rightarrow> Inl (bad_request ''Invalid stored prekey.'') | Some f \<Rightarrow> Inr f)
           (fingerprint_of_mlkem_hex lib (mlkem768_pk b))))"

text \<open>The hints one by one: those before a malformed one stay applied.\<close>

fun add_hints :: "key_lib \<Rightarrow> nat \<Rightarrow> string \<Rightarrow> string \<Rightarrow> string list \<Rightarrow> account_db \<Rightarrow> unit api_result \<times> account_db" where
  "add_hints lib now user_id fp [] db = (Inr (), db)"
| "add_hints lib now user_id fp (h # hs) db =
     (if \<not> is_hex64 h then (Inl (bad_request ''Malformed block hint.''), db)
      else (case add_block_tag now user_id (block_tag (sha256_hex lib) fp h) db of
          (Inl e, db) \<Rightarrow> (Inl e, db) | (Inr _, db) \<Rightarrow> add_hints lib now user_id fp hs db))"

fun remove_hints :: "key_lib \<Rightarrow> string \<Rightarrow> string \<Rightarrow> string list \<Rightarrow> account_db \<Rightarrow> unit api_result \<times> account_db" where
  "remove_hints lib user_id fp [] db = (Inr (), db)"
| "remove_hints lib user_id fp (h # hs) db =
     (if \<not> is_hex64 h then (Inl (bad_request ''Malformed block hint.''), db)
      else (case remove_block_tag user_id (block_tag (sha256_hex lib) fp h) db of
          (Inl e, db) \<Rightarrow> (Inl e, db) | (Inr _, db) \<Rightarrow> remove_hints lib user_id fp hs db))"

definition update_blocks ::
  "key_lib \<Rightarrow> nat \<Rightarrow> string \<Rightarrow> string list \<Rightarrow> string list \<Rightarrow> account_db \<Rightarrow> string list api_result outcome \<times> account_db" where
  "update_blocks lib now user_id add remove db =
    (case owner_fingerprint lib user_id db of
       Panic \<Rightarrow> (Panic, db) | Diverge \<Rightarrow> (Diverge, db) | Ret (Inl e) \<Rightarrow> (Ret (Inl e), db)
     | Ret (Inr fp) \<Rightarrow>
       (case add_hints lib now user_id fp add db of (Inl e, db) \<Rightarrow> (Ret (Inl e), db) | (Inr _, db) \<Rightarrow>
       (case remove_hints lib user_id fp remove db of (Inl e, db) \<Rightarrow> (Ret (Inl e), db) | (Inr _, db) \<Rightarrow>
          (Ret (list_block_tags user_id db), db))))"

section \<open>The three operations\<close>

definition publish_prekey_op :: "key_lib \<Rightarrow> nat \<Rightarrow> string \<Rightarrow> json \<Rightarrow> app_state \<Rightarrow> bool outcome \<times> app_state" where
  "publish_prekey_op lib now sid d s =
    (let req = request_id d; err = (\<lambda>m s. map_prod Ret id (respond_error sid 36 m req s)) in
     case session_user_id s sid of None \<Rightarrow> err ''You need to be identified before'' s | Some user_id \<Rightarrow>
    (case bundle_of_json d of None \<Rightarrow> err ''Malformed prekey bundle'' s | Some b \<Rightarrow>
    (case phantom_publish_prekey lib now user_id b (accounts s) of
       (Panic, db) \<Rightarrow> (Panic, s\<lparr>accounts := db\<rparr>)
     | (Diverge, db) \<Rightarrow> (Diverge, s\<lparr>accounts := db\<rparr>)
     | (Ret (Inl _), db) \<Rightarrow> err ''Prekey publish failed'' (s\<lparr>accounts := db\<rparr>)
     | (Ret (Inr res), db) \<Rightarrow> (Ret False, respond_to_sender sid (with_request_id (op_json 36 res) req) (s\<lparr>accounts := db\<rparr>)))))"

definition wanted_usernames :: "json \<Rightarrow> string list" where
  "wanted_usernames d = filter (\<lambda>n. n \<noteq> []) (map trim (List.map_filter as_str
     (take 8 (unwrap_or [] (obind (obj_get ''usernames'' d) as_array)))))"

definition fetch_prekey_op :: "key_lib \<Rightarrow> nat \<Rightarrow> string \<Rightarrow> json \<Rightarrow> app_state \<Rightarrow> handler_result" where
  "fetch_prekey_op lib now sid d s =
    (let req = request_id d; err = (\<lambda>m s. respond_error sid 37 m req s) in
     case session_user_id s sid of None \<Rightarrow> err ''You need to be identified before'' s | Some user_id \<Rightarrow>
     if wanted_usernames d = [] then err ''Missing usernames'' s else
    (case rate_hit now (''prekey-fetch:user:'' @ user_id) 4 15000 s of (hit, s) \<Rightarrow>
     if hit then err ''Rate limit exceeded'' s else
    (case fetch_prekeys lib (wanted_usernames d) [] (accounts s) of
       Inl _ \<Rightarrow> err ''Prekey fetch failed'' s
     | Inr bundles \<Rightarrow> (False, respond_to_sender sid (with_request_id (op_json 37 [(''bundles'', JObj bundles)]) req) s))))"

definition string_array_field :: "json \<Rightarrow> string \<Rightarrow> string list" where
  "string_array_field d k = filter (\<lambda>t. t \<noteq> []) (map (\<lambda>t. take 128 (trim t)) (List.map_filter as_str
     (take 64 (unwrap_or [] (obind (obj_get k d) as_array)))))"

definition block_update_op :: "key_lib \<Rightarrow> nat \<Rightarrow> string \<Rightarrow> json \<Rightarrow> app_state \<Rightarrow> bool outcome \<times> app_state" where
  "block_update_op lib now sid d s =
    (let req = request_id d; err = (\<lambda>m s. map_prod Ret id (respond_error sid 39 m req s));
         add = string_array_field d ''add''; remove = string_array_field d ''remove'' in
     case session_user_id s sid of None \<Rightarrow> err ''You need to be identified before'' s | Some user_id \<Rightarrow>
     if add = [] \<and> remove = [] then err ''Nothing to update'' s else
    (case update_blocks lib now user_id add remove (accounts s) of
       (Panic, db) \<Rightarrow> (Panic, s\<lparr>accounts := db\<rparr>)
     | (Diverge, db) \<Rightarrow> (Diverge, s\<lparr>accounts := db\<rparr>)
     | (Ret (Inl _), db) \<Rightarrow> err ''Block update failed'' (s\<lparr>accounts := db\<rparr>)
     | (Ret (Inr tags), db) \<Rightarrow> (Ret False, respond_to_sender sid
         (with_request_id (op_json 39 [(''filter'', strs_json tags)]) req) (s\<lparr>accounts := db\<rparr>))))"

end
