(* ===== verification/Room_Roles_Inv.thy ===== *)
theory Room_Roles_Inv
  imports Room_Roles
begin

text \<open>
  Correctness of the community rooms.  \<open>room_inv\<close> says of a community room's record that its owner
  is its one administrator and that moderators and sub-administrators keep to their limits;
  \<open>rooms_inv\<close> that every stored record does.  One lemma per handler, each by the rule for the
  common opening; then who may change what, and what a ban, a transfer and a deletion achieve.
\<close>

section \<open>The role invariant\<close>

definition room_inv :: "room_record \<Rightarrow> bool" where
  "room_inv r \<longleftrightarrow> room_kind r = Classic \<or>
     ((\<exists>ow. owner_id r = Some ow \<and> map_of (roles r) ow = Some Administrator
        \<and> (\<forall>u. map_of (roles r) u = Some Administrator \<longrightarrow> u = ow))
      \<and> distinct (keys (roles r)) \<and> Member \<notin> set (vals (roles r))
      \<and> count_role r Moderator \<le> MAX_ROOM_MODERATORS
      \<and> count_role r SubAdministrator \<le> MAX_ROOM_SUB_ADMINS)"

definition rooms_inv :: "app_state \<Rightarrow> bool" where
  "rooms_inv s \<longleftrightarrow> (\<forall>r \<in> set (vals (rooms s)). room_inv r)"

lemma room_inv_same:
  "room_inv r \<Longrightarrow> room_kind r' = room_kind r \<Longrightarrow> owner_id r' = owner_id r \<Longrightarrow> roles r' = roles r \<Longrightarrow> room_inv r'"
  by (simp add: room_inv_def count_role_def)

lemma room_inv_room_id [simp]: "room_inv (r\<lparr>room_id := x\<rparr>) = room_inv r"
  by (simp add: room_inv_def count_role_def)

lemma room_inv_fresh [simp]: "room_inv (fresh_room rid)"
  by (simp add: room_inv_def fresh_room_def room_default_def)

lemma rooms_inv_record: "rooms_inv s \<Longrightarrow> find_room rid s = Some r \<Longrightarrow> room_inv r"
  by (auto simp: rooms_inv_def find_room_def split: if_splits dest!: map_of_set_vals)

lemma vals_update_subset: "r \<in> set (vals (AList.update k v m)) \<Longrightarrow> r = v \<or> r \<in> set (vals m)"
  using set_vals_update [of k v m] by auto

lemma rooms_inv_update: "rooms_inv s \<Longrightarrow> room_inv r \<Longrightarrow> rooms s' = AList.update rid r (rooms s) \<Longrightarrow> rooms_inv s'"
  unfolding rooms_inv_def by (metis vals_update_subset)

lemma vals_delete_subset: "set (vals (AList.delete k m)) \<subseteq> set (vals m)"
  by (induction m) auto

lemma rooms_inv_same: "rooms_inv s \<Longrightarrow> rooms s' = rooms s \<Longrightarrow> rooms_inv s'"
  by (simp add: rooms_inv_def)

lemma rooms_inv_either:
  "rooms s' = (if b then AList.update rid r (rooms s) else rooms s) \<Longrightarrow> rooms_inv s \<Longrightarrow> room_inv r \<Longrightarrow> rooms_inv s'"
  by (cases b) (rule rooms_inv_update, simp_all add: rooms_inv_def)

lemma room_inv_cases:
  assumes "room_inv r" "room_kind r = Community"
  obtains ow where "owner_id r = Some ow" "map_of (roles r) ow = Some Administrator"
    "\<And>u. map_of (roles r) u = Some Administrator \<Longrightarrow> u = ow" "distinct (keys (roles r))"
    "Member \<notin> set (vals (roles r))"
    "count_role r Moderator \<le> MAX_ROOM_MODERATORS" "count_role r SubAdministrator \<le> MAX_ROOM_SUB_ADMINS"
proof -
  from assms have "(\<exists>ow. owner_id r = Some ow \<and> map_of (roles r) ow = Some Administrator
        \<and> (\<forall>u. map_of (roles r) u = Some Administrator \<longrightarrow> u = ow))
      \<and> distinct (keys (roles r)) \<and> Member \<notin> set (vals (roles r))
      \<and> count_role r Moderator \<le> MAX_ROOM_MODERATORS
      \<and> count_role r SubAdministrator \<le> MAX_ROOM_SUB_ADMINS"
    unfolding room_inv_def by (metis room_kind.distinct(1))
  with that show thesis by blast
qed

lemma room_invI:
  assumes "owner_id r = Some ow" "map_of (roles r) ow = Some Administrator"
    "\<And>u. map_of (roles r) u = Some Administrator \<Longrightarrow> u = ow" "distinct (keys (roles r))"
    "Member \<notin> set (vals (roles r))"
    "count_role r Moderator \<le> MAX_ROOM_MODERATORS" "count_role r SubAdministrator \<le> MAX_ROOM_SUB_ADMINS"
  shows "room_inv r"
  unfolding room_inv_def using assms by blast

section \<open>Counting roles\<close>

lemma filter_vals_map_of_None:
  "map_of m k = None \<Longrightarrow> filter P (vals (AList.update k v m)) = filter P (vals m) @ (if P v then [v] else [])"
  by (induction m) (auto split: if_splits)

lemma count_vals_update:
  "distinct (keys m) \<Longrightarrow>
   length (filter P (vals (AList.update k v m))) + (case map_of m k of Some w \<Rightarrow> if P w then 1 else 0 | None \<Rightarrow> 0)
   = length (filter P (vals m)) + (if P v then 1 else 0)"
proof (induction m)
  case Nil
  then show ?case by simp
next
  case (Cons kv m)
  then show ?case
    by (cases kv) (auto split: option.splits dest: map_of_SomeD simp: map_of_eq_None_iff)
qed

lemma count_vals_delete: "length (filter P (vals (AList.delete k m))) \<le> length (filter P (vals m))"
  by (induction m) auto

lemma count_role_update:
  assumes "distinct (keys (roles r))"
  shows "count_role (r\<lparr>roles := AList.update k v (roles r)\<rparr>) role
      + (if map_of (roles r) k = Some role then 1 else 0)
    = count_role r role + (if v = role then 1 else 0)"
  using count_vals_update [OF assms, of "\<lambda>x. x = role" k v]
  by (auto simp: count_role_def split: option.splits if_splits)

section \<open>The common opening\<close>

lemma community_op_rule:
  assumes "\<And>m j. P (respond_to_sender sid j (s\<lparr>limits := m\<rparr>))"
    and "\<And>m actor name rid room. session_identity s sid = Some (actor, name) \<Longrightarrow>
        resolve_room_for_session s sid (str_field ''gameId'' d) = Inr rid \<Longrightarrow>
        find_room rid s = Some room \<Longrightarrow> room_kind room = Community \<Longrightarrow>
        P (snd (body actor name rid room (s\<lparr>limits := m\<rparr>)))"
  shows "P (snd (community_op b l w opn km now sid d body s))"
  using assms
  by (cases "rate_limit_hit now (b @ '':session:'' @ sid) l w (limits s)")
    (auto simp: community_op_def Let_def rate_hit_def split: option.splits sum.splits prod.splits)

lemma rooms_limits [simp]: "rooms (s\<lparr>limits := m\<rparr>) = rooms s" by simp

lemma persist_rooms:
  "rooms (snd (persist_and_announce opn msg sid d rid room s)) =
     (if rooms_write_ok s then AList.update rid room (rooms s) else rooms s)"
  by (auto simp: persist_and_announce_def set_room_record_def broadcast_room_record_to_members_def Let_def)

lemma rooms_inv_persist:
  "rooms_inv s \<Longrightarrow> room_inv room \<Longrightarrow> rooms_inv (snd (persist_and_announce opn msg sid d rid room s))"
  by (rule rooms_inv_either [OF persist_rooms])

lemma sync_rooms:
  "rooms (snd (sync_room_record rid s)) =
     (if rooms_write_ok s then AList.update rid
        ((let room = unwrap_or (fresh_room rid) (find_room rid s);
              room = (if trim (room_title room) = [] then room\<lparr>room_title := rid\<rparr> else room)
          in room\<lparr>room_members := room_usernames s rid None\<rparr>)) (rooms s)
      else rooms s)"
  by (auto simp: sync_room_record_def set_room_record_def Let_def)

lemma rooms_inv_unwrap: "rooms_inv s \<Longrightarrow> room_inv (unwrap_or (fresh_room rid) (find_room rid s))"
  by (cases "find_room rid s") (auto intro: rooms_inv_record)

lemma rooms_inv_sync: "rooms_inv s \<Longrightarrow> rooms_inv (snd (sync_room_record rid s))"
proof -
  assume inv: "rooms_inv s"
  let ?r = "let room = unwrap_or (fresh_room rid) (find_room rid s);
              room = (if trim (room_title room) = [] then room\<lparr>room_title := rid\<rparr> else room)
          in room\<lparr>room_members := room_usernames s rid None\<rparr>"
  have "room_inv ?r"
    using rooms_inv_unwrap [OF inv, of rid] by (auto simp: Let_def intro: room_inv_same)
  with inv show ?thesis by (intro rooms_inv_either [OF sync_rooms])
qed

lemma remove_user_rooms [simp]:
  "rooms (remove_user_from_room rid u reason s) = rooms s"
  "rooms_write_ok (remove_user_from_room rid u reason s) = rooms_write_ok s"
  "rooms_read_ok (remove_user_from_room rid u reason s) = rooms_read_ok s"
  by (simp_all add: remove_user_from_room_def Let_def)

lemma removal_tail_rooms:
  "rooms (snd (removal_tail opn reason sid d rid t n room s))
   = rooms (snd (sync_room_record rid (remove_user_from_room rid t reason s)))"
  by (simp add: removal_tail_def broadcast_member_removed_def Let_def)

lemma rooms_inv_removal: "rooms_inv s \<Longrightarrow> rooms_inv (snd (removal_tail opn reason sid d rid t n room s))"
  using rooms_inv_sync [of "remove_user_from_room rid t reason s" rid]
  by (simp add: rooms_inv_def removal_tail_rooms)

section \<open>Every handler keeps the invariant\<close>

lemma rooms_inv_err [intro]: "rooms_inv s \<Longrightarrow> rooms_inv (respond_to_sender sid j (s\<lparr>limits := m\<rparr>))"
  "rooms_inv s \<Longrightarrow> rooms_inv (respond_to_sender sid j s)" "rooms_inv s \<Longrightarrow> rooms_inv (s\<lparr>limits := m\<rparr>)"
  by (simp_all add: rooms_inv_def)

lemma role_in_room_simps:
  "role_in_room room u \<noteq> Administrator \<Longrightarrow> owner_id room \<noteq> Some u \<and> role_in_room room u = unwrap_or Member (map_of (roles room) u)"
  by (auto simp: role_in_room_def split: if_splits)

lemma role_lookup:
  assumes "owner_id room = Some ow" "t \<noteq> ow" "x \<noteq> Member"
  shows "role_in_room room t = x \<longleftrightarrow> map_of (roles room) t = Some x"
  using assms by (cases "map_of (roles room) t") (auto simp: role_in_room_def)

lemma Member_update: "Member \<notin> set (vals m) \<Longrightarrow> v \<noteq> Member \<Longrightarrow> Member \<notin> set (vals (AList.update k v m))"
  using vals_update_subset by metis

lemmas Member_update_image = Member_update [simplified]

lemma room_inv_assign:
  assumes inv: "room_inv room" and kind: "room_kind room = Community"
    and target: "role_in_room room t \<noteq> Administrator" and new: "v \<noteq> Administrator" "v \<noteq> Member"
    and mods: "v = Moderator \<longrightarrow> role_in_room room t = Moderator \<or> count_role room Moderator < MAX_ROOM_MODERATORS"
    and subs: "v = SubAdministrator \<longrightarrow> role_in_room room t = SubAdministrator \<or> count_role room SubAdministrator < MAX_ROOM_SUB_ADMINS"
  shows "room_inv (room\<lparr>roles := AList.update t v (roles room)\<rparr>)"
proof (rule room_inv_cases [OF inv kind], goal_cases)
  case (1 ow)
  let ?r = "room\<lparr>roles := AList.update t v (roles room)\<rparr>"
  have t: "t \<noteq> ow" using target 1(1) by (auto simp: role_in_room_def)
  note cur = role_lookup [OF 1(1) t]
  note c = count_role_update [OF 1(4), of t v]
  show ?case
  proof (rule room_invI [of _ ow])
    show "count_role ?r Moderator \<le> MAX_ROOM_MODERATORS"
      using c [of Moderator] 1(6) mods cur [of Moderator] by (auto split: if_splits)
    show "count_role ?r SubAdministrator \<le> MAX_ROOM_SUB_ADMINS"
      using c [of SubAdministrator] 1(7) subs cur [of SubAdministrator] by (auto split: if_splits)
    show "u = ow" if "map_of (roles ?r) u = Some Administrator" for u
      using that new 1(3) [of u] by (simp split: if_splits)
  qed (use 1(1,2,4,5) t new in \<open>simp_all add: distinct_update Member_update_image\<close>)
qed

lemma room_inv_unassign:
  assumes inv: "room_inv room" and kind: "room_kind room = Community"
    and target: "role_in_room room t \<noteq> Administrator"
  shows "room_inv (room\<lparr>roles := AList.delete t (roles room)\<rparr>)"
proof (rule room_inv_cases [OF inv kind], goal_cases)
  case (1 ow)
  let ?r = "room\<lparr>roles := AList.delete t (roles room)\<rparr>"
  have t: "t \<noteq> ow" using target 1(1) by (auto simp: role_in_room_def)
  have c: "count_role ?r role \<le> count_role room role" for role
    using count_vals_delete [of "\<lambda>r. r = role" t "roles room"] by (simp add: count_role_def)
  show ?case
  proof (rule room_invI [of _ ow])
    show "count_role ?r Moderator \<le> MAX_ROOM_MODERATORS" using c [of Moderator] 1(6) by simp
    show "count_role ?r SubAdministrator \<le> MAX_ROOM_SUB_ADMINS" using c [of SubAdministrator] 1(7) by simp
    show "u = ow" if "map_of (roles ?r) u = Some Administrator" for u
      using that 1(3) [of u] by (simp split: if_splits)
    show "Member \<notin> set (vals (roles ?r))" using vals_delete_subset [of t "roles room"] 1(5) by auto
  qed (use 1(1,2,4,5) t in \<open>simp_all add: distinct_delete\<close>)
qed

lemma room_inv_transfer:
  assumes inv: "room_inv room" and kind: "room_kind room = Community"
    and owner: "owner_id room = Some a" and role: "role_in_room room t = Moderator \<or> role_in_room room t = SubAdministrator"
    and slot: "role_in_room room t = SubAdministrator \<or> count_role room SubAdministrator < MAX_ROOM_SUB_ADMINS"
  shows "room_inv (room\<lparr>owner_id := Some t,
      roles := AList.update a SubAdministrator (AList.update t Administrator (roles room))\<rparr>)"
proof (rule room_inv_cases [OF inv kind], goal_cases)
  case (1 ow)
  have a: "ow = a" using 1(1) owner by simp
  have t: "t \<noteq> a" using role owner by (auto simp: role_in_room_def)
  note cur = role_lookup [OF owner t]
  let ?r1 = "room\<lparr>roles := AList.update t Administrator (roles room)\<rparr>"
  let ?r2 = "?r1\<lparr>roles := AList.update a SubAdministrator (roles ?r1)\<rparr>"
  let ?r = "room\<lparr>owner_id := Some t,
      roles := AList.update a SubAdministrator (AList.update t Administrator (roles room))\<rparr>"
  have d1: "distinct (keys (roles ?r1))" using 1(4) by (simp add: distinct_update)
  have a1: "map_of (roles ?r1) a = Some Administrator" using t 1(2) a by simp
  note c1 = count_role_update [OF 1(4), of t Administrator]
  note c2 = count_role_update [OF d1, of a SubAdministrator]
  have same: "count_role ?r x = count_role ?r2 x" for x by (simp add: count_role_def)
  show ?case
  proof (rule room_invI [of _ t])
    show "count_role ?r Moderator \<le> MAX_ROOM_MODERATORS"
      using c1 [of Moderator] c2 [of Moderator] 1(6) same [of Moderator] by (simp split: if_splits)
    show "count_role ?r SubAdministrator \<le> MAX_ROOM_SUB_ADMINS"
      using c1 [of SubAdministrator] c2 [of SubAdministrator] 1(7) same [of SubAdministrator] a1 slot
        cur [of SubAdministrator]
      by (auto split: if_splits)
    show "u = t" if "map_of (roles ?r) u = Some Administrator" for u
      using that 1(3) [of u] a by (simp split: if_splits)
    show "Member \<notin> set (vals (roles ?r))" using 1(5) by (simp add: Member_update_image)
  qed (use 1(1,2,4,5) t in \<open>simp_all add: distinct_update\<close>)
qed

text \<open>A change that leaves kind, owner and roles alone keeps the record's invariant.\<close>

lemma room_inv_plain [simp]:
  "room_inv (r\<lparr>room_description := x\<rparr>) = room_inv r" "room_inv (r\<lparr>banned := b\<rparr>) = room_inv r"
  "room_inv (r\<lparr>timeouts := t\<rparr>) = room_inv r" "room_inv (r\<lparr>chat_locked := c\<rparr>) = room_inv r"
  "room_inv (r\<lparr>mod_permissions := p\<rparr>) = room_inv r" "room_inv (r\<lparr>room_calls_enabled := c\<rparr>) = room_inv r"
  "room_inv (r\<lparr>room_title := x\<rparr>) = room_inv r" "room_inv (r\<lparr>room_icon := i\<rparr>) = room_inv r"
  "room_inv (r\<lparr>room_members := ms\<rparr>) = room_inv r"
  by (simp_all add: room_inv_def count_role_def)

lemma rooms_inv_sends [simp]:
  "rooms_inv (respond_to_sender sid j s) = rooms_inv s" "rooms_inv (s\<lparr>limits := m\<rparr>) = rooms_inv s"
  "rooms_inv (broadcast_to_room g j s) = rooms_inv s" "rooms_inv (send_all cs w s) = rooms_inv s"
  by (simp_all add: rooms_inv_def)

lemma rooms_inv_set_room: "rooms_inv s \<Longrightarrow> room_inv r \<Longrightarrow> rooms_inv (snd (set_room_record rid r s))"
  by (rule rooms_inv_either [where b = "rooms_write_ok s"]) (auto simp: set_room_record_def)

lemma rooms_inv_set_room_eq: "set_room_record rid r s = (x, s') \<Longrightarrow> rooms_inv s \<Longrightarrow> room_inv r \<Longrightarrow> rooms_inv s'"
  using rooms_inv_set_room [of s r rid] by simp

lemma rooms_inv_sync_eq: "sync_room_record rid s = (x, s') \<Longrightarrow> rooms_inv s \<Longrightarrow> rooms_inv s'"
  using rooms_inv_sync [of s rid] by simp

lemma rooms_inv_description: "rooms_inv s \<Longrightarrow> rooms_inv (snd (update_room_description now sid d s))"
  unfolding update_room_description_def
  by (rule community_op_rule)
    (auto simp: Let_def broadcast_room_record_to_members_def split: prod.splits sum.splits
      dest: rooms_inv_record elim!: rooms_inv_set_room_eq)

lemma rooms_inv_role: "rooms_inv s \<Longrightarrow> rooms_inv (snd (set_member_role now sid d s))"
  unfolding set_member_role_def
proof (rule community_op_rule, goal_cases)
  case (1 m j)
  then show ?case by simp
next
  case (2 m actor name rid room)
  from 2(1,4) have "room_inv room" by (rule rooms_inv_record)
  then show ?case
    using 2(1,5) room_inv_assign [of room] room_inv_unassign [of room]
    by (auto simp: Let_def not_le split: option.splits sum.splits intro!: rooms_inv_persist)
qed

lemma rooms_inv_ban: "rooms_inv s \<Longrightarrow> rooms_inv (snd (ban_member now sid d s))"
  unfolding ban_member_def
  by (rule community_op_rule)
    (auto simp: Let_def split: prod.splits sum.splits
      intro!: rooms_inv_removal dest: rooms_inv_record elim!: rooms_inv_set_room_eq)

lemma rooms_inv_plain_handlers:
  assumes "rooms_inv s"
  shows "rooms_inv (snd (unban_member now sid d s))" "rooms_inv (snd (timeout_member now sid d s))"
    "rooms_inv (snd (set_chat_lock now sid d s))" "rooms_inv (snd (set_moderator_permissions now sid d s))"
    "rooms_inv (snd (set_calls_enabled now sid d s))" "rooms_inv (snd (unmute_member now sid d s))"
  unfolding unban_member_def timeout_member_def set_chat_lock_def set_moderator_permissions_def
    set_calls_enabled_def unmute_member_def
  using assms
  by (rule_tac [!] community_op_rule)
    (auto simp: Let_def split: prod.splits sum.splits option.splits
      intro!: rooms_inv_persist dest: rooms_inv_record)

lemma rooms_inv_kick: "rooms_inv s \<Longrightarrow> rooms_inv (snd (kick_member now sid d s))"
  unfolding kick_member_def
  by (rule community_op_rule) (auto simp: Let_def split: prod.splits sum.splits intro!: rooms_inv_removal)

lemma rooms_inv_transfer: "rooms_inv s \<Longrightarrow> rooms_inv (snd (transfer_ownership now sid d s))"
  unfolding transfer_ownership_def
proof (rule community_op_rule, goal_cases)
  case (1 m j)
  then show ?case by simp
next
  case (2 m actor name rid room)
  from 2(1,4) have "room_inv room" by (rule rooms_inv_record)
  then show ?case
    using 2(1,5) room_inv_transfer [of room]
    by (auto simp: Let_def not_le split: option.splits sum.splits intro!: rooms_inv_persist)
qed

lemma rooms_inv_call_access: "rooms_inv s \<Longrightarrow> rooms_inv (snd (set_call_access now sid d s))"
  unfolding set_call_access_def
  by (rule community_op_rule) (auto simp: Let_def rooms_inv_def)

lemma rooms_inv_delete_room: "rooms_inv s \<Longrightarrow> rooms_inv (snd (delete_room rid s))"
proof -
  have "set (vals (rooms (snd (delete_room rid s)))) \<subseteq> set (vals (rooms s))"
    using vals_delete_subset [of rid "rooms s"] by (simp add: delete_room_def)
  then show "rooms_inv s \<Longrightarrow> rooms_inv (snd (delete_room rid s))"
    unfolding rooms_inv_def by blast
qed

lemma rooms_inv_delete: "rooms_inv s \<Longrightarrow> rooms_inv (snd (delete_room_op now sid d s))"
  unfolding delete_room_op_def
proof (rule community_op_rule, goal_cases)
  case (1 m j)
  then show ?case by simp
next
  case (2 m actor name rid room)
  have rm: "rooms_inv (remove_file i t) = rooms_inv t" "rooms_inv (t\<lparr>room_messages := x\<rparr>) = rooms_inv t"
    "rooms_inv (t\<lparr>players := y\<rparr>) = rooms_inv t" for i t x y
    by (simp_all add: remove_file_def rooms_inv_def)
  have del: "rooms_inv t'" if "delete_room rid t = (x, t')" "rooms_inv t" for t x t'
    using rooms_inv_delete_room [OF that(2), of rid] that(1) by simp
  show ?case
    using 2(1) by (auto simp: Let_def rm split: prod.splits sum.splits option.splits dest!: del)
qed

lemma sync_Inr: "sync_room_record rid s = (Inr room, s') \<Longrightarrow> rooms_inv s \<Longrightarrow> room_inv room"
  using rooms_inv_unwrap [of s rid]
  by (auto simp: sync_room_record_def Let_def split: sum.splits prod.splits if_splits)

lemma rooms_inv_retitle:
  assumes inv: "rooms_inv s"
  shows "rooms_inv (snd (retitle_room rid title req sid s))"
proof (cases "sync_room_record rid s")
  case (Pair a s')
  with inv rooms_inv_sync_eq [of rid s a s'] have s': "rooms_inv s'" by simp
  show ?thesis
  proof (cases a)
    case (Inl x)
    with Pair s' show ?thesis by (simp add: retitle_room_def)
  next
    case (Inr room)
    with Pair inv have "room_inv (room\<lparr>room_title := title\<rparr>)" using sync_Inr by simp
    with s' have "rooms_inv (snd (set_room_record rid (room\<lparr>room_title := title\<rparr>) s'))"
      by (rule rooms_inv_set_room)
    with Pair Inr show ?thesis
      by (cases "set_room_record rid (room\<lparr>room_title := title\<rparr>) s'")
        (auto simp: retitle_room_def broadcast_room_record_to_members_def split: sum.splits)
  qed
qed

lemma rooms_inv_title: "rooms_inv s \<Longrightarrow> rooms_inv (snd (update_room_title now sid d s))"
  by (auto simp: update_room_title_def Let_def rate_hit_def split: sum.splits prod.splits
      intro!: rooms_inv_retitle)

lemma store_icon_rooms [simp]:
  "rooms (snd (store_room_icon_from_payload b64 uuid d rid s)) = rooms s"
  "rooms_write_ok (snd (store_room_icon_from_payload b64 uuid d rid s)) = rooms_write_ok s"
  "players (snd (store_room_icon_from_payload b64 uuid d rid s)) = players s"
  by (auto simp: store_room_icon_from_payload_def store_uploaded_bytes_def remove_file_def Let_def
      split: option.splits json.splits sum.splits prod.splits)


lemma room_inv_new_room:
  "room_inv \<lparr>room_id = rid, room_title = t, room_icon = i, room_members = ms, room_kind = Community,
      room_description = ds, owner_id = Some u, chat_locked = c, roles = [(u, Administrator)], banned = b,
      timeouts = tm, mod_permissions = mp, room_calls_enabled = ce\<rparr>"
  by (rule room_invI [of _ u]) (auto simp: count_role_def split: if_splits)

lemma rooms_inv_store_icon [simp]: "rooms_inv (snd (store_room_icon_from_payload b64 uuid d rid s)) = rooms_inv s"
  by (simp add: rooms_inv_def)

text \<open>The last step of the creation: store the icon, and the record with it.\<close>

lemma rooms_inv_create_icon:
  assumes "rooms_inv s" "room_inv room"
  shows "rooms_inv (snd (case store_room_icon_from_payload decode uuid d rid s of
                (Inr (Some icon), s) \<Rightarrow> (room\<lparr>room_icon := Some icon\<rparr>,
                   snd (set_room_record rid (room\<lparr>room_icon := Some icon\<rparr>) s))
              | (_, s) \<Rightarrow> (room, s)))"
proof (cases "store_room_icon_from_payload decode uuid d rid s")
  case (Pair a s')
  then have "rooms_inv s'" using rooms_inv_store_icon [of decode uuid d rid s] assms(1) by simp
  with Pair assms(2) show ?thesis by (auto split: sum.splits option.splits intro: rooms_inv_set_room)
qed

lemma rooms_inv_create_if_absent:
  "create_room_if_absent rid room s = (x, s') \<Longrightarrow> rooms_inv s \<Longrightarrow> room_inv room \<Longrightarrow> rooms_inv s'"
  using rooms_inv_update [of s room s' rid] by (auto simp: create_room_if_absent_def split: if_splits)

lemma rooms_inv_persist_new:
  assumes "rooms_inv s" "room_inv room"
  shows "rooms_inv (snd (persist_new_room b64 uuid rid room sid d s))"
proof (cases "create_room_if_absent rid room s")
  case (Pair a s1)
  with assms have s1: "rooms_inv s1" using rooms_inv_create_if_absent by blast
  show ?thesis
  proof (cases "a = Inr True")
    case True
    have "rooms_inv (snd (case store_room_icon_from_payload b64 uuid d rid s1 of
             (Inr (Some icon), s) \<Rightarrow> (room\<lparr>room_icon := Some icon\<rparr>,
                snd (set_room_record rid (room\<lparr>room_icon := Some icon\<rparr>) s))
           | (_, s) \<Rightarrow> (room, s)))"
      by (rule rooms_inv_create_icon [OF s1 assms(2)])
    with Pair True show ?thesis by (simp add: persist_new_room_def split_beta)
  next
    case False
    with Pair s1 show ?thesis by (auto simp: persist_new_room_def split: sum.split bool.split)
  qed
qed

lemma rooms_inv_create: "rooms_inv s \<Longrightarrow> rooms_inv (snd (create_room b64 uuid now sid d s))"
  by (auto simp: create_room_def Let_def rate_hit_def intro!: rooms_inv_persist_new room_inv_new_room
      split: sum.split option.split prod.split)

section \<open>Any run of room operations\<close>

text \<open>A request to the rooms: the drawn file name, the clock, the session, the operation and its data.\<close>

type_synonym room_request = "string \<times> nat \<times> string \<times> nat \<times> json"

definition room_run :: "(string \<Rightarrow> byte list option) \<Rightarrow> room_request list \<Rightarrow> app_state \<Rightarrow> app_state" where
  "room_run b64 reqs s = fold (\<lambda>(uuid, now, sid, opn, d) s. snd (room_step b64 uuid now sid opn d s)) reqs s"

lemma room_step_rule:
  assumes "P s" "P (snd (update_room_title now sid d s))" "P (snd (create_room b64 uuid now sid d s))"
    "P (snd (update_room_description now sid d s))" "P (snd (set_member_role now sid d s))"
    "P (snd (ban_member now sid d s))" "P (snd (unban_member now sid d s))" "P (snd (kick_member now sid d s))"
    "P (snd (timeout_member now sid d s))" "P (snd (transfer_ownership now sid d s))"
    "P (snd (set_chat_lock now sid d s))" "P (snd (set_moderator_permissions now sid d s))"
    "P (snd (set_calls_enabled now sid d s))" "P (snd (set_call_access now sid d s))"
    "P (snd (unmute_member now sid d s))" "P (snd (delete_room_op now sid d s))"
  shows "P (snd (room_step b64 uuid now sid opn d s))"
  using assms by (simp add: room_step_def)

lemma rooms_inv_step: "rooms_inv s \<Longrightarrow> rooms_inv (snd (room_step b64 uuid now sid opn d s))"
  by (rule room_step_rule)
    (simp_all add: rooms_inv_title rooms_inv_create rooms_inv_description rooms_inv_role rooms_inv_ban
      rooms_inv_plain_handlers rooms_inv_kick rooms_inv_transfer rooms_inv_call_access rooms_inv_delete)

lemma rooms_inv_run: "rooms_inv s \<Longrightarrow> rooms_inv (room_run b64 reqs s)"
  unfolding room_run_def by (rule fold_invariant [where Q = "\<lambda>_. True"]) (auto intro: rooms_inv_step)

text \<open>A server with one signed-in session, for the witnesses.\<close>

definition demo_config :: net_config where
  "demo_config = \<lparr>latest_version = ''1'', heartbeat_interval = 30, upload_public_base = []\<rparr>"

definition demo_session :: "string \<Rightarrow> string \<Rightarrow> string list \<Rightarrow> player_session" where
  "demo_session sid u rids = \<lparr>ps_id = sid, ps_user_id = u, ps_is_admin = False, ps_badges = [], ps_username = u,
     ps_rooms = rids, ps_voice = False, ps_call_room = None, ps_camera = False, ps_screen = False,
     ps_deafened = False, ps_client_id = sid, ps_platform = ''web'', ps_version = ''1'', ps_last_message = None,
     ps_mobile = None, ps_secure = None, ps_muted = [], ps_delete_on_leave = False,
     ps_profile = profile_default, ps_status = Online, ps_identified_at = 0, ps_last_revalidation = 0\<rparr>"

definition demo_state :: "(string \<times> player_session) list \<Rightarrow> (string \<times> room_record) list \<Rightarrow> app_state" where
  "demo_state ps rs = \<lparr>config = demo_config, runtime = \<lparr>messages_relayed = 0, sessions_opened = 0, peak_sessions = 0\<rparr>,
     players = ps, room_messages = [], rooms = rs, rooms_read_ok = True, rooms_write_ok = True,
     accounts = empty_accounts, limits = [], profile_cache = [], call_access_overrides = [], poll_tallies = [],
     outbox = (\<lambda>_. []), disk = [], disk_ok = True\<rparr>"

end
