(* ===== verification/Prekeys_Inv.thy ===== *)
theory Prekeys_Inv
  imports Prekeys Room_Roles_Inv "HOL-Library.Multiset"
begin

text \<open>
  The prekey bundles: the signed form does not depend on the order of keys, what is accepted carries
  both signatures and is what others fetch.
\<close>

section \<open>The signed form\<close>

text \<open>The same value up to the order of the entries of its objects, at any depth.\<close>

inductive same_json :: "json \<Rightarrow> json \<Rightarrow> bool" where
  same_scalar: "same_json v v"
| same_array: "list_all2 same_json vs ws \<Longrightarrow> same_json (JArr vs) (JArr ws)"
| same_object: "list_all2 (\<lambda>x y. fst x = fst y \<and> same_json (snd x) (snd y)) kvs lws \<Longrightarrow> mset lws = mset mws
    \<Longrightarrow> distinct (map fst kvs) \<Longrightarrow> same_json (JObj kvs) (JObj mws)"

lemma insort_key_map: "insort_key fst (apsnd f x) (map (apsnd f) xs) = map (apsnd f) (insort_key fst x xs)"
  by (induction xs) auto

lemma sort_key_map: "sort_key fst (map (apsnd f) xs) = map (apsnd f) (sort_key fst xs)"
  by (induction xs) (simp_all add: insort_key_map)

lemma sort_key_unique:
  assumes "mset xs = mset ys" "distinct (map fst xs)"
  shows "sort_key fst xs = sort_key fst (ys :: (string \<times> 'v) list)"
proof (rule map_sorted_distinct_set_unique [where f = fst])
  have "set xs = set ys" by (rule mset_eq_setD [OF assms(1)])
  then show "inj_on fst (set (sort_key fst xs) \<union> set (sort_key fst ys))"
    using assms(2) by (simp add: distinct_map)
  have "distinct (map fst ys)"
    using assms by (metis mset_eq_imp_distinct_iff mset_map)
  then show "distinct (map fst (sort_key fst ys))"
    by (metis (no_types) mset_eq_imp_distinct_iff mset_map mset_sort)
  show "distinct (map fst (sort_key fst xs))"
    using assms(2) by (metis (no_types) mset_eq_imp_distinct_iff mset_map mset_sort)
  show "set (sort_key fst xs) = set (sort_key fst ys)" using \<open>set xs = set ys\<close> by simp
qed simp_all

lemma canonical_object:
  "canonical_json ser (JObj kvs) =
     ''{'' @ join_with '','' (map (\<lambda>(k, t). ser (JStr k) @ '':'' @ t) (sort_key fst (map (apsnd (canonical_json ser)) kvs))) @ ''}''"
  by (simp add: sort_key_map case_prod_unfold comp_def)

text \<open>C34: the bytes that are signed depend on a value only up to the order of the keys of its objects, at
  any depth, so that both sides of a signature agree on them.\<close>

theorem canonical_key_order: "same_json v w \<Longrightarrow> canonical_json ser v = canonical_json ser w"
proof (induction rule: same_json.induct)
  case (same_array vs ws)
  have "map (canonical_json ser) vs = map (canonical_json ser) ws"
    by (rule list_all2_map1 [THEN iffD2, THEN list.rel_eq [THEN fun_cong, THEN fun_cong, THEN iffD1]]) 
      (use same_array in \<open>auto simp: list_all2_map2 elim: list_all2_mono\<close>)
  then show ?case by simp
next
  case (same_object kvs lws mws)
  have "map (apsnd (canonical_json ser)) kvs = map (apsnd (canonical_json ser)) lws"
    using same_object(1) by (induction rule: list_all2_induct) (auto simp: prod_eq_iff)
  moreover have "mset (map (apsnd (canonical_json ser)) lws) = mset (map (apsnd (canonical_json ser)) mws)"
    using same_object(2) by simp
  moreover have "map fst lws = map fst kvs"
    using same_object(1) by (induction rule: list_all2_induct) auto
  ultimately have "sort_key fst (map (apsnd (canonical_json ser)) kvs) = sort_key fst (map (apsnd (canonical_json ser)) mws)"
    using same_object(3) by (intro sort_key_unique) (simp_all add: comp_def)
  then show ?case by (simp only: canonical_object)
qed simp

section \<open>Publishing\<close>

lemma bundle_roundtrip:
  "pb_version b < 2 ^ 32 \<Longrightarrow> pb_updated_at b < 2 ^ 64 \<Longrightarrow> bundle_of_json (JObj (bundle_json b)) = Some b"
proof -
  have strs: "all_some (map as_str (map JStr ss)) = Some ss" for ss by (induction ss) (simp_all add: as_str_def)
  assume "pb_version b < 2 ^ 32" "pb_updated_at b < 2 ^ 64"
  then show ?thesis
    using strs [of "block_filter b"]
    by (simp add: bundle_of_json_def bundle_json_def bundle_of_fields_def as_u32_def json_defs jnat_def as_strings_def strs_json_def)
qed

text \<open>C12: a bundle is accepted only if both signatures hold, over the canonical bytes of the bundle without the
  signatures, under the two keys the bundle itself names; it is then what is stored for its owner.\<close>

theorem prekey_accepted_signed:
  assumes "phantom_publish_prekey lib now user_id b db = (Ret (Inr r), db')"
  shows "(\<exists>point raw. jwk_to_verifying_key lib (ecdsa_p256_pk b) = Inr point \<and> decode_b64url lib (sig_ecdsa b) = Some raw
      \<and> length raw = 64 \<and> p256_verifies lib point (canonical_prekey_bundle_bytes (json_text lib) b) raw)
    \<and> (\<exists>pk sig_bytes. hex_decode (mldsa65_pk b) = Ret (Some pk) \<and> hex_decode (sig_mldsa b) = Ret (Some sig_bytes)
      \<and> mldsa_verifies lib pk (canonical_prekey_bundle_bytes (json_text lib) b) sig_bytes)
    \<and> get_prekey_by_user_id user_id db' = Inr (Some (json_text lib (JObj (bundle_json b))))"
  using assms
  by (auto simp: phantom_publish_prekey_def verify_prekey_bundle_def verify_ecdsa_p256_def verify_mldsa65_def Let_def
      publish_prekey_def get_prekey_by_user_id_def update_conv'
      split: outcome.splits sum.splits option.splits if_splits prod.splits)

text \<open>What an account publishes is what everybody fetches under its name, as long as the text of the bundle
  is read back as the value it was written from.\<close>

theorem prekey_published_fetched:
  assumes "phantom_publish_prekey lib now user_id b db = (Ret (Inr r), db')"
    and "user_by_username db name = Inr (Some row)" "us_id row = user_id"
    and "parse_json lib (json_text lib (JObj (bundle_json b))) = Some (JObj (bundle_json b))"
    and "pb_version b < 2 ^ 32" "pb_updated_at b < 2 ^ 64"
  shows "fetch_prekeys lib [name] [] db' = Inr [(name, JObj (bundle_json b))]"
proof -
  have db': "db' = db\<lparr>prekeys := prekeys db'\<rparr>"
    and stored: "get_prekey_by_user_id user_id db' = Inr (Some (json_text lib (JObj (bundle_json b))))"
    using assms(1)
    by (auto simp: phantom_publish_prekey_def publish_prekey_def get_prekey_by_user_id_def update_conv'
        split: outcome.splits sum.splits if_splits prod.splits)
  have "user_by_username db' name = user_by_username db name"
    by (subst db') (simp add: user_by_username_def)
  with assms(2,3) stored have "get_prekey_by_username name db' = Inr (Some (json_text lib (JObj (bundle_json b))))"
    by (simp add: get_prekey_by_username_def)
  then show ?thesis using assms(4) bundle_roundtrip [OF assms(5,6)] by (simp add: read_bundle_def)
qed

section \<open>Witnesses\<close>

theorem canonical_key_order_witness:
  "canonical_json (\<lambda>_. ''0'') (JObj [(''a'', JNull), (''b'', JArr [])]) = canonical_json (\<lambda>_. ''0'') (JObj [(''b'', JArr []), (''a'', JNull)])"
  by (rule canonical_key_order, rule same_object [where lws = "[(''a'', JNull), (''b'', JArr [])]"]) (simp_all add: same_scalar)

text \<open>A library that accepts every signature, and a bundle under it.\<close>

definition demo_bundle :: prekey_bundle where
  "demo_bundle = \<lparr>pb_version = 1, mlkem768_pk = [],
     ecdsa_p256_pk = JObj [(''kty'', JStr ''EC''), (''crv'', JStr ''P-256''), (''x'', JStr ''x''), (''y'', JStr ''y'')],
     mldsa65_pk = [], sig_ecdsa = ''sig'', sig_mldsa = [], block_filter = [], pb_updated_at = 1\<rparr>"

definition demo_signs :: key_lib where
  "demo_signs = \<lparr>json_text = (\<lambda>_. ''{}''), parse_json = (\<lambda>_. Some (JObj (bundle_json demo_bundle))),
     b64url = (\<lambda>v. Some (replicate (if v = ''sig'' then 64 else 32) 0)), p256_point_ok = (\<lambda>_. True),
     p256_scalars_ok = (\<lambda>_. True), p256_verifies = (\<lambda>_ _ _. True), mldsa_key_ok = (\<lambda>_. True),
     mldsa_sig_ok = (\<lambda>_. True), mldsa_verifies = (\<lambda>_ _ _. True), sha256_hex = (\<lambda>_. ''f'')\<rparr>"

definition demo_keyed :: account_db where
  "demo_keyed = empty_accounts\<lparr>users := [demo_row ''ann''], prekeys := [(''7'', ''{}'', 5)]\<rparr>"

lemma demo_bundle_published:
  "phantom_publish_prekey demo_signs 5 ''7'' demo_bundle (empty_accounts\<lparr>users := [demo_row ''ann'']\<rparr>)
     = (Ret (Inr [(''ok'', JBool True), (''version'', jnat 1)]), demo_keyed)"
  by (simp add: phantom_publish_prekey_def verify_prekey_bundle_def verify_ecdsa_p256_def jwk_to_verifying_key_def
      decode_b64url_def text_of_def json_defs trim_end_matches_def verify_mldsa65_def hex_decode_def utf8_len_def
      publish_prekey_def demo_signs_def demo_bundle_def demo_keyed_def empty_accounts_def)

theorem prekey_accepted_signed_witness:
  "get_prekey_by_user_id ''7'' demo_keyed = Inr (Some ''{}'')"
  using prekey_accepted_signed [OF demo_bundle_published] by (simp add: demo_signs_def)

lemma demo_ann: "normalize_username ''ann'' = ''ann''"
  by code_simp

theorem prekey_published_fetched_witness:
  "fetch_prekeys demo_signs [''ann''] [] demo_keyed = Inr [(''ann'', JObj (bundle_json demo_bundle))]"
  by (rule prekey_published_fetched [OF demo_bundle_published, where row = "demo_row ''ann''"])
    (simp_all add: demo_signs_def demo_bundle_def demo_row_def user_by_username_def empty_accounts_def demo_ann)

end
