(* ===== verification/Cap.thy ===== *)
theory Cap
  imports Vdf
begin

text \<open>
  \<open>core/pqc.rs\<close> and \<open>core/cap.rs\<close>: the ephemeral ML-KEM keys of the CAPTCHA handshake, the
  redemption of a solved challenge for a token, and the consumption of the token.  The KEM is a
  parameter: the decapsulation key is a value of any type and \<open>decaps\<close> its operation.  A handler
  returns, panics in the hexadecimal decoder, or does not end in the prime search: \<open>outcome\<close>.
  Shown: keys and tokens are single use (instances of \<open>single_use\<close>); an issued token is accepted
  for its scope until it expires; every rejection leaves the token store as it was; no token is
  minted unless the quota, delay and KEM checks all passed.
\<close>

definition PQC_KEY_TTL_MS :: nat where "PQC_KEY_TTL_MS = 3 * 60 * 1000"
definition CAP_CHALLENGE_TTL_MS :: nat where "CAP_CHALLENGE_TTL_MS = 3 * 60 * 1000"
definition CAP_TOKEN_TTL_MS :: nat where "CAP_TOKEN_TTL_MS = 5 * 60 * 1000"
definition MIN_HUMAN_INTERACTION_MS :: nat where "MIN_HUMAN_INTERACTION_MS = 250"

section \<open>Ephemeral keys\<close>

record pqc_public_key =
  pk_key_id :: string
  ek_hex :: string

record pqc_ciphertext =
  ct_key_id :: string
  ct_hex :: string

record 'dk pqc_secret_key =
  dk :: 'dk
  sk_expires_at :: nat

type_synonym 'dk pqc_store = "(string \<times> 'dk pqc_secret_key) list"

text \<open>The key pair and the key's name are random: arguments.\<close>

definition issue_pqc_challenge ::
  "nat \<Rightarrow> string \<Rightarrow> 'dk \<Rightarrow> byte list \<Rightarrow> 'dk pqc_store \<Rightarrow> pqc_public_key \<times> 'dk pqc_store" where
  "issue_pqc_challenge now key_id d ek_bytes ks =
     (let ks' = (if length ks > 10000 then filter (\<lambda>(_, k). sk_expires_at k > now) ks else ks)
      in (\<lparr>pk_key_id = key_id, ek_hex = hex_encode ek_bytes\<rparr>,
          AList.update key_id \<lparr>dk = d, sk_expires_at = now + PQC_KEY_TTL_MS\<rparr> ks'))"

definition verify_and_decapsulate_pqc ::
  "('dk \<Rightarrow> byte list \<Rightarrow> byte list option) \<Rightarrow> nat \<Rightarrow> pqc_ciphertext \<Rightarrow> 'dk pqc_store
    \<Rightarrow> byte list api_result outcome \<times> 'dk pqc_store" where
  "verify_and_decapsulate_pqc decaps now ct ks =
     (case map_of ks (ct_key_id ct) of
        None \<Rightarrow> (Ret (Inl (bad_request ''PQC ephemeral quantum challenge expired or already consumed.'')), ks)
      | Some sk \<Rightarrow>
        (let ks' = AList.delete (ct_key_id ct) ks in
         if sk_expires_at sk < now then
           (Ret (Inl (bad_request ''PQC ephemeral quantum challenge expired.'')), ks')
         else (case hex_decode (ct_hex ct) of
             Panic \<Rightarrow> (Panic, ks')
           | Diverge \<Rightarrow> (Diverge, ks')
           | Ret None \<Rightarrow> (Ret (Inl (bad_request ''Malformed ML-KEM ciphertext encoding.'')), ks')
           | Ret (Some ct_bytes) \<Rightarrow>
               (case decaps (dk sk) ct_bytes of
                  None \<Rightarrow> (Ret (Inl (bad_request ''ML-KEM decapsulation failed.'')), ks')
                | Some shared \<Rightarrow> (Ret (Inr shared), ks')))))"

section \<open>Challenges and tokens\<close>

record cap_challenge =
  challenge_id :: string
  scope :: string
  cc_issued_at :: nat
  cc_expires_at :: nat
  vdf :: vdf_challenge
  quota_token :: quota_token
  pqc_key :: pqc_public_key
  cc_signature :: string

text \<open>The entropy is a float that the code never reads; it is kept as its text.\<close>

record cap_instrumentation =
  interaction_time_ms :: "nat option"
  entropy :: "string option"
  webdriver :: "bool option"
  devtools_detected :: "bool option"

record cap_redeem_request =
  rq_challenge_id :: string
  rq_scope :: string
  challenge :: cap_challenge
  vdf_proof :: vdf_proof
  rq_nullifier :: string
  rq_ciphertext :: pqc_ciphertext
  instrumentation :: "cap_instrumentation option"

record cap_redeem_response =
  success :: bool
  cap_token :: string
  cr_expires_at :: nat

text \<open>The process-wide stores the redemption goes through.\<close>

record 'dk gate_state =
  gs_nullifiers :: expiry_map
  gs_vdf :: expiry_map
  gs_pqc :: "'dk pqc_store"
  gs_cap :: expiry_map

text \<open>The secrets of the modules and the library functions.\<close>

record 'dk gate_lib =
  rln_hmac :: hmac
  rln_sha :: sha
  vdf_hmac :: hmac
  vdf_big :: big_lib
  cap_hmac :: hmac
  kem_decaps :: "'dk \<Rightarrow> byte list \<Rightarrow> byte list option"

definition canonical_data :: "string \<Rightarrow> string \<Rightarrow> nat \<Rightarrow> nat \<Rightarrow> string \<Rightarrow> string \<Rightarrow> string" where
  "canonical_data cid sc issued ex vsig kid =
     cid @ '':'' @ sc @ '':'' @ dec issued @ '':'' @ dec ex @ '':'' @ vsig @ '':'' @ kid"

text \<open>The four random values (names of challenge and key, salt, nonce) and the key pair are arguments.\<close>

definition generate_cap_challenge ::
  "'dk gate_lib \<Rightarrow> nat \<Rightarrow> string \<Rightarrow> string \<Rightarrow> string \<Rightarrow> string \<Rightarrow> 'dk \<Rightarrow> byte list \<Rightarrow> string
    \<Rightarrow> string option \<Rightarrow> 'dk gate_state \<Rightarrow> cap_challenge \<times> 'dk gate_state" where
  "generate_cap_challenge lib now cid slt nonce kid d ek sc target s =
     (let expires = now + CAP_CHALLENGE_TTL_MS;
          v = generate_vdf_challenge (vdf_hmac lib) (vdf_big lib) now slt target None;
          qt = generate_quota_token (rln_hmac lib) now nonce;
          (pk, ks) = issue_pqc_challenge now kid d ek (gs_pqc s)
      in (\<lparr>challenge_id = cid, scope = sc, cc_issued_at = now, cc_expires_at = expires,
           vdf = v, quota_token = qt, pqc_key = pk,
           cc_signature = cap_hmac lib (canonical_data cid sc now expires (vc_signature v) (pk_key_id pk))\<rparr>,
          s\<lparr>gs_pqc := ks\<rparr>))"

definition token_data :: "string \<Rightarrow> string \<Rightarrow> nat \<Rightarrow> string" where
  "token_data token_id sc ex = token_id @ '':'' @ sc @ '':'' @ dec ex"

definition cap_token_text :: "hmac \<Rightarrow> string \<Rightarrow> string \<Rightarrow> nat \<Rightarrow> string" where
  "cap_token_text hmac token_id sc ex =
     ''cap'' @ ''.'' @ token_id @ ''.'' @ dec ex @ ''.'' @ hmac (token_data token_id sc ex)"

definition robotic :: "cap_instrumentation option \<Rightarrow> api_error option" where
  "robotic instr = (case instr of None \<Rightarrow> None
     | Some i \<Rightarrow>
       if webdriver i = Some True then Some (bad_request ''Automated browser execution detected.'')
       else (case interaction_time_ms i of
           None \<Rightarrow> None
         | Some time \<Rightarrow> if time < MIN_HUMAN_INTERACTION_MS
             then Some (bad_request ''Interaction time below human threshold.'') else None))"

definition redeem_cap_challenge ::
  "'dk gate_lib \<Rightarrow> nat \<Rightarrow> string \<Rightarrow> cap_redeem_request \<Rightarrow> 'dk gate_state
    \<Rightarrow> cap_redeem_response api_result outcome \<times> 'dk gate_state" where
  "redeem_cap_challenge lib now token_id req s =
    (let ch = challenge req in
     if rq_challenge_id req \<noteq> challenge_id ch then
       (Ret (Inl (bad_request ''CAPTCHA challenge ID mismatch.'')), s)
     else if now > cc_expires_at ch then
       (Ret (Inl (bad_request ''CAPTCHA challenge expired.'')), s)
     else if scope ch \<noteq> rq_scope req then
       (Ret (Inl (bad_request ''CAPTCHA challenge scope mismatch.'')), s)
     else if \<not> constant_time_eq
         (cap_hmac lib (canonical_data (challenge_id ch) (scope ch) (cc_issued_at ch) (cc_expires_at ch)
            (vc_signature (vdf ch)) (pk_key_id (pqc_key ch)))) (cc_signature ch) then
       (Ret (Inl (bad_request ''Invalid CAPTCHA challenge signature.'')), s)
     else
     (case verify_and_consume_nullifier (rln_hmac lib) (rln_sha lib) now
         (quota_token ch, rq_nullifier req, rq_scope req) (gs_nullifiers s) of
       (Inl e, ns) \<Rightarrow> (Ret (Inl e), s\<lparr>gs_nullifiers := ns\<rparr>)
     | (Inr _, ns) \<Rightarrow>
       (let s1 = s\<lparr>gs_nullifiers := ns\<rparr> in
        (case verify_and_consume_vdf (vdf_hmac lib) (vdf_big lib) now (vdf ch) (vdf_proof req) None (gs_vdf s1) of
          None \<Rightarrow> (Diverge, s1)
        | Some (Inl e, vs) \<Rightarrow> (Ret (Inl e), s1\<lparr>gs_vdf := vs\<rparr>)
        | Some (Inr _, vs) \<Rightarrow>
          (let s2 = s1\<lparr>gs_vdf := vs\<rparr> in
           (case verify_and_decapsulate_pqc (kem_decaps lib) now (rq_ciphertext req) (gs_pqc s2) of
             (Panic, ks) \<Rightarrow> (Panic, s2\<lparr>gs_pqc := ks\<rparr>)
           | (Diverge, ks) \<Rightarrow> (Diverge, s2\<lparr>gs_pqc := ks\<rparr>)
           | (Ret (Inl e), ks) \<Rightarrow> (Ret (Inl e), s2\<lparr>gs_pqc := ks\<rparr>)
           | (Ret (Inr _), ks) \<Rightarrow>
             (let s3 = s2\<lparr>gs_pqc := ks\<rparr> in
              (case robotic (instrumentation req) of
                Some e \<Rightarrow> (Ret (Inl e), s3)
              | None \<Rightarrow>
                (let expires = now + CAP_TOKEN_TTL_MS;
                     token = cap_token_text (cap_hmac lib) token_id (rq_scope req) expires;
                     store = filter (\<lambda>(_, ex). ex > now) (gs_cap s3)
                 in (Ret (Inr \<lparr>success = True, cap_token = token, cr_expires_at = expires\<rparr>),
                     s3\<lparr>gs_cap := AList.update token expires store\<rparr>))))))))))"

definition verify_and_consume_cap_token ::
  "hmac \<Rightarrow> nat \<Rightarrow> string \<times> string \<Rightarrow> expiry_map \<Rightarrow> unit api_result \<times> expiry_map" where
  "verify_and_consume_cap_token hmac now req store =
     (case req of (token, expected_scope) \<Rightarrow>
      let parts = split_on (CHR ''.'') token in
      if length parts \<noteq> 4 \<or> parts ! 0 \<noteq> ''cap'' then
        (Inl (bad_request ''Invalid CAPTCHA token format.''), store)
      else (case parse_u64 (parts ! 2) of
          None \<Rightarrow> (Inl (bad_request ''Invalid CAPTCHA token timestamp.''), store)
        | Some ex \<Rightarrow>
          if now > ex then
            (Inl (bad_request ''CAPTCHA token expired. Please solve again.''), store)
          else if \<not> constant_time_eq (hmac (token_data (parts ! 1) expected_scope ex)) (parts ! 3) then
            (Inl (bad_request ''Invalid CAPTCHA token signature.''), store)
          else (case map_of store token of
              Some e \<Rightarrow>
                (if e > now then Inr ()
                 else Inl (bad_request ''CAPTCHA token has already been consumed or is invalid.''),
                 AList.delete token store)
            | None \<Rightarrow>
                (Inl (bad_request ''CAPTCHA token has already been consumed or is invalid.''),
                 AList.delete token store))))"

section \<open>Ephemeral keys are used once\<close>

text \<open>The answer of an operation that may panic or not end, both counting as no answer.\<close>

definition answer_of :: "'a api_result outcome \<Rightarrow> 'a api_result" where
  "answer_of r = (case r of Ret a \<Rightarrow> a | _ \<Rightarrow> Inl (internal []))"

lemma answer_of_simps [simp]:
  "answer_of (Ret a) = a" "\<not> is_ok (answer_of Panic)" "\<not> is_ok (answer_of Diverge)"
  "answer_of Panic \<noteq> Inr x" "answer_of Diverge \<noteq> Inr x"
  by (simp_all add: answer_of_def)

lemma answer_of_Inr: "answer_of r = Inr x \<longleftrightarrow> r = Ret (Inr x)"
  by (cases r) auto

definition pqc_try ::
  "('dk \<Rightarrow> byte list \<Rightarrow> byte list option) \<Rightarrow> nat \<Rightarrow> pqc_ciphertext \<Rightarrow> 'dk pqc_store
    \<Rightarrow> byte list api_result \<times> 'dk pqc_store" where
  "pqc_try decaps now ct ks =
     (answer_of (fst (verify_and_decapsulate_pqc decaps now ct ks)),
      snd (verify_and_decapsulate_pqc decaps now ct ks))"

definition absent :: "(string \<times> 'v) list \<Rightarrow> nat \<Rightarrow> string \<Rightarrow> bool" where
  "absent m t k \<longleftrightarrow> map_of m k = None"

text \<open>Whatever the outcome, the named key is gone afterwards and no other key changes.\<close>

lemma pqc_store_after:
  "map_of (snd (verify_and_decapsulate_pqc decaps now ct ks)) = (map_of ks)(ct_key_id ct := None)"
  by (rule ext)
    (auto simp: verify_and_decapsulate_pqc_def Let_def split: option.splits outcome.splits)

lemma pqc_accepted:
  assumes "fst (verify_and_decapsulate_pqc decaps now ct ks) = Ret (Inr shared)"
  shows "\<exists>sk bytes. map_of ks (ct_key_id ct) = Some sk \<and> now \<le> sk_expires_at sk
    \<and> hex_decode (ct_hex ct) = Ret (Some bytes) \<and> decaps (dk sk) bytes = Some shared"
  using assms
  by (auto simp: verify_and_decapsulate_pqc_def Let_def not_less
      split: option.splits outcome.splits if_splits)

interpretation pqc: single_use "pqc_try decaps" ct_key_id absent always
  for decaps :: "'dk \<Rightarrow> byte list \<Rightarrow> byte list option"
proof (unfold_locales, goal_cases)
  case (1 now r s x s')
  then have "s' = snd (verify_and_decapsulate_pqc decaps now r s)" by (simp add: pqc_try_def)
  then show ?case by (simp add: absent_def pqc_store_after)
next
  case (2 s t k now r)
  then show ?case by (simp add: absent_def pqc_try_def pqc_store_after)
next
  case (3 s t r now)
  then show ?case by (simp add: absent_def pqc_try_def verify_and_decapsulate_pqc_def)
qed

section \<open>Redemption\<close>

text \<open>Each rejection and each abort leaves the token store as it was.\<close>

lemma redeem_cap_frame:
  "\<not> is_ok (answer_of (fst (redeem_cap_challenge lib now token_id req s))) \<Longrightarrow>
   gs_cap (snd (redeem_cap_challenge lib now token_id req s)) = gs_cap s"
  by (auto simp: redeem_cap_challenge_def Let_def
      split: option.splits sum.splits outcome.splits prod.splits if_splits)

text \<open>The stores after a redemption, as seen through the three checks it runs.\<close>

lemma redeem_pqc_store:
  "gs_pqc (snd (redeem_cap_challenge lib now token_id req s)) = gs_pqc s
   \<or> gs_pqc (snd (redeem_cap_challenge lib now token_id req s))
       = snd (verify_and_decapsulate_pqc (kem_decaps lib) now (rq_ciphertext req) (gs_pqc s))"
  by (auto simp: redeem_cap_challenge_def Let_def
      split: option.splits sum.splits outcome.splits prod.splits if_splits)

lemma redeem_nullifier_store:
  "gs_nullifiers (snd (redeem_cap_challenge lib now token_id req s)) = gs_nullifiers s
   \<or> gs_nullifiers (snd (redeem_cap_challenge lib now token_id req s))
       = snd (verify_and_consume_nullifier (rln_hmac lib) (rln_sha lib) now
           (quota_token (challenge req), rq_nullifier req, rq_scope req) (gs_nullifiers s))"
  by (auto simp: redeem_cap_challenge_def Let_def
      split: option.splits sum.splits outcome.splits prod.splits if_splits)

text \<open>The accepting path, check by check.\<close>

lemma redeem_accepted:
  assumes "redeem_cap_challenge lib now token_id req s = (Ret (Inr resp), s')"
  shows "now \<le> cc_expires_at (challenge req)" "scope (challenge req) = rq_scope req"
    and "cc_signature (challenge req) = cap_hmac lib (canonical_data (challenge_id (challenge req))
        (scope (challenge req)) (cc_issued_at (challenge req)) (cc_expires_at (challenge req))
        (vc_signature (vdf (challenge req))) (pk_key_id (pqc_key (challenge req))))"
    and "verify_and_consume_nullifier (rln_hmac lib) (rln_sha lib) now
        (quota_token (challenge req), rq_nullifier req, rq_scope req) (gs_nullifiers s)
        = (Inr (), gs_nullifiers s')"
    and "verify_and_consume_vdf (vdf_hmac lib) (vdf_big lib) now (vdf (challenge req)) (vdf_proof req) None
        (gs_vdf s) = Some (Inr (), gs_vdf s')"
    and "\<exists>shared. verify_and_decapsulate_pqc (kem_decaps lib) now (rq_ciphertext req) (gs_pqc s)
        = (Ret (Inr shared), gs_pqc s')"
    and "robotic (instrumentation req) = None"
    and "cap_token resp = cap_token_text (cap_hmac lib) token_id (rq_scope req) (now + CAP_TOKEN_TTL_MS)"
    and "cr_expires_at resp = now + CAP_TOKEN_TTL_MS"
    and "map_of (gs_cap s') (cap_token resp) = Some (now + CAP_TOKEN_TTL_MS)"
  using assms
  by (auto simp: redeem_cap_challenge_def Let_def constant_time_eq_iff
      split: option.splits sum.splits outcome.splits prod.splits if_splits)

definition redeem_try ::
  "'dk gate_lib \<Rightarrow> nat \<Rightarrow> string \<times> cap_redeem_request \<Rightarrow> 'dk gate_state
    \<Rightarrow> cap_redeem_response api_result \<times> 'dk gate_state" where
  "redeem_try lib now r s =
     (answer_of (fst (redeem_cap_challenge lib now (fst r) (snd r) s)),
      snd (redeem_cap_challenge lib now (fst r) (snd r) s))"

text \<open>The unit a redemption spends: the quota ticket, its epoch and the action.\<close>

definition redeem_unit :: "string \<times> cap_redeem_request \<Rightarrow> string \<times> nat \<times> string" where
  "redeem_unit r = rln_key (quota_token (challenge (snd r)), rq_nullifier (snd r), rq_scope (snd r))"

lemma redeem_try_accepted:
  "redeem_try lib now r s = (Inr x, s') \<longleftrightarrow>
   redeem_cap_challenge lib now (fst r) (snd r) s = (Ret (Inr x), s')"
  by (auto simp: redeem_try_def answer_of_Inr prod_eq_iff)

interpretation redeem: single_use "redeem_try lib" redeem_unit
    "\<lambda>s. rln_spent (rln_sha lib) (gs_nullifiers s)" always
  for lib :: "'dk gate_lib"
proof (unfold_locales, goal_cases)
  case (1 now r s x s')
  then have "redeem_cap_challenge lib now (fst r) (snd r) s = (Ret (Inr x), s')"
    by (simp add: redeem_try_accepted)
  from rln.spent_after [OF redeem_accepted(4) [OF this]] show ?case
    by (simp add: redeem_unit_def)
next
  case (2 s t k now r)
  let ?req = "(quota_token (challenge (snd r)), rq_nullifier (snd r), rq_scope (snd r))"
  have "rln_spent (rln_sha lib) (gs_nullifiers s) now k"
    using 2 by (auto simp: rln_spent_def split: prod.splits)
  with rln_spent_keep [OF 2, of "rln_hmac lib" ?req] show ?case
    using redeem_nullifier_store [of lib now "fst r" "snd r" s] by (auto simp: redeem_try_def)
next
  case (3 s t r now)
  show ?case
  proof
    assume "is_ok (fst (redeem_try lib now r s))"
    then obtain x where "redeem_try lib now r s = (Inr x, snd (redeem_try lib now r s))"
      by (auto simp: is_ok_iff prod_eq_iff)
    then have "redeem_cap_challenge lib now (fst r) (snd r) s = (Ret (Inr x), snd (redeem_try lib now r s))"
      by (simp only: redeem_try_accepted)
    from redeem_accepted(4) [OF this]
      rln.spent_refused [of "rln_sha lib" "gs_nullifiers s" t _ now "rln_hmac lib",
        OF 3(1) [unfolded redeem_unit_def] 3(2)]
    show False by simp
  qed
qed

section \<open>Tokens\<close>

interpretation captok: single_use "verify_and_consume_cap_token hmac" fst absent always
  for hmac :: hmac
proof (unfold_locales, goal_cases)
  case (1 now r s x s')
  then show ?case
    by (cases r) (auto simp: verify_and_consume_cap_token_def absent_def Let_def
        split: if_splits option.splits)
next
  case (2 s t k now r)
  then show ?case
    by (cases r) (auto simp: verify_and_consume_cap_token_def absent_def Let_def
        split: option.splits)
next
  case (3 s t r now)
  then show ?case
    by (cases r) (auto simp: verify_and_consume_cap_token_def absent_def Let_def
        split: option.splits)
qed

lemma cap_token_parts:
  assumes "CHR ''.'' \<notin> set token_id" "CHR ''.'' \<notin> set (hmac (token_data token_id sc ex))"
  shows "split_on (CHR ''.'') (cap_token_text hmac token_id sc ex)
    = [''cap'', token_id, dec ex, hmac (token_data token_id sc ex)]"
proof -
  have "CHR ''.'' \<notin> set (dec ex)" using dec_digits [of ex] by (auto simp: is_ascii_digit_def)
  moreover have "CHR ''.'' \<notin> set ''cap''" by simp
  ultimately show ?thesis
    unfolding cap_token_text_def using assms by (intro split_on_append3)
qed

lemma issued_token_accepted:
  assumes "CHR ''.'' \<notin> set token_id" "CHR ''.'' \<notin> set (hmac (token_data token_id sc ex))"
    and "ex < 2 ^ 64" "later < ex"
    and "map_of store (cap_token_text hmac token_id sc ex) = Some ex"
  shows "verify_and_consume_cap_token hmac later (cap_token_text hmac token_id sc ex, sc) store
    = (Inr (), AList.delete (cap_token_text hmac token_id sc ex) store)"
  using assms
  by (simp add: verify_and_consume_cap_token_def cap_token_parts parse_u64_dec constant_time_eq_iff)

section \<open>What a redemption must satisfy\<close>

text \<open>An entry of an expiry map is held until its time; one that is absent or over is free.\<close>

definition free_in :: "nat \<Rightarrow> expiry_map \<Rightarrow> string \<Rightarrow> bool" where
  "free_in now m k \<longleftrightarrow> (case map_of m k of None \<Rightarrow> True | Some expires \<Rightarrow> expires \<le> now)"

text \<open>The challenge is the server's own, for this request, in time, and no sign of automation came
  with it.\<close>

definition challenge_valid :: "'dk gate_lib \<Rightarrow> nat \<Rightarrow> cap_redeem_request \<Rightarrow> bool" where
  "challenge_valid lib now req \<longleftrightarrow> (let ch = challenge req in
     rq_challenge_id req = challenge_id ch \<and> now \<le> cc_expires_at ch \<and> rq_scope req = scope ch
     \<and> cc_signature ch = cap_hmac lib (canonical_data (challenge_id ch) (scope ch) (cc_issued_at ch)
         (cc_expires_at ch) (vc_signature (vdf ch)) (pk_key_id (pqc_key ch)))
     \<and> (case instrumentation req of None \<Rightarrow> True
        | Some i \<Rightarrow> webdriver i \<noteq> Some True
            \<and> (case interaction_time_ms i of None \<Rightarrow> True | Some time \<Rightarrow> 250 \<le> time)))"

text \<open>The quota token is the server's, of this epoch, the next or one of the four before; the
  nullifier is the one of its ticket for the requested action and is not held.\<close>

definition quota_valid :: "'dk gate_lib \<Rightarrow> nat \<Rightarrow> cap_redeem_request \<Rightarrow> expiry_map \<Rightarrow> bool" where
  "quota_valid lib now req nullifiers \<longleftrightarrow> (let qt = quota_token (challenge req) in
     epoch qt \<le> current_epoch now + 1 \<and> current_epoch now \<le> epoch qt + 4
     \<and> qt_signature qt = rln_hmac lib (dec (epoch qt) @ '':'' @ ticket qt)
     \<and> rq_nullifier req = compute_nullifier (rln_sha lib) (ticket qt) (epoch qt) (rq_scope req)
     \<and> free_in now nullifiers (rq_nullifier req))"

text \<open>The delay challenge is the server's and in time, its three numbers are in range and satisfy the
  Wesolowski equation for the prime derived from them, and it has not been used.\<close>

definition delay_valid :: "'dk gate_lib \<Rightarrow> nat \<Rightarrow> cap_redeem_request \<Rightarrow> expiry_map \<Rightarrow> bool" where
  "delay_valid lib now req consumed \<longleftrightarrow>
     (let ch = vdf (challenge req); pf = vdf_proof req; big = vdf_big lib in
      now \<le> vc_expires_at ch
      \<and> vc_signature ch = vdf_hmac lib
          (vdf_content (vc_issued_at ch) (vc_t ch) (target_hash ch) (salt ch) (vc_x ch) (vc_expires_at ch))
      \<and> utf8_len (vc_x ch) \<le> 1024 \<and> utf8_len (vp_y pf) \<le> 1024 \<and> utf8_len (vp_pi pf) \<le> 1024
      \<and> (\<exists>x y p l. parse_hex big (vc_x ch) = Some x \<and> parse_hex big (vp_y pf) = Some y
          \<and> parse_hex big (vp_pi pf) = Some p \<and> hash_to_prime big x y = Some l
          \<and> {x, y, p} \<subseteq> {2..<vdf_modulus}
          \<and> y = (modpow big p l vdf_modulus * modpow big x (modpow big 2 (vc_t ch) l) vdf_modulus) mod vdf_modulus)
      \<and> free_in now consumed (vc_signature ch))"

text \<open>The named ephemeral key exists and is in time, and decapsulates the ciphertext.\<close>

definition kem_valid :: "'dk gate_lib \<Rightarrow> nat \<Rightarrow> cap_redeem_request \<Rightarrow> 'dk pqc_store \<Rightarrow> bool" where
  "kem_valid lib now req ks \<longleftrightarrow> (\<exists>sk bytes shared. map_of ks (ct_key_id (rq_ciphertext req)) = Some sk
     \<and> now \<le> sk_expires_at sk \<and> hex_decode (ct_hex (rq_ciphertext req)) = Ret (Some bytes)
     \<and> kem_decaps lib (dk sk) bytes = Some shared)"

text \<open>An entry that is not free survives the cleaning of a map, and a cleaned map frees nothing else.\<close>

lemma free_in_clean: "distinct (keys m) \<Longrightarrow> free_in now (filter (\<lambda>(_, e). e > now) m) k \<longleftrightarrow> free_in now m k"
  by (auto simp: free_in_def map_of_filter_distinct split: option.splits)

lemma quota_check_iff:
  assumes "distinct (keys ns)"
  shows "is_ok (fst (verify_and_consume_nullifier (rln_hmac lib) (rln_sha lib) now
      (quota_token (challenge req), rq_nullifier req, rq_scope req) ns)) \<longleftrightarrow> quota_valid lib now req ns"
  using free_in_clean [OF assms, of now "rq_nullifier req"]
  by (auto simp: verify_and_consume_nullifier_def quota_valid_def verify_ticket_signature_iff Let_def
      free_in_def not_less split: option.splits if_splits)

lemma verify_vdf_iff:
  "verify_vdf hmac big now ch pf None = Some (Inr ()) \<longleftrightarrow> now \<le> vc_expires_at ch
      \<and> vc_signature ch = hmac
          (vdf_content (vc_issued_at ch) (vc_t ch) (target_hash ch) (salt ch) (vc_x ch) (vc_expires_at ch))
      \<and> utf8_len (vc_x ch) \<le> 1024 \<and> utf8_len (vp_y pf) \<le> 1024 \<and> utf8_len (vp_pi pf) \<le> 1024
      \<and> (\<exists>x y p l. parse_hex big (vc_x ch) = Some x \<and> parse_hex big (vp_y pf) = Some y
          \<and> parse_hex big (vp_pi pf) = Some p \<and> hash_to_prime big x y = Some l
          \<and> {x, y, p} \<subseteq> {2..<vdf_modulus}
          \<and> y = (modpow big p l vdf_modulus * modpow big x (modpow big 2 (vc_t ch) l) vdf_modulus) mod vdf_modulus)"
  by (auto simp: verify_vdf_def verify_ticket_signature_iff Let_def not_less not_le
      split: option.splits if_splits)

lemma delay_check_iff:
  assumes "distinct (keys cs)"
  shows "(\<exists>cs'. verify_and_consume_vdf (vdf_hmac lib) (vdf_big lib) now (vdf (challenge req)) (vdf_proof req)
      None cs = Some (Inr (), cs')) \<longleftrightarrow> delay_valid lib now req cs"
proof -
  let ?v = "verify_vdf (vdf_hmac lib) (vdf_big lib) now (vdf (challenge req)) (vdf_proof req) None"
  have "(\<exists>cs'. verify_and_consume_vdf (vdf_hmac lib) (vdf_big lib) now (vdf (challenge req)) (vdf_proof req)
      None cs = Some (Inr (), cs')) \<longleftrightarrow> ?v = Some (Inr ()) \<and> free_in now cs (vc_signature (vdf (challenge req)))"
    using free_in_clean [OF assms, of now "vc_signature (vdf (challenge req))"]
    by (auto simp: verify_and_consume_vdf_def Let_def free_in_def not_less
        split: option.splits sum.splits if_splits)
  then show ?thesis
    by (simp only: verify_vdf_iff delay_valid_def Let_def conj_assoc)
qed

lemma vdf_used_up:
  "verify_and_consume_vdf hmac big now ch pf tgt cs = Some (Inr (), cs') \<Longrightarrow>
   map_of cs' (vc_signature ch) = Some (vc_expires_at ch)"
  by (auto simp: verify_and_consume_vdf_def Let_def split: option.splits sum.splits if_splits)

lemma kem_check_iff:
  "(\<exists>shared. fst (verify_and_decapsulate_pqc (kem_decaps lib) now (rq_ciphertext req) ks) = Ret (Inr shared))
    \<longleftrightarrow> kem_valid lib now req ks"
  by (auto simp: verify_and_decapsulate_pqc_def kem_valid_def Let_def not_less
      split: option.splits outcome.splits if_splits)

lemma challenge_check_iff:
  "challenge_valid lib now req \<longleftrightarrow> rq_challenge_id req = challenge_id (challenge req)
     \<and> \<not> now > cc_expires_at (challenge req) \<and> scope (challenge req) = rq_scope req
     \<and> constant_time_eq (cap_hmac lib (canonical_data (challenge_id (challenge req)) (scope (challenge req))
          (cc_issued_at (challenge req)) (cc_expires_at (challenge req))
          (vc_signature (vdf (challenge req))) (pk_key_id (pqc_key (challenge req)))))
         (cc_signature (challenge req))
     \<and> robotic (instrumentation req) = None"
  by (auto simp: challenge_valid_def robotic_def constant_time_eq_iff MIN_HUMAN_INTERACTION_MS_def not_less Let_def
      split: option.splits if_splits)

section \<open>Properties\<close>

text \<open>A concrete instance of the library for the evaluated examples.\<close>

definition demo_lib :: "unit gate_lib" where
  "demo_lib = \<lparr>rln_hmac = (\<lambda>_. ''s''), rln_sha = (\<lambda>_. ''n''), vdf_hmac = (\<lambda>_. ''sig''),
     vdf_big = demo_big, cap_hmac = (\<lambda>_. ''m''), kem_decaps = (\<lambda>_ _. Some [])\<rparr>"

definition demo_request :: cap_redeem_request where
  "demo_request = \<lparr>rq_challenge_id = ''c'', rq_scope = ''a'',
     challenge = \<lparr>challenge_id = ''c'', scope = ''a'', cc_issued_at = 30000, cc_expires_at = 210000,
       vdf = demo_challenge, quota_token = demo_token, pqc_key = \<lparr>pk_key_id = ''k'', ek_hex = ''00''\<rparr>,
       cc_signature = ''m''\<rparr>,
     vdf_proof = demo_proof, rq_nullifier = ''n'',
     rq_ciphertext = \<lparr>ct_key_id = ''k'', ct_hex = ''00''\<rparr>, instrumentation = None\<rparr>"

definition demo_gate :: "unit gate_state" where
  "demo_gate = \<lparr>gs_nullifiers = [], gs_vdf = [],
     gs_pqc = [(''k'', \<lparr>dk = (), sk_expires_at = 210000\<rparr>)], gs_cap = []\<rparr>"

lemma demo_verify_gate:
  "verify_vdf (\<lambda>_. ''sig'') demo_big 31000 demo_challenge demo_proof None = Some (Inr ())"
  by (rule vdf_honest_accepted [where x = 2 and y = 16 and p = 2 and l = 3])
    (simp_all add: demo_big_ok demo_prime demo_challenge_def demo_proof_def demo_parse
      utf8_len_def utf8_width_def is_ascii_def vdf_modulus_def)
lemma demo_redeem:
  "fst (redeem_cap_challenge demo_lib 31000 ''T'' demo_request demo_gate)
     = Ret (Inr \<lparr>success = True, cap_token = cap_token_text (\<lambda>_. ''m'') ''T'' ''a'' 331000, cr_expires_at = 331000\<rparr>)"
  by (simp add: redeem_cap_challenge_def demo_request_def demo_gate_def demo_lib_def constant_time_eq_iff
      verify_and_consume_nullifier_def verify_ticket_signature_iff demo_token_def current_epoch_def
      EPOCH_WINDOW_MS_def compute_nullifier_def verify_and_consume_vdf_def demo_verify_gate
      verify_and_decapsulate_pqc_def hex_decode_def utf8_len_def utf8_width_def is_ascii_def hex_byte_def
      hex_val_def is_ascii_digit_def robotic_def CAP_TOKEN_TTL_MS_def Let_def)

text \<open>C13: a CAPTCHA token is minted exactly by a request that passes every check: the challenge has
  the id and the scope of the request, the server's signature, is in time and shows no sign of
  automation; the quota token is signed, of an accepted epoch, with the right and unused
  nullifier; the delay challenge is signed, in time, unused and its proof satisfies the equation;
  the ephemeral key exists, is in time and decapsulates the ciphertext.  Each is then used up: the
  nullifier is held for its lifetime, the delay challenge until it expires, the key is gone, and
  the token stands in the store under its text until it expires.\<close>

theorem cap_minted_sound:
  fixes lib :: "'dk gate_lib" and s :: "'dk gate_state" and req :: cap_redeem_request
    and now :: nat and token_id :: string
  assumes "distinct (keys (gs_nullifiers s))" "distinct (keys (gs_vdf s))"
  defines "r \<equiv> redeem_cap_challenge lib now token_id req s"
  shows "((\<exists>resp. fst r = Ret (Inr resp)) \<longleftrightarrow> challenge_valid lib now req \<and> quota_valid lib now req (gs_nullifiers s)
       \<and> delay_valid lib now req (gs_vdf s) \<and> kem_valid lib now req (gs_pqc s))
    \<and> (\<forall>resp. fst r = Ret (Inr resp) \<longrightarrow>
         cap_token resp = cap_token_text (cap_hmac lib) token_id (rq_scope req) (now + CAP_TOKEN_TTL_MS)
       \<and> map_of (gs_cap (snd r)) (cap_token resp) = Some (now + CAP_TOKEN_TTL_MS)
       \<and> map_of (gs_nullifiers (snd r)) (rq_nullifier req) = Some (now + NULLIFIER_TTL_MS)
       \<and> map_of (gs_vdf (snd r)) (vc_signature (vdf (challenge req))) = Some (vc_expires_at (vdf (challenge req)))
       \<and> map_of (gs_pqc (snd r)) (ct_key_id (rq_ciphertext req)) = None)"
proof (intro conjI allI impI)
  show "(\<exists>resp. fst r = Ret (Inr resp)) \<longleftrightarrow> challenge_valid lib now req \<and> quota_valid lib now req (gs_nullifiers s)
       \<and> delay_valid lib now req (gs_vdf s) \<and> kem_valid lib now req (gs_pqc s)"
    unfolding r_def quota_check_iff [OF assms(1), symmetric] delay_check_iff [OF assms(2), symmetric]
      kem_check_iff [symmetric] challenge_check_iff
    by (auto simp: redeem_cap_challenge_def Let_def is_ok_iff
        split: option.splits sum.splits outcome.splits prod.splits if_splits)
next
  fix resp assume "fst r = Ret (Inr resp)"
  then have red: "redeem_cap_challenge lib now token_id req s = (Ret (Inr resp), snd r)"
    by (simp add: r_def prod_eq_iff)
  note acc = redeem_accepted [OF red]
  show "cap_token resp = cap_token_text (cap_hmac lib) token_id (rq_scope req) (now + CAP_TOKEN_TTL_MS)"
    and "map_of (gs_cap (snd r)) (cap_token resp) = Some (now + CAP_TOKEN_TTL_MS)"
    by (rule acc)+
  show "map_of (gs_nullifiers (snd r)) (rq_nullifier req) = Some (now + NULLIFIER_TTL_MS)"
    by (rule nullifier_accepted(5) [OF acc(4)])
  show "map_of (gs_vdf (snd r)) (vc_signature (vdf (challenge req))) = Some (vc_expires_at (vdf (challenge req)))"
    by (rule vdf_used_up [OF acc(5)])
  show "map_of (gs_pqc (snd r)) (ct_key_id (rq_ciphertext req)) = None"
    using acc(6) pqc_store_after [of "kem_decaps lib" now "rq_ciphertext req" "gs_pqc s"] by auto
qed

theorem cap_minted_sound_witness:
  "kem_valid demo_lib 31000 demo_request (gs_pqc demo_gate)
   \<and> map_of (gs_cap (snd (redeem_cap_challenge demo_lib 31000 ''T'' demo_request demo_gate)))
       (cap_token_text (\<lambda>_. ''m'') ''T'' ''a'' 331000) = Some 331000"
proof -
  have maps: "distinct (keys (gs_nullifiers demo_gate))" "distinct (keys (gs_vdf demo_gate))"
    by (simp_all add: demo_gate_def)
  note minted = cap_minted_sound [OF maps, of demo_lib 31000 "''T''" demo_request]
  from minted demo_redeem have "kem_valid demo_lib 31000 demo_request (gs_pqc demo_gate)" by blast
  moreover from minted [THEN conjunct2, rule_format, OF demo_redeem, THEN conjunct2, THEN conjunct1]
  have "map_of (gs_cap (snd (redeem_cap_challenge demo_lib 31000 ''T'' demo_request demo_gate)))
       (cap_token_text (\<lambda>_. ''m'') ''T'' ''a'' 331000) = Some 331000"
    by (simp add: CAP_TOKEN_TTL_MS_def)
  ultimately show ?thesis ..
qed

text \<open>Over any run of redemptions with a clock that does not go back, one quota ticket mints
  at most one token per scope, whatever else the requests contain.\<close>

theorem cap_redeem_single_use:
  assumes "clock_ok trs"
  shows "accepted_of always redeem_unit k trs (fst (run_tries (redeem_try lib) s trs)) \<le> 1"
  using assms by (rule redeem.accepted_once)

theorem cap_redeem_single_use_witness:
  "accepted_of always redeem_unit (''t'', 2, ''a'')
     [(31000, ''T'', demo_request), (31001, ''U'', demo_request)]
     (fst (run_tries (redeem_try demo_lib) demo_gate
       [(31000, ''T'', demo_request), (31001, ''U'', demo_request)])) \<le> 1"
  by (rule cap_redeem_single_use) (simp add: clock_ok_def)

text \<open>A redemption that is refused, panics or does not end leaves the token store unchanged,
  and it never restores a key or a nullifier: the named ephemeral key is either untouched or gone.\<close>

theorem cap_redeem_refused:
  assumes "\<not> is_ok (answer_of (fst (redeem_cap_challenge lib now token_id req s)))"
  shows "gs_cap (snd (redeem_cap_challenge lib now token_id req s)) = gs_cap s
    \<and> (map_of (gs_pqc (snd (redeem_cap_challenge lib now token_id req s))) = map_of (gs_pqc s)
       \<or> map_of (gs_pqc (snd (redeem_cap_challenge lib now token_id req s)))
          = (map_of (gs_pqc s))(ct_key_id (rq_ciphertext req) := None))"
  using redeem_cap_frame [OF assms] redeem_pqc_store [of lib now token_id req s]
  by (auto simp: pqc_store_after)

theorem cap_redeem_refused_witness:
  "gs_cap (snd (redeem_cap_challenge demo_lib 999999 ''T'' demo_request demo_gate)) = []"
proof -
  have "\<not> is_ok (answer_of (fst (redeem_cap_challenge demo_lib 999999 ''T'' demo_request demo_gate)))"
    by (simp add: redeem_cap_challenge_def demo_request_def)
  from cap_redeem_refused [OF this] show ?thesis by (simp add: demo_gate_def)
qed

text \<open>C33: an issued token is accepted for its scope until it expires and is removed by being
  accepted: what \<open>redeem_cap_challenge\<close> prints, \<open>verify_and_consume_cap_token\<close> parses back.\<close>

theorem cap_token_roundtrip:
  assumes "redeem_cap_challenge lib now token_id req s = (Ret (Inr resp), s')"
    and "CHR ''.'' \<notin> set token_id" "CHR ''.'' \<notin> set (cap_hmac lib
          (token_data token_id (rq_scope req) (now + CAP_TOKEN_TTL_MS)))"
    and "now + CAP_TOKEN_TTL_MS < 2 ^ 64" "later < now + CAP_TOKEN_TTL_MS"
  shows "\<exists>store. verify_and_consume_cap_token (cap_hmac lib) later (cap_token resp, rq_scope req) (gs_cap s')
      = (Inr (), store) \<and> map_of store (cap_token resp) = None"
  using issued_token_accepted [where hmac = "cap_hmac lib", OF assms(2-5), of "gs_cap s'"]
    redeem_accepted(8,10) [OF assms(1)]
  by simp

theorem cap_token_roundtrip_witness:
  "\<exists>store. verify_and_consume_cap_token (cap_hmac demo_lib) 40000
      (cap_token_text (\<lambda>_. ''m'') ''T'' ''a'' 331000, ''a'')
      (gs_cap (snd (redeem_cap_challenge demo_lib 31000 ''T'' demo_request demo_gate))) = (Inr (), store)"
proof -
  have "redeem_cap_challenge demo_lib 31000 ''T'' demo_request demo_gate
    = (Ret (Inr \<lparr>success = True, cap_token = cap_token_text (\<lambda>_. ''m'') ''T'' ''a'' 331000, cr_expires_at = 331000\<rparr>),
       snd (redeem_cap_challenge demo_lib 31000 ''T'' demo_request demo_gate))"
    using demo_redeem by (simp add: prod_eq_iff)
  from cap_token_roundtrip [OF this, of 40000] show ?thesis
    by (auto simp: CAP_TOKEN_TTL_MS_def demo_lib_def demo_request_def)
qed

end
