(* ===== verification/Dead_Drop.thy ===== *)
theory Dead_Drop
  imports Prekeys Cap "HOL-Library.Multiset"
begin

text \<open>
  The blind mailboxes of \<open>services/phantom.rs\<close> and the deposit passes of \<open>services/privacy_pass.rs\<close>:
  an envelope is deposited in a slot behind an anonymous quota token and a CAPTCHA token or a pass,
  and whoever polls the slot takes it.  The stores are process-wide: the record \<open>phantom_state\<close>, beside
  the shared state whose rate limits and accounts a deposit asks.
\<close>

definition ENVELOPE_TTL_MS :: nat where "ENVELOPE_TTL_MS = 24 * 60 * 60 * 1000"
definition MAX_ENV_PER_SLOT :: nat where "MAX_ENV_PER_SLOT = 16"
definition MAX_TOTAL_ENVELOPES :: nat where "MAX_TOTAL_ENVELOPES = 100000"
definition MAX_SLOTS_PER_POLL :: nat where "MAX_SLOTS_PER_POLL = 64"
definition MAX_WANT :: nat where "MAX_WANT = 8"
definition MAX_CT_LEN :: nat where "MAX_CT_LEN = 96 * 1024"
definition MAX_TOTAL_BYTES :: nat where "MAX_TOTAL_BYTES = 64 * 1024 * 1024"
definition MAX_GATE_TOKEN_LEN :: nat where "MAX_GATE_TOKEN_LEN = 4096"
definition VALID_BUCKETS :: "nat list" where "VALID_BUCKETS = [4096, 16384, 65536]"

record phantom_envelope =
  pv :: nat
  slot_id :: string
  recipient_fp :: string
  sender_hint :: string
  bucket :: nat
  ct :: string

definition validate_envelope :: "phantom_envelope \<Rightarrow> unit api_result" where
  "validate_envelope e =
     (if pv e \<noteq> 1 then Inl (bad_request ''Unsupported envelope version.'')
      else if \<not> is_hex64 (slot_id e) \<or> \<not> is_hex64 (recipient_fp e) \<or> \<not> is_hex64 (sender_hint e)
      then Inl (bad_request ''Malformed envelope identifier.'')
      else if bucket e \<notin> set VALID_BUCKETS then Inl (bad_request ''Invalid envelope bucket.'')
      else if ct e = [] \<or> utf8_len (ct e) > MAX_CT_LEN then Inl (bad_request ''Envelope ciphertext out of bounds.'')
      else Inr ())"

section \<open>The store\<close>

record stored_envelope =
  envelope :: phantom_envelope
  se_expires_at :: nat

type_synonym dead_drop = "(string \<times> stored_envelope list) list"

definition live_count :: "dead_drop \<Rightarrow> nat" where
  "live_count m = sum_list (map length (vals m))"

definition live_bytes :: "dead_drop \<Rightarrow> nat" where
  "live_bytes m = sum_list (map (\<lambda>e. utf8_len (ct (envelope e))) (concat (vals m)))"

definition expired :: "nat \<Rightarrow> stored_envelope \<Rightarrow> bool" where
  "expired now e \<longleftrightarrow> se_expires_at e \<le> now"

definition sweep_expired :: "nat \<Rightarrow> dead_drop \<Rightarrow> nat \<times> dead_drop" where
  "sweep_expired now m =
     (let swept = map_vals (dropWhile (expired now)) m
      in (live_count m - live_count swept, filter (\<lambda>(_, q). q \<noteq> []) swept))"

text \<open>\<open>min_by_key\<close> on the front entries: the first of the least expiry.\<close>

fun min_by_expiry :: "(string \<times> nat) list \<Rightarrow> (string \<times> nat) option" where
  "min_by_expiry [] = None"
| "min_by_expiry ((k, t) # xs) =
     (case min_by_expiry xs of None \<Rightarrow> Some (k, t) | Some (k', t') \<Rightarrow> if t' < t then Some (k', t') else Some (k, t))"

definition oldest_slot :: "dead_drop \<Rightarrow> string option" where
  "oldest_slot m = map_option fst (min_by_expiry
     (List.map_filter (\<lambda>(k, q). case q of [] \<Rightarrow> None | e # _ \<Rightarrow> Some (k, se_expires_at e)) m))"

definition pop_slot :: "string \<Rightarrow> dead_drop \<Rightarrow> dead_drop" where
  "pop_slot slot m = filter (\<lambda>(k, q). k \<noteq> slot \<or> q \<noteq> []) (adjust slot tl m)"

lemma min_by_expiry_mem: "min_by_expiry xs = Some x \<Longrightarrow> x \<in> set xs"
  by (induction xs arbitrary: x rule: min_by_expiry.induct) (auto split: option.splits if_splits)

lemma oldest_slot_front: "oldest_slot m = Some slot \<Longrightarrow> \<exists>e q. (slot, e # q) \<in> set m"
  by (fastforce simp: oldest_slot_def List.map_filter_def dest!: min_by_expiry_mem split: list.splits)

lemma live_count_filter: "live_count (filter (\<lambda>(k, q). k \<noteq> slot \<or> q \<noteq> []) m) = live_count m"
  by (induction m) (auto simp: live_count_def)

lemma live_count_adjust_le: "live_count (adjust slot tl m) \<le> live_count m"
  by (induction m) (auto simp: live_count_def adjust_def)

lemma live_count_adjust: "(slot, e # q) \<in> set m \<Longrightarrow> live_count (adjust slot tl m) < live_count m"
proof (induction m)
  case (Cons x m)
  have "live_count (adjust slot tl m) \<le> live_count m" by (rule live_count_adjust_le)
  with Cons show ?case by (cases x) (auto simp: live_count_def adjust_def)
qed simp

lemma live_count_pop: "(slot, e # q) \<in> set m \<Longrightarrow> live_count (pop_slot slot m) < live_count m"
  unfolding pop_slot_def live_count_filter by (rule live_count_adjust)

function evict_to_cap :: "dead_drop \<Rightarrow> dead_drop" where
  "evict_to_cap m =
     (if live_count m \<le> MAX_TOTAL_ENVELOPES then m
      else (case oldest_slot m of None \<Rightarrow> m | Some slot \<Rightarrow> evict_to_cap (pop_slot slot m)))"
  by pat_completeness auto

termination
  by (relation "measure live_count") (auto dest: oldest_slot_front live_count_pop)

declare evict_to_cap.simps [simp del]

definition dd_deposit :: "phantom_envelope \<Rightarrow> nat \<Rightarrow> dead_drop \<Rightarrow> dead_drop" where
  "dd_deposit env now m =
     (let slot = slot_id env;
          queue = unwrap_or [] (map_of m slot) @ [\<lparr>envelope = env, se_expires_at = now + ENVELOPE_TTL_MS\<rparr>];
          m = AList.update slot (drop (length queue - MAX_ENV_PER_SLOT) queue) m
      in if live_count m > MAX_TOTAL_ENVELOPES then evict_to_cap (snd (sweep_expired now m)) else m)"

definition try_deposit :: "phantom_envelope \<Rightarrow> nat \<Rightarrow> dead_drop \<Rightarrow> bool \<times> dead_drop" where
  "try_deposit env now m =
     (if live_bytes m + utf8_len (ct env) > MAX_TOTAL_BYTES then (False, m) else (True, dd_deposit env now m))"

text \<open>A queue whose envelopes have all expired stays, empty, until it is swept.\<close>

definition claim :: "string \<Rightarrow> nat \<Rightarrow> dead_drop \<Rightarrow> phantom_envelope option \<times> dead_drop" where
  "claim slot now m =
     (case map_of m slot of None \<Rightarrow> (None, m) | Some queue \<Rightarrow>
       (case dropWhile (expired now) queue of
          [] \<Rightarrow> (None, AList.update slot [] m)
        | e # rest \<Rightarrow> (Some (envelope e), if rest = [] then AList.delete slot m else AList.update slot rest m)))"

section \<open>Deposit passes (\<open>services/privacy_pass.rs\<close>)\<close>

definition PASS_DEPOSIT_TOKEN_TTL_MS :: nat where "PASS_DEPOSIT_TOKEN_TTL_MS = 5 * 60 * 1000"
definition MAX_NONCE_STORE_ENTRIES :: nat where "MAX_NONCE_STORE_ENTRIES = 100000"
definition MAX_TOKEN_RESPONSE_LEN :: nat where "MAX_TOKEN_RESPONSE_LEN = 64 * 1024"

datatype nonce_state = Reserved | Committed

record nonce_store =
  nonce_entries :: "(string \<times> nonce_state \<times> nat) list"
  next_seq :: nat

fun min_by_seq :: "(string \<times> nonce_state \<times> nat) list \<Rightarrow> (string \<times> nat) option" where
  "min_by_seq [] = None"
| "min_by_seq ((k, _, n) # xs) =
     (case min_by_seq xs of None \<Rightarrow> Some (k, n) | Some (k', n') \<Rightarrow> if n' < n then Some (k', n') else Some (k, n))"

lemma min_by_seq_None: "min_by_seq xs = None \<longleftrightarrow> xs = []"
  by (cases xs rule: min_by_seq.cases) (auto split: option.splits if_splits)

lemma min_by_seq_mem: "min_by_seq xs = Some (k, n) \<Longrightarrow> k \<in> set (keys xs)"
  by (induction xs arbitrary: k n rule: min_by_seq.induct) (auto split: option.splits if_splits)

lemma length_delete_mem: "k \<in> set (keys xs) \<Longrightarrow> length (AList.delete k xs) < length xs"
  by (induction xs) (auto simp: AList.delete_eq less_Suc_eq_le length_filter_le intro!: Suc_leI)

function make_room :: "(string \<times> nonce_state \<times> nat) list \<Rightarrow> (string \<times> nonce_state \<times> nat) list" where
  "make_room es =
     (if length es < MAX_NONCE_STORE_ENTRIES then es
      else (case min_by_seq es of None \<Rightarrow> es | Some (k, _) \<Rightarrow> make_room (AList.delete k es)))"
  by pat_completeness auto

termination
  by (relation "measure length") (auto dest!: min_by_seq_mem intro: length_delete_mem)

declare make_room.simps [simp del]

definition nonce_reserve :: "string \<Rightarrow> nonce_store \<Rightarrow> bool \<times> nonce_store" where
  "nonce_reserve nonce st =
     (if map_of (nonce_entries st) nonce \<noteq> None then (False, st)
      else (True, \<lparr>nonce_entries = AList.update nonce (Reserved, next_seq st) (make_room (nonce_entries st)),
              next_seq = (next_seq st + 1) mod 2 ^ 64\<rparr>))"

definition nonce_commit :: "string \<Rightarrow> nonce_store \<Rightarrow> bool \<times> nonce_store" where
  "nonce_commit nonce st =
     (case map_of (nonce_entries st) nonce of
        Some (Reserved, n) \<Rightarrow> (True, st\<lparr>nonce_entries := AList.update nonce (Committed, n) (nonce_entries st)\<rparr>)
      | _ \<Rightarrow> (False, st))"

definition nonce_release :: "string \<Rightarrow> nonce_store \<Rightarrow> nonce_store" where
  "nonce_release nonce st =
     (case map_of (nonce_entries st) nonce of
        Some (Reserved, _) \<Rightarrow> st\<lparr>nonce_entries := AList.delete nonce (nonce_entries st)\<rparr>
      | _ \<Rightarrow> st)"

definition pass_data :: "string \<Rightarrow> nat \<Rightarrow> string" where
  "pass_data token_id ex = token_id @ '':'' @ dec ex"

definition issue_deposit_token :: "hmac \<Rightarrow> string \<Rightarrow> nat \<Rightarrow> expiry_map \<Rightarrow> string \<times> expiry_map" where
  "issue_deposit_token hmac token_id now passes =
     (let ex = now + PASS_DEPOSIT_TOKEN_TTL_MS;
          token = ''pass'' @ ''.'' @ token_id @ ''.'' @ dec ex @ ''.'' @ hmac (pass_data token_id ex)
      in (token, AList.update token ex passes))"

definition consume_deposit_token :: "hmac \<Rightarrow> nat \<Rightarrow> string \<Rightarrow> expiry_map \<Rightarrow> unit api_result \<times> expiry_map" where
  "consume_deposit_token hmac now token passes =
     (let parts = split_on (CHR ''.'') token in
      if length parts \<noteq> 4 \<or> parts ! 0 \<noteq> ''pass'' then (Inl (bad_request ''Invalid deposit token format.''), passes)
      else (case parse_u64 (parts ! 2) of
          None \<Rightarrow> (Inl (bad_request ''Invalid deposit token timestamp.''), passes)
        | Some ex \<Rightarrow>
          if now > ex then (Inl (bad_request ''Deposit token expired.''), passes)
          else if \<not> constant_time_eq (hmac (pass_data (parts ! 1) ex)) (parts ! 3) then
            (Inl (bad_request ''Invalid deposit token signature.''), passes)
          else (let live = filter (\<lambda>(_, e). e > now) passes in
            (case map_of live token of
               Some _ \<Rightarrow> Inr () | None \<Rightarrow> Inl (bad_request ''Deposit token already consumed or invalid.''),
             AList.delete token live))))"

text \<open>The verification of the response is not wired up yet and always fails.\<close>

definition verify_amortized_batch_response :: "string \<Rightarrow> unit api_result" where
  "verify_amortized_batch_response response = Inl (bad_request ''Privacy Pass redemption is not yet available.'')"

definition redeem_pass_token ::
  "hmac \<Rightarrow> string \<Rightarrow> nat \<Rightarrow> string \<Rightarrow> string \<Rightarrow> nonce_store \<times> expiry_map \<Rightarrow> string api_result \<times> nonce_store \<times> expiry_map" where
  "redeem_pass_token hmac token_id now response nonce st =
    (case st of (nonces, passes) \<Rightarrow>
     if utf8_len nonce \<noteq> 32 \<or> \<not> list_all is_ascii_hexdigit nonce
     then (Inl (bad_request ''Malformed redemption nonce.''), nonces, passes)
     else if response = [] \<or> utf8_len response > MAX_TOKEN_RESPONSE_LEN
     then (Inl (bad_request ''Token response out of bounds.''), nonces, passes) else
    (case nonce_reserve nonce nonces of
       (False, nonces) \<Rightarrow> (Inl (bad_request ''Redemption nonce already used.''), nonces, passes)
     | (True, nonces) \<Rightarrow>
       (case verify_amortized_batch_response response of
          Inl e \<Rightarrow> (Inl e, nonce_release nonce nonces, passes)
        | Inr _ \<Rightarrow> (case issue_deposit_token hmac token_id now passes of
            (token, passes) \<Rightarrow> (Inr token, snd (nonce_commit nonce nonces), passes)))))"

section \<open>Deposit and poll\<close>

datatype gate_mode = Pass_Gate | Cap_Gate

record phantom_gate =
  gate_mode :: gate_mode
  gate_token :: string
  gate_nullifier :: string
  gate_quota :: "quota_token option"

record 'dk phantom_state =
  ph_app :: app_state
  ph_gates :: "'dk gate_state"
  ph_passes :: expiry_map
  ph_drop :: dead_drop

record 'dk phantom_lib =
  ph_lib :: "'dk gate_lib"
  pass_hmac :: hmac
  ph_sha :: "byte list \<Rightarrow> string"

definition deposit_action :: "nat \<Rightarrow> string" where
  "deposit_action now = ''phantom_deposit:'' @ dec (now div 86400000)"

definition open_gate :: "'dk phantom_lib \<Rightarrow> nat \<Rightarrow> phantom_gate \<Rightarrow> 'dk phantom_state \<Rightarrow> unit api_result \<times> 'dk phantom_state" where
  "open_gate lib now g s =
     (case gate_mode g of
        Cap_Gate \<Rightarrow> (case verify_and_consume_cap_token (cap_hmac (ph_lib lib)) now (gate_token g, ''phantom'') (gs_cap (ph_gates s)) of
           (r, store) \<Rightarrow> (r, s\<lparr>ph_gates := (ph_gates s)\<lparr>gs_cap := store\<rparr>\<rparr>))
      | Pass_Gate \<Rightarrow> (case consume_deposit_token (pass_hmac lib) now (gate_token g) (ph_passes s) of
           (r, passes) \<Rightarrow> (r, s\<lparr>ph_passes := passes\<rparr>)))"

definition phantom_deposit ::
  "'dk phantom_lib \<Rightarrow> nat \<Rightarrow> phantom_envelope \<Rightarrow> phantom_gate \<Rightarrow> 'dk phantom_state \<Rightarrow> unit api_result \<times> 'dk phantom_state" where
  "phantom_deposit lib now env g s =
    (case rate_hit now ''phantom:deposit:global'' 20 1000 (ph_app s) of (hit, app) \<Rightarrow>
     let s = s\<lparr>ph_app := app\<rparr> in
     if hit then (Inl (too_many_requests ''Deposit rate limit exceeded.''), s) else
    (case validate_envelope env of Inl e \<Rightarrow> (Inl e, s) | Inr _ \<Rightarrow>
     if gate_nullifier g \<noteq> [] \<and> \<not> is_hex64 (gate_nullifier g) then (Inl (bad_request ''Malformed gate nullifier.''), s)
     else if utf8_len (gate_token g) > MAX_GATE_TOKEN_LEN then (Inl (bad_request ''Gate token out of bounds.''), s) else
    (case is_blocked_tag (block_tag (ph_sha lib) (recipient_fp env) (sender_hint env)) (accounts app) of
       Inl e \<Rightarrow> (Inl e, s)
     | Inr True \<Rightarrow> (Inl (forbidden ''Deposit rejected.''), s)
     | Inr False \<Rightarrow>
    (case gate_quota g of None \<Rightarrow> (Inl (bad_request ''Missing anonymous quota token.''), s) | Some quota \<Rightarrow>
    (case verify_and_consume_nullifier (rln_hmac (ph_lib lib)) (rln_sha (ph_lib lib)) now
        (quota, gate_nullifier g, deposit_action now) (gs_nullifiers (ph_gates s)) of
       (Inl e, ns) \<Rightarrow> (Inl e, s\<lparr>ph_gates := (ph_gates s)\<lparr>gs_nullifiers := ns\<rparr>\<rparr>)
     | (Inr _, ns) \<Rightarrow>
    (case open_gate lib now g (s\<lparr>ph_gates := (ph_gates s)\<lparr>gs_nullifiers := ns\<rparr>\<rparr>) of
       (Inl e, s) \<Rightarrow> (Inl e, s)
     | (Inr _, s) \<Rightarrow>
       (case try_deposit env now (ph_drop s) of
          (False, _) \<Rightarrow> (Inl (too_many_requests ''Dead-drop memory budget reached.''), s)
        | (True, m) \<Rightarrow> (Inr (), s\<lparr>ph_drop := m\<rparr>))))))))"

fun claim_all :: "nat \<Rightarrow> string list \<Rightarrow> dead_drop \<Rightarrow> phantom_envelope option list \<times> dead_drop" where
  "claim_all now [] m = ([], m)"
| "claim_all now (slot # slots) m =
     (case claim slot now m of (f, m) \<Rightarrow> case claim_all now slots m of (fs, m) \<Rightarrow> (f # fs, m))"

definition phantom_poll ::
  "nat \<Rightarrow> string list \<Rightarrow> nat \<Rightarrow> 'dk phantom_state \<Rightarrow> phantom_envelope option list api_result \<times> 'dk phantom_state" where
  "phantom_poll now slots want s =
    (if length slots > MAX_SLOTS_PER_POLL then (Inl (bad_request ''Too many slots requested.''), s) else
    (case rate_hit now ''phantom:poll:global'' 20 1000 (ph_app s) of (hit, app) \<Rightarrow>
     let s = s\<lparr>ph_app := app\<rparr>; want = min want MAX_WANT in
     if hit then (Inl (too_many_requests ''Poll rate limit exceeded.''), s) else
    (case claim_all now (take want slots) (ph_drop s) of
       (frames, m) \<Rightarrow> (Inr (frames @ replicate (want - length frames) None), s\<lparr>ph_drop := m\<rparr>))))"

end
