(* ===== verification/Dead_Drop_Inv.thy ===== *)
theory Dead_Drop_Inv
  imports Dead_Drop Room_Roles_Inv
begin

text \<open>
  The dead drop and its gates: the bounds of the store and where an envelope lies, what polls can take
  out of it, and what a deposit has to pay.  A run interleaves deposits, polls, sweeps and the issue
  of gate tokens in any order.
\<close>

section \<open>Sums over the slots\<close>

text \<open>A quantity that is summed over the queues, the contents as a multiset among them.\<close>

definition slot_sum :: "('q \<Rightarrow> 'a :: comm_monoid_add) \<Rightarrow> (string \<times> 'q) list \<Rightarrow> 'a" where
  "slot_sum f m = sum_list (map (f \<circ> snd) m)"

lemma slot_sum_simps [simp]: "slot_sum f [] = 0" "slot_sum f (x # m) = f (snd x) + slot_sum f m" "slot_sum f (a @ b) = slot_sum f a + slot_sum f b"
  by (simp_all add: slot_sum_def)

lemma slot_sum_update:
  "f [] = 0 \<Longrightarrow> slot_sum f (AList.update k q m) + f (unwrap_or [] (map_of m k)) = slot_sum f m + f q"
  by (induction m) (auto simp: algebra_simps)

lemma slot_sum_delete_absent: "k \<notin> set (keys m) \<Longrightarrow> AList.delete k m = m"
  by (force simp: AList.delete_eq intro: filter_True)

lemma slot_sum_delete:
  "distinct (keys m) \<Longrightarrow> f [] = 0 \<Longrightarrow> slot_sum f (AList.delete k m) + f (unwrap_or [] (map_of m k)) = slot_sum f m"
  by (induction m) (auto simp: algebra_simps slot_sum_delete_absent)

lemma slot_sum_filter: "f [] = 0 \<Longrightarrow> slot_sum f (filter (\<lambda>(k, q). P k \<or> q \<noteq> []) m) = slot_sum f m"
  by (induction m) auto

lemma slot_sum_adjust:
  "distinct (keys m) \<Longrightarrow> map_of m k = Some q \<Longrightarrow> slot_sum f (adjust k g m) + f q = slot_sum f m + f (g q)"
proof (induction m)
  case (Cons x m)
  have "adjust k g m = m" if "k \<notin> set (keys m)"
    using that by (force simp: adjust_def intro: map_idI)
  with Cons show ?case by (cases x) (auto simp: adjust_def algebra_simps split: if_splits)
qed simp

definition stored :: "dead_drop \<Rightarrow> phantom_envelope multiset" where
  "stored m = slot_sum (\<lambda>q. mset (map envelope q)) m"

definition queue_bytes :: "stored_envelope list \<Rightarrow> nat" where
  "queue_bytes q = sum_list (map (\<lambda>e. utf8_len (ct (envelope e))) q)"

lemma live_totals: "live_count m = slot_sum length m" "live_bytes m = slot_sum queue_bytes m"
  by (induction m) (auto simp: live_count_def live_bytes_def queue_bytes_def)

lemma queue_simps [simp]: "queue_bytes [] = 0" "queue_bytes (e # q) = utf8_len (ct (envelope e)) + queue_bytes q"
  "queue_bytes (p @ q) = queue_bytes p + queue_bytes q"
  by (simp_all add: queue_bytes_def)

section \<open>The invariant\<close>

definition queue_ok :: "string \<Rightarrow> stored_envelope list \<Rightarrow> bool" where
  "queue_ok k q \<longleftrightarrow> length q \<le> MAX_ENV_PER_SLOT \<and> (\<forall>e \<in> set q. slot_id (envelope e) = k \<and> validate_envelope (envelope e) = Inr ())"

definition drop_ok :: "dead_drop \<Rightarrow> bool" where
  "drop_ok m \<longleftrightarrow> distinct (keys m) \<and> (\<forall>(k, q) \<in> set m. queue_ok k q)
     \<and> live_count m \<le> MAX_TOTAL_ENVELOPES \<and> live_bytes m \<le> MAX_TOTAL_BYTES"

text \<open>The queues of a store with more than the cap: what the deposit leaves to the eviction.\<close>

definition slots_ok :: "dead_drop \<Rightarrow> bool" where
  "slots_ok m \<longleftrightarrow> distinct (keys m) \<and> (\<forall>(k, q) \<in> set m. queue_ok k q) \<and> live_bytes m \<le> MAX_TOTAL_BYTES"

lemma drop_slots: "drop_ok m \<longleftrightarrow> slots_ok m \<and> live_count m \<le> MAX_TOTAL_ENVELOPES"
  by (auto simp: drop_ok_def slots_ok_def)

lemma queue_dropWhile: "queue_bytes (dropWhile P q) \<le> queue_bytes q" "length (dropWhile P q) \<le> length q"
    "mset (map envelope (dropWhile P q)) \<subseteq># mset (map envelope q)"
proof -
  have "q = takeWhile P q @ dropWhile P q" by simp
  then show "queue_bytes (dropWhile P q) \<le> queue_bytes q" by (metis le_add2 queue_simps(3))
  show "length (dropWhile P q) \<le> length q" by (rule length_dropWhile_le)
  show "mset (map envelope (dropWhile P q)) \<subseteq># mset (map envelope q)"
    by (metis dropWhile_eq_drop drop_map image_mset_subseteq_mono map_append mset_map mset_subset_eq_add_right mset_append takeWhile_dropWhile_id)
qed

lemma queue_ok_sub: "queue_ok k q \<Longrightarrow> set q' \<subseteq> set q \<Longrightarrow> length q' \<le> length q \<Longrightarrow> queue_ok k q'"
  by (auto simp: queue_ok_def)

lemma queue_ok_dropWhile: "queue_ok k q \<Longrightarrow> queue_ok k (dropWhile P q)"
  by (erule queue_ok_sub) (auto dest: set_dropWhileD simp: length_dropWhile_le)

lemma queue_ok_Nil [simp]: "queue_ok k []"
  by (simp add: queue_ok_def)

lemma queue_ok_tl: "queue_ok k (e # q) \<Longrightarrow> queue_ok k q"
  by (simp add: queue_ok_def)

lemma sum_list_mono_le: "(\<And>x. x \<in> set m \<Longrightarrow> f (snd x) \<le> g (snd x)) \<Longrightarrow> slot_sum f m \<le> (slot_sum g m :: nat)"
  by (induction m) (auto intro: add_mono)

lemma slot_sum_map_vals: "slot_sum f (map_vals g m) = slot_sum (f \<circ> g) m"
  by (induction m) (auto simp: map_vals_def)

lemma set_update_cases: "x \<in> set (AList.update k v m) \<Longrightarrow> x = (k, v) \<or> x \<in> set m"
  by (induction m) (auto split: if_splits)

lemma slots_update:
  assumes "slots_ok m" "queue_ok k q" "live_bytes (AList.update k q m) \<le> MAX_TOTAL_BYTES"
  shows "slots_ok (AList.update k q m)"
  using assms unfolding slots_ok_def by (auto simp: distinct_keys_update dest!: set_update_cases)

lemma slots_delete: "slots_ok m \<Longrightarrow> slots_ok (AList.delete k m)"
  using slot_sum_delete [of m queue_bytes k] unfolding slots_ok_def live_totals
  by (auto simp: AList.delete_eq distinct_keys_filter)

section \<open>The operations\<close>

lemma sweep_ok: "slots_ok m \<Longrightarrow> slots_ok (snd (sweep_expired now m))"
  and sweep_count: "live_count (snd (sweep_expired now m)) \<le> live_count m"
proof -
  have eq: "slot_sum f (snd (sweep_expired now m)) = slot_sum (f \<circ> dropWhile (expired now)) m" if "f [] = 0" for f :: "_ \<Rightarrow> nat"
    using slot_sum_filter [of f "\<lambda>_. False" "map_vals (dropWhile (expired now)) m"] that
    by (simp add: sweep_expired_def slot_sum_map_vals Let_def)
  show "live_count (snd (sweep_expired now m)) \<le> live_count m"
    unfolding live_totals eq [where f = length, OF list.size(3)] by (rule sum_list_mono_le) (simp add: length_dropWhile_le)
  assume ok: "slots_ok m"
  have "live_bytes (snd (sweep_expired now m)) \<le> live_bytes m"
    unfolding live_totals eq [where f = queue_bytes, OF queue_simps(1)] by (rule sum_list_mono_le) (simp add: queue_dropWhile)
  with ok show "slots_ok (snd (sweep_expired now m))"
    by (fastforce simp: slots_ok_def sweep_expired_def Let_def map_vals_def distinct_keys_filter queue_ok_dropWhile comp_def split_beta)
qed

lemma sweep_stored: "stored (snd (sweep_expired now m)) \<subseteq># stored m"
proof -
  have "stored (snd (sweep_expired now m)) = slot_sum (\<lambda>q. mset (map envelope (dropWhile (expired now) q))) m"
    using slot_sum_filter [of "\<lambda>q. mset (map envelope q)" "\<lambda>_. False" "map_vals (dropWhile (expired now)) m"]
    by (simp add: sweep_expired_def stored_def slot_sum_map_vals comp_def Let_def)
  also have "\<dots> \<subseteq># stored m"
    unfolding stored_def
    by (induction m) (use queue_dropWhile(3) in \<open>auto simp: subset_mset.add_mono\<close>)
  finally show ?thesis .
qed

lemma pop_total:
  assumes "distinct (keys m)" "(k, e # q) \<in> set m" "f [] = 0"
  shows "slot_sum f (pop_slot k m) + f (e # q) = slot_sum f m + f q"
proof -
  have "map_of m k = Some (e # q)" using assms(1,2) by (simp add: map_of_eq_Some_iff)
  then have "slot_sum f (adjust k tl m) + f (e # q) = slot_sum f m + f q"
    using slot_sum_adjust [OF assms(1), of k "e # q" f tl] by simp
  moreover have "slot_sum f (pop_slot k m) = slot_sum f (adjust k tl m)"
    unfolding pop_slot_def using slot_sum_filter [where f = f and P = "\<lambda>k'. k' \<noteq> k"] assms(3) by (metis (no_types, lifting))
  ultimately show ?thesis by simp
qed

lemma pop_keys: "distinct (keys m) \<Longrightarrow> distinct (keys (pop_slot k m))"
  by (simp add: pop_slot_def distinct_keys_filter)

lemma pop_set: "(i, q) \<in> set (pop_slot k m) \<Longrightarrow> \<exists>q'. (i, q') \<in> set m \<and> (q = q' \<or> q = tl q')"
  by (auto simp: pop_slot_def adjust_def split: if_splits)

lemma stored_pop:
  assumes "distinct (keys m)" "(k, e # q) \<in> set m"
  shows "stored (pop_slot k m) \<subseteq># stored m"
proof -
  have "stored (pop_slot k m) + mset (map envelope (e # q)) = stored m + mset (map envelope q)"
    using pop_total [OF assms, of "\<lambda>q. mset (map envelope q)"] by (simp add: stored_def)
  then have "stored m = stored (pop_slot k m) + {#envelope e#}" by (simp add: algebra_simps)
  then show ?thesis by simp
qed

lemma slots_pop:
  assumes "slots_ok m" "oldest_slot m = Some k"
  shows "slots_ok (pop_slot k m) \<and> stored (pop_slot k m) \<subseteq># stored m"
proof -
  obtain e q where mem: "(k, e # q) \<in> set m" using oldest_slot_front [OF assms(2)] by blast
  have d: "distinct (keys m)" using assms(1) by (simp add: slots_ok_def)
  have "live_bytes (pop_slot k m) + queue_bytes (e # q) = live_bytes m + queue_bytes q"
    using pop_total [OF d mem, of queue_bytes] by (simp add: live_totals)
  then have "live_bytes (pop_slot k m) \<le> live_bytes m" by simp
  moreover have "queue_ok i q'" if in_pop: "(i, q') \<in> set (pop_slot k m)" for i q'
  proof -
    obtain p where p: "(i, p) \<in> set m" "q' = p \<or> q' = tl p" using pop_set [OF in_pop] by blast
    then have "queue_ok i p" using assms(1) by (auto simp: slots_ok_def)
    with p(2) show ?thesis by (cases p) (auto dest: queue_ok_tl)
  qed
  ultimately show ?thesis
    using assms(1) d stored_pop [OF d mem] pop_keys [OF d] by (auto simp: slots_ok_def)
qed

lemma oldest_exists: "MAX_TOTAL_ENVELOPES < live_count m \<Longrightarrow> oldest_slot m \<noteq> None"
proof
  assume count: "MAX_TOTAL_ENVELOPES < live_count m" and none: "oldest_slot m = None"
  have min: "min_by_expiry xs = None \<Longrightarrow> xs = []" for xs
    by (cases xs rule: min_by_expiry.cases) (auto split: option.splits if_splits)
  have "q = []" if "(k, q) \<in> set m" for k q
  proof (rule ccontr)
    assume "q \<noteq> []"
    then obtain e q' where q: "q = e # q'" by (cases q) auto
    have "List.map_filter (\<lambda>(k, q). case q of [] \<Rightarrow> None | e # _ \<Rightarrow> Some (k, se_expires_at e)) m = []"
      using none by (auto simp: oldest_slot_def intro: min)
    with that q show False by (fastforce simp: List.map_filter_def filter_empty_conv)
  qed
  then have "\<forall>x \<in> set m. snd x = []" by auto
  then have "live_count m = 0" by (induction m) (auto simp: live_count_def)
  with count show False by simp
qed

lemma evict_ok:
  "slots_ok m \<Longrightarrow> drop_ok (evict_to_cap m) \<and> stored (evict_to_cap m) \<subseteq># stored m"
proof (induction m rule: evict_to_cap.induct)
  case (1 m)
  show ?case
  proof (cases "live_count m \<le> MAX_TOTAL_ENVELOPES")
    case True
    then show ?thesis using 1(2) by (simp add: evict_to_cap.simps [of m] drop_slots)
  next
    case False
    then obtain k where k: "oldest_slot m = Some k" using oldest_exists [of m] by (auto simp: not_le)
    have "slots_ok (pop_slot k m)" "stored (pop_slot k m) \<subseteq># stored m" using slots_pop [OF 1(2) k] by auto
    with 1(1) [OF False k] False k show ?thesis
      by (auto simp: evict_to_cap.simps [of m] intro: subset_mset.order_trans)
  qed
qed

lemma validated_slots: "slots_ok m \<Longrightarrow> map_of m k = Some q \<Longrightarrow> queue_ok k q"
  by (auto simp: slots_ok_def dest!: map_of_SomeD)

text \<open>A deposit that fits keeps the invariant; what is stored afterwards was stored before or is new.\<close>

lemma deposit_ok:
  assumes m: "drop_ok m" and env: "validate_envelope env = Inr ()"
    and fits: "live_bytes m + utf8_len (ct env) \<le> MAX_TOTAL_BYTES"
  shows "drop_ok (dd_deposit env now m) \<and> stored (dd_deposit env now m) \<subseteq># add_mset env (stored m)"
proof -
  define old where "old = unwrap_or [] (map_of m (slot_id env))"
  define queue where "queue = old @ [\<lparr>envelope = env, se_expires_at = now + ENVELOPE_TTL_MS\<rparr>]"
  define kept where "kept = drop (length queue - MAX_ENV_PER_SLOT) queue"
  define m' where "m' = AList.update (slot_id env) kept m"
  have ok: "slots_ok m" using m by (simp add: drop_slots)
  have old: "queue_ok (slot_id env) old"
    using validated_slots [OF ok] by (cases "map_of m (slot_id env)") (auto simp: old_def)
  have split: "queue = take (length queue - MAX_ENV_PER_SLOT) queue @ kept" by (simp add: kept_def)
  have kept: "queue_ok (slot_id env) kept"
    using old env by (auto simp: queue_ok_def kept_def queue_def dest!: in_set_dropD)
  have "queue_bytes kept \<le> queue_bytes old + utf8_len (ct env)"
    using arg_cong [OF split, of queue_bytes] by (simp add: queue_def)
  moreover have "live_bytes m' + queue_bytes old = live_bytes m + queue_bytes kept"
    unfolding live_totals m'_def old_def by (rule slot_sum_update) simp
  ultimately have "live_bytes m' \<le> MAX_TOTAL_BYTES" using fits by simp
  then have m': "slots_ok m'" unfolding m'_def by (rule slots_update [OF ok kept])
  have "mset (map envelope kept) \<subseteq># add_mset env (mset (map envelope old))"
  proof -
    have "mset (map envelope queue) = mset (map envelope (take (length queue - MAX_ENV_PER_SLOT) queue)) + mset (map envelope kept)"
      by (subst split) simp
    then show ?thesis by (simp add: queue_def)
  qed
  moreover have "stored m' + mset (map envelope old) = stored m + mset (map envelope kept)"
    unfolding stored_def m'_def old_def by (rule slot_sum_update) simp
  ultimately have "stored m' + mset (map envelope old) \<subseteq># stored m + add_mset env (mset (map envelope old))"
    by (simp only: subset_mset.add_left_mono)
  then have "stored m' + mset (map envelope old) \<subseteq># add_mset env (stored m) + mset (map envelope old)" by simp
  then have new: "stored m' \<subseteq># add_mset env (stored m)" by (simp only: subset_mset.add_le_cancel_right)
  have dep: "dd_deposit env now m = (if live_count m' > MAX_TOTAL_ENVELOPES then evict_to_cap (snd (sweep_expired now m')) else m')"
    by (simp add: dd_deposit_def Let_def m'_def kept_def queue_def old_def)
  show ?thesis
  proof (cases "live_count m' > MAX_TOTAL_ENVELOPES")
    case True
    have "drop_ok (evict_to_cap (snd (sweep_expired now m')))"
      "stored (evict_to_cap (snd (sweep_expired now m'))) \<subseteq># stored (snd (sweep_expired now m'))"
      using evict_ok [OF sweep_ok [OF m']] by auto
    with True new sweep_stored [of now m'] show ?thesis
      by (auto simp: dep intro: subset_mset.order_trans)
  next
    case False
    with m' new show ?thesis by (simp add: dep drop_slots not_less)
  qed
qed

lemma claim_ok:
  assumes "drop_ok m" "claim slot now m = (r, m')"
  shows "drop_ok m' \<and> (case r of None \<Rightarrow> {#} | Some env \<Rightarrow> {#env#}) + stored m' \<subseteq># stored m
    \<and> (\<forall>env. r = Some env \<longrightarrow> slot_id env = slot)"
proof (cases "map_of m slot")
  case None
  with assms show ?thesis by (simp add: claim_def)
next
  case (Some queue)
  define rest where "rest = dropWhile (expired now) queue"
  have ok: "slots_ok m" and d: "distinct (keys m)" using assms(1) by (auto simp: drop_slots slots_ok_def)
  have q: "queue_ok slot queue" by (rule validated_slots [OF ok Some])
  have sub: "mset (map envelope rest) \<subseteq># mset (map envelope queue)" unfolding rest_def by (rule queue_dropWhile(3))
  have r: "queue_ok slot rest" unfolding rest_def by (rule queue_ok_dropWhile [OF q])
  have le: "queue_bytes rest \<le> queue_bytes queue" "length rest \<le> length queue" unfolding rest_def by (rule queue_dropWhile)+
  have upd: "slot_sum f (AList.update slot q' m) + f queue = slot_sum f m + f q'" if "f [] = 0" for f :: "_ \<Rightarrow> nat" and q'
    using slot_sum_update [of f slot q' m] Some that by simp
  have del: "slot_sum f (AList.delete slot m) + f queue = slot_sum f m" if "f [] = 0" for f :: "_ \<Rightarrow> nat"
    using slot_sum_delete [OF d, of f slot] Some that by simp
  have st: "stored (AList.update slot q' m) + mset (map envelope queue) = stored m + mset (map envelope q')" for q'
    unfolding stored_def using slot_sum_update [of "\<lambda>q. mset (map envelope q)" slot q' m] Some by simp
  have std: "stored (AList.delete slot m) + mset (map envelope queue) = stored m"
    unfolding stored_def using slot_sum_delete [OF d, of "\<lambda>q. mset (map envelope q)" slot] Some by simp
  have keep: "drop_ok (AList.update slot q' m)" if "queue_ok slot q'" "queue_bytes q' \<le> queue_bytes queue" "length q' \<le> length queue" for q'
    using upd [of length q'] upd [of queue_bytes q'] that assms(1) slots_update [OF ok that(1)]
    by (auto simp: drop_slots live_totals slots_ok_def)
  show ?thesis
  proof (cases rest)
    case Nil
    with assms(2) Some have "r = None" "m' = AList.update slot [] m" by (auto simp: claim_def rest_def [symmetric])
    moreover have "stored (AList.update slot [] m) \<subseteq># stored m" using st [of "[]"] by (metis add.right_neutral list.simps(8) mset.simps(1) mset_subset_eq_add_left)
    ultimately show ?thesis using keep [of "[]"] by simp
  next
    case (Cons e es)
    with assms(2) Some have res: "r = Some (envelope e)"
      "m' = (if es = [] then AList.delete slot m else AList.update slot es m)"
      by (auto simp: claim_def rest_def [symmetric])
    have slot: "slot_id (envelope e) = slot" using r Cons by (simp add: queue_ok_def)
    have "add_mset (envelope e) (stored m') + mset (map envelope queue) \<subseteq># stored m + mset (map envelope queue)"
    proof (cases "es = []")
      case True
      with sub Cons std res show ?thesis by (simp add: union_commute subset_mset.add_left_mono)
    next
      case False
      with res st [of es] have "add_mset (envelope e) (stored m') + mset (map envelope queue) = stored m + mset (map envelope rest)"
        by (simp add: Cons)
      with sub show ?thesis by (simp add: subset_mset.add_left_mono)
    qed
    then have "add_mset (envelope e) (stored m') \<subseteq># stored m" by (simp only: subset_mset.add_le_cancel_right)
    moreover have "drop_ok m'"
    proof (cases "es = []")
      case True
      with res assms(1) slots_delete [OF ok] del [of length] show ?thesis by (auto simp: drop_slots live_totals)
    next
      case False
      have "queue_ok slot es" using r Cons by (auto dest: queue_ok_tl)
      with keep [of es] le Cons False res show ?thesis by simp
    qed
    ultimately show ?thesis using slot res(1) by simp
  qed
qed

section \<open>Runs\<close>

datatype phantom_event = Deposit phantom_envelope phantom_gate | Poll "string list" nat | Sweep

text \<open>What a step accepts into the store, what it hands out, and the state it leaves.\<close>

definition phantom_step ::
  "'dk phantom_lib \<Rightarrow> nat \<Rightarrow> phantom_event \<Rightarrow> 'dk phantom_state \<Rightarrow> phantom_envelope list \<times> phantom_envelope list \<times> 'dk phantom_state" where
  "phantom_step lib now ev s =
     (case ev of
        Deposit env g \<Rightarrow> (case phantom_deposit lib now env g s of (Inr _, s) \<Rightarrow> ([env], [], s) | (Inl _, s) \<Rightarrow> ([], [], s))
      | Poll slots want \<Rightarrow> (case phantom_poll now slots want s of
            (Inr frames, s) \<Rightarrow> ([], List.map_filter (\<lambda>f. f) frames, s) | (Inl _, s) \<Rightarrow> ([], [], s))
      | Sweep \<Rightarrow> ([], [], s\<lparr>ph_drop := snd (sweep_expired now (ph_drop s))\<rparr>))"

fun phantom_run ::
  "'dk phantom_lib \<Rightarrow> (nat \<times> phantom_event) list \<Rightarrow> 'dk phantom_state \<Rightarrow> phantom_envelope list \<times> phantom_envelope list \<times> 'dk phantom_state" where
  "phantom_run lib [] s = ([], [], s)"
| "phantom_run lib ((now, ev) # evs) s =
     (case phantom_step lib now ev s of (a, d, s) \<Rightarrow> case phantom_run lib evs s of (as, ds, s) \<Rightarrow> (a @ as, d @ ds, s))"

lemma claim_all_ok:
  "drop_ok m \<Longrightarrow> claim_all now slots m = (fs, m') \<Longrightarrow>
     drop_ok m' \<and> mset (List.map_filter (\<lambda>f. f) fs) + stored m' \<subseteq># stored m \<and> length fs = length slots
     \<and> (\<forall>i < length slots. \<forall>env. fs ! i = Some env \<longrightarrow> slot_id env = slots ! i)"
proof (induction slots arbitrary: m fs m')
  case (Cons slot slots)
  obtain f m1 where c: "claim slot now m = (f, m1)" by (cases "claim slot now m")
  obtain fs1 m2 where r: "claim_all now slots m1 = (fs1, m2)" by (cases "claim_all now slots m1")
  note first = claim_ok [OF Cons.prems(1) c]
  then have "drop_ok m1" by simp
  note rest = Cons.IH [OF this r]
  have eq: "fs = f # fs1" "m' = m2" using Cons.prems(2) c r by auto
  have "mset (List.map_filter (\<lambda>f. f) fs) + stored m2
      = (case f of None \<Rightarrow> {#} | Some env \<Rightarrow> {#env#}) + (mset (List.map_filter (\<lambda>f. f) fs1) + stored m2)"
    by (cases f) (simp_all add: eq List.map_filter_def)
  also have "\<dots> \<subseteq># (case f of None \<Rightarrow> {#} | Some env \<Rightarrow> {#env#}) + stored m1"
    using rest by (intro subset_mset.add_left_mono) simp
  also have "\<dots> \<subseteq># stored m" using first by simp
  finally show ?case using rest first eq by (auto simp: nth_Cons split: nat.split)
qed (simp add: List.map_filter_def)

text \<open>An accepted deposit passed every check, in the order of the code, and paid with its gate token.\<close>

lemma deposit_accepted:
  assumes "phantom_deposit lib now env g s = (Inr u, s')"
  shows "validate_envelope env = Inr ()
    \<and> is_blocked_tag (block_tag (ph_sha lib) (recipient_fp env) (sender_hint env)) (accounts (ph_app s)) = Inr False
    \<and> (\<exists>quota ns app s1. gate_quota g = Some quota
        \<and> verify_and_consume_nullifier (rln_hmac (ph_lib lib)) (rln_sha (ph_lib lib)) now
            (quota, gate_nullifier g, deposit_action now) (gs_nullifiers (ph_gates s)) = (Inr (), ns)
        \<and> open_gate lib now g (s\<lparr>ph_app := app, ph_gates := (ph_gates s)\<lparr>gs_nullifiers := ns\<rparr>\<rparr>) = (Inr (), s1)
        \<and> ph_drop s1 = ph_drop s \<and> try_deposit env now (ph_drop s) = (True, ph_drop s')
        \<and> s' = s1\<lparr>ph_drop := ph_drop s'\<rparr>)"
  using assms
  by (auto simp: phantom_deposit_def Let_def rate_hit_def open_gate_def split: prod.splits sum.splits if_splits option.splits
      bool.splits gate_mode.splits)

lemma deposit_refused: "phantom_deposit lib now env g s = (Inl e, s') \<Longrightarrow> ph_drop s' = ph_drop s"
  by (auto simp: phantom_deposit_def Let_def rate_hit_def open_gate_def split: prod.splits sum.splits if_splits option.splits
      bool.splits gate_mode.splits)

lemma step_ok:
  assumes "drop_ok (ph_drop s)" "phantom_step lib now ev s = (a, d, s')"
  shows "drop_ok (ph_drop s') \<and> mset d + stored (ph_drop s') \<subseteq># stored (ph_drop s) + mset a"
proof (cases ev)
  case (Deposit env g)
  show ?thesis
  proof (cases "phantom_deposit lib now env g s")
    case (Pair r t)
    show ?thesis
    proof (cases r)
      case (Inl e)
      with Pair have "phantom_deposit lib now env g s = (Inl e, t)" by simp
      from deposit_refused [OF this] assms Deposit Pair Inl show ?thesis by (simp add: phantom_step_def)
    next
      case (Inr u)
      with Pair have "phantom_deposit lib now env g s = (Inr u, t)" by simp
      note acc = deposit_accepted [OF this]
      have fits: "live_bytes (ph_drop s) + utf8_len (ct env) \<le> MAX_TOTAL_BYTES"
        and t: "ph_drop t = dd_deposit env now (ph_drop s)"
        using acc by (auto simp: try_deposit_def not_less split: if_splits)
      with deposit_ok [OF assms(1) _ fits, of now] acc assms(2) Deposit Pair Inr show ?thesis
        by (auto simp: phantom_step_def)
    qed
  qed
next
  case (Poll slots want)
  show ?thesis
  proof (cases "phantom_poll now slots want s")
    case (Pair r t)
    show ?thesis
    proof (cases r)
      case (Inl e)
      with assms Poll Pair show ?thesis
        by (auto simp: phantom_step_def phantom_poll_def Let_def rate_hit_def split: if_splits prod.splits)
    next
      case (Inr frames)
      then obtain fs where fs: "claim_all now (take (min want MAX_WANT) slots) (ph_drop s) = (fs, ph_drop t)"
        and frames: "frames = fs @ replicate (min want MAX_WANT - length fs) None"
        using Pair by (auto simp: phantom_poll_def Let_def rate_hit_def split: if_splits prod.splits)
      have "List.map_filter (\<lambda>f. f) frames = List.map_filter (\<lambda>f. f) fs"
        by (simp add: frames List.map_filter_def)
      then have d: "a = []" "d = List.map_filter (\<lambda>f. f) fs" "s' = t"
        using assms(2) Poll Pair Inr by (auto simp: phantom_step_def)
      show ?thesis using claim_all_ok [OF assms(1) fs] by (simp add: d)
    qed
  qed
next
  case Sweep
  then show ?thesis
    using assms sweep_ok [of "ph_drop s" now] sweep_count [of now "ph_drop s"] sweep_stored [of now "ph_drop s"]
    by (auto simp: phantom_step_def drop_slots)
qed

lemma run_ok:
  "drop_ok (ph_drop s) \<Longrightarrow> phantom_run lib evs s = (as, ds, s') \<Longrightarrow>
     drop_ok (ph_drop s') \<and> mset ds + stored (ph_drop s') \<subseteq># stored (ph_drop s) + mset as"
proof (induction evs arbitrary: s as ds s')
  case (Cons e evs)
  obtain now ev where e: "e = (now, ev)" by (cases e)
  obtain a d s1 where step: "phantom_step lib now ev s = (a, d, s1)" by (cases "phantom_step lib now ev s")
  obtain as1 ds1 s2 where run: "phantom_run lib evs s1 = (as1, ds1, s2)" by (cases "phantom_run lib evs s1")
  note first = step_ok [OF Cons.prems(1) step]
  note rest = Cons.IH [OF conjunct1 [OF first] run]
  have eq: "as = a @ as1" "ds = d @ ds1" "s' = s2" using Cons.prems(2) e step run by auto
  have "mset ds + stored (ph_drop s2) = mset d + (mset ds1 + stored (ph_drop s2))" by (simp add: eq)
  also have "\<dots> \<subseteq># mset d + (stored (ph_drop s1) + mset as1)"
    using rest by (intro subset_mset.add_left_mono) simp
  also have "\<dots> = (mset d + stored (ph_drop s1)) + mset as1" by simp
  also have "\<dots> \<subseteq># (stored (ph_drop s) + mset a) + mset as1"
    using first by (intro subset_mset.add_right_mono) simp
  finally show ?case using rest by (simp add: eq add.assoc)
qed simp

section \<open>What a deposit pays\<close>

interpretation passtok: single_use "consume_deposit_token hmac" "\<lambda>token. token" absent always
  for hmac :: hmac
proof (unfold_locales, goal_cases)
  case (1 now r s x s')
  then show ?case
    by (auto simp: consume_deposit_token_def absent_def Let_def delete_conv' split: if_splits option.splits)
next
  case (2 s t k now r)
  have "map_of (filter (\<lambda>(_, e). e > now) s) k = None"
    using 2(1) by (auto simp: absent_def map_of_eq_None_iff)
  with 2 show ?case
    by (auto simp: consume_deposit_token_def absent_def Let_def delete_conv' split: option.splits)
next
  case (3 s t r now)
  have "map_of (filter (\<lambda>(_, e). e > now) s) r = None"
    using 3(1) by (auto simp: absent_def map_of_eq_None_iff)
  then show ?case
    by (auto simp: consume_deposit_token_def Let_def split: option.splits)
qed

definition funds :: "'dk phantom_state \<Rightarrow> nat" where
  "funds s = length (gs_cap (ph_gates s)) + length (ph_passes s)"

lemma delete_present: "map_of m k = Some v \<Longrightarrow> length (AList.delete k m) < length m"
  by (rule length_delete_mem) (force dest: map_of_SomeD)

lemma cap_pays:
  "verify_and_consume_cap_token h now r m = (x, m') \<Longrightarrow> length m' + (if is_ok x then 1 else 0) \<le> length m"
  by (cases r) (auto simp: verify_and_consume_cap_token_def Let_def Suc_le_eq intro: delete_present length_delete_le
      split: if_splits option.splits)

lemma pass_pays:
  "consume_deposit_token h now token m = (x, m') \<Longrightarrow> length m' + (if is_ok x then 1 else 0) \<le> length m"
proof -
  define live where "live = filter (\<lambda>(_, e). e > now) m"
  assume "consume_deposit_token h now token m = (x, m')"
  then have cases: "x = Inr () \<and> map_of live token \<noteq> None \<and> m' = AList.delete token live \<or> \<not> is_ok x \<and> (m' = m \<or> m' = AList.delete token live)"
    by (auto simp: consume_deposit_token_def Let_def live_def split: if_splits option.splits)
  have le: "length live \<le> length m" "length (AList.delete token live) \<le> length live"
    by (simp_all add: live_def length_delete_le)
  have "map_of live token \<noteq> None \<Longrightarrow> length (AList.delete token live) < length live"
    by (auto dest: delete_present)
  with cases le show ?thesis by auto
qed

lemma gate_pays: "open_gate lib now g s = (x, s') \<Longrightarrow> funds s' + (if is_ok x then 1 else 0) \<le> funds s"
  by (auto simp: open_gate_def funds_def dest!: cap_pays pass_pays split: gate_mode.splits prod.splits)

lemma step_pays:
  "phantom_step lib now ev s = (a, d, s') \<Longrightarrow> funds s' + length a \<le> funds s"
proof (cases ev)
  case (Deposit env g)
  assume step: "phantom_step lib now ev s = (a, d, s')"
  show ?thesis
  proof (cases "phantom_deposit lib now env g s")
    case (Pair r t)
    show ?thesis
    proof (cases r)
      case (Inr u)
      with Pair have "phantom_deposit lib now env g s = (Inr u, t)" by simp
      from deposit_accepted [OF this] obtain app ns s1
        where "open_gate lib now g (s\<lparr>ph_app := app, ph_gates := (ph_gates s)\<lparr>gs_nullifiers := ns\<rparr>\<rparr>) = (Inr (), s1)"
          and t: "t = s1\<lparr>ph_drop := ph_drop t\<rparr>" by blast
      from gate_pays [OF this(1)] have "funds s1 + 1 \<le> funds s" by (simp add: funds_def)
      moreover have "funds t = funds s1" by (subst t) (simp add: funds_def)
      moreover have "a = [env]" "s' = t" using step Deposit Pair Inr by (auto simp: phantom_step_def)
      ultimately show ?thesis by simp
    next
      case (Inl e)
      have "funds t \<le> funds s"
        using Pair Inl gate_pays
        by (fastforce simp: phantom_deposit_def Let_def rate_hit_def funds_def split: prod.splits sum.splits if_splits option.splits bool.splits)
      then show ?thesis using step Deposit Pair Inl by (simp add: phantom_step_def)
    qed
  qed
next
  case (Poll slots want)
  assume "phantom_step lib now ev s = (a, d, s')"
  then show ?thesis
    by (auto simp: Poll phantom_step_def phantom_poll_def Let_def rate_hit_def funds_def split: prod.splits sum.splits if_splits)
next
  case Sweep
  assume "phantom_step lib now ev s = (a, d, s')"
  then show ?thesis by (auto simp: Sweep phantom_step_def funds_def)
qed

lemma run_pays: "phantom_run lib evs s = (as, ds, s') \<Longrightarrow> funds s' + length as \<le> funds s"
proof (induction evs arbitrary: s as ds s')
  case (Cons e evs)
  then show ?case
    by (cases e) (fastforce split: prod.splits dest!: step_pays)
qed simp

section \<open>Properties\<close>

text \<open>C25: over every run of deposits, polls and sweeps the dead drop holds at most 100000 envelopes and
  64 MB of ciphertext, at most sixteen envelopes per slot, each well-formed and in its own slot.\<close>

theorem dead_drop_bounded:
  assumes "drop_ok (ph_drop s)" "phantom_run lib evs s = (accepted, delivered, s')"
  shows "drop_ok (ph_drop s')"
  using run_ok [OF assms] by blast

text \<open>C10: polls hand out only what deposits put in, each accepted envelope at most once: what was handed
  out and what is still stored is at most what was stored and what was accepted.\<close>

theorem dead_drop_at_most_once:
  assumes "drop_ok (ph_drop s)" "phantom_run lib evs s = (accepted, delivered, s')"
  shows "mset delivered + stored (ph_drop s') \<subseteq># stored (ph_drop s) + mset accepted"
  using run_ok [OF assms] by blast

text \<open>C9: a deposit is accepted only if the envelope is well-formed, its pair of recipient and sender is not
  blocked, its anonymous quota token is fresh and its gate token is good; a refused one stores nothing.\<close>

theorem deposit_gated:
  "case phantom_deposit lib now env g s of
     (Inl e, s') \<Rightarrow> ph_drop s' = ph_drop s
   | (Inr _, s') \<Rightarrow> validate_envelope env = Inr ()
       \<and> is_blocked_tag (block_tag (ph_sha lib) (recipient_fp env) (sender_hint env)) (accounts (ph_app s)) = Inr False
       \<and> (\<exists>quota ns. gate_quota g = Some quota \<and> verify_and_consume_nullifier (rln_hmac (ph_lib lib)) (rln_sha (ph_lib lib))
             now (quota, gate_nullifier g, deposit_action now) (gs_nullifiers (ph_gates s)) = (Inr (), ns))
       \<and> is_ok (case gate_mode g of
           Pass_Gate \<Rightarrow> fst (consume_deposit_token (pass_hmac lib) now (gate_token g) (ph_passes s))
         | Cap_Gate \<Rightarrow> fst (verify_and_consume_cap_token (cap_hmac (ph_lib lib)) now (gate_token g, ''phantom'') (gs_cap (ph_gates s))))"
proof (cases "phantom_deposit lib now env g s")
  case (Pair r s')
  show ?thesis
  proof (cases r)
    case (Inl e)
    with Pair deposit_refused [of lib now env g s e s'] show ?thesis by simp
  next
    case (Inr u)
    with Pair have "phantom_deposit lib now env g s = (Inr u, s')" by simp
    from deposit_accepted [OF this] show ?thesis
      using Pair Inr by (auto simp: open_gate_def split_beta prod_eq_iff split: gate_mode.splits)
  qed
qed

text \<open>Deposits cost tokens: over every run, no more deposits are accepted than gate tokens (CAPTCHA tokens
  and passes) have disappeared from the two stores.\<close>

theorem deposits_cost_tokens:
  assumes "phantom_run lib evs s = (accepted, delivered, s')"
  shows "length accepted + length (gs_cap (ph_gates s')) + length (ph_passes s')
    \<le> length (gs_cap (ph_gates s)) + length (ph_passes s)"
  using run_pays [OF assms] by (simp add: funds_def)

text \<open>In any run with a clock that does not go back, a deposit pass is accepted at most once.\<close>

theorem pass_single_use:
  assumes "clock_ok trs"
  shows "accepted_of always (\<lambda>token. token) k trs (fst (run_tries (consume_deposit_token hmac) passes trs)) \<le> 1"
  using assms by (rule passtok.accepted_once)

text \<open>An envelope deposited in an empty slot is what the next claim of that slot returns, at any time before
  it is a day old, as long as the store was not full; at its expiry it is no longer returned.\<close>

theorem deposit_then_claim:
  assumes "map_of m (slot_id env) = None" "live_count m < MAX_TOTAL_ENVELOPES"
  shows "fst (claim (slot_id env) later (dd_deposit env now m)) = (if later < now + ENVELOPE_TTL_MS then Some env else None)"
proof -
  let ?q = "[\<lparr>envelope = env, se_expires_at = now + ENVELOPE_TTL_MS\<rparr>]"
  have "live_count (AList.update (slot_id env) ?q m) = live_count m + 1"
    using slot_sum_update [of length "slot_id env" ?q m] assms(1) by (simp add: live_totals)
  with assms have "dd_deposit env now m = AList.update (slot_id env) ?q m"
    by (simp add: dd_deposit_def Let_def MAX_ENV_PER_SLOT_def)
  then show ?thesis by (simp add: claim_def update_conv' expired_def)
qed

section \<open>Witnesses\<close>

definition demo_envelope :: phantom_envelope where
  "demo_envelope = \<lparr>pv = 1, slot_id = replicate 64 (CHR ''a''), recipient_fp = replicate 64 (CHR ''b''),
     sender_hint = replicate 64 (CHR ''c''), bucket = 4096, ct = ''x''\<rparr>"

definition demo_phantom :: "app_state \<Rightarrow> unit phantom_state" where
  "demo_phantom app = \<lparr>ph_app = app, ph_gates = \<lparr>gs_nullifiers = [], gs_vdf = [], gs_pqc = [], gs_cap = []\<rparr>,
     ph_passes = [(''pass.t.9.h'', 9)], ph_drop = [(slot_id demo_envelope, [\<lparr>envelope = demo_envelope, se_expires_at = 7\<rparr>])]\<rparr>"

definition demo_phantom_lib :: "unit phantom_lib" where
  "demo_phantom_lib = \<lparr>ph_lib = demo_lib, pass_hmac = (\<lambda>_. ''h''), ph_sha = (\<lambda>_. [])\<rparr>"

definition demo_mail :: "(nat \<times> phantom_event) list" where
  "demo_mail = [(5, Poll [slot_id demo_envelope] 8), (6, Deposit demo_envelope \<lparr>gate_mode = Pass_Gate,
     gate_token = ''pass.t.9.h'', gate_nullifier = [], gate_quota = None\<rparr>), (8, Sweep)]"

lemma demo_letters:
  "is_ascii (CHR ''a'')" "is_ascii (CHR ''b'')" "is_ascii (CHR ''c'')" "is_ascii (CHR ''x'')"
  "is_ascii_hexdigit (CHR ''a'')" "is_ascii_hexdigit (CHR ''b'')" "is_ascii_hexdigit (CHR ''c'')"
  by code_simp+

lemma demo_envelope_valid: "validate_envelope demo_envelope = Inr ()"
  by (simp add: validate_envelope_def demo_envelope_def is_hex64_def utf8_len_ascii list_all_iff demo_letters
      VALID_BUCKETS_def MAX_CT_LEN_def)

lemma demo_drop: "drop_ok (ph_drop (demo_phantom app))"
proof -
  have "utf8_len (ct demo_envelope) = 1" by (simp add: demo_envelope_def utf8_len_ascii demo_letters)
  then show ?thesis
    by (simp add: drop_ok_def demo_phantom_def queue_ok_def demo_envelope_valid live_count_def live_bytes_def
        MAX_ENV_PER_SLOT_def MAX_TOTAL_ENVELOPES_def MAX_TOTAL_BYTES_def)
qed

abbreviation demo_phantom_run :: "phantom_envelope list \<times> phantom_envelope list \<times> unit phantom_state" where
  "demo_phantom_run \<equiv> phantom_run demo_phantom_lib demo_mail (demo_phantom (demo_state [] []))"

lemma demo_phantom_parts:
  "phantom_run demo_phantom_lib demo_mail (demo_phantom (demo_state [] []))
     = (fst demo_phantom_run, fst (snd demo_phantom_run), snd (snd demo_phantom_run))"
  by simp

theorem dead_drop_bounded_witness: "drop_ok (ph_drop (snd (snd demo_phantom_run)))"
  by (rule dead_drop_bounded [OF demo_drop demo_phantom_parts])

theorem dead_drop_at_most_once_witness:
  "mset (fst (snd demo_phantom_run)) + stored (ph_drop (snd (snd demo_phantom_run)))
     \<subseteq># stored (ph_drop (demo_phantom (demo_state [] []))) + mset (fst demo_phantom_run)"
  by (rule dead_drop_at_most_once [OF demo_drop demo_phantom_parts])

definition demo_post_lib :: "unit phantom_lib" where
  "demo_post_lib = demo_phantom_lib\<lparr>ph_lib := demo_lib\<lparr>rln_sha := (\<lambda>_. [])\<rparr>\<rparr>"

definition demo_post_gate :: phantom_gate where
  "demo_post_gate = \<lparr>gate_mode = Pass_Gate, gate_token = ''pass.t.9.h'', gate_nullifier = [],
     gate_quota = Some \<lparr>epoch = 0, ticket = ''t'', qt_signature = ''s''\<rparr>\<rparr>"

lemma demo_pass_parts: "split_on (CHR ''.'') ''pass.t.9.h'' = [''pass'', ''t'', ''9'', ''h'']" "dec 9 = ''9''"
  by code_simp+

lemma demo_pass: "fst (consume_deposit_token (\<lambda>_. ''h'') 5 ''pass.t.9.h'' [(''pass.t.9.h'', 9)]) = Inr ()"
  using parse_u64_dec [of 9] by (simp add: consume_deposit_token_def demo_pass_parts constant_time_eq_iff)

lemma demo_deposit_accepted:
  "fst (phantom_deposit demo_post_lib 5 demo_envelope demo_post_gate (demo_phantom (demo_state [] []))) = Inr ()"
proof -
  let ?m = "[(slot_id demo_envelope, [\<lparr>envelope = demo_envelope, se_expires_at = 7\<rparr>])]"
  have "utf8_len (ct demo_envelope) = 1" by (simp add: demo_envelope_def utf8_len_ascii demo_letters)
  then have fits: "try_deposit demo_envelope 5 ?m = (True, dd_deposit demo_envelope 5 ?m)"
    by (simp add: try_deposit_def live_bytes_def MAX_TOTAL_BYTES_def)
  obtain app where free: "rate_hit 5 ''phantom:deposit:global'' 20 1000 (demo_state [] []) = (False, app)"
    and acc: "accounts app = empty_accounts"
    by (simp add: rate_hit_def rate_limit_hit_def demo_state_def sat_add_u32_def)
  have tag: "is_blocked_tag t empty_accounts = Inr False" for t
    by (simp add: is_blocked_tag_def empty_accounts_def)
  have quota: "verify_and_consume_nullifier (\<lambda>_. ''s'') (\<lambda>_. []) 5 (\<lparr>epoch = 0, ticket = ''t'', qt_signature = ''s''\<rparr>, [], a) []
      = (Inr (), [([], 5 + NULLIFIER_TTL_MS)])" for a
    by (simp add: verify_and_consume_nullifier_def verify_ticket_signature_iff current_epoch_def EPOCH_WINDOW_MS_def
        compute_nullifier_def)
  have token: "utf8_len ''pass.t.9.h'' = 10" by (rule trans [OF utf8_len_ascii]) (code_simp, simp)
  obtain ps where pass: "consume_deposit_token (\<lambda>_. ''h'') 5 ''pass.t.9.h'' [(''pass.t.9.h'', 9)] = (Inr (), ps)"
    using demo_pass by (metis prod.collapse)
  show ?thesis
    unfolding phantom_deposit_def demo_phantom_def demo_post_gate_def demo_post_lib_def demo_phantom_lib_def demo_lib_def
    by (simp add: free acc tag quota token fits pass demo_envelope_valid open_gate_def MAX_GATE_TOKEN_LEN_def Let_def)
qed

theorem deposit_gated_witness:
  "is_ok (fst (consume_deposit_token (\<lambda>_. ''h'') 5 ''pass.t.9.h'' [(''pass.t.9.h'', 9)]))"
  using deposit_gated [where lib = demo_post_lib and now = 5 and env = demo_envelope and g = demo_post_gate
      and s = "demo_phantom (demo_state [] [])"] demo_deposit_accepted
  by (auto simp: demo_post_gate_def demo_post_lib_def demo_phantom_lib_def demo_phantom_def split: sum.split_asm prod.split_asm)

theorem deposits_cost_tokens_witness:
  "length (fst demo_phantom_run) + length (gs_cap (ph_gates (snd (snd demo_phantom_run)))) + length (ph_passes (snd (snd demo_phantom_run))) \<le> 1"
  using deposits_cost_tokens [OF demo_phantom_parts] by (simp add: demo_phantom_def)

theorem pass_single_use_witness:
  "accepted_of always (\<lambda>token. token) ''pass.t.9.h'' [(1, ''pass.t.9.h''), (2, ''pass.t.9.h'')]
     (fst (run_tries (consume_deposit_token (\<lambda>_. ''h'')) [(''pass.t.9.h'', 9)] [(1, ''pass.t.9.h''), (2, ''pass.t.9.h'')])) \<le> 1"
  by (rule pass_single_use) (simp add: clock_ok_def)

theorem deposit_then_claim_witness:
  "fst (claim (slot_id demo_envelope) 5 (dd_deposit demo_envelope 4 [])) = Some demo_envelope"
  using deposit_then_claim [of "[]" demo_envelope 5 4]
  by (simp add: live_count_def MAX_TOTAL_ENVELOPES_def ENVELOPE_TTL_MS_def)

end
