(* ===== verification/Foreign_Blocks.thy ===== *)
theory Foreign_Blocks
  imports Prekeys_Inv Dead_Drop_Inv
begin

text \<open>
  Publishing, blocking and depositing together (\<open>services/phantom.rs\<close>): the tag of a block is computed
  from the ML-KEM key in the blocker's own bundle, and the two signatures of a bundle are made with
  keys that the bundle itself names.  Nothing ties the ML-KEM key to the account that publishes it.
\<close>

section \<open>A published bundle is the stored one\<close>

lemma published_store:
  assumes "phantom_publish_prekey lib now user_id b db = (Ret (Inr r), db')"
  shows "db_ok db" "db' = db\<lparr>prekeys := AList.update user_id (json_text lib (JObj (bundle_json b)), now) (prekeys db)\<rparr>"
  using assms
  by (auto simp: phantom_publish_prekey_def publish_prekey_def
      split: outcome.splits sum.splits if_splits prod.splits)

section \<open>Rows of other accounts\<close>

text \<open>Removing blocks leaves the rows of the other accounts and adds none.\<close>

lemma remove_hints_rows:
  "db_ok db \<Longrightarrow> db_ok (snd (remove_hints lib user_id fp hs db))
   \<and> prekeys (snd (remove_hints lib user_id fp hs db)) = prekeys db
   \<and> set (blocks (snd (remove_hints lib user_id fp hs db))) \<subseteq> set (blocks db)
   \<and> {b \<in> set (blocks db). bl_user b \<noteq> user_id} \<subseteq> set (blocks (snd (remove_hints lib user_id fp hs db)))"
proof (induction hs arbitrary: db)
  case (Cons h hs)
  from Cons.IH [of "db\<lparr>blocks := filter (\<lambda>b. \<not> (bl_tag b = block_tag (sha256_hex lib) fp h \<and> bl_user b = user_id)) (blocks db)\<rparr>"] Cons.prems
  show ?case by (auto simp: remove_block_tag_def)
qed simp

lemma unblock_cases:
  obtains "snd (update_blocks lib now user_id [] hs db) = db"
    | fp where "snd (update_blocks lib now user_id [] hs db) = snd (remove_hints lib user_id fp hs db)"
proof (cases "\<exists>fp. owner_fingerprint lib user_id db = Ret (Inr fp)")
  case True
  then obtain fp where "owner_fingerprint lib user_id db = Ret (Inr fp)" ..
  then have "snd (update_blocks lib now user_id [] hs db) = snd (remove_hints lib user_id fp hs db)"
    by (simp add: update_blocks_def split: prod.split sum.split)
  then show ?thesis by (rule that(2))
next
  case False
  then have "snd (update_blocks lib now user_id [] hs db) = db"
    by (auto simp: update_blocks_def split: outcome.split sum.split)
  then show ?thesis by (rule that(1))
qed

lemma unblock_rows:
  assumes "db_ok db" and db': "db' = snd (update_blocks lib now user_id [] hs db)"
  shows "db_ok db' \<and> prekeys db' = prekeys db \<and> set (blocks db') \<subseteq> set (blocks db)
    \<and> {b \<in> set (blocks db). bl_user b \<noteq> user_id} \<subseteq> set (blocks db')"
proof -
  consider "db' = db" | fp where "db' = snd (remove_hints lib user_id fp hs db)"
    unfolding db' by (rule unblock_cases)
  then show ?thesis
  proof cases
    case 1
    with assms(1) show ?thesis by simp
  next
    case (2 fp)
    show ?thesis unfolding 2 by (rule remove_hints_rows [OF assms(1)])
  qed
qed

section \<open>A blocked deposit\<close>

lemma blocked_deposit_refused:
  assumes "is_blocked_tag (block_tag (ph_sha lib) (recipient_fp env) (sender_hint env)) (accounts (ph_app s)) = Inr True"
  shows "\<not> is_ok (fst (phantom_deposit lib now env g s))"
  using assms
  by (auto simp: phantom_deposit_def rate_hit_def Let_def is_ok_iff split: sum.splits option.splits prod.splits)

section \<open>Property\<close>

text \<open>C36: whoever knows an account's public ML-KEM key blocks any sender for that account.  The attacker
  publishes a bundle of its own that names the victim's ML-KEM key, signed with the attacker's keys,
  which the server accepts, and blocks the sender under it.  From then on every deposit of the
  sender for the victim is refused, although the victim never blocked it: the victim's own bundle
  is what it was, the victim's list of blocks does not show the tag, and no removal by the victim,
  of this hint or any others, lifts the block.\<close>

theorem foreign_block_sticks:
  fixes later :: nat and hints :: "string list"
  assumes "map_of (prekeys db) victim = Some (ser, since)" "read_bundle lib ser = Some own" "mallory \<noteq> victim"
    and "fingerprint_of_mlkem_hex lib (mlkem768_pk own) = Ret (Some fp)"
    and "mlkem768_pk forged = mlkem768_pk own"
    and "phantom_publish_prekey lib now mallory forged db = (Ret (Inr r), db1)"
    and "parse_json lib (json_text lib (JObj (bundle_json forged))) = Some (JObj (bundle_json forged))"
    and "pb_version forged < 2 ^ 32" "pb_updated_at forged < 2 ^ 64"
    and "is_hex64 hint" "count_block_tags mallory db1 = Inr n" "n < MAX_BLOCKS_PER_ACCOUNT"
    and "block_tag (sha256_hex lib) fp hint \<notin> set (map bl_tag (blocks db))"
  defines "db2 \<equiv> snd (update_blocks lib now mallory [hint] [] db1)"
  defines "db3 \<equiv> snd (update_blocks lib later victim [] hints db2)"
  shows "map_of (prekeys db3) victim = Some (ser, since)
    \<and> (\<forall>tags. list_block_tags victim db3 = Inr tags \<longrightarrow> block_tag (sha256_hex lib) fp hint \<notin> set tags)
    \<and> (\<forall>(plib :: 'dk phantom_lib) t env g s. ph_sha plib = sha256_hex lib \<and> accounts (ph_app s) = db3
         \<and> recipient_fp env = fp \<and> sender_hint env = hint \<longrightarrow> \<not> is_ok (fst (phantom_deposit plib t env g s)))"
proof -
  let ?tag = "block_tag (sha256_hex lib) fp hint"
  let ?row = "\<lparr>bl_tag = ?tag, bl_user = mallory, bl_created_at = now\<rparr>"
  note stored = published_store [OF assms(6)]
  have forged: "read_bundle lib (json_text lib (JObj (bundle_json forged))) = Some forged"
    using assms(7) bundle_roundtrip [OF assms(8,9)] by (simp add: read_bundle_def)
  have db2: "db2 = db1\<lparr>blocks := blocks db @ [?row]\<rparr>"
    unfolding db2_def stored(2) using stored forged assms(4,5,10-13)
    by (auto simp: update_blocks_def owner_fingerprint_def get_prekey_by_user_id_def add_block_tag_def update_conv')
  have ok: "db_ok db2" using stored by (simp add: db2)
  from unblock_rows [OF ok, of db3 lib later victim hints]
  have rows: "db_ok db3" "prekeys db3 = prekeys db2" "set (blocks db3) \<subseteq> set (blocks db2)"
    "{b \<in> set (blocks db2). bl_user b \<noteq> victim} \<subseteq> set (blocks db3)" by (simp_all add: db3_def)
  have keys: "map_of (prekeys db3) victim = Some (ser, since)"
    unfolding rows(2) using assms(1,3) stored(2) by (simp add: db2 update_conv')
  have row: "?row \<in> set (blocks db3)" using rows(4) assms(3) by (auto simp: db2)
  have hidden: "bl_tag b \<noteq> ?tag" if "b \<in> set (blocks db3)" "bl_user b = victim" for b
  proof -
    from that rows(3) assms(3) have "b \<in> set (blocks db)" by (auto simp: db2)
    with assms(13) show ?thesis by force
  qed
  have "is_blocked_tag ?tag db3 = Inr True" using rows(1) row by (force simp: is_blocked_tag_def)
  then have refused: "\<not> is_ok (fst (phantom_deposit plib t env g s))"
    if "ph_sha plib = sha256_hex lib" "accounts (ph_app s) = db3" "recipient_fp env = fp" "sender_hint env = hint"
    for plib :: "'dk phantom_lib" and t env g s
    using that by (intro blocked_deposit_refused) simp
  have unseen: "?tag \<notin> set tags" if listed: "list_block_tags victim db3 = Inr tags" for tags
  proof
    assume "?tag \<in> set tags"
    then obtain b where "b \<in> set (blocks db3)" "bl_user b = victim" "bl_tag b = ?tag"
      using listed by (auto simp: list_block_tags_def split: if_splits)
    with hidden show False by blast
  qed
  from keys unseen refused show ?thesis by blast
qed

section \<open>Witness\<close>

text \<open>The attacker's bundle: the victim's ML-KEM key beside another signing key.  The library reads back
  the two texts it writes and accepts the signatures.\<close>

definition demo_forged :: prekey_bundle where
  "demo_forged = demo_bundle\<lparr>ecdsa_p256_pk :=
     JObj [(''kty'', JStr ''EC''), (''crv'', JStr ''P-256''), (''x'', JStr ''m''), (''y'', JStr ''m'')]\<rparr>"

definition demo_forger :: key_lib where
  "demo_forger = demo_signs\<lparr>json_text := (\<lambda>v. if v = JObj (bundle_json demo_forged) then ''m'' else ''{}''),
     parse_json := (\<lambda>t. Some (JObj (bundle_json (if t = ''m'' then demo_forged else demo_bundle))))\<rparr>"

definition demo_mallory :: account_db where
  "demo_mallory = demo_keyed\<lparr>prekeys := [(''7'', ''{}'', 5), (''8'', ''m'', 6)]\<rparr>"

lemma demo_forged_published:
  "phantom_publish_prekey demo_forger 6 ''8'' demo_forged demo_keyed
     = (Ret (Inr [(''ok'', JBool True), (''version'', jnat 1)]), demo_mallory)"
  by (simp add: phantom_publish_prekey_def verify_prekey_bundle_def verify_ecdsa_p256_def jwk_to_verifying_key_def
      decode_b64url_def text_of_def json_defs trim_end_matches_def verify_mldsa65_def hex_decode_def utf8_len_def
      publish_prekey_def demo_forger_def demo_forged_def demo_signs_def demo_bundle_def demo_keyed_def demo_mallory_def
      empty_accounts_def)

theorem foreign_block_sticks_witness:
  "map_of (prekeys (snd (update_blocks demo_forger 9 ''7'' [] [replicate 64 (CHR ''a'')]
      (snd (update_blocks demo_forger 6 ''8'' [replicate 64 (CHR ''a'')] [] demo_mallory))))) ''7'' = Some (''{}'', 5)"
proof -
  have hexa: "is_hex64 (replicate 64 (CHR ''a''))"
    by (simp add: is_hex64_def utf8_len_ascii list_all_iff is_ascii_def is_ascii_hexdigit_def is_ascii_digit_def)
  have fp: "fingerprint_of_mlkem_hex demo_forger (mlkem768_pk demo_bundle) = Ret (Some ''f'')"
    by (simp add: fingerprint_of_mlkem_hex_def demo_forger_def demo_signs_def demo_bundle_def hex_decode_def utf8_len_def)
  have own: "read_bundle demo_forger ''{}'' = Some demo_bundle"
    using bundle_roundtrip [of demo_bundle] by (simp add: read_bundle_def demo_forger_def demo_bundle_def)
  have victim: "map_of (prekeys demo_keyed) ''7'' = Some (''{}'', 5)" and other: "''8'' \<noteq> ''7''"
    by (simp_all add: demo_keyed_def)
  have key: "mlkem768_pk demo_forged = mlkem768_pk demo_bundle" by (simp add: demo_forged_def)
  have reads: "parse_json demo_forger (json_text demo_forger (JObj (bundle_json demo_forged))) = Some (JObj (bundle_json demo_forged))"
    "pb_version demo_forged < 2 ^ 32" "pb_updated_at demo_forged < 2 ^ 64"
    by (simp_all add: demo_forger_def demo_forged_def demo_bundle_def)
  have room: "count_block_tags ''8'' demo_mallory = Inr 0" "0 < MAX_BLOCKS_PER_ACCOUNT"
    "block_tag (sha256_hex demo_forger) ''f'' (replicate 64 (CHR ''a'')) \<notin> set (map bl_tag (blocks demo_keyed))"
    by (simp_all add: count_block_tags_def demo_mallory_def demo_keyed_def empty_accounts_def MAX_BLOCKS_PER_ACCOUNT_def)
  show ?thesis
    by (rule foreign_block_sticks [OF victim own other fp key demo_forged_published reads hexa room, THEN conjunct1])
qed

end
