(* ===== verification/Socket_Loop.thy ===== *)
theory Socket_Loop
  imports Prekeys
begin

text \<open>
  The dispatcher of \<open>websocket/protocol.rs\<close> and the connections of \<open>websocket/mod.rs\<close>: what one text
  does to the shared state, and the server as a machine whose events are the frames of its sockets,
  their silence, the link previews that come in late and the evictions the administration asks for,
  in any order.  What the process draws at random for a request is the record \<open>draws\<close>; the functions
  of third-party code are the record \<open>server_lib\<close>, the derived reader of a payload among them.
\<close>

record draws =
  dr_file :: string
  dr_file2 :: string
  dr_message :: string

record server_lib =
  sl_keys :: key_lib
  sl_b64 :: "string \<Rightarrow> byte list option"
  sl_token_hash :: "string \<Rightarrow> string"
  sl_voter_hash :: voter_hash
  sl_payload :: "string \<Rightarrow> (nat \<times> json) option"

definition json_len :: "server_lib \<Rightarrow> json \<Rightarrow> nat" where
  "json_len lib v = utf8_len (json_text (sl_keys lib) v)"

section \<open>One request\<close>

definition answered :: "bool \<times> app_state \<Rightarrow> bool outcome \<times> app_state" where
  "answered r = (Ret (fst r), snd r)"

definition room_ops :: "nat list" where
  "room_ops = [33, 40, 41, 42, 43, 44, 45, 46, 47, 48, 49, 50, 51, 52, 57]"

text \<open>\<open>sid\<close> also names the channel of the connection that asks.\<close>

definition dispatch ::
  "server_lib \<Rightarrow> draws \<Rightarrow> nat \<Rightarrow> string \<Rightarrow> nat \<Rightarrow> json \<Rightarrow> app_state \<Rightarrow> bool outcome \<times> app_state" where
  "dispatch lib dr now sid opn d s =
     (if opn = 0 then (Ret False, try_send sid (WText (JObj [(''op'', JInt 0), (''d'', d)])) s)
      else if opn = 1 then (Ret False, try_send sid (WText (with_request_id (op_json 1 [(''ok'', JBool True)]) (request_id d))) s)
      else if opn = 2 then answered (identify_player (sl_token_hash lib) now sid d s)
      else if opn = 3 then answered (join_game (sl_voter_hash lib) now sid d s)
      else if opn = 4 then answered (leave_game now sid d s)
      else if opn = 5 then answered (report_kill now sid d s)
      else if opn = 6 then (Ret False, try_send sid (WText (with_request_id
             (op_json 6 [(''v'', JStr (latest_version (config s)))]) (request_id d))) s)
      else if opn = 7 then answered (send_chat_message (sl_b64 lib) (json_len lib) (dr_file dr) (dr_message dr) now sid d s)
      else if opn = 8 then answered (update_client_settings (sl_b64 lib) (dr_file dr, dr_file2 dr) now sid d s)
      else if opn = 18 then answered (send_room_history (sl_voter_hash lib) now sid d s)
      else if opn = 19 then answered (toggle_message_reaction now sid d s)
      else if opn = 53 then answered (vote_poll (sl_voter_hash lib) now sid d s)
      else if opn = 55 then answered (relay_room_signal (json_len lib) now sid d s)
      else if opn = 60 then answered (relay_cloud_sync_op (json_len lib) now sid d s)
      else if opn = 62 then answered (sync_peers_op now sid d s)
      else if opn = 21 then answered (delete_message now sid d s)
      else if opn = 29 then answered (edit_message (json_len lib) now sid d s)
      else if opn = 28 then answered (fst (request_link_preview now sid d s))
      else if opn = 31 then answered (update_typing_state now sid d s)
      else if opn = 32 then answered (upload_room_icon (sl_b64 lib) (dr_file dr) now sid d s)
      else if opn = 35 then answered (request_public_profiles now sid d s)
      else if opn = 36 then publish_prekey_op (sl_keys lib) now sid d s
      else if opn = 37 then answered (fetch_prekey_op (sl_keys lib) now sid d s)
      else if opn = 39 then block_update_op (sl_keys lib) now sid d s
      else if opn \<in> set room_ops then answered (room_step (sl_b64 lib) (dr_file dr) now sid opn d s)
      else if opn = 98 then answered (update_voice_chat now sid d s)
      else if opn = 100 then answered (update_mute_state sid d s)
      else if opn = 110 then answered (update_call_media_state now sid d s)
      else if opn = 111 then answered (relay_call_signal (json_len lib) now sid d s)
      else if opn = 112 then answered (update_call_deafened_state sid d s)
      else if opn = 101 then answered (admin_status sid d s)
      else if opn = 104 then answered (admin_broadcast sid d s)
      else if opn = 105 then answered (stats_query now sid d s)
      else (Ret False, try_send sid (WText (op_json 0 [(''error'', JStr ''Unknown operation.'')])) s))"

definition process_message ::
  "server_lib \<Rightarrow> draws \<Rightarrow> nat \<Rightarrow> string \<Rightarrow> string \<Rightarrow> app_state \<Rightarrow> bool outcome \<times> app_state" where
  "process_message lib dr now sid raw s =
    (case sl_payload lib raw of None \<Rightarrow> (Ret False, s) | Some (opn, d) \<Rightarrow>
     (case (if opn \<in> {0, 1, 2, 6} then (True, s) else revalidate_session now sid s) of (valid, s) \<Rightarrow>
      if \<not> valid then (Ret True, try_send sid (WText (op_json 999 [(''reason'', JStr ''Session expired.'')])) s)
      else dispatch lib dr now sid opn d s))"

section \<open>The connections\<close>

text \<open>A frame as it is received; binary data come as their lossy text.\<close>

datatype socket_frame = Text_Frame string | Ping_Frame | Close_Frame | Error_Frame

text \<open>What is left of the loop after a frame: it goes on, it ends, or its task has panicked.\<close>

datatype socket_fate = Listening | Finished | Crashed

definition receive_frame ::
  "server_lib \<Rightarrow> draws \<Rightarrow> nat \<Rightarrow> string \<Rightarrow> socket_frame \<Rightarrow> app_state \<Rightarrow> socket_fate \<times> app_state" where
  "receive_frame lib dr now sid f s =
    (case f of
       Ping_Frame \<Rightarrow> (Listening, s)
     | Close_Frame \<Rightarrow> (Finished, s)
     | Error_Frame \<Rightarrow> (Finished, s)
     | Text_Frame raw \<Rightarrow>
      (case rate_hit now (''ws-msg:session:'' @ sid) 1200 60000 s of (hit, s) \<Rightarrow>
       if hit then (Finished, try_send sid (WText (op_json 0 [(''error'', JStr ''Rate limited.'')])) s)
       else (case process_message lib dr now sid raw s of
           (Ret True, s) \<Rightarrow> (Finished, try_send sid WClose s)
         | (Ret False, s) \<Rightarrow> (Listening, s)
         | (_, s) \<Rightarrow> (Crashed, s))))"

record server =
  sv_app :: app_state
  sv_open :: "(string \<times> nat) list"

definition idle_timeout :: "app_state \<Rightarrow> nat" where
  "idle_timeout s = max 10000 (max 1000 (heartbeat_interval (config s)) * 3)"

datatype server_event =
    Connect_Socket string
  | Receive string socket_frame draws
  | Fall_Silent string
  | Preview_Arrived preview_task link_preview
  | Evict string string
  | End_Sessions string string

definition finish_socket :: "nat \<Rightarrow> string \<Rightarrow> server \<Rightarrow> server" where
  "finish_socket now sid sv = sv\<lparr>sv_app := disconnect_player now sid (sv_app sv), sv_open := AList.delete sid (sv_open sv)\<rparr>"

definition server_step :: "server_lib \<Rightarrow> nat \<Rightarrow> server_event \<Rightarrow> server \<Rightarrow> server" where
  "server_step lib now ev sv =
    (case ev of
       Connect_Socket sid \<Rightarrow>
         (if map_of (sv_open sv) sid \<noteq> None then sv
          else (case register_connection sid (sv_app sv) of
             (False, s) \<Rightarrow> sv\<lparr>sv_app := s\<rparr>
           | (True, s) \<Rightarrow> sv\<lparr>sv_app := try_send sid (WText (op_json 10 [(''heartbeat_interval'',
                 jnat (heartbeat_interval (config s)))])) s, sv_open := AList.update sid now (sv_open sv)\<rparr>))
     | Receive sid f dr \<Rightarrow>
         (if map_of (sv_open sv) sid = None then sv
          else (case receive_frame lib dr now sid f (sv_app sv) of
             (Listening, s) \<Rightarrow> sv\<lparr>sv_app := s, sv_open := AList.update sid now (sv_open sv)\<rparr>
           | (Finished, s) \<Rightarrow> finish_socket now sid (sv\<lparr>sv_app := s\<rparr>)
           | (Crashed, s) \<Rightarrow> sv\<lparr>sv_app := s, sv_open := AList.delete sid (sv_open sv)\<rparr>))
     | Fall_Silent sid \<Rightarrow>
         (case map_of (sv_open sv) sid of
            None \<Rightarrow> sv
          | Some seen \<Rightarrow> if now - seen \<ge> idle_timeout (sv_app sv) then finish_socket now sid sv else sv)
     | Preview_Arrived task preview \<Rightarrow> sv\<lparr>sv_app := finish_preview task preview (sv_app sv)\<rparr>
     | Evict user_id reason \<Rightarrow> sv\<lparr>sv_app := evict_user now user_id reason (sv_app sv)\<rparr>
     | End_Sessions user_id reason \<Rightarrow> sv\<lparr>sv_app := disconnect_user_sessions now user_id reason (sv_app sv)\<rparr>)"

text \<open>A run: each event with the clock at which it happens.\<close>

definition server_run :: "server_lib \<Rightarrow> (nat \<times> server_event) list \<Rightarrow> server \<Rightarrow> server" where
  "server_run lib evs sv = fold (\<lambda>(now, ev). server_step lib now ev) evs sv"

end
