(* ===== verification/Room_Authority.thy ===== *)
theory Room_Authority
  imports Room_Roles_Inv
begin

text \<open>
  Who may change a community room, and what the operations achieve.  \<open>entitled\<close> is the access
  policy: which fields of a room's record its administrators, moderators and owner may change;
  \<open>authorised\<close> says that a step kept to it, for every room.  Then the effect of a ban, a timeout and
  a transfer, and the one hole: a room whose record cannot be read is treated as a classic one.
\<close>

section \<open>The policy\<close>

definition entitled :: "room_record \<Rightarrow> string \<Rightarrow> room_record \<Rightarrow> bool" where
  "entitled r u r' \<longleftrightarrow> room_kind r' = Community
     \<and> (roles r' \<noteq> roles r \<or> mod_permissions r' \<noteq> mod_permissions r \<or> chat_locked r' \<noteq> chat_locked r
        \<or> room_calls_enabled r' \<noteq> room_calls_enabled r \<or> room_description r' \<noteq> room_description r
        \<longrightarrow> manages (role_in_room r u))
     \<and> (room_title r' \<noteq> room_title r \<longrightarrow> trim (room_title r) = [] \<or> manages (role_in_room r u))
     \<and> (owner_id r' \<noteq> owner_id r \<longrightarrow> owner_id r = Some u)
     \<and> (banned r' \<noteq> banned r \<longrightarrow> manages (role_in_room r u)
        \<or> role_in_room r u = Moderator \<and> can_ban (mod_permissions r))
     \<and> (timeouts r' \<noteq> timeouts r \<longrightarrow> manages (role_in_room r u)
        \<or> role_in_room r u = Moderator \<and> can_mute (mod_permissions r))
     \<and> (\<forall>ow. owner_id r = Some ow \<and> map_of (banned r) ow = None \<longrightarrow> map_of (banned r') ow = None)"

definition authorised :: "app_state \<Rightarrow> string \<Rightarrow> app_state \<Rightarrow> bool" where
  "authorised s sid s' \<longleftrightarrow> (\<forall>rid r. map_of (rooms s) rid = Some r \<and> room_kind r = Community \<longrightarrow>
     (case map_of (rooms s') rid of
        None \<Rightarrow> (\<exists>p. map_of (players s) sid = Some p \<and> in_room rid p \<and> (owner_id r = Some (ps_user_id p) \<or> ps_is_admin p))
      | Some r' \<Rightarrow> r' = r \<or> (\<exists>p. map_of (players s) sid = Some p \<and> in_room rid p \<and> entitled r (ps_user_id p) r')))"

lemma role_in_room_id [simp]: "role_in_room (r\<lparr>room_id := x\<rparr>) u = role_in_room r u"
  by (simp add: role_in_room_def)

lemma entitled_id [simp]: "entitled (r\<lparr>room_id := x\<rparr>) u r' = entitled r u r'"
  by (simp add: entitled_def)

lemma authorised_same: "rooms s' = rooms s \<Longrightarrow> authorised s sid s'"
  by (simp add: authorised_def)

lemma identity_player:
  "session_identity s sid = Some (u, n) \<Longrightarrow> \<exists>p. map_of (players s) sid = Some p \<and> ps_user_id p = u \<and> ps_username p = n"
  by (auto simp: session_identity_def split: option.splits if_splits)

lemma resolve_in_room:
  "resolve_room_for_session s sid g = Inr rid \<Longrightarrow> map_of (players s) sid = Some p \<Longrightarrow> in_room rid p"
  using resolve_room_Inr [of s sid g rid] by auto

lemma authorised_update:
  assumes "map_of (players s) sid = Some p" "in_room rid p" "find_room rid s = Some room"
    and "entitled room (ps_user_id p) room'"
    and "\<And>k. map_of (rooms s') k = (if k = rid \<and> b then Some room' else map_of (rooms s) k)"
  shows "authorised s sid s'"
proof -
  obtain r where r: "map_of (rooms s) rid = Some r" "room = r\<lparr>room_id := rid\<rparr>"
    using assms(3) by (auto simp: find_room_def split: if_splits)
  then have "entitled r (ps_user_id p) room'" using assms(4) by simp
  then show ?thesis
    using assms(1,2,5) r(1) by (auto simp: authorised_def split: option.splits)
qed

lemma authorised_persist:
  assumes "session_identity s sid = Some (u, n)" "resolve_room_for_session s sid g = Inr rid"
    "find_room rid s = Some room" "entitled room u room'" "rooms t = rooms s"
  shows "authorised s sid (snd (persist_and_announce opn msg sid d rid room' t))"
proof -
  obtain p where p: "map_of (players s) sid = Some p" "ps_user_id p = u" using identity_player [OF assms(1)] by auto
  show ?thesis
    by (rule authorised_update [where b = "rooms_write_ok t", OF p(1) resolve_in_room [OF assms(2) p(1)] assms(3)])
      (use p(2) assms(4,5) in \<open>auto simp: persist_rooms\<close>)
qed

text \<open>Bringing a record up to date changes its member list and a blank title only.\<close>

definition synced :: "app_state \<Rightarrow> string \<Rightarrow> room_record \<Rightarrow> room_record" where
  "synced s rid room = (if trim (room_title room) = [] then room\<lparr>room_title := rid\<rparr> else room)
     \<lparr>room_members := room_usernames s rid None\<rparr>"

lemma synced_simps [simp]:
  "roles (synced s rid room) = roles room" "banned (synced s rid room) = banned room"
  "timeouts (synced s rid room) = timeouts room" "owner_id (synced s rid room) = owner_id room"
  "room_kind (synced s rid room) = room_kind room" "chat_locked (synced s rid room) = chat_locked room"
  "mod_permissions (synced s rid room) = mod_permissions room"
  "room_calls_enabled (synced s rid room) = room_calls_enabled room"
  "room_description (synced s rid room) = room_description room"
  "trim (room_title room) \<noteq> [] \<Longrightarrow> room_title (synced s rid room) = room_title room"
  by (simp_all add: synced_def)

lemma sync_rooms_synced:
  "find_room rid s = Some room \<Longrightarrow> rooms (snd (sync_room_record rid s)) =
     (if rooms_write_ok s then AList.update rid (synced s rid room) (rooms s) else rooms s)"
  by (simp add: sync_rooms synced_def Let_def)

lemma room_record_remove [simp]: "find_room rid (remove_user_from_room g u reason s) = find_room rid s"
  by (simp add: find_room_def)

lemma removal_rooms:
  assumes "find_room rid s = Some room"
  shows "rooms (snd (removal_tail opn reason sid d rid t n room' s)) =
    (if rooms_write_ok s then AList.update rid (synced (remove_user_from_room rid t reason s) rid room) (rooms s)
     else rooms s)"
  using sync_rooms_synced [of rid "remove_user_from_room rid t reason s" room] assms
  by (simp add: removal_tail_rooms)

section \<open>Every handler keeps to the policy\<close>

lemma community_authorised:
  assumes "\<And>m actor name rid room. session_identity s sid = Some (actor, name) \<Longrightarrow>
        resolve_room_for_session s sid (str_field ''gameId'' d) = Inr rid \<Longrightarrow>
        find_room rid s = Some room \<Longrightarrow> room_kind room = Community \<Longrightarrow>
        authorised s sid (snd (body actor name rid room (s\<lparr>limits := m\<rparr>)))"
  shows "authorised s sid (snd (community_op b l w opn km now sid d body s))"
  by (rule community_op_rule) (use assms in \<open>auto intro: authorised_same\<close>)

lemma authorised_respond [simp]: "authorised s sid (respond_to_sender x j t) = authorised s sid t"
  "authorised s sid (t\<lparr>limits := m\<rparr>) = authorised s sid t" "authorised s sid s"
  "authorised s sid (broadcast_to_room g j t) = authorised s sid t"
  by (simp_all add: authorised_def)

lemma role_admin: "role_in_room r u = Administrator \<Longrightarrow> owner_id r \<noteq> Some u \<Longrightarrow> map_of (roles r) u = Some Administrator"
  by (auto simp: role_in_room_def split: option.splits) (cases "map_of (roles r) u"; simp)

lemma can_moderate_roles:
  "can_moderate r a t Ban \<Longrightarrow> manages a \<or> a = Moderator \<and> can_ban (mod_permissions r)"
  "can_moderate r a t Mute \<Longrightarrow> manages a \<or> a = Moderator \<and> can_mute (mod_permissions r)"
  by (auto simp: can_moderate_def manages_def split: room_role.splits if_splits)

text \<open>In a well-formed room nobody can moderate the owner except the owner.\<close>

lemma owner_not_moderated:
  assumes "room_inv room" "room_kind room = Community" "owner_id room = Some ow" "u \<noteq> ow"
  shows "\<not> can_moderate room (role_in_room room u) (role_in_room room ow) a"
proof (rule room_inv_cases [OF assms(1,2)], goal_cases)
  case (1 w)
  have "role_in_room room u \<noteq> Administrator"
  proof
    assume "role_in_room room u = Administrator"
    with assms(3,4) have "map_of (roles room) u = Some Administrator" by (intro role_admin) auto
    with 1(1,3) assms(3,4) show False by auto
  qed
  moreover have "role_in_room room ow = Administrator" using assms(3) by (simp add: role_in_room_def)
  ultimately show ?case by (cases "role_in_room room u") (auto simp: can_moderate_def)
qed

lemma set_room_rooms:
  "set_room_record rid room s = (x, s') \<Longrightarrow>
     rooms s' = (if rooms_write_ok s then AList.update rid room (rooms s) else rooms s)
     \<and> rooms_write_ok s' = rooms_write_ok s \<and> rooms_read_ok s' = rooms_read_ok s \<and> players s' = players s
     \<and> (x = Inr () \<longleftrightarrow> rooms_write_ok s)"
  by (auto simp: set_room_record_def split: if_splits)

lemma entitled_refl [simp]: "room_kind r = Community \<Longrightarrow> entitled r u r"
  by (auto simp: entitled_def)

text \<open>The changes the handlers make, against the policy.\<close>

lemma entitled_managed:
  assumes "manages (role_in_room r u)" "room_kind r = Community"
  shows "entitled r u (r\<lparr>room_description := x\<rparr>)" "entitled r u (r\<lparr>chat_locked := c\<rparr>)"
    "entitled r u (r\<lparr>mod_permissions := p\<rparr>)" "entitled r u (r\<lparr>room_calls_enabled := c\<rparr>)"
    "entitled r u (r\<lparr>roles := m\<rparr>)" "entitled r u (r\<lparr>banned := AList.delete k (banned r)\<rparr>)"
  using assms by (auto simp: entitled_def)

lemma entitled_muted:
  "can_moderate r (role_in_room r u) t Mute \<Longrightarrow> room_kind r = Community \<Longrightarrow> entitled r u (r\<lparr>timeouts := m\<rparr>)"
  using can_moderate_roles(2) [of r "role_in_room r u" t] by (auto simp: entitled_def)

lemma authorised_set_room:
  assumes "set_room_record rid room' t = (x, t')" "session_identity s sid = Some (u, n)"
    "resolve_room_for_session s sid g = Inr rid" "find_room rid s = Some room" "entitled room u room'" "rooms t = rooms s"
  shows "authorised s sid t'"
proof -
  obtain p where p: "map_of (players s) sid = Some p" "ps_user_id p = u" using identity_player [OF assms(2)] by auto
  show ?thesis
    by (rule authorised_update [where b = "rooms_write_ok t", OF p(1) resolve_in_room [OF assms(3) p(1)] assms(4)])
      (use p(2) assms(5,6) set_room_rooms [OF assms(1)] in auto)
qed

lemma authorised_description: "authorised s sid (snd (update_room_description now sid d s))"
  unfolding update_room_description_def
  by (rule community_authorised)
    (auto simp: Let_def broadcast_room_record_to_members_def split: prod.splits sum.splits
      elim!: authorised_set_room intro: entitled_managed)

lemma authorised_persisted:
  "authorised s sid (snd (set_chat_lock now sid d s))" "authorised s sid (snd (set_moderator_permissions now sid d s))"
  "authorised s sid (snd (set_calls_enabled now sid d s))" "authorised s sid (snd (unban_member now sid d s))"
  "authorised s sid (snd (unmute_member now sid d s))" "authorised s sid (snd (timeout_member now sid d s))"
  "authorised s sid (snd (set_member_role now sid d s))"
  unfolding set_chat_lock_def set_moderator_permissions_def set_calls_enabled_def unban_member_def
    unmute_member_def timeout_member_def set_member_role_def
  by (rule_tac [!] community_authorised)
    (auto simp: Let_def split: sum.splits option.splits
      intro!: authorised_persist intro: entitled_managed entitled_muted)

lemma authorised_call_access: "authorised s sid (snd (set_call_access now sid d s))"
  unfolding set_call_access_def
  by (rule community_authorised) (auto simp: Let_def intro!: authorised_same)

lemma entitled_synced:
  "entitled r u r' \<Longrightarrow> room_title r' = room_title r \<Longrightarrow> entitled r u (synced t rid r')"
  unfolding entitled_def by (cases "trim (room_title r) = []") simp_all

lemma authorised_removal:
  assumes "session_identity s sid = Some (u, n)" "resolve_room_for_session s sid g = Inr rid"
    "find_room rid s = Some room" "find_room rid t = Some room'" "entitled room u room'"
    "room_title room' = room_title room" "\<And>k. k \<noteq> rid \<Longrightarrow> map_of (rooms t) k = map_of (rooms s) k"
    "rooms_write_ok t \<or> rooms t = rooms s"
  shows "authorised s sid (snd (removal_tail opn reason sid d rid tg tn room0 t))"
proof -
  obtain p where p: "map_of (players s) sid = Some p" "ps_user_id p = u" using identity_player [OF assms(1)] by auto
  show ?thesis
    by (rule authorised_update [where b = "rooms_write_ok t", OF p(1) resolve_in_room [OF assms(2) p(1)] assms(3)
        entitled_synced [OF assms(5,6), folded p(2)]])
      (use assms(7,8) removal_rooms [OF assms(4)] in auto)
qed

lemma authorised_kick: "authorised s sid (snd (kick_member now sid d s))"
  unfolding kick_member_def
  by (rule community_authorised)
    (auto simp: Let_def split: sum.splits intro!: authorised_removal)

lemma set_room_find:
  "set_room_record rid room s = (Inr (), s') \<Longrightarrow> rooms_read_ok s \<Longrightarrow> find_room rid s' = Some (room\<lparr>room_id := rid\<rparr>)"
  using set_room_rooms [of rid room s "Inr ()" s'] by (simp add: find_room_def)

lemma find_room_read: "find_room rid s = Some room \<Longrightarrow> rooms_read_ok s"
  by (simp add: find_room_def split: if_splits)

lemma entitled_room_id: "entitled r u r' \<Longrightarrow> entitled r u (r'\<lparr>room_id := x\<rparr>)"
  by (simp add: entitled_def)

lemma entitled_ban:
  assumes "room_inv room" "room_kind room = Community"
    "can_moderate room (role_in_room room u) (role_in_room room t) Ban" "t \<noteq> u"
  shows "entitled room u (room\<lparr>banned := AList.update t tn (banned room)\<rparr>)"
  using can_moderate_roles(1) [OF assms(3)] owner_not_moderated [OF assms(1,2), of t u Ban] assms
  by (auto simp: entitled_def)

lemma authorised_ban:
  assumes inv: "rooms_inv s"
  shows "authorised s sid (snd (ban_member now sid d s))"
  unfolding ban_member_def
proof (rule community_authorised, goal_cases)
  case (1 m actor name rid room)
  note room = rooms_inv_record [OF inv 1(3)]
  have rem: "authorised s sid (snd (removal_tail 43 ''banned'' sid d rid tg tn room0 t'))"
    if set: "set_room_record rid room' (s\<lparr>limits := m\<rparr>) = (Inr (), t')" and ent: "entitled room actor room'"
      and title: "room_title room' = room_title room" for room0 room' t' tg tn
    by (rule authorised_removal [OF 1(1,2,3)
          set_room_find [OF set, simplified, OF find_room_read [OF 1(3)]] entitled_room_id [OF ent]])
      (use set_room_rooms [OF set] title in auto)
  show ?case
    using 1 room
    by (auto simp: Let_def split: sum.splits prod.splits intro!: rem entitled_ban elim!: authorised_set_room)
qed

lemma authorised_transfer: "authorised s sid (snd (transfer_ownership now sid d s))"
  unfolding transfer_ownership_def
  by (rule community_authorised)
    (auto simp: Let_def split: sum.splits intro!: authorised_persist simp: entitled_def manages_def role_in_room_def)

lemma authorised_delete: "authorised s sid (snd (delete_room_op now sid d s))"
  unfolding delete_room_op_def
proof (rule community_authorised, goal_cases)
  case (1 m actor name rid room)
  obtain p where p: "map_of (players s) sid = Some p" "ps_user_id p = actor" "in_room rid p"
    using identity_player [OF 1(1)] resolve_in_room [OF 1(2)] by auto
  obtain r where r: "map_of (rooms s) rid = Some r" "owner_id room = owner_id r"
    using 1(3) by (auto simp: find_room_def split: if_splits)
  have del: "authorised s sid t'" if "delete_room rid t = (x, t')" "rooms t = rooms s"
    "owner_id room = Some actor \<or> ps_is_admin p" for t x t'
    using that p r by (auto simp: delete_room_def authorised_def split: if_splits option.splits)
  have frame: "authorised s sid (t\<lparr>room_messages := x\<rparr>) = authorised s sid t"
    "authorised s sid (t\<lparr>players := y\<rparr>) = authorised s sid t" "authorised s sid (send_all cs w t) = authorised s sid t"
    for t x y cs w by (simp_all add: authorised_def)
  show ?case
    using p(1)
    by (auto simp: Let_def frame remove_file_def split: prod.splits sum.splits option.splits elim!: del)
qed

text \<open>Creating a room never touches a room that exists.\<close>

lemma authorised_frame: "(\<And>k r. map_of (rooms s) k = Some r \<Longrightarrow> map_of (rooms s') k = Some r) \<Longrightarrow> authorised s sid s'"
  by (auto simp: authorised_def)

lemma store_icon_eq:
  "store_room_icon_from_payload b64 uuid d rid s = (x, s') \<Longrightarrow> rooms s' = rooms s"
  using store_icon_rooms(1) [of b64 uuid d rid s] by simp

lemma create_if_absent_rooms:
  "create_room_if_absent rid room s = (x, s') \<Longrightarrow>
     (x = Inr True \<longrightarrow> map_of (rooms s) rid = None \<and> rooms s' = AList.update rid room (rooms s))
     \<and> (x \<noteq> Inr True \<longrightarrow> s' = s)"
  by (auto simp: create_room_if_absent_def split: if_splits)

lemma create_icon_frame:
  assumes "k \<noteq> rid"
  shows "map_of (rooms (snd (case store_room_icon_from_payload decode uuid d rid s of
             (Inr (Some icon), s) \<Rightarrow> (room\<lparr>room_icon := Some icon\<rparr>,
                snd (set_room_record rid (room\<lparr>room_icon := Some icon\<rparr>) s))
           | (_, s) \<Rightarrow> (room, s)))) k = map_of (rooms s) k"
  using assms
  by (auto split: prod.splits sum.splits option.splits dest!: store_icon_eq)
    (simp add: set_room_record_def)

lemma persist_new_room_frame:
  assumes "map_of (rooms s) k = Some r"
  shows "map_of (rooms (snd (persist_new_room b64 uuid rid room sid d s))) k = Some r"
proof (cases "create_room_if_absent rid room s")
  case (Pair a s1)
  note new = create_if_absent_rooms [OF Pair]
  show ?thesis
  proof (cases "a = Inr True")
    case True
    with new assms have k: "k \<noteq> rid" "map_of (rooms s1) k = Some r" by auto
    with Pair True show ?thesis
      using create_icon_frame [OF k(1), where s = s1 and d = d and room = room and uuid = uuid and decode = b64]
      by (simp add: persist_new_room_def split_beta)
  next
    case False
    with Pair new assms show ?thesis by (auto simp: persist_new_room_def split: sum.split bool.split)
  qed
qed

lemma authorised_create: "authorised s sid (snd (create_room b64 uuid now sid d s))"
  by (rule authorised_frame)
    (auto simp: create_room_def Let_def rate_hit_def persist_new_room_frame split: prod.split option.split sum.split)

lemma retitle_rooms:
  assumes "find_room rid s = Some room"
  shows "rooms (snd (retitle_room rid title req sid s)) =
    (if rooms_write_ok s then AList.update rid ((synced s rid room)\<lparr>room_title := title\<rparr>) (rooms s) else rooms s)"
  using assms
  by (auto simp: retitle_room_def sync_room_record_def set_room_record_def synced_def Let_def
      broadcast_room_record_to_members_def split: sum.splits prod.splits if_splits)

lemma retitle_frame:
  "k \<noteq> rid \<Longrightarrow> map_of (rooms (snd (retitle_room rid title req sid s))) k = map_of (rooms s) k"
  by (auto simp: retitle_room_def sync_room_record_def set_room_record_def Let_def
      broadcast_room_record_to_members_def split: sum.splits prod.splits if_splits)

lemma authorised_retitle:
  assumes p: "map_of (players s) sid = Some p" "in_room rid p" and read: "rooms_read_ok s"
    and role: "\<And>room. find_room rid s = Some room \<Longrightarrow> room_kind room = Community \<Longrightarrow> manages (role_in_room room (ps_user_id p))"
  shows "authorised s sid (snd (retitle_room rid title req sid s))"
proof (cases "find_room rid s")
  case None
  then have "map_of (rooms s) rid = None" using read by (simp add: find_room_def)
  then show ?thesis by (intro authorised_frame) (metis option.distinct(1) retitle_frame)
next
  case (Some room)
  show ?thesis
  proof (cases "room_kind room = Community")
    case True
    with role Some have "entitled room (ps_user_id p) ((synced s rid room)\<lparr>room_title := title\<rparr>)"
      by (simp add: entitled_def)
    then show ?thesis
      by (rule authorised_update [where b = "rooms_write_ok s", OF p Some]) (simp add: retitle_rooms [OF Some])
  next
    case False
    then have "map_of (rooms s) rid = Some r \<Longrightarrow> room_kind r \<noteq> Community" for r
      using Some read by (auto simp: find_room_def)
    then show ?thesis
      unfolding authorised_def using retitle_frame [of _ rid title req sid s]
      by (metis (mono_tags, lifting) option.simps(5))
  qed
qed

lemma authorised_start:
  "rooms s = rooms s2 \<Longrightarrow> players s = players s2 \<Longrightarrow> authorised s sid t = authorised s2 sid t"
  by (simp only: authorised_def)

lemma authorised_title:
  assumes "rooms_read_ok s"
  shows "authorised s sid (snd (update_room_title now sid d s))"
proof (cases "resolve_room_for_session s sid (str_field ''gameId'' d)")
  case (Inl m)
  then show ?thesis by (auto simp: update_room_title_def Let_def rate_hit_def split: prod.splits)
next
  case (Inr rid)
  with resolve_room_Inr [OF Inr] obtain p where p: "map_of (players s) sid = Some p" "in_room rid p" by auto
  have "authorised s sid (snd (retitle_room rid title req sid (s\<lparr>limits := m\<rparr>)))"
    if "\<not> (case find_room rid s of Some room \<Rightarrow> room_kind room = Community \<and> \<not> manages (role_in_room room (ps_user_id p))
           | None \<Rightarrow> False)" for title req m
  proof -
    have "authorised (s\<lparr>limits := m\<rparr>) sid (snd (retitle_room rid title req sid (s\<lparr>limits := m\<rparr>)))"
      by (rule authorised_retitle) (use p assms that in auto)
    then show ?thesis by (rule authorised_start [THEN iffD1, rotated 2]) simp_all
  qed
  with Inr p show ?thesis
    by (auto simp: update_room_title_def Let_def rate_hit_def split: prod.splits)
qed

lemma authorised_step:
  "rooms_inv s \<Longrightarrow> rooms_read_ok s \<Longrightarrow> authorised s sid (snd (room_step b64 uuid now sid opn d s))"
  by (rule room_step_rule)
    (simp_all add: authorised_title authorised_create authorised_description authorised_persisted authorised_kick
      authorised_ban authorised_transfer authorised_call_access authorised_delete)

section \<open>Properties\<close>

lemma community_op_body:
  assumes "rate_limit_hit now (b @ '':session:'' @ sid) l w (limits s) = (False, m)"
    "session_identity s sid = Some (actor, name)" "resolve_room_for_session s sid (str_field ''gameId'' d) = Inr rid"
    "find_room rid s = Some room" "room_kind room = Community"
  shows "community_op b l w opn km now sid d body s = body actor name rid room (s\<lparr>limits := m\<rparr>)"
  using assms by (simp add: community_op_def rate_hit_def)

lemma persist_find:
  "rooms_write_ok s \<Longrightarrow> rooms_read_ok s \<Longrightarrow>
   find_room rid (snd (persist_and_announce opn msg sid d rid room s)) = Some (room\<lparr>room_id := rid\<rparr>)"
  by (auto simp: persist_and_announce_def set_room_record_def broadcast_room_record_to_members_def find_room_def Let_def)

lemma removal_players [simp]:
  "players (snd (removal_tail opn reason sid d rid t tn room s)) = players (remove_user_from_room rid t reason s)"
  by (auto simp: removal_tail_def broadcast_member_removed_def sync_room_record_def set_room_record_def Let_def)

lemma removed_sessions:
  assumes "p \<in> set (vals (players (remove_user_from_room rid u reason s)))" "ps_user_id p = u"
  shows "\<not> in_room rid p"
proof -
  obtain q where "p = (if ps_user_id q = u then q\<lparr>ps_rooms := removeAll rid (ps_rooms q)\<rparr> else q)"
    using assms(1) by (auto simp: remove_user_from_room_def Let_def map_vals_def)
  then show ?thesis using assms(2) by (cases "ps_user_id q = u") (simp_all add: in_room_def)
qed

lemma removal_find:
  assumes "find_room rid s = Some room" "rooms_write_ok s"
  shows "find_room rid (snd (removal_tail opn reason sid d rid t tn room' s))
    = Some ((synced (remove_user_from_room rid t reason s) rid room)\<lparr>room_id := rid\<rparr>)"
proof -
  have "rooms_read_ok (snd (removal_tail opn reason sid d rid t tn room' s))"
    using find_room_read [OF assms(1)]
    by (auto simp: removal_tail_def broadcast_member_removed_def sync_room_record_def set_room_record_def Let_def)
  then show ?thesis using removal_rooms [OF assms(1)] assms(2) by (simp add: find_room_def)
qed

text \<open>The role invariant holds in every community room after any run of room operations by
  any sessions, successful or refused: one administrator, who is the owner, at most five moderators
  and three sub-administrators, and no explicit entry for plain members.\<close>

theorem room_roles_invariant: "rooms_inv s \<Longrightarrow> rooms_inv (room_run b64 reqs s)"
  by (rule rooms_inv_run)


text \<open>C18: a ban by someone entitled takes effect at once: the record read back carries the ban, the
  banned user cannot speak at any time, and none of their sessions is in the room any more.\<close>

theorem ban_effective:
  assumes "rate_limit_hit now (''ban'' @ '':session:'' @ sid) 10 30000 (limits s) = (False, m)"
    and "session_identity s sid = Some (actor, name)"
    and "resolve_room_for_session s sid (str_field ''gameId'' d) = Inr rid"
    and "find_room rid s = Some room" "room_kind room = Community" "rooms_write_ok s"
    and "resolve_target s d = Inr (t, tn)" "t \<noteq> actor"
    and "can_moderate room (role_in_room room actor) (role_in_room room t) Ban"
  shows "\<exists>r. find_room rid (snd (ban_member now sid d s)) = Some r \<and> map_of (banned r) t = Some tn
      \<and> (\<forall>at. \<not> can_speak at r t)
      \<and> (\<forall>p \<in> set (vals (players (snd (ban_member now sid d s)))). ps_user_id p = t \<longrightarrow> \<not> in_room rid p)"
proof -
  let ?room = "room\<lparr>banned := AList.update t tn (banned room)\<rparr>"
  obtain s1 where s1: "set_room_record rid ?room (s\<lparr>limits := m\<rparr>) = (Inr (), s1)"
    using assms(6) by (simp add: set_room_record_def)
  have eq: "ban_member now sid d s = removal_tail 43 ''banned'' sid d rid t tn ?room s1"
    using assms s1 by (simp add: ban_member_def community_op_body [OF assms(1-5)])
  have find: "find_room rid s1 = Some (?room\<lparr>room_id := rid\<rparr>)" and "rooms_write_ok s1"
    using set_room_find [OF s1] find_room_read [OF assms(4)] set_room_rooms [OF s1] assms(6) by auto
  then show ?thesis
    unfolding eq using removed_sessions [of _ rid t "''banned''" s1]
    by (auto simp: removal_find can_speak_def)
qed

text \<open>A transfer by the owner to a moderator or sub-administrator makes the target the owner and
  administrator and the old owner a sub-administrator, and leaves everybody else's role alone.\<close>

theorem transfer_effective:
  assumes "rate_limit_hit now (''transfer'' @ '':session:'' @ sid) 5 60000 (limits s) = (False, m)"
    and "session_identity s sid = Some (actor, name)"
    and "resolve_room_for_session s sid (str_field ''gameId'' d) = Inr rid"
    and "find_room rid s = Some room" "room_kind room = Community" "rooms_write_ok s"
    and "owner_id room = Some actor" "resolve_target s d = Inr (t, tn)"
    and "role_in_room room t = SubAdministrator
      \<or> role_in_room room t = Moderator \<and> count_role room SubAdministrator < MAX_ROOM_SUB_ADMINS"
  shows "\<exists>r. find_room rid (snd (transfer_ownership now sid d s)) = Some r \<and> owner_id r = Some t
      \<and> role_in_room r t = Administrator \<and> role_in_room r actor = SubAdministrator
      \<and> (\<forall>u. u \<noteq> t \<and> u \<noteq> actor \<longrightarrow> role_in_room r u = role_in_room room u)"
proof -
  have t: "t \<noteq> actor" using assms(7,9) by (auto simp: role_in_room_def)
  have eq: "transfer_ownership now sid d s = persist_and_announce 47 ''Failed to persist transfer'' sid d rid
      (room\<lparr>owner_id := Some t, roles := AList.update actor SubAdministrator (AList.update t Administrator (roles room))\<rparr>)
      (s\<lparr>limits := m\<rparr>)"
    using assms by (auto simp: transfer_ownership_def community_op_body [OF assms(1-5)] Let_def)
  show ?thesis
    unfolding eq using t assms(6) find_room_read [OF assms(4)] assms(7)
    by (auto simp: persist_find role_in_room_def)
qed

text \<open>A timeout by someone entitled silences the target for between one minute and seven days,
  whatever duration was asked for, and no longer: from its expiry on the target may speak exactly if
  they could without it.\<close>

theorem timeout_effective:
  assumes "rate_limit_hit now (''timeout'' @ '':session:'' @ sid) 10 30000 (limits s) = (False, m)"
    and "session_identity s sid = Some (actor, name)"
    and "resolve_room_for_session s sid (str_field ''gameId'' d) = Inr rid"
    and "find_room rid s = Some room" "room_kind room = Community" "rooms_write_ok s"
    and "resolve_target s d = Inr (t, tn)" "t \<noteq> actor"
    and "can_moderate room (role_in_room room actor) (role_in_room room t) Mute"
  shows "\<exists>r ends. find_room rid (snd (timeout_member now sid d s)) = Some r \<and> map_of (timeouts r) t = Some ends
      \<and> now + 60000 \<le> ends \<and> ends \<le> now + 604800000
      \<and> (\<forall>at < ends. \<not> can_speak at r t)
      \<and> (\<forall>at \<ge> ends. can_speak at r t = can_speak at (r\<lparr>timeouts := AList.delete t (timeouts r)\<rparr>) t)"
proof -
  let ?secs = "clamp MIN_TIMEOUT_SECS MAX_TIMEOUT_SECS (unwrap_or MIN_TIMEOUT_SECS
                  (obind (or_else (obj_get ''durationSecs'' d) (obj_get ''duration'' d)) as_u64))"
  have eq: "timeout_member now sid d s = persist_and_announce 46 ''Failed to persist timeout'' sid d rid
      (room\<lparr>timeouts := AList.update t (now + ?secs * 1000) (timeouts room)\<rparr>) (s\<lparr>limits := m\<rparr>)"
    using assms by (simp add: timeout_member_def community_op_body [OF assms(1-5)] Let_def)
  have "60 \<le> ?secs" "?secs \<le> 604800"
    by (simp_all add: clamp_def MIN_TIMEOUT_SECS_def MAX_TIMEOUT_SECS_def)
  then show ?thesis
    unfolding eq using assms(6) find_room_read [OF assms(4)]
    by (auto simp: persist_find can_speak_def role_in_room_def)
qed

text \<open>C38: when the stored record cannot be read, any member who asks for a new title replaces the
  whole record of a community room by a classic one: no owner, no roles, no bans.\<close>

theorem title_erases_unreadable_room:
  assumes "\<not> rooms_read_ok s" "rooms_write_ok s"
    and "rate_limit_hit now (if u = [] then ''room_title:session:'' @ sid else ''room_title:user:'' @ u) 5 30000 (limits s) = (False, m)"
    and "map_of (players s) sid = Some p" "u = ps_user_id p"
    and "resolve_room_for_session s sid (str_field ''gameId'' d) = Inr rid"
  shows "\<exists>r. map_of (rooms (snd (update_room_title now sid d s))) rid = Some r \<and> room_kind r = Classic
      \<and> owner_id r = None \<and> roles r = [] \<and> banned r = []"
proof -
  have none: "find_room k (s\<lparr>limits := m\<rparr>) = None" for k using assms(1) by (simp add: find_room_def)
  have eq: "update_room_title now sid d s = retitle_room rid
      (unwrap_or rid (map_option (take 64) (trimmed (str_field ''title'' d)))) (request_id d) sid (s\<lparr>limits := m\<rparr>)"
    using assms none by (cases "ps_user_id p = []") (simp_all add: update_room_title_def rate_hit_def Let_def)
  show ?thesis
    unfolding eq using none assms(2)
    by (auto simp: retitle_room_def sync_room_record_def set_room_record_def Let_def fresh_room_def room_default_def
        broadcast_room_record_to_members_def)
qed

section \<open>Witnesses\<close>

definition demo_room :: room_record where
  "demo_room = room_default\<lparr>room_id := ''abcdefgh'', room_title := ''Club'', room_kind := Community,
     owner_id := Some ''ann'', roles := [(''ann'', Administrator), (''bob'', Moderator)]\<rparr>"

definition demo_club :: app_state where
  "demo_club = demo_state [(''s1'', demo_session ''s1'' ''ann'' [''abcdefgh'']), (''s2'', demo_session ''s2'' ''bob'' [''abcdefgh''])]
     [(''abcdefgh'', demo_room)]"

definition demo_req :: json where
  "demo_req = JObj [(''targetUserId'', JStr ''bob''), (''duration'', JInt 5)]"

lemmas demo_defs = demo_club_def demo_state_def demo_session_def demo_room_def demo_req_def demo_config_def room_default_def

lemma demo_room_inv: "rooms_inv demo_club"
  by (auto simp: rooms_inv_def demo_defs count_role_def MAX_ROOM_MODERATORS_def MAX_ROOM_SUB_ADMINS_def
      split: if_splits intro!: room_invI [of _ "''ann''"])

lemma demo_opening:
  "session_identity demo_club ''s1'' = Some (''ann'', ''ann'')"
  "resolve_room_for_session demo_club ''s1'' (str_field ''gameId'' demo_req) = Inr ''abcdefgh''"
  "find_room ''abcdefgh'' demo_club = Some demo_room" "room_kind demo_room = Community" "rooms_write_ok demo_club"
  "resolve_target demo_club demo_req = Inr (''bob'', ''bob'')" "owner_id demo_room = Some ''ann''"
  "role_in_room demo_room ''ann'' = Administrator" "role_in_room demo_room ''bob'' = Moderator"
  by code_simp+

lemma demo_limits:
  "0 < l \<Longrightarrow> rate_limit_hit now k l w (limits demo_club)
     = (False, [(k, \<lparr>window_start_ms = now, window_ms = w, bucket_count = 1\<rparr>)])"
  by (simp add: rate_limit_hit_def demo_defs sat_add_u32_def)

lemma demo_slot: "count_role demo_room SubAdministrator < MAX_ROOM_SUB_ADMINS"
  by code_simp

theorem room_roles_invariant_witness:
  "rooms_inv (room_run (\<lambda>_. None) [(''f'', 5, ''s1'', 43, demo_req)] demo_club)"
  using room_roles_invariant [OF demo_room_inv] .


theorem ban_effective_witness:
  "\<exists>r. find_room ''abcdefgh'' (snd (ban_member 5 ''s1'' demo_req demo_club)) = Some r
     \<and> map_of (banned r) ''bob'' = Some ''bob'' \<and> \<not> can_speak 9 r ''bob''"
  using ban_effective [OF demo_limits demo_opening(1-6), where now = 5]
  by (auto simp: demo_opening can_moderate_def)

theorem transfer_effective_witness:
  "\<exists>r. find_room ''abcdefgh'' (snd (transfer_ownership 5 ''s1'' demo_req demo_club)) = Some r
     \<and> owner_id r = Some ''bob'' \<and> role_in_room r ''ann'' = SubAdministrator"
  using transfer_effective [OF demo_limits demo_opening(1-5,7,6), where now = 5]
  by (auto simp: demo_opening demo_slot)

theorem timeout_effective_witness:
  "\<exists>r ends. find_room ''abcdefgh'' (snd (timeout_member 5 ''s1'' demo_req demo_club)) = Some r
     \<and> 60005 \<le> ends \<and> ends \<le> 604800005 \<and> map_of (timeouts r) ''bob'' = Some ends"
  using timeout_effective [OF demo_limits demo_opening(1-6), where now = 5]
  by (auto simp: demo_opening can_moderate_def)

definition demo_unreadable :: app_state where
  "demo_unreadable = demo_club\<lparr>rooms_read_ok := False\<rparr>"

theorem title_erases_unreadable_room_witness:
  "\<exists>r. map_of (rooms (snd (update_room_title 5 ''s2'' demo_req demo_unreadable))) ''abcdefgh'' = Some r
     \<and> room_kind r = Classic \<and> owner_id r = None"
proof -
  have *: "resolve_room_for_session demo_unreadable ''s2'' (str_field ''gameId'' demo_req) = Inr ''abcdefgh''"
    by code_simp
  show ?thesis
    using title_erases_unreadable_room [OF _ _ _ _ _ *, where u = "''bob''" and now = 5 and p = "demo_session ''s2'' ''bob'' [''abcdefgh'']"]
      demo_limits [of 5 5 "''room_title:user:bob''" 30000]
    by (auto simp: demo_unreadable_def demo_club_def demo_state_def demo_session_def)
qed

end
