(* ===== verification/Messages_Inv.thy ===== *)
theory Messages_Inv
  imports Polls Room_Authority
begin

text \<open>
  Correctness of the chat.  The reactions of a message implement a set of pairs of emoji and user:
  \<open>reactions_ok\<close> is the representation invariant, \<open>reaction_set\<close> the abstraction, and the toggle is
  the toggle of the set.  \<open>chat_inv\<close> is the invariant of the stored messages, kept by every chat
  operation and by the late link previews; then who receives a message and who may change one.
\<close>

section \<open>Reactions are a set\<close>

definition reaction_ok :: "message_reaction \<Rightarrow> bool" where
  "reaction_ok r \<longleftrightarrow> mr_users r \<noteq> [] \<and> sorted (mr_users r) \<and> distinct (mr_users r) \<and> mr_count r = length (mr_users r)"

definition reactions_ok :: "message_reaction list \<Rightarrow> bool" where
  "reactions_ok rs \<longleftrightarrow> sorted (map mr_emoji rs) \<and> distinct (map mr_emoji rs) \<and> (\<forall>r \<in> set rs. reaction_ok r)"

definition reaction_set :: "message_reaction list \<Rightarrow> (string \<times> string) set" where
  "reaction_set rs = {(e, u). \<exists>r \<in> set rs. mr_emoji r = e \<and> u \<in> set (mr_users r)}"

lemma reaction_set_append [simp]: "reaction_set (a @ b) = reaction_set a \<union> reaction_set b"
  by (auto simp: reaction_set_def)

lemma reaction_set_Cons: "reaction_set (r # rs) = Pair (mr_emoji r) ` set (mr_users r) \<union> reaction_set rs"
  by (auto simp: reaction_set_def)

lemma reaction_set_Nil [simp]: "reaction_set [] = {}"
  by (simp add: reaction_set_def)

lemma toggle_existing_None: "toggle_existing e u rs = None \<longleftrightarrow> e \<notin> set (map mr_emoji rs)"
  by (induction rs) (auto simp: Let_def)

lemma toggle_existing_Some:
  "toggle_existing e u rs = Some rs' \<Longrightarrow>
   \<exists>a r b. rs = a @ r # b \<and> mr_emoji r = e \<and>
     rs' = a @ (if mr_count (toggle_user u r) = 0 then [] else [toggle_user u r]) @ b"
proof (induction rs arbitrary: rs')
  case Nil
  then show ?case by simp
next
  case (Cons r rs)
  show ?case
  proof (cases "mr_emoji r = e")
    case True
    with Cons.prems show ?thesis by (intro exI [of _ "[]"] exI [of _ r] exI [of _ rs]) (auto simp: Let_def)
  next
    case False
    with Cons obtain rs1 where "toggle_existing e u rs = Some rs1" "rs' = r # rs1" by auto
    with Cons.IH [of rs1] obtain a r1 b where "rs = a @ r1 # b \<and> mr_emoji r1 = e \<and>
      rs1 = a @ (if mr_count (toggle_user u r1) = 0 then [] else [toggle_user u r1]) @ b" by blast
    with \<open>rs' = r # rs1\<close> show ?thesis by (intro exI [of _ "r # a"] exI [of _ r1] exI [of _ b]) simp
  qed
qed

lemma toggle_user_simps [simp]:
  "mr_emoji (toggle_user u r) = mr_emoji r"
  "set (mr_users (toggle_user u r)) = (if u \<in> set (mr_users r) then set (mr_users r) - {u} else insert u (set (mr_users r)))"
  "mr_count (toggle_user u r) = length (mr_users (toggle_user u r))"
  by (auto simp: toggle_user_def Let_def)

lemma toggle_user_ok: "reaction_ok r \<Longrightarrow> mr_count (toggle_user u r) \<noteq> 0 \<Longrightarrow> reaction_ok (toggle_user u r)"
  by (auto simp: reaction_ok_def toggle_user_def Let_def sorted_filter [of id, simplified])

lemma sort_key_reactions:
  assumes "reactions_ok rs" "e \<notin> set (map mr_emoji rs)" "reaction_ok r" "mr_emoji r = e"
  shows "reactions_ok (sort_key mr_emoji (rs @ [r]))"
    "reaction_set (sort_key mr_emoji (rs @ [r])) = reaction_set rs \<union> Pair e ` set (mr_users r)"
proof -
  have "distinct (map mr_emoji (sort_key mr_emoji (rs @ [r])))"
    using assms unfolding reactions_ok_def distinct_map by auto
  then show "reactions_ok (sort_key mr_emoji (rs @ [r]))"
    using assms unfolding reactions_ok_def by auto
  have "reaction_set (sort_key mr_emoji (rs @ [r])) = reaction_set (rs @ [r])"
    unfolding reaction_set_def by simp
  then show "reaction_set (sort_key mr_emoji (rs @ [r])) = reaction_set rs \<union> Pair e ` set (mr_users r)"
    using assms(4) by (simp add: reaction_set_Cons)
qed

lemma toggle_reaction_refines:
  assumes ok: "reactions_ok rs"
  shows "reactions_ok (toggle_reaction_list e u rs)
    \<and> reaction_set (toggle_reaction_list e u rs) =
      (if (e, u) \<in> reaction_set rs then reaction_set rs - {(e, u)} else insert (e, u) (reaction_set rs))"
proof (cases "toggle_existing e u rs")
  case None
  then have e: "e \<notin> set (map mr_emoji rs)" using toggle_existing_None [of e u rs] by blast
  then have "(e, u) \<notin> reaction_set rs" by (auto simp: reaction_set_def)
  with None show ?thesis
    using sort_key_reactions [OF ok e, of "\<lparr>mr_emoji = e, mr_users = [u], mr_count = 1\<rparr>"]
    by (simp add: toggle_reaction_list_def reaction_ok_def)
next
  case (Some rs')
  then obtain a r b where split: "rs = a @ r # b" "mr_emoji r = e"
    "rs' = a @ (if mr_count (toggle_user u r) = 0 then [] else [toggle_user u r]) @ b"
    using toggle_existing_Some by blast
  have other: "(e, v) \<notin> reaction_set a" "(e, v) \<notin> reaction_set b" for v
  proof -
    have "e \<notin> mr_emoji ` set a" "e \<notin> mr_emoji ` set b" using ok split by (auto simp: reactions_ok_def)
    then show "(e, v) \<notin> reaction_set a" "(e, v) \<notin> reaction_set b" by (auto simp: reaction_set_def)
  qed
  have r: "reaction_ok r" using ok split by (simp add: reactions_ok_def)
  have "reactions_ok rs'"
    using ok split toggle_user_ok [OF r, of u]
    by (auto simp: reactions_ok_def sorted_append)
  moreover have "reaction_set rs' = (if (e, u) \<in> reaction_set rs then reaction_set rs - {(e, u)}
      else insert (e, u) (reaction_set rs))"
  proof -
    have mid: "reaction_set (if mr_count (toggle_user u r) = 0 then [] else [toggle_user u r])
        = Pair e ` set (mr_users (toggle_user u r))"
      using split(2) by (simp add: reaction_set_Cons del: toggle_user_simps(2))
    have "reaction_set rs' = reaction_set a \<union> Pair e ` set (mr_users (toggle_user u r)) \<union> reaction_set b"
      unfolding split(3) by (simp add: mid Un_assoc del: toggle_user_simps)
    moreover have "reaction_set rs = reaction_set a \<union> Pair e ` set (mr_users r) \<union> reaction_set b"
      using split(1,2) by (auto simp: reaction_set_Cons)
    ultimately show ?thesis using other by auto
  qed
  ultimately show ?thesis using Some by (simp add: toggle_reaction_list_def)
qed

text \<open>The representation is canonical, so toggling twice gives the same list back.\<close>

lemma reactions_unique:
  assumes "reactions_ok rs" "reactions_ok rs'" "reaction_set rs = reaction_set rs'"
  shows "rs = rs'"
proof -
  have emojis: "set (map mr_emoji rs) = fst ` reaction_set rs" if "reactions_ok rs" for rs
    using that unfolding reactions_ok_def reaction_ok_def reaction_set_def
    by (auto simp: image_iff) (metis list.set_intros(1) neq_Nil_conv)
  have map: "map mr_emoji rs = map mr_emoji rs'"
    using assms emojis [of rs] emojis [of rs'] by (intro sorted_distinct_set_unique) (auto simp: reactions_ok_def)
  have users: "set (mr_users (rs ! i)) = {u. (mr_emoji (rs ! i), u) \<in> reaction_set rs}"
    if "reactions_ok rs" "i < length rs" for rs i
  proof -
    have "r = rs ! i" if "r \<in> set rs" "mr_emoji r = mr_emoji (rs ! i)" for r
    proof -
      obtain j where "j < length rs" "r = rs ! j" using \<open>r \<in> set rs\<close> by (metis in_set_conv_nth)
      with that \<open>i < length rs\<close> \<open>reactions_ok rs\<close> show ?thesis
        by (metis length_map nth_eq_iff_index_eq nth_map reactions_ok_def)
    qed
    then show ?thesis using nth_mem [OF that(2)] unfolding reaction_set_def by blast
  qed
  show ?thesis
  proof (rule nth_equalityI)
    show len: "length rs = length rs'" using map by (metis length_map)
    fix i assume i: "i < length rs"
    then have e: "mr_emoji (rs ! i) = mr_emoji (rs' ! i)" using map len by (metis nth_map)
    have ok: "reaction_ok (rs ! i)" "reaction_ok (rs' ! i)" using assms(1,2) i len by (auto simp: reactions_ok_def)
    have "mr_users (rs ! i) = mr_users (rs' ! i)"
      using ok users [OF assms(1) i] users [OF assms(2), of i] i len e assms(3)
      by (intro sorted_distinct_set_unique) (auto simp: reaction_ok_def)
    with e ok show "rs ! i = rs' ! i" by (simp add: reaction_ok_def)
  qed
qed

section \<open>The stored messages\<close>

definition message_ok :: "chat_message \<Rightarrow> bool" where
  "message_ok m \<longleftrightarrow> reactions_ok (reactions m) \<and> length (msg_text m) \<le> MAX_MESSAGE_CHARS
     \<and> (msg_encrypted m \<noteq> None \<longrightarrow> msg_text m = [] \<and> msg_attachment m = None)
     \<and> (deleted m \<longrightarrow> msg_text m = [] \<and> msg_attachment m = None \<and> msg_encrypted m = None \<and> msg_preview m = None)"

definition chat_inv :: "app_state \<Rightarrow> bool" where
  "chat_inv s \<longleftrightarrow> (\<forall>ms \<in> set (vals (room_messages s)). length ms \<le> MAX_ROOM_MESSAGES \<and> (\<forall>m \<in> set ms. message_ok m))"

lemma chat_inv_same: "room_messages s' = room_messages s \<Longrightarrow> chat_inv s' = chat_inv s"
  by (simp add: chat_inv_def)

lemma chat_inv_frame [simp]:
  "chat_inv (respond_to_sender sid j s) = chat_inv s" "chat_inv (broadcast_to_room g j s) = chat_inv s"
  "chat_inv (s\<lparr>limits := l\<rparr>) = chat_inv s" "chat_inv (s\<lparr>players := p\<rparr>) = chat_inv s"
  "chat_inv (try_send c w s) = chat_inv s" "chat_inv (s\<lparr>poll_tallies := t\<rparr>) = chat_inv s"
  "chat_inv (remove_file i s) = chat_inv s" "chat_inv (record_message s) = chat_inv s"
  "chat_inv (announce_preview r i v s) = chat_inv s"
  by (simp_all add: chat_inv_def remove_file_def record_message_def announce_preview_def)

lemma messages_of_limits [simp]: "messages_of (s\<lparr>limits := l\<rparr>) rid = messages_of s rid"
  by (simp add: messages_of_def)

lemma messages_of_ok:
  assumes "chat_inv s"
  shows "length (messages_of s rid) \<le> MAX_ROOM_MESSAGES \<and> (\<forall>m \<in> set (messages_of s rid). message_ok m)"
proof (cases "map_of (room_messages s) rid")
  case None
  then show ?thesis by (simp add: messages_of_def)
next
  case (Some ms)
  then have "ms \<in> set (vals (room_messages s))" "messages_of s rid = ms"
    by (simp_all only: map_of_set_vals messages_of_def unwrap_or_simps)
  with assms show ?thesis unfolding chat_inv_def by blast
qed

lemma chat_inv_put:
  assumes "chat_inv s" "length ms \<le> MAX_ROOM_MESSAGES" "\<forall>m \<in> set ms. message_ok m"
  shows "chat_inv (s\<lparr>room_messages := AList.update rid ms (room_messages s)\<rparr>)"
  using assms vals_update_subset [of _ rid ms "room_messages s"] unfolding chat_inv_def by fastforce

lemma chat_inv_store:
  assumes "chat_inv s" "message_ok m"
  shows "chat_inv (store_room_message rid m s)"
proof -
  let ?ms = "messages_of s rid @ [m]"
  let ?kept = "if length ?ms > MAX_ROOM_MESSAGES then drop (length ?ms - MAX_ROOM_MESSAGES) ?ms else ?ms"
  have "store_room_message rid m s = (record_message s)\<lparr>room_messages := AList.update rid ?kept (room_messages (record_message s))\<rparr>"
    by (simp add: store_room_message_def Let_def messages_of_def record_message_def)
  moreover have "\<forall>x \<in> set ?kept. message_ok x"
    using messages_of_ok [OF assms(1), of rid] assms(2) by (auto dest: in_set_dropD split: if_splits)
  moreover have "length ?kept \<le> MAX_ROOM_MESSAGES" by auto
  ultimately show ?thesis using assms(1) by (simp only: chat_inv_put chat_inv_frame)
qed

lemma update_first_set: "x \<in> set (update_first P f xs) \<Longrightarrow> x \<in> set xs \<or> (\<exists>y. find P xs = Some y \<and> x = f y)"
  by (induction xs) (auto split: if_splits)

lemma update_first_length [simp]: "length (update_first P f xs) = length xs"
  by (induction xs) auto

lemma chat_inv_update:
  assumes inv: "chat_inv s" and f: "\<And>m. find_message mid (messages_of s rid) = Some m \<Longrightarrow> message_ok m \<Longrightarrow> message_ok (f m)"
  shows "chat_inv (update_message rid mid f s)"
  unfolding update_message_def
proof (rule chat_inv_put [OF inv])
  note ok = messages_of_ok [OF inv, of rid]
  show "length (update_first (\<lambda>m. message_id m = mid) f (messages_of s rid)) \<le> MAX_ROOM_MESSAGES" using ok by simp
  show "\<forall>m \<in> set (update_first (\<lambda>m. message_id m = mid) f (messages_of s rid)). message_ok m"
  proof
    fix x assume "x \<in> set (update_first (\<lambda>m. message_id m = mid) f (messages_of s rid))"
    from update_first_set [OF this] show "message_ok x"
    proof
      assume "\<exists>y. find (\<lambda>m. message_id m = mid) (messages_of s rid) = Some y \<and> x = f y"
      then obtain y where y: "find (\<lambda>m. message_id m = mid) (messages_of s rid) = Some y" "x = f y" by blast
      then have "y \<in> set (messages_of s rid)" by (auto simp: find_Some_iff)
      with y ok f [of y] show ?thesis by (simp add: find_message_def)
    qed (use ok in blast)
  qed
qed

lemma store_uploaded_frame:
  "store_uploaded_bytes uuid ext bs mime s = (x, s') \<Longrightarrow>
     room_messages s' = room_messages s \<and> players s' = players s \<and> limits s' = limits s \<and> rooms s' = rooms s
     \<and> outbox s' = outbox s \<and> rooms_read_ok s' = rooms_read_ok s \<and> poll_tallies s' = poll_tallies s"
  by (auto simp: store_uploaded_bytes_def Let_def split: if_splits)

lemma parse_attachment_frame:
  "parse_attachment b64 uuid raw s = (x, s') \<Longrightarrow>
     room_messages s' = room_messages s \<and> players s' = players s \<and> limits s' = limits s \<and> rooms s' = rooms s
     \<and> outbox s' = outbox s \<and> rooms_read_ok s' = rooms_read_ok s \<and> poll_tallies s' = poll_tallies s"
  by (auto simp: parse_attachment_def Let_def dest!: store_uploaded_frame
      split: option.splits json.splits if_splits sum.splits prod.splits)

lemma claim_slot_frame:
  "claim_chat_slot now sid g s = (x, s') \<Longrightarrow> room_messages s' = room_messages s \<and> poll_tallies s' = poll_tallies s"
  by (auto simp: claim_chat_slot_def split: option.splits if_splits)

lemma new_message_ok: "length text \<le> MAX_MESSAGE_CHARS \<Longrightarrow> message_ok (new_chat_message now mid rid p text reply att enc)"
  by (auto simp: message_ok_def new_chat_message_def reactions_ok_def)

lemma chat_text_length [simp]: "length (chat_text d) \<le> MAX_MESSAGE_CHARS"
  by (simp add: chat_text_def)

lemma chat_inv_send:
  assumes inv: "chat_inv s"
  shows "chat_inv (snd (send_chat_message b64 json_len uuid mid now sid d s))"
proof -
  have att: "chat_inv s1" if "parse_attachment b64 uuid r s = (x, s1)" for x s1 r
    using parse_attachment_frame [OF that] inv chat_inv_same by blast
  have claim: "chat_inv s2" if "claim_chat_slot now sid g s1 = (x, s2)" "chat_inv s1" for x s1 s2 g
    using claim_slot_frame [OF that(1)] that(2) chat_inv_same by blast
  show ?thesis
    using inv
    by (auto simp: send_chat_message_def Let_def rate_hit_def publish_chat_message_def
        intro!: chat_inv_store new_message_ok dest!: att elim!: claim
        split: sum.split option.split prod.split)
qed

lemma chat_inv_reactions:
  assumes "chat_inv s"
  shows "chat_inv (snd (update_message_reactions mid emoji u hint s))"
proof -
  have "chat_inv (update_message rid mid (toggle_reaction_in_message emoji u) s)" for rid
    by (rule chat_inv_update [OF assms])
      (simp add: message_ok_def toggle_reaction_in_message_def toggle_reaction_refines)
  with assms show ?thesis by (auto simp: update_message_reactions_def Let_def split: option.split)
qed

lemma chat_inv_react:
  assumes inv: "chat_inv s"
  shows "chat_inv (snd (toggle_message_reaction now sid d s))"
proof -
  have upd: "chat_inv s2" if "update_message_reactions mid e u h s1 = (x, s2)" "chat_inv s1" for mid e u h s1 x s2
    using chat_inv_reactions [OF that(2), of mid e u h] that(1) by simp
  show ?thesis
    using inv
    by (auto simp: toggle_message_reaction_def Let_def rate_hit_def elim!: upd split: sum.split option.split prod.split)
qed

lemma erase_message_ok: "message_ok (erase_message u b m)"
  by (simp add: message_ok_def erase_message_def reactions_ok_def)

lemma edited_message_ok:
  "message_ok m \<Longrightarrow> \<not> deleted m \<Longrightarrow> length text \<le> MAX_MESSAGE_CHARS \<Longrightarrow> message_ok (edited_message now p text enc m)"
  by (auto simp: message_ok_def edited_message_def)

lemma chat_inv_release [simp]: "chat_inv (release_upload i s) = chat_inv s"
  by (simp add: release_upload_def split: option.split)

lemma chat_inv_delete: "chat_inv s \<Longrightarrow> chat_inv (snd (delete_message now sid d s))"
  by (auto simp: delete_message_def apply_delete_def Let_def rate_hit_def intro!: chat_inv_update erase_message_ok
      split: sum.split option.split prod.split)

lemma chat_inv_apply_edit:
  "chat_inv s \<Longrightarrow> length text \<le> MAX_MESSAGE_CHARS \<Longrightarrow> chat_inv (snd (apply_edit now sid d mid rid text enc s))"
  by (auto simp: apply_edit_def Let_def intro!: chat_inv_update edited_message_ok split: option.split)

lemma chat_inv_edit: "chat_inv s \<Longrightarrow> chat_inv (snd (edit_message json_len now sid d s))"
  by (auto simp: edit_message_def Let_def rate_hit_def intro!: chat_inv_apply_edit
      split: sum.split option.split prod.split)

lemma chat_inv_finish: "chat_inv s \<Longrightarrow> chat_inv (finish_preview task preview s)"
  by (auto simp: finish_preview_def Let_def preview_wanted_def message_ok_def
      intro!: chat_inv_update split: option.split preview_task.splits)

lemma chat_inv_request: "chat_inv s \<Longrightarrow> chat_inv (snd (fst (request_link_preview now sid d s)))"
  by (auto simp: request_link_preview_def Let_def rate_hit_def split: sum.split option.split prod.split)

lemma send_poll_frame [simp]:
  "room_messages (send_poll_states h rid mid t s) = room_messages s"
  "players (send_poll_states h rid mid t s) = players s"
  "poll_tallies (send_poll_states h rid mid t s) = poll_tallies s"
proof -
  have "room_messages (fold (\<lambda>p. try_send (f p) (g p)) ps t) = room_messages t
    \<and> players (fold (\<lambda>p. try_send (f p) (g p)) ps t) = players t
    \<and> poll_tallies (fold (\<lambda>p. try_send (f p) (g p)) ps t) = poll_tallies t"
    for f :: "player_session \<Rightarrow> string" and g ps t
    by (induction ps arbitrary: t) simp_all
  then show "room_messages (send_poll_states h rid mid t s) = room_messages s"
    "players (send_poll_states h rid mid t s) = players s"
    "poll_tallies (send_poll_states h rid mid t s) = poll_tallies s"
    by (simp_all add: send_poll_states_def)
qed

lemma chat_inv_send_poll [simp]: "chat_inv (send_poll_states h rid mid t s) = chat_inv s"
  by (rule chat_inv_same) simp

lemma chat_inv_vote: "chat_inv s \<Longrightarrow> chat_inv (snd (vote_poll h now sid d s))"
  by (auto simp: vote_poll_def Let_def rate_hit_def split: sum.split option.split prod.split)

lemma chat_inv_history: "chat_inv s \<Longrightarrow> chat_inv (snd (send_room_history h now sid d s))"
  by (auto simp: send_room_history_def dispatch_room_history_def rate_hit_def split: sum.split prod.split)

section \<open>Any run of the chat\<close>

datatype chat_op =
    Send string string nat string json
  | React nat string json
  | Delete nat string json
  | Edit nat string json
  | Ask_Preview nat string json
  | Preview_Ready preview_task link_preview
  | Vote nat string json
  | History nat string json

fun chat_step :: "(string \<Rightarrow> byte list option) \<Rightarrow> (json \<Rightarrow> nat) \<Rightarrow> voter_hash \<Rightarrow> chat_op \<Rightarrow> app_state \<Rightarrow> app_state" where
  "chat_step b64 json_len h (Send uuid mid now sid d) s = snd (send_chat_message b64 json_len uuid mid now sid d s)"
| "chat_step b64 json_len h (React now sid d) s = snd (toggle_message_reaction now sid d s)"
| "chat_step b64 json_len h (Delete now sid d) s = snd (delete_message now sid d s)"
| "chat_step b64 json_len h (Edit now sid d) s = snd (edit_message json_len now sid d s)"
| "chat_step b64 json_len h (Ask_Preview now sid d) s = snd (fst (request_link_preview now sid d s))"
| "chat_step b64 json_len h (Preview_Ready task preview) s = finish_preview task preview s"
| "chat_step b64 json_len h (Vote now sid d) s = snd (vote_poll h now sid d s)"
| "chat_step b64 json_len h (History now sid d) s = snd (send_room_history h now sid d s)"

lemma chat_inv_step: "chat_inv s \<Longrightarrow> chat_inv (chat_step b64 json_len h c s)"
  by (cases c) (simp_all add: chat_inv_send chat_inv_react chat_inv_delete chat_inv_edit chat_inv_request
      chat_inv_finish chat_inv_vote chat_inv_history)

section \<open>Polls\<close>

definition tally_ok :: "poll_tally \<Rightarrow> bool" where
  "tally_ok t \<longleftrightarrow> distinct (pt_voters t) \<and> length (pt_counts t) \<le> MAX_POLL_OPTIONS
     \<and> (\<forall>c \<in> set (pt_counts t). c \<le> length (pt_voters t))"

definition polls_inv :: "app_state \<Rightarrow> bool" where
  "polls_inv s \<longleftrightarrow> (\<forall>t \<in> set (vals (poll_tallies s)). tally_ok t)"

lemma add_choices:
  assumes "distinct cs" "\<forall>c \<in> set cs. c < length ks"
  shows "length (fold (\<lambda>c ks. ks[c := ks ! c + 1]) cs ks) = length ks
    \<and> (\<forall>i < length ks. fold (\<lambda>c ks. ks[c := ks ! c + 1]) cs ks ! i = ks ! i + (if i \<in> set cs then 1 else (0::nat)))"
  using assms
proof (induction cs arbitrary: ks)
  case Nil
  then show ?case by simp
next
  case (Cons c cs)
  then show ?case using Cons.IH [of "ks[c := ks ! c + 1]"] by (auto simp: nth_list_update)
qed

lemma count_choices_nth:
  assumes "distinct cs" "cs \<noteq> []"
  shows "length (count_choices cs ks) = max (length ks) (Max (set cs) + 1)"
    and "i < length (count_choices cs ks) \<Longrightarrow> count_choices cs ks ! i
      = (if i < length ks then ks ! i else 0) + (if i \<in> set cs then 1 else 0)"
proof -
  let ?ks = "if length ks < Max (set cs) + 1 then ks @ replicate (Max (set cs) + 1 - length ks) 0 else ks"
  have below: "\<forall>c \<in> set cs. c < length ?ks"
  proof
    fix c assume "c \<in> set cs"
    then have "c \<le> Max (set cs)" by simp
    then show "c < length ?ks" by (cases "length ks < Max (set cs) + 1") simp_all
  qed
  note add = add_choices [OF assms(1) below]
  have eq: "count_choices cs ks = fold (\<lambda>c ks. ks[c := ks ! c + 1]) cs ?ks" by (simp add: count_choices_def Let_def)
  have len: "length ?ks = max (length ks) (Max (set cs) + 1)" by simp
  show "length (count_choices cs ks) = max (length ks) (Max (set cs) + 1)" unfolding eq using add len by presburger
  have ks: "?ks ! i = (if i < length ks then ks ! i else 0)" if "i < length ?ks" for i
    using that by (cases "length ks < Max (set cs) + 1") (simp_all add: nth_append)
  show "count_choices cs ks ! i = (if i < length ks then ks ! i else 0) + (if i \<in> set cs then 1 else 0)"
    if "i < length (count_choices cs ks)"
  proof -
    have i: "i < length ?ks" using that add unfolding eq by (simp only:)
    show ?thesis unfolding eq using add i ks [OF i] by presburger
  qed
qed

lemma vote_choices_ok: "distinct (vote_choices d)" "c \<in> set (vote_choices d) \<Longrightarrow> c < MAX_POLL_OPTIONS"
  by (auto simp: vote_choices_def)

lemma tally_ok_vote:
  assumes t: "tally_ok t" and new: "v \<notin> set (pt_voters t)" and cs: "distinct cs" "cs \<noteq> []" "\<forall>c \<in> set cs. c < MAX_POLL_OPTIONS"
  shows "tally_ok \<lparr>pt_voters = pt_voters t @ [v], pt_counts = count_choices cs (pt_counts t)\<rparr>"
proof -
  have "Max (set cs) < MAX_POLL_OPTIONS" using cs by simp
  then have len: "length (count_choices cs (pt_counts t)) \<le> MAX_POLL_OPTIONS"
    using t count_choices_nth(1) [OF cs(1,2), of "pt_counts t"] by (simp add: tally_ok_def)
  have "c \<le> length (pt_voters t) + 1" if c: "c \<in> set (count_choices cs (pt_counts t))" for c
  proof -
    obtain i where i: "i < length (count_choices cs (pt_counts t))" "c = count_choices cs (pt_counts t) ! i"
      using c by (metis in_set_conv_nth)
    have "(if i < length (pt_counts t) then pt_counts t ! i else 0) \<le> length (pt_voters t)"
      using t by (simp add: tally_ok_def)
    with i count_choices_nth(2) [OF cs(1,2) i(1)] show ?thesis by simp
  qed
  with len t new show ?thesis by (simp add: tally_ok_def)
qed

lemma polls_inv_same: "poll_tallies s' = poll_tallies s \<Longrightarrow> polls_inv s' = polls_inv s"
  by (simp add: polls_inv_def)

lemma polls_inv_frame [simp]:
  "polls_inv (respond_to_sender sid j s) = polls_inv s" "polls_inv (broadcast_to_room g j s) = polls_inv s"
  "polls_inv (s\<lparr>limits := l\<rparr>) = polls_inv s" "polls_inv (s\<lparr>players := p\<rparr>) = polls_inv s"
  "polls_inv (send_poll_states h r i t s) = polls_inv s" "polls_inv (remove_file i s) = polls_inv s"
  "polls_inv (record_message s) = polls_inv s" "polls_inv (s\<lparr>room_messages := ms\<rparr>) = polls_inv s"
  "polls_inv (announce_preview r i v s) = polls_inv s" "polls_inv (release_upload u s) = polls_inv s"
  "polls_inv (update_message r i f s) = polls_inv s" "polls_inv (store_room_message r m s) = polls_inv s"
  by (simp_all add: polls_inv_def remove_file_def record_message_def announce_preview_def release_upload_def
      update_message_def store_room_message_def Let_def split: option.split)

lemma polls_inv_vote:
  assumes inv: "polls_inv s"
  shows "polls_inv (snd (vote_poll h now sid d s))"
proof -
  have "tally_ok (unwrap_or tally_default (map_of (poll_tallies s) mid))" for mid
  proof (cases "map_of (poll_tallies s) mid")
    case None
    then show ?thesis by (simp add: tally_ok_def tally_default_def)
  next
    case (Some t)
    then have "t \<in> set (vals (poll_tallies s))" by (rule map_of_set_vals)
    then have "tally_ok t" using inv unfolding polls_inv_def by blast
    with Some show ?thesis by simp
  qed
  then have put: "polls_inv (s1\<lparr>poll_tallies := AList.update mid \<lparr>pt_voters = pt_voters t @ [v],
        pt_counts = count_choices (vote_choices d) (pt_counts t)\<rparr> (poll_tallies s)\<rparr>)"
    if "t = unwrap_or tally_default (map_of (poll_tallies s) mid)" "v \<notin> set (pt_voters t)" "vote_choices d \<noteq> []"
    for s1 mid v t
    using that inv vals_update_subset [of _ mid _ "poll_tallies s"] tally_ok_vote [OF _ that(2) vote_choices_ok(1) that(3)]
      vote_choices_ok(2)
    unfolding polls_inv_def by fastforce
  show ?thesis
    using inv
    by (auto simp: vote_poll_def Let_def rate_hit_def split: option.split prod.split intro!: put)
qed

lemma polls_inv_send:
  assumes inv: "polls_inv s"
  shows "polls_inv (snd (send_chat_message b64 json_len uuid mid now sid d s))"
proof -
  have att: "polls_inv s1" if "parse_attachment b64 uuid r s = (x, s1)" for x s1 r
    using parse_attachment_frame [OF that] inv polls_inv_same by blast
  have claim: "polls_inv s2" if "claim_chat_slot now sid g s1 = (x, s2)" "polls_inv s1" for x s1 s2 g
    using claim_slot_frame [OF that(1)] that(2) polls_inv_same by blast
  show ?thesis
    using inv
    by (auto simp: send_chat_message_def Let_def rate_hit_def publish_chat_message_def
        dest!: att elim!: claim split: sum.split option.split prod.split)
qed

lemma polls_inv_others:
  assumes "polls_inv s"
  shows "polls_inv (snd (toggle_message_reaction now sid d s))" "polls_inv (snd (delete_message now sid d s))"
    "polls_inv (snd (edit_message json_len now sid d s))" "polls_inv (snd (fst (request_link_preview now sid d s)))"
    "polls_inv (finish_preview task preview s)" "polls_inv (snd (send_room_history h now sid d s))"
proof -
  have upd: "polls_inv s2 = polls_inv s1" if "update_message_reactions mid e u h s1 = (x, s2)" for mid e u h s1 x s2
    using that by (auto simp: update_message_reactions_def Let_def split: option.splits)
  show "polls_inv (snd (toggle_message_reaction now sid d s))"
    using assms
    by (auto simp: toggle_message_reaction_def Let_def rate_hit_def dest!: upd split: sum.split option.split prod.split)
qed (use assms in \<open>auto simp: delete_message_def apply_delete_def edit_message_def apply_edit_def request_link_preview_def finish_preview_def
    send_room_history_def dispatch_room_history_def Let_def rate_hit_def
    split: sum.split option.split prod.split preview_task.split\<close>)

lemma polls_inv_step: "polls_inv s \<Longrightarrow> polls_inv (chat_step b64 json_len h c s)"
  by (cases c) (simp_all add: polls_inv_send polls_inv_vote polls_inv_others)

section \<open>Properties\<close>

text \<open>After any run of chat operations and late link previews every room keeps at most 150
  messages, a text has at most 2000 characters, an encrypted message carries no plaintext and no
  attachment, and a deleted message has neither text, attachment, ciphertext nor preview, whatever
  arrives for it afterwards; a poll counts each voter once and no option more often than there are voters.\<close>

theorem chat_invariant:
  assumes "chat_inv s" "polls_inv s"
  shows "chat_inv (fold (chat_step b64 json_len h) cs s) \<and> polls_inv (fold (chat_step b64 json_len h) cs s)"
  using assms
proof (induction cs arbitrary: s)
  case Nil
  then show ?case by simp
next
  case (Cons c cs)
  with chat_inv_step polls_inv_step show ?case by simp
qed

text \<open>C26: the reaction list implements a set of pairs of emoji and user: toggling keeps the list
  sorted, without duplicates and with true counts, toggles the pair in the set, and toggling twice
  gives the same list back.\<close>

theorem reactions_refine_set:
  assumes "reactions_ok rs"
  shows "reactions_ok (toggle_reaction_list e u rs)
    \<and> reaction_set (toggle_reaction_list e u rs) =
      (if (e, u) \<in> reaction_set rs then reaction_set rs - {(e, u)} else insert (e, u) (reaction_set rs))
    \<and> toggle_reaction_list e u (toggle_reaction_list e u rs) = rs"
proof -
  note once = toggle_reaction_refines [OF assms, of e u]
  note twice = toggle_reaction_refines [OF conjunct1 [OF once], of e u]
  have "toggle_reaction_list e u (toggle_reaction_list e u rs) = rs"
    using once twice by (intro reactions_unique [OF conjunct1 [OF twice] assms]) auto
  with once show ?thesis by blast
qed

lemma update_message_limits [simp]:
  "room_messages (update_message rid mid f (s\<lparr>limits := l\<rparr>)) = room_messages (update_message rid mid f s)"
  by (simp add: update_message_def)

lemma find_room_frame [simp]:
  "delete_verdict rid p m (s\<lparr>limits := l\<rparr>) = delete_verdict rid p m s"
  "room_of_message (s\<lparr>limits := l\<rparr>) hint mid = room_of_message s hint mid"
  by (simp_all add: delete_verdict_def community_room_def room_of_message_def split: option.split)

lemma release_messages [simp]: "room_messages (release_upload i s) = room_messages s"
  by (simp add: release_upload_def remove_file_def split: option.split)

lemma apply_edit_cases:
  "room_messages (snd (apply_edit now sid d mid rid text enc s)) = room_messages s \<or>
    (\<exists>p m. map_of (players s) sid = Some p \<and> in_room rid p
      \<and> find_message mid (messages_of s rid) = Some m \<and> authored_by p m \<and> \<not> deleted m \<and> \<not> msg_system m
      \<and> room_messages (snd (apply_edit now sid d mid rid text enc s))
        = room_messages (update_message rid mid (edited_message now p text enc) s))"
  by (auto simp: apply_edit_def Let_def ofilter_Some split: option.split)

lemma edit_message_cases:
  "room_messages (snd (edit_message json_len now sid d s)) = room_messages s \<or>
    (\<exists>mid rid enc l. trimmed (str_field ''messageId'' d) = Some mid \<and> map_option trim (str_field ''gameId'' d) = Some rid
      \<and> edit_message json_len now sid d s = apply_edit now sid d mid rid (chat_text d) enc (s\<lparr>limits := l\<rparr>))"
  by (auto simp: edit_message_def Let_def rate_hit_def split: sum.split option.split prod.split)

lemma apply_delete_cases:
  "room_messages (snd (apply_delete now sid d p rid mid m s)) = room_messages s \<or>
    (\<exists>moderator. \<not> deleted m \<and> delete_verdict rid p m s = (True, moderator)
      \<and> room_messages (snd (apply_delete now sid d p rid mid m s))
        = room_messages (update_message rid mid (erase_message (ps_username p) moderator) s))"
  by (auto simp: apply_delete_def Let_def split: prod.split)

lemma room_of_message_hint: "room_of_message s hint mid = Some rid \<Longrightarrow> hint \<in> {None, Some rid}"
  by (auto simp: room_of_message_def split: option.splits if_splits)

lemma delete_message_cases:
  "room_messages (snd (delete_message now sid d s)) = room_messages s \<or>
    (\<exists>p rid mid m l. trimmed (str_field ''messageId'' d) = Some mid \<and> trimmed (str_field ''gameId'' d) \<in> {None, Some rid}
      \<and> map_of (players s) sid = Some p \<and> find_message mid (messages_of s rid) = Some m
      \<and> delete_message now sid d s = apply_delete now sid d p rid mid m (s\<lparr>limits := l\<rparr>))"
  using room_of_message_hint [of s "trimmed (str_field ''gameId'' d)" "the (trimmed (str_field ''messageId'' d))"]
  by (auto simp: delete_message_def Let_def rate_hit_def ofilter_Some split: option.split prod.split) blast+

section \<open>Who may edit and delete\<close>

text \<open>Whose message it is: the account id decides, the name only for a message stored without one.\<close>

definition wrote :: "player_session \<Rightarrow> chat_message \<Rightarrow> bool" where
  "wrote p m \<longleftrightarrow> msg_user_id m \<noteq> [] \<and> msg_user_id m = ps_user_id p
     \<or> msg_user_id m = [] \<and> msg_username m \<noteq> [] \<and> msg_username m = ps_username p"

text \<open>The moderation rule of a community room, read off its record: the owner and the administrators
  delete anything; a sub-administrator what neither the owner, an administrator nor a
  sub-administrator wrote; a moderator what plain members wrote, and only with the permission.\<close>

definition may_moderate :: "room_record \<Rightarrow> string \<Rightarrow> string \<Rightarrow> bool" where
  "may_moderate r actor author \<longleftrightarrow>
     owner_id r = Some actor \<or> map_of (roles r) actor = Some Administrator
     \<or> map_of (roles r) actor = Some SubAdministrator \<and> owner_id r \<noteq> Some author
        \<and> map_of (roles r) author \<notin> {Some Administrator, Some SubAdministrator}
     \<or> map_of (roles r) actor = Some Moderator \<and> can_delete (mod_permissions r) \<and> owner_id r \<noteq> Some author
        \<and> map_of (roles r) author \<in> {None, Some Member}"

text \<open>Elsewhere the author and the administrators of the site.\<close>

definition may_delete :: "room_record option \<Rightarrow> player_session \<Rightarrow> chat_message \<Rightarrow> bool" where
  "may_delete r p m \<longleftrightarrow> wrote p m
     \<or> (case r of Some room \<Rightarrow> if room_kind room = Community then may_moderate room (ps_user_id p) (msg_user_id m)
                               else ps_is_admin p
        | None \<Rightarrow> ps_is_admin p)"

definition deletes_as_moderator :: "room_record option \<Rightarrow> player_session \<Rightarrow> chat_message \<Rightarrow> bool" where
  "deletes_as_moderator r p m \<longleftrightarrow> \<not> wrote p m \<and> map_option room_kind r = Some Community"

lemma authored_by_wrote: "authored_by p m \<longleftrightarrow> wrote p m"
  by (auto simp: authored_by_def is_message_author_def wrote_def)

lemma moderates_message_may: "moderates_message r actor author \<longleftrightarrow> may_moderate r actor author"
proof -
  have roles: "x = Administrator \<or> x = SubAdministrator \<or> x = Moderator \<or> x = Member" for x :: room_role
    by (cases x) auto
  show ?thesis
    using roles [of "the (map_of (roles r) actor)"] roles [of "the (map_of (roles r) author)"]
    by (cases "map_of (roles r) actor"; cases "map_of (roles r) author")
      (auto simp: moderates_message_def may_moderate_def role_in_room_def split: if_splits)
qed

lemma delete_verdict_iff:
  "delete_verdict rid p m s = (True, moderator) \<longleftrightarrow>
   may_delete (find_room rid s) p m \<and> moderator = deletes_as_moderator (find_room rid s) p m"
  by (auto simp: delete_verdict_def may_delete_def deletes_as_moderator_def community_room_def ofilter_def
      authored_by_wrote moderates_message_may Let_def split: option.splits)

text \<open>C8: an edit changes the messages only when the asking session is in the requested room and
  wrote the requested message, which is neither deleted nor a system message.  A deletion does only
  when the requested message stands in the requested room, is not deleted, and its author asks, or
  in a community room someone whom the moderation rule of the room puts above the author, or
  elsewhere an administrator of the site.  Each changes that one message only, and a deletion
  records who did it and whether as a moderator.\<close>

theorem edits_and_deletions_authorised:
  "(room_messages (snd (edit_message json_len now sid d s)) = room_messages s \<or>
    (\<exists>p rid mid m enc. trimmed (str_field ''messageId'' d) = Some mid
      \<and> map_option trim (str_field ''gameId'' d) = Some rid
      \<and> map_of (players s) sid = Some p \<and> in_room rid p
      \<and> find_message mid (messages_of s rid) = Some m \<and> wrote p m \<and> \<not> deleted m \<and> \<not> msg_system m
      \<and> room_messages (snd (edit_message json_len now sid d s))
        = room_messages (update_message rid mid (edited_message now p (chat_text d) enc) s)))
  \<and> (room_messages (snd (delete_message now sid d s)) = room_messages s \<or>
    (\<exists>p rid mid m. trimmed (str_field ''messageId'' d) = Some mid
      \<and> trimmed (str_field ''gameId'' d) \<in> {None, Some rid}
      \<and> map_of (players s) sid = Some p \<and> find_message mid (messages_of s rid) = Some m
      \<and> \<not> deleted m \<and> may_delete (find_room rid s) p m
      \<and> room_messages (snd (delete_message now sid d s))
        = room_messages (update_message rid mid
            (erase_message (ps_username p) (deletes_as_moderator (find_room rid s) p m)) s)))"
proof (rule conjI, goal_cases)
  case 1
  show ?case
    using edit_message_cases [of json_len now sid d s]
  proof (elim disjE exE conjE)
    fix mid rid enc l
    assume req: "trimmed (str_field ''messageId'' d) = Some mid" "map_option trim (str_field ''gameId'' d) = Some rid"
      and eq: "edit_message json_len now sid d s = apply_edit now sid d mid rid (chat_text d) enc (s\<lparr>limits := l\<rparr>)"
    show ?thesis
      unfolding eq req
      using apply_edit_cases [of now sid d mid rid "chat_text d" enc "s\<lparr>limits := l\<rparr>"] authored_by_wrote
      by (simp del: fst_conv snd_conv) blast
  qed simp
next
  case 2
  show ?case
    using delete_message_cases [of now sid d s]
  proof (elim disjE exE conjE)
    fix p rid mid m l
    assume req: "trimmed (str_field ''messageId'' d) = Some mid" "trimmed (str_field ''gameId'' d) \<in> {None, Some rid}"
      "map_of (players s) sid = Some p" "find_message mid (messages_of s rid) = Some m"
      and eq: "delete_message now sid d s = apply_delete now sid d p rid mid m (s\<lparr>limits := l\<rparr>)"
    from apply_delete_cases [of now sid d p rid mid m "s\<lparr>limits := l\<rparr>"]
    have "room_messages (snd (delete_message now sid d s)) = room_messages s \<or>
      (\<not> deleted m \<and> may_delete (find_room rid s) p m
      \<and> room_messages (snd (delete_message now sid d s))
        = room_messages (update_message rid mid
            (erase_message (ps_username p) (deletes_as_moderator (find_room rid s) p m)) s))"
      unfolding eq by (auto simp: delete_verdict_iff)
    with req show ?thesis by blast
  qed simp
qed

lemma broadcast_outbox:
  assumes "distinct (map ps_id (vals (players s)))" "q \<in> set (vals (players s))"
  shows "outbox (broadcast_to_room g j s) (ps_id q) =
    (if in_room g q \<and> length (outbox s (ps_id q)) < PER_SESSION_QUEUE then outbox s (ps_id q) @ [WText j]
     else outbox s (ps_id q))"
proof -
  have "distinct (map ps_id (filter (in_room g) (vals (players s))))"
    using assms(1) by (simp add: distinct_map_filter)
  moreover have "ps_id q \<in> set (map ps_id (filter (in_room g) (vals (players s)))) \<longleftrightarrow> in_room g q"
    using assms by (auto simp: distinct_map inj_on_def)
  ultimately show ?thesis by (simp add: broadcast_to_room_def outbox_send_all)
qed

lemma outbox_respond: "map_of (players s) sid = Some p \<Longrightarrow> c \<noteq> ps_id p \<Longrightarrow> outbox (respond_to_sender sid j s) c = outbox s c"
  by (simp add: respond_to_sender_def outbox_try_send)

lemma vals_adjust_frame:
  "(\<And>p. f (g p) = f p) \<Longrightarrow> map f (vals (adjust k g m)) = map f (vals m)"
  by (induction m) (auto simp: adjust_def)

lemma adjust_member: "v \<in> set (vals m) \<Longrightarrow> \<exists>v' \<in> set (vals (adjust k g m)). v' = v \<or> v' = g v"
  by (induction m) (auto simp: adjust_def)

lemma outbox_store [simp]: "outbox (store_room_message r m s) = outbox s" "players (store_room_message r m s) = players s"
  by (simp_all add: store_room_message_def record_message_def Let_def)

lemma messages_of_store:
  "messages_of (store_room_message rid m s) rid = (let ms = messages_of s rid @ [m] in drop (length ms - MAX_ROOM_MESSAGES) ms)"
  by (simp add: store_room_message_def Let_def messages_of_def record_message_def)

lemma messages_of_frame [simp]:
  "messages_of (respond_to_sender sid j s) rid = messages_of s rid"
  "messages_of (broadcast_to_room g j s) rid = messages_of s rid" "messages_of (s\<lparr>players := ps\<rparr>) rid = messages_of s rid"
  by (simp_all add: messages_of_def)

text \<open>What a bounded queue does with one more message.\<close>

definition pushed :: "ws_msg \<Rightarrow> ws_msg list \<Rightarrow> ws_msg list" where
  "pushed msg queue = (if length queue < PER_SESSION_QUEUE then queue @ [msg] else queue)"

lemma outbox_respond_to:
  "map_of (players s) sid = Some p \<Longrightarrow>
   outbox (respond_to_sender sid j s) c = (if c = ps_id p then pushed (WText j) (outbox s c) else outbox s c)"
  by (simp add: respond_to_sender_def outbox_try_send pushed_def)

text \<open>The members of a room each get one text, everyone else nothing.\<close>

lemma broadcast_pushed:
  assumes "distinct (map ps_id (vals (players s)))" "q \<in> set (vals (players s))"
  shows "outbox (broadcast_to_room g j s) (ps_id q) =
    (if in_room g q then pushed (WText j) (outbox s (ps_id q)) else outbox s (ps_id q))"
  using broadcast_outbox [OF assms, of g j] by (simp add: pushed_def)


section \<open>Witnesses\<close>

definition demo_say :: json where
  "demo_say = JObj [(''gameId'', JStr ''abcdefgh''), (''text'', JStr ''hi''), (''messageId'', JStr ''m1'')]"

theorem chat_invariant_witness:
  "chat_inv (fold (chat_step (\<lambda>_. None) (\<lambda>_. 0) (\<lambda>a b. a @ b)) [Send ''f'' ''m1'' 7 ''s1'' demo_say] demo_club)"
  using chat_invariant [of demo_club "\<lambda>_. None" "\<lambda>_. 0" "\<lambda>a b. a @ b" "[Send ''f'' ''m1'' 7 ''s1'' demo_say]"]
  by (simp add: chat_inv_def polls_inv_def demo_defs)

theorem reactions_refine_set_witness:
  "toggle_reaction_list ''x'' ''ann'' (toggle_reaction_list ''x'' ''ann'' [\<lparr>mr_emoji = ''x'', mr_users = [''bob''], mr_count = 1\<rparr>])
     = [\<lparr>mr_emoji = ''x'', mr_users = [''bob''], mr_count = 1\<rparr>]"
  using reactions_refine_set [of "[\<lparr>mr_emoji = ''x'', mr_users = [''bob''], mr_count = 1\<rparr>]" "''x''" "''ann''"]
  by (simp add: reactions_ok_def reaction_ok_def)

lemma demo_say_simps:
  "map_option trim (str_field ''gameId'' demo_say) = Some ''abcdefgh''" "validate_room_id ''abcdefgh'' = Inr ()"
  "obj_get ''encrypted'' demo_say = None" "obj_get ''attachment'' demo_say = None" "chat_text demo_say = ''hi''"
  "map_of (players demo_club) ''s1'' = Some (demo_session ''s1'' ''ann'' [''abcdefgh''])"
  "\<not> speech_refused 7 ''abcdefgh'' ''ann'' demo_club"
  by code_simp+

text \<open>The second message of a session, 400 ms after its first, as its own queue sees it.\<close>

definition demo_ann :: player_session where
  "demo_ann = (demo_session ''s1'' ''ann'' [''abcdefgh''])\<lparr>ps_last_message := Some 7\<rparr>"

definition demo_paced :: app_state where
  "demo_paced = demo_club\<lparr>players := [(''s1'', demo_ann), (''s2'', demo_session ''s2'' ''bob'' [''abcdefgh''])]\<rparr>"

lemma demo_paced_simps:
  "distinct (map ps_id (vals (players demo_paced)))" "map_of (players demo_paced) ''s1'' = Some demo_ann"
  "ps_username demo_ann \<noteq> []" "in_room ''abcdefgh'' demo_ann" "demo_ann \<in> set (vals (players demo_paced))"
  "limits demo_paced = limits demo_club" "parse_encrypted_payload (\<lambda>_. 0) (obj_get ''encrypted'' demo_say) = Inr None"
  "\<not> encrypted_mismatch None ''abcdefgh''" "None = None \<longleftrightarrow> chat_text demo_say \<noteq> []"
  "case ps_last_message demo_ann of None \<Rightarrow> True | Some t \<Rightarrow> t + 400 \<le> 407"
  "\<not> speech_refused 407 ''abcdefgh'' (ps_user_id demo_ann) demo_paced"
  "outbox demo_paced ''s1'' = []" "ps_id demo_ann = ''s1''" "request_id demo_say = None"
  by (simp_all add: demo_paced_def demo_ann_def demo_session_def demo_club_def demo_state_def in_room_def
      parse_encrypted_payload_def demo_say_simps encrypted_mismatch_def speech_refused_def find_room_def demo_room_def
      can_speak_def room_default_def) code_simp


text \<open>Nothing asks whether the author of an edit may still speak: a member under a timeout, whose new
  messages are refused, replaces the text of an old one.\<close>

definition demo_muted :: app_state where
  "demo_muted = demo_club\<lparr>rooms := [(''abcdefgh'', demo_room\<lparr>timeouts := [(''bob'', 100)]\<rparr>)],
     room_messages := [(''abcdefgh'', [new_chat_message 1 ''m1'' ''abcdefgh'' (demo_session ''s2'' ''bob'' [''abcdefgh'']) ''old'' None None None])]\<rparr>"

lemma demo_edit_simps:
  "trimmed (str_field ''messageId'' demo_say) = Some ''m1''"
  "trim ''abcdefgh'' = ''abcdefgh''" "str_field ''gameId'' demo_say = Some ''abcdefgh''"
  by code_simp+

lemma edit_ignores_timeout:
  "speech_refused 7 ''abcdefgh'' ''bob'' demo_muted"
  "map msg_text (messages_of (snd (edit_message (\<lambda>_. 0) 7 ''s2'' demo_say demo_muted)) ''abcdefgh'') = [''hi'']"
proof -
  show "speech_refused 7 ''abcdefgh'' ''bob'' demo_muted" by code_simp
  have "map msg_text (messages_of (snd (apply_edit 7 ''s2'' demo_say ''m1'' ''abcdefgh'' ''hi'' None (demo_muted\<lparr>limits := l\<rparr>))) ''abcdefgh'') = [''hi'']" for l
    by (simp add: apply_edit_def demo_muted_def demo_club_def demo_state_def demo_session_def in_room_def
        find_message_def messages_of_def new_chat_message_def authored_by_def is_message_author_def update_message_def
        edited_message_def)
  then show "map msg_text (messages_of (snd (edit_message (\<lambda>_. 0) 7 ''s2'' demo_say demo_muted)) ''abcdefgh'') = [''hi'']"
    using demo_limits [of 10 7 _ 10000]
    by (simp add: edit_message_def rate_hit_def Let_def demo_edit_simps demo_say_simps parse_encrypted_payload_def
        encrypted_mismatch_def demo_muted_def)
qed

end
