(* ===== verification/Session_Table.thy ===== *)
theory Session_Table
  imports Socket_Loop Messages_Inv
begin

text \<open>
  What may happen to the table of sessions, as an abstract machine: the changes of one session
  (\<open>session_change\<close>) and the steps of the table (\<open>table_step\<close>), with the guards the promises need.
  Shown: every handler, and so every run of the server, moves the table by these steps only; they
  keep the table well-formed, and the calls exclusive as long as no identification claims a call.
\<close>

section \<open>The abstract machine\<close>

inductive session_change :: "bool \<Rightarrow> player_session \<Rightarrow> player_session \<Rightarrow> bool" for strict where
  identifies: "(strict \<longrightarrow> bool_field ''isVoiceChat'' d \<noteq> Some True) \<Longrightarrow> session_change strict p (identified now account st d p)"
| revalidates: "session_change strict p (p\<lparr>ps_is_admin := a, ps_badges := b, ps_username := u, ps_last_revalidation := t\<rparr>)"
| enters: "in_room g p \<or> length (ps_rooms p) < MAX_ROOMS_PER_PLAYER \<Longrightarrow>
    session_change strict p (p\<lparr>ps_rooms := List.insert g (ps_rooms p)\<rparr>)"
| exits: "session_change strict p (p\<lparr>ps_rooms := removeAll g (ps_rooms p)\<rparr>)"
| deafens: "session_change strict p (p\<lparr>ps_deafened := b\<rparr>)"
| mutes: "n \<in> set (ps_muted p) \<or> length (ps_muted p) < MAX_MUTED_USERS_PER_PLAYER \<Longrightarrow>
    session_change strict p (p\<lparr>ps_muted := List.insert n (ps_muted p)\<rparr>)"
| unmutes: "session_change strict p (p\<lparr>ps_muted := removeAll n (ps_muted p)\<rparr>)"
| speaks: "session_change strict p (p\<lparr>ps_last_message := t'\<rparr>)"
| settles: "session_change strict p (apply_settings prof st' d' p)"

lemma session_stays: "session_change strict p p"
  using speaks [of strict p "ps_last_message p"] by simp

definition call_free :: "string \<Rightarrow> player_session \<Rightarrow> (string \<times> player_session) list \<Rightarrow> bool" where
  "call_free sid p t \<longleftrightarrow> ps_status p \<noteq> Invisible
     \<and> (ps_user_id p \<noteq> [] \<longrightarrow> \<not> list_ex (stale_voice sid (ps_user_id p)) (vals t))"

inductive table_step :: "bool \<Rightarrow> string set \<Rightarrow> (string \<times> player_session) list \<Rightarrow> (string \<times> player_session) list \<Rightarrow> bool" for strict churn where
  changes: "map_of t sid = Some p \<Longrightarrow> session_change strict p (f p) \<Longrightarrow> table_step strict churn t (adjust sid f t)"
| connects: "sid \<in> churn \<Longrightarrow> length t < MAX_CONCURRENT_SESSIONS \<Longrightarrow> table_step strict churn t (AList.update sid (new_session sid) t)"
| disconnects: "sid \<in> churn \<Longrightarrow> table_step strict churn t (AList.delete sid t)"
| expels: "table_step strict churn t (map_vals (\<lambda>p. if who p then p\<lparr>ps_rooms := removeAll g (ps_rooms p)\<rparr> else p) t)"
| evicts: "table_step strict churn t (map_vals (\<lambda>p. if who p then out_of_call p else p) t)"
| calls: "map_of t sid = Some p \<Longrightarrow> (voice \<longrightarrow> call_free sid p t) \<Longrightarrow>
    table_step strict churn t (adjust sid (with_call voice camera screen room) t)"

definition table_moves :: "bool \<Rightarrow> string set \<Rightarrow> app_state \<Rightarrow> app_state \<Rightarrow> bool" where
  "table_moves strict churn s s' \<longleftrightarrow> (table_step strict churn)\<^sup>*\<^sup>* (players s) (players s')"

lemma moves_same: "players s' = players s \<Longrightarrow> table_moves strict churn s s'"
  by (simp add: table_moves_def)

lemma moves_refl [simp]: "table_moves strict churn s s"
  by (simp add: table_moves_def)

lemma moves_step: "table_step strict churn (players s) (players s') \<Longrightarrow> table_moves strict churn s s'"
  by (auto simp: table_moves_def)

lemma moves_trans: "table_moves strict churn s s' \<Longrightarrow> table_moves strict churn s' s'' \<Longrightarrow> table_moves strict churn s s''"
  by (auto simp: table_moves_def)

text \<open>The steps as runs of one step, in the form the handlers leave.\<close>

lemma table_run1: "table_step strict churn t t' \<Longrightarrow> (table_step strict churn)\<^sup>*\<^sup>* t t'"
  by (rule r_into_rtranclp)

lemma table_runs:
  "map_of t sid = Some p \<Longrightarrow> session_change strict p (f p) \<Longrightarrow> (table_step strict churn)\<^sup>*\<^sup>* t (adjust sid f t)"
  "sid \<in> churn \<Longrightarrow> length t < MAX_CONCURRENT_SESSIONS \<Longrightarrow> (table_step strict churn)\<^sup>*\<^sup>* t (AList.update sid (new_session sid) t)"
  "sid \<in> churn \<Longrightarrow> (table_step strict churn)\<^sup>*\<^sup>* t (AList.delete sid t)"
  "(table_step strict churn)\<^sup>*\<^sup>* t (map_vals (\<lambda>p. if who p then p\<lparr>ps_rooms := removeAll g (ps_rooms p)\<rparr> else p) t)"
  "(table_step strict churn)\<^sup>*\<^sup>* t (map_vals (\<lambda>p. if who p then out_of_call p else p) t)"
  "map_of t sid = Some p \<Longrightarrow> (voice \<longrightarrow> call_free sid p t) \<Longrightarrow>
    (table_step strict churn)\<^sup>*\<^sup>* t (adjust sid (with_call voice camera screen room) t)"
  by (blast intro: table_run1 table_step.intros)+

section \<open>What the steps keep\<close>

definition session_ok :: "string \<Rightarrow> player_session \<Rightarrow> bool" where
  "session_ok i p \<longleftrightarrow> ps_id p = i \<and> distinct (ps_rooms p) \<and> length (ps_rooms p) \<le> MAX_ROOMS_PER_PLAYER
     \<and> distinct (ps_muted p) \<and> length (ps_muted p) \<le> MAX_MUTED_USERS_PER_PLAYER"

definition table_ok :: "(string \<times> player_session) list \<Rightarrow> bool" where
  "table_ok t \<longleftrightarrow> distinct (keys t) \<and> length t \<le> MAX_CONCURRENT_SESSIONS \<and> (\<forall>(i, p) \<in> set t. session_ok i p)"

definition calls_ok :: "(string \<times> player_session) list \<Rightarrow> bool" where
  "calls_ok t \<longleftrightarrow> (\<forall>(i, p) \<in> set t. ps_voice p \<longrightarrow> ps_status p \<noteq> Invisible)
     \<and> (\<forall>(i, p) \<in> set t. \<forall>(j, q) \<in> set t. ps_voice p \<and> ps_voice q \<and> ps_user_id p \<noteq> [] \<and> ps_user_id p = ps_user_id q \<longrightarrow> i = j)"

lemma set_adjust: "x \<in> set (adjust k f m) \<longleftrightarrow> (\<exists>v. (fst x, v) \<in> set m \<and> snd x = (if fst x = k then f v else v))"
  by (cases x) (force simp: adjust_def)

lemma set_map_vals: "x \<in> set (map_vals f m) \<longleftrightarrow> (\<exists>v. (fst x, v) \<in> set m \<and> snd x = f v)"
  by (cases x) (force simp: map_vals_def)

lemma length_map_vals [simp]: "length (map_vals f m) = length m"
  by (simp add: map_vals_def)

lemma distinct_map_of: "distinct (keys m) \<Longrightarrow> (k, v) \<in> set m \<Longrightarrow> map_of m k = Some v"
  by (simp add: map_of_eq_Some_iff)

lemma set_update_new: "x \<in> set (AList.update k v m) \<Longrightarrow> x = (k, v) \<or> x \<in> set m"
  by (induction m) (auto split: if_splits)

lemma set_delete: "x \<in> set (AList.delete k m) \<Longrightarrow> x \<in> set m \<and> fst x \<noteq> k"
  by (auto simp: AList.delete_eq)

lemma session_ok_call [simp]: "session_ok i (with_call a b c d p) = session_ok i p" "session_ok i (out_of_call p) = session_ok i p"
  by (simp_all add: session_ok_def with_call_def out_of_call_def)

lemma session_change_ok: "session_change strict p q \<Longrightarrow> session_ok i p \<Longrightarrow> session_ok i q"
  by (cases rule: session_change.cases, assumption)
    (auto simp: session_ok_def identified_def in_room_def length_List_insert apply_settings_def out_of_call_def Let_def
      distinct_removeAll split: option.splits intro: le_trans [OF length_removeAll_less_eq])

lemma table_step_ok: "table_step strict churn t t' \<Longrightarrow> table_ok t \<Longrightarrow> table_ok t'"
proof (induction rule: table_step.induct)
  case (changes t sid p f)
  then have "session_ok sid p" by (auto simp: table_ok_def dest: map_of_SomeD)
  then have "session_ok sid (f p)" by (rule session_change_ok [OF changes.hyps(2)])
  with changes show ?case
    unfolding table_ok_def by (fastforce simp: set_adjust distinct_map_of split: if_splits)
next
  case (connects t sid)
  then show ?case
    by (auto simp: table_ok_def session_ok_def new_session_def distinct_keys_update
        dest!: set_update_new intro: le_trans [OF length_update_le])
next
  case (disconnects t sid)
  then show ?case
    by (auto simp: table_ok_def distinct_keys_filter AList.delete_eq intro: le_trans [OF length_filter_le])
next
  case (expels t who g)
  then show ?case
    unfolding table_ok_def
    by (fastforce simp: set_map_vals session_ok_def distinct_removeAll intro: le_trans [OF length_removeAll_less_eq]
        split: if_splits)
next
  case (evicts t who)
  then show ?case
    unfolding table_ok_def by (fastforce simp: set_map_vals session_ok_def out_of_call_def split: if_splits)
next
  case (calls t sid p voice camera screen room)
  then show ?case
    unfolding table_ok_def by (fastforce simp: set_adjust split: if_splits)
qed

lemma table_moves_ok: "table_moves strict churn s s' \<Longrightarrow> table_ok (players s) \<Longrightarrow> table_ok (players s')"
  unfolding table_moves_def by (induction rule: rtranclp_induct) (auto intro: table_step_ok)

text \<open>A strict change never puts a session in a call, nor makes one in a call invisible.\<close>

lemma session_change_voice:
  "session_change True p q \<Longrightarrow> ps_voice q \<Longrightarrow> ps_voice p \<and> ps_user_id q = ps_user_id p
     \<and> (ps_status q = Invisible \<longrightarrow> ps_status p = Invisible)"
  by (cases rule: session_change.cases, assumption)
    (auto simp: identified_def apply_settings_def out_of_call_def Let_def unwrap_or_def split: option.splits if_splits)

lemma calls_ok_mono:
  assumes "calls_ok t" and "\<And>i q. (i, q) \<in> set t' \<Longrightarrow> ps_voice q \<Longrightarrow>
      \<exists>p. (i, p) \<in> set t \<and> ps_voice p \<and> ps_user_id q = ps_user_id p \<and> (ps_status q = Invisible \<longrightarrow> ps_status p = Invisible)"
  shows "calls_ok t'"
  unfolding calls_ok_def
proof (intro conjI ballI; clarify)
  fix i p assume "(i, p) \<in> set t'" "ps_voice p" "ps_status p = Invisible"
  with assms show False unfolding calls_ok_def by blast
next
  fix i p j q
  assume *: "(i, p) \<in> set t'" "(j, q) \<in> set t'" "ps_voice p" "ps_voice q" "ps_user_id p \<noteq> []" "ps_user_id p = ps_user_id q"
  obtain p' where p': "(i, p') \<in> set t" "ps_voice p'" "ps_user_id p = ps_user_id p'" using assms(2) *(1,3) by blast
  obtain q' where q': "(j, q') \<in> set t" "ps_voice q'" "ps_user_id q = ps_user_id q'" using assms(2) *(2,4) by blast
  from assms(1) p' q' *(5,6) show "i = j" unfolding calls_ok_def by fastforce
qed

lemma calls_step_ok: "table_step True churn t t' \<Longrightarrow> table_ok t \<Longrightarrow> calls_ok t \<Longrightarrow> calls_ok t'"
proof (induction rule: table_step.induct)
  case (changes t sid p f)
  note voice = session_change_voice [OF changes.hyps(2)]
  have sid: "(sid, v) \<in> set t \<Longrightarrow> v = p" for v
    using changes.prems(1) changes.hyps(1) by (auto simp: table_ok_def dest: distinct_map_of)
  have "(sid, p) \<in> set t" using changes.hyps(1) by (rule map_of_SomeD)
  moreover have "\<exists>v. (i, v) \<in> set t \<and> q = (if i = sid then f v else v)" if "(i, q) \<in> set (adjust sid f t)" for i q
    using that by (auto simp: set_adjust)
  ultimately show ?case
    using sid voice by (intro calls_ok_mono [OF changes.prems(2)]) (metis (no_types))
next
  case (connects t sid)
  then show ?case by (elim calls_ok_mono) (fastforce dest!: set_update_new simp: new_session_def)
next
  case (disconnects t sid)
  then show ?case by (elim calls_ok_mono) (fastforce dest!: set_delete)
next
  case (expels t who g)
  then show ?case by (elim calls_ok_mono) (fastforce simp: set_map_vals split: if_splits)
next
  case (evicts t who)
  then show ?case by (elim calls_ok_mono) (fastforce simp: set_map_vals out_of_call_def split: if_splits)
next
  case (calls t sid p voice camera screen room)
  have sid: "(sid, v) \<in> set t \<Longrightarrow> v = p" for v
    using calls.prems(1) calls.hyps(1) by (auto simp: table_ok_def dest: distinct_map_of)
  have others: "voice \<Longrightarrow> (j, q) \<in> set t \<Longrightarrow> j \<noteq> sid \<Longrightarrow> ps_voice q \<Longrightarrow> ps_user_id p \<noteq> [] \<Longrightarrow> ps_user_id q \<noteq> ps_user_id p" for j q
    using calls.hyps(2) calls.prems(1) unfolding call_free_def table_ok_def session_ok_def stale_voice_def list_ex_iff by fastforce
  show ?case
    unfolding calls_ok_def
  proof (intro conjI ballI; clarify)
    fix i q assume "(i, q) \<in> set (adjust sid (with_call voice camera screen room) t)" "ps_voice q" "ps_status q = Invisible"
    then show False using calls.hyps(2) calls.prems(2) sid
      by (auto simp: set_adjust with_call_def call_free_def calls_ok_def split: if_splits)
  next
    fix i q j r
    assume *: "(i, q) \<in> set (adjust sid (with_call voice camera screen room) t)" "ps_voice q" "ps_user_id q \<noteq> []"
      "(j, r) \<in> set (adjust sid (with_call voice camera screen room) t)" "ps_voice r" "ps_user_id q = ps_user_id r"
    show "i = j"
    proof (cases "i = sid \<or> j = sid")
      case True
      with * sid others show ?thesis by (fastforce simp: set_adjust with_call_def split: if_splits)
    next
      case False
      with * have "(i, q) \<in> set t" "(j, r) \<in> set t" by (auto simp: set_adjust)
      with * calls.prems(2) show ?thesis unfolding calls_ok_def by fastforce
    qed
  qed
qed

lemma calls_moves_ok:
  "table_moves True churn s s' \<Longrightarrow> table_ok (players s) \<Longrightarrow> calls_ok (players s) \<Longrightarrow> calls_ok (players s')"
proof -
  assume "table_moves True churn s s'" "table_ok (players s)" "calls_ok (players s)"
  then have "table_ok (players s') \<and> calls_ok (players s')"
    unfolding table_moves_def by (induction rule: rtranclp_induct) (auto intro: table_step_ok calls_step_ok)
  then show ?thesis ..
qed

section \<open>The handlers of sessions\<close>

lemma moves_limits [simp]: "table_moves strict churn s (s'\<lparr>limits := l\<rparr>) = table_moves strict churn s s'"
  "table_moves strict churn (s\<lparr>limits := l\<rparr>) s' = table_moves strict churn s s'"
  by (simp_all add: table_moves_def)

lemma moves_sends [simp]:
  "table_moves strict churn s (try_send c m s') = table_moves strict churn s s'"
  "table_moves strict churn s (respond_to_sender c j s') = table_moves strict churn s s'"
  "table_moves strict churn s (broadcast_to_room g j s') = table_moves strict churn s s'"
  "table_moves strict churn s (send_all cs m s') = table_moves strict churn s s'"
  by (simp_all add: table_moves_def)

lemma rate_hit_players: "rate_hit now k l w s = (hit, s') \<Longrightarrow> players s' = players s"
  by (auto simp: rate_hit_def split: prod.splits)

lemma sync_players [simp]:
  "players (snd (sync_room_record rid s)) = players s" "players (snd (set_room_record rid r s)) = players s"
  "players (snd (set_room_icon rid i s)) = players s"
  by (auto simp: sync_room_record_def set_room_record_def set_room_icon_def Let_def split: prod.splits sum.splits)

lemma sync_event_players [simp]: "players (broadcast_sync_peer_event u e c pl x s) = players s"
  by (simp add: broadcast_sync_peer_event_def)

lemma history_players [simp]: "players (dispatch_room_history h sid rid req s) = players s"
  by (simp add: dispatch_room_history_def)

lemma clear_players [simp]: "players (snd (delete_user_messages_in_room_and_broadcast now g n s)) = players s"
  by (auto simp: delete_user_messages_in_room_and_broadcast_def Let_def split: option.splits)

lemma announce_players [simp]:
  "players (announce_join h sid req g b c p s) = players s" "players (announce_leave now sid req g p s) = players s"
  by (auto simp: announce_join_def announce_leave_def Let_def split: prod.splits)
    (metis clear_players broadcast_frame(1) snd_conv sync_players(1))+

lemma depart_players [simp]: "players (depart_room now p g s) = players s"
  by (auto simp: depart_room_def Let_def)

lemma depart_all_players [simp]: "players (fold (depart_room now p) gs s) = players s"
  by (induction gs arbitrary: s) auto

lemma fan_out_players [simp]: "players (snd (sync_fan_out j ps a b c s)) = players s"
  by (induction j ps a b c s rule: sync_fan_out.induct) auto

lemma moves_register: "sid \<in> churn \<Longrightarrow> table_moves strict churn s (snd (register_connection sid s))"
  by (auto simp: register_connection_def record_session_opened_def Let_def not_le table_moves_def intro: table_runs)

lemma moves_disconnect: "sid \<in> churn \<Longrightarrow> table_moves strict churn s (disconnect_player now sid s)"
  by (auto simp: disconnect_player_def Let_def broadcast_sync_peer_leave_def table_moves_def split: option.splits
      intro: table_runs)

lemma moves_close: "table_moves strict UNIV s (close_with now j u s)"
proof -
  have "table_moves strict UNIV s (fold (\<lambda>i s. disconnect_player now i (try_send i WClose (try_send i (WText j) s))) is s)" for "is"
  proof (induction "is" arbitrary: s)
    case (Cons i "is")
    have "table_moves strict UNIV s (disconnect_player now i (try_send i WClose (try_send i (WText j) s)))"
      using moves_disconnect [where s = "try_send i WClose (try_send i (WText j) s)" and sid = i and churn = UNIV and strict = strict]
      by (simp add: table_moves_def)
    with Cons show ?case by (auto intro: moves_trans)
  qed auto
  then show ?thesis by (simp add: close_with_def)
qed

lemma moves_identify:
  "(strict \<longrightarrow> bool_field ''isVoiceChat'' d \<noteq> Some True) \<Longrightarrow> table_moves strict churn s (snd (identify_player th now sid d s))"
  by (auto simp: identify_player_def Let_def table_moves_def split: option.splits sum.splits
      intro!: table_runs(1) identifies)

lemma moves_revalidate: "table_moves strict churn s (snd (revalidate_session now sid s))"
  by (auto simp: revalidate_session_def table_moves_def split: option.splits sum.splits prod.splits
      intro!: table_runs(1) revalidates)

lemma adjust_absent: "map_of m k = None \<Longrightarrow> adjust k f m = m"
  by (force simp: adjust_def map_of_eq_None_iff intro!: map_idI)

lemma moves_exit: "table_moves strict churn s (exit_room sid g s)"
  by (cases "map_of (players s) sid")
    (auto simp: exit_room_def adjust_absent table_moves_def intro!: table_runs(1) exits)

lemma moves_exit_limits [simp]: "table_moves strict churn s (exit_room sid g (s\<lparr>limits := l\<rparr>))"
  using moves_exit [of strict churn "s\<lparr>limits := l\<rparr>" sid g] by simp

lemma moves_enter: "enter_room sid g (s\<lparr>limits := l\<rparr>) = (r, s') \<Longrightarrow> table_moves strict churn s s'"
  by (auto simp: enter_room_def not_le table_moves_def split: option.splits if_splits intro!: table_runs(1) enters)

lemma moves_announce [simp]:
  "table_moves strict churn s (announce_join h sid req g b c p s') = table_moves strict churn s s'"
  "table_moves strict churn s (announce_leave now sid req g p s') = table_moves strict churn s s'"
  "table_moves strict churn s (snd (sync_room_record g s')) = table_moves strict churn s s'"
  by (simp_all add: table_moves_def)

lemma moves_join: "table_moves strict churn s (snd (join_game h now sid d s))"
  by (auto simp: join_game_def Let_def rate_hit_def split: option.splits sum.splits prod.splits
      dest: moves_enter intro: moves_trans [OF moves_enter moves_exit])

lemma moves_leave: "table_moves strict churn s (snd (leave_game now sid d s))"
  by (auto simp: leave_game_def Let_def rate_hit_def split: option.splits sum.splits prod.splits)

section \<open>Calls and settings\<close>

lemma call_notice_players [simp]: "players (call_notice n p v m g s) = players s"
  by (simp add: call_notice_def)

lemma fold_notice_players [simp]:
  "players (fold (call_notice n p v m) gs s) = players s"
  "players (fold (\<lambda>q s. fold (call_notice n q v m) (ps_rooms q) s) qs s) = players s"
proof -
  show *: "players (fold (call_notice n p v m) gs s) = players s" for p gs s by (induction gs arbitrary: s) auto
  show "players (fold (\<lambda>q s. fold (call_notice n q v m) (ps_rooms q) s) qs s) = players s"
    by (induction qs arbitrary: s) (auto simp: *)
qed

lemma moves_fold [simp]:
  "table_moves strict churn s (fold (call_notice n p v m) gs s') = table_moves strict churn s s'"
  by (simp add: table_moves_def)

lemma moves_evict_stale: "table_moves strict churn s (snd (evict_stale joins sid s))"
  by (auto simp: evict_stale_def table_moves_def split: option.splits intro: table_runs)

text \<open>After the eviction no other session of the account is in a call.\<close>

lemma evict_stale_free:
  assumes "evict_stale True sid s = (gone, s')" "map_of (players s') sid = Some p" "ps_user_id p \<noteq> []"
  shows "\<not> list_ex (stale_voice sid (ps_user_id p)) (vals (players s'))"
proof -
  have out: "ps_user_id (out_of_call v) = ps_user_id v" "\<not> ps_voice (out_of_call v)" for v by (simp_all add: out_of_call_def)
  from assms obtain q u where q: "map_of (players s) sid = Some q"
    and s': "players s' = map_vals (\<lambda>p. if stale_voice sid u p then out_of_call p else p) (players s)" "u = ps_user_id q"
    by (cases "map_of (players s) sid") (auto simp: evict_stale_def split: if_splits)
  with assms(2) have "ps_user_id p = u" by (auto simp: out)
  then show ?thesis by (auto simp: s'(1) list_ex_iff map_vals_def stale_voice_def out split: if_splits)
qed

lemma moves_join_call:
  assumes "voice \<longrightarrow> (\<forall>p. map_of (players s) sid = Some p \<and> ps_user_id p \<noteq> [] \<longrightarrow>
      \<not> list_ex (stale_voice sid (ps_user_id p)) (vals (players s)))"
  shows "table_moves strict churn s (snd (join_call sid voice camera screen room s))"
  using assms
  by (auto simp: join_call_def call_free_def table_moves_def split: option.splits intro!: table_runs(6))

lemma moves_commit: "table_moves strict churn s (snd (commit_voice sid req voice camera screen room s))"
proof (cases "evict_stale voice sid s")
  case (Pair gone s1)
  have "table_moves strict churn s s1" using moves_evict_stale [of strict churn s voice sid] Pair by simp
  moreover have "table_moves strict churn s1 (snd (join_call sid voice camera screen room s1))"
    using evict_stale_free [of sid s gone s1] Pair by (intro moves_join_call) auto
  ultimately have "table_moves strict churn s (snd (join_call sid voice camera screen room s1))" by (rule moves_trans)
  then show ?thesis
    using Pair by (auto simp: commit_voice_def Let_def table_moves_def split: prod.splits sum.splits)
qed

lemma revoke_players [simp]: "players (revoke_call_access room u s) = players s"
  by (auto simp: revoke_call_access_def split: option.splits)

lemma moves_voice: "table_moves strict churn s (snd (update_voice_chat now sid d s))"
proof -
  have "table_moves strict churn s (snd (commit_voice sid req voice camera screen room s'))" if "players s' = players s"
    for req voice camera screen room s'
    using moves_commit [of strict churn s' sid req voice camera screen room] that by (simp add: table_moves_def)
  then show ?thesis
    by (auto simp: update_voice_chat_def Let_def rate_hit_def split: option.splits sum.splits prod.splits if_splits)
qed

lemma moves_claim:
  "claim_call sid voice camera screen room (s\<lparr>limits := l\<rparr>) = (r, s') \<Longrightarrow> table_moves strict churn s s'"
  by (auto simp: claim_call_def in_call_elsewhere_def call_free_def table_moves_def split: option.splits if_splits
      intro!: table_runs(6))

lemma moves_media: "table_moves strict churn s (snd (update_call_media_state now sid d s))"
  by (auto simp: update_call_media_state_def Let_def rate_hit_def split: sum.splits prod.splits dest: moves_claim)

lemma moves_deafened: "table_moves strict churn s (snd (update_call_deafened_state sid d s))"
  by (auto simp: update_call_deafened_state_def Let_def table_moves_def split: option.splits sum.splits
      intro!: table_runs(1) deafens)

lemma moves_mute: "table_moves strict churn s (snd (update_mute_state sid d s))"
  by (auto simp: update_mute_state_def Let_def table_moves_def not_le ofilter_Some split: option.splits
      intro!: table_runs(1) mutes unmutes session_stays)

lemma fold_announce_players [simp]:
  "players (fold (announce_profile p) gs s) = players s" "players (fold (announce_status p b) gs s) = players s"
  by (induction gs arbitrary: s) (simp_all add: announce_profile_def announce_status_def Let_def)

lemma publish_players [simp]: "players (publish_settings now sid d prof b q p s) = players s"
  by (simp add: publish_settings_def Let_def)

lemma profile_image_players: "parse_profile_image b64 uuid raw m l s = (r, s') \<Longrightarrow> players s' = players s"
  by (auto simp: parse_profile_image_def Let_def dest!: store_uploaded_frame
      split: option.splits json.splits sum.splits prod.splits if_splits)

lemma profile_field_players:
  "profile_image_field b64 u k m l c obj s = (r, s') \<Longrightarrow> players s' = players s"
  by (auto simp: profile_image_field_def dest!: profile_image_players split: if_splits)

lemma user_profile_players: "parse_user_profile b64 uuids cur raw s = (r, s') \<Longrightarrow> players s' = players s"
  by (auto simp: parse_user_profile_def dest!: profile_field_players split: option.splits json.splits sum.splits prod.splits if_splits)

lemma moves_settings: "table_moves strict churn s (snd (update_client_settings b64 uuids now sid d s))"
  by (auto simp: update_client_settings_def Let_def rate_hit_def table_moves_def split: option.splits sum.splits prod.splits if_splits
      dest!: user_profile_players intro!: table_runs(1) settles)

end
