(* ===== verification/Server_Moves.thy ===== *)
theory Server_Moves
  imports Session_Table
begin

text \<open>
  The remaining handlers as moves of the session table, and so the dispatcher, the connection loop
  and every run of the server; with it the invariants of the whole shared state.
\<close>

section \<open>The handlers that leave the table alone\<close>

lemma rate_hit_moves: "rate_hit now k l w s = (hit, s') \<Longrightarrow> players s' = players s"
  by (rule rate_hit_players)

lemma message_players [simp]:
  "players (update_message rid mid f s) = players s" "players (release_upload i s) = players s"
  "players (remove_file j s) = players s"
  by (simp_all add: update_message_def release_upload_def remove_file_def Let_def split: option.splits)

lemma reactions_players: "update_message_reactions mid e u h s = (r, s') \<Longrightarrow> players s' = players s"
  by (auto simp: update_message_reactions_def Let_def split: option.splits)

lemma kill_players [simp]: "players (snd (report_kill now sid d s)) = players s"
  by (auto simp: report_kill_def Let_def dest!: rate_hit_players split: option.splits sum.splits prod.splits)

lemma history_op_players [simp]: "players (snd (send_room_history h now sid d s)) = players s"
  by (auto simp: send_room_history_def Let_def dest!: rate_hit_players split: option.splits sum.splits prod.splits)

lemma reaction_players [simp]: "players (snd (toggle_message_reaction now sid d s)) = players s"
  by (auto simp: toggle_message_reaction_def Let_def dest!: rate_hit_players reactions_players split: option.splits sum.splits prod.splits)

lemma send_poll_players [simp]: "players (send_poll_states h rid mid t s) = players s"
  by simp

lemma vote_players [simp]: "players (snd (vote_poll h now sid d s)) = players s"
  by (auto simp: vote_poll_def Let_def dest!: rate_hit_players split: option.splits sum.splits prod.splits)

lemma signal_players [simp]: "players (snd (relay_room_signal n now sid d s)) = players s"
  by (auto simp: relay_room_signal_def Let_def dest!: rate_hit_players split: option.splits sum.splits prod.splits)

lemma cloud_players [simp]: "players (snd (relay_cloud_sync_op n now sid d s)) = players s"
  by (auto simp: relay_cloud_sync_op_def Let_def dest!: rate_hit_players split: option.splits sum.splits prod.splits)
   (metis fan_out_players snd_conv)+

lemma peers_players [simp]: "players (snd (sync_peers_op now sid d s)) = players s"
  by (auto simp: sync_peers_op_def Let_def dest!: rate_hit_players split: option.splits sum.splits prod.splits)

lemma delete_players [simp]: "players (snd (delete_message now sid d s)) = players s"
  by (auto simp: delete_message_def apply_delete_def Let_def dest!: rate_hit_players split: option.splits sum.splits prod.splits)

lemma edit_players [simp]: "players (snd (edit_message n now sid d s)) = players s"
  by (auto simp: edit_message_def apply_edit_def Let_def dest!: rate_hit_players split: option.splits sum.splits prod.splits)

lemma preview_players [simp]:
  "players (snd (fst (request_link_preview now sid d s))) = players s" "players (finish_preview task pv s) = players s"
  by (auto simp: request_link_preview_def finish_preview_def announce_preview_def Let_def dest!: rate_hit_players
      split: option.splits sum.splits prod.splits preview_task.splits)

lemma typing_players [simp]: "players (snd (update_typing_state now sid d s)) = players s"
  by (auto simp: update_typing_state_def Let_def dest!: rate_hit_players split: option.splits sum.splits prod.splits)

lemma icon_payload_players: "store_room_icon_from_payload b64 uuid d rid s = (r, s') \<Longrightarrow> players s' = players s"
  by (auto simp: store_room_icon_from_payload_def Let_def dest!: store_uploaded_frame
      split: option.splits json.splits sum.splits prod.splits if_splits)

lemma lookup_players: "lookup_profiles now ls acc s = (r, s') \<Longrightarrow> players s' = players s"
  by (induction now ls acc s rule: lookup_profiles.induct)
    (auto simp: Let_def cache_profile_def split: option.splits sum.splits)

lemma profiles_players [simp]: "players (snd (request_public_profiles now sid d s)) = players s"
  by (auto simp: request_public_profiles_def Let_def dest!: rate_hit_players lookup_players split: option.splits sum.splits prod.splits)

lemma prekey_players [simp]:
  "players (snd (publish_prekey_op lib now sid d s)) = players s"
  "players (snd (fetch_prekey_op lib now sid d s)) = players s"
  "players (snd (block_update_op lib now sid d s)) = players s"
  by (auto simp: publish_prekey_op_def fetch_prekey_op_def block_update_op_def Let_def dest!: rate_hit_players
      split: option.splits sum.splits prod.splits outcome.splits)

lemma call_signal_players [simp]: "players (snd (relay_call_signal n now sid d s)) = players s"
  by (auto simp: relay_call_signal_def Let_def dest!: rate_hit_players split: option.splits sum.splits prod.splits)

lemma admin_players [simp]:
  "players (snd (admin_status sid d s)) = players s" "players (snd (admin_broadcast sid d s)) = players s"
  "players (snd (stats_query now sid d s)) = players s"
  by (auto simp: admin_status_def admin_broadcast_def stats_query_def Let_def dest!: rate_hit_players
      split: option.splits sum.splits prod.splits)

lemma record_broadcast_players [simp]: "players (broadcast_room_record_to_members rid opn req b room s) = players s"
  by (simp add: broadcast_room_record_to_members_def)

lemma set_record_players: "set_room_record rid room s = (r, s') \<Longrightarrow> players s' = players s"
  by (auto simp: set_room_record_def split: if_splits)

lemma record_eq_players:
  "set_room_icon rid icon s = (r, s') \<Longrightarrow> players s' = players s"
  "sync_room_record rid s = (r', s') \<Longrightarrow> players s' = players s"
  by (metis snd_conv sync_players)+

lemma icon_payload_snd [simp]: "players (snd (store_room_icon_from_payload b64 uuid d rid s)) = players s"
  by (rule icon_payload_players [OF surjective_pairing])

lemma icon_players [simp]: "players (snd (upload_room_icon b64 uuid now sid d s)) = players s"
  unfolding upload_room_icon_def Let_def rate_hit_def
  by (simp add: split_beta split: sum.split option.split)

section \<open>Chat and rooms\<close>

lemma moves_slot: "claim_chat_slot now sid g s = (r, s') \<Longrightarrow> (table_step strict churn)\<^sup>*\<^sup>* (players s) (players s')"
  by (auto simp: claim_chat_slot_def split: option.splits if_splits intro!: table_runs(1) speaks)

lemma attachment_players: "parse_attachment b64 uuid raw s = (r, s') \<Longrightarrow> players s' = players s"
  by (drule parse_attachment_frame) simp

lemma moves_chat: "table_moves strict churn s (snd (send_chat_message b64 n uuid mid now sid d s))"
proof -
  have att: "players s1 = players s" if "parse_attachment b64 uuid r s = (x, s1)" for x s1 r
    using that by (rule attachment_players)
  have claim: "(table_step strict churn)\<^sup>*\<^sup>* (players s) (players s2)"
    if "claim_chat_slot now sid g (s1\<lparr>limits := l\<rparr>) = (x, s2)" "players s1 = players s" for x s1 s2 g l
    using moves_slot [OF that(1), of strict churn] that(2) by simp
  show ?thesis
    unfolding table_moves_def
    by (auto simp: send_chat_message_def Let_def rate_hit_def publish_chat_message_def
        dest!: att elim!: claim split: sum.split option.split prod.split)
qed

section \<open>Rooms\<close>

lemma removal_moves: "(table_step strict churn)\<^sup>*\<^sup>* (players s) (players (remove_user_from_room rid u reason s))"
  by (auto simp: remove_user_from_room_def Let_def intro: table_runs)

lemma persist_players [simp]: "players (snd (persist_and_announce opn msg sid d rid room s)) = players s"
  by (auto simp: persist_and_announce_def Let_def set_room_record_def)

lemma delete_room_players [simp]: "players (snd (delete_room rid s)) = players s"
  by (simp add: delete_room_def)

lemma create_if_players: "create_room_if_absent rid room s = (r, s') \<Longrightarrow> players s' = players s"
  by (auto simp: create_room_if_absent_def split: if_splits)

lemma icon_record_players:
  "players (snd (case store_room_icon_from_payload decode uuid d rid s of
     (Inr (Some icon), s) \<Rightarrow> (room\<lparr>room_icon := Some icon\<rparr>, snd (set_room_record rid (room\<lparr>room_icon := Some icon\<rparr>) s))
   | (_, s) \<Rightarrow> (room, s))) = players s"
  by (auto split: prod.splits sum.splits option.splits dest!: icon_payload_players)

lemma new_room_players: "players (snd (persist_new_room b64 uuid rid room sid d s)) = players s"
proof (cases "create_room_if_absent rid room s")
  case (Pair a s1)
  then have "players s1 = players s" by (rule create_if_players)
  with Pair show ?thesis
    using icon_record_players [where s = s1]
    by (auto simp: persist_new_room_def split_beta split: sum.split bool.split)
qed

lemma create_players [simp]: "players (snd (create_room b64 uuid now sid d s)) = players s"
  by (auto simp: create_room_def Let_def rate_hit_def new_room_players split: prod.split option.split sum.split)

lemma retitle_players: "players (snd (retitle_room rid title req sid s)) = players s"
  by (simp add: retitle_room_def split_beta split: sum.split)

lemma title_players [simp]: "players (snd (update_room_title now sid d s)) = players s"
  unfolding update_room_title_def Let_def rate_hit_def
  by (simp add: retitle_players split_beta split: sum.split)

text \<open>The operations of the community rooms: most leave the table alone, a ban, a kick and a deletion expel.\<close>

lemma community_keeps:
  assumes "\<And>actor name rid room s. (table_step strict churn)\<^sup>*\<^sup>* (players s) (players (snd (body actor name rid room s)))"
  shows "table_moves strict churn s (snd (community_op b l w opn km now sid d body s))"
  by (rule community_op_rule) (use assms [of "s\<lparr>limits := m\<rparr>" for m] in \<open>auto simp: table_moves_def\<close>)

lemma moves_removal: "(table_step strict churn)\<^sup>*\<^sup>* (players s) (players s') \<Longrightarrow>
    (table_step strict churn)\<^sup>*\<^sup>* (players s) (players (remove_user_from_room rid u reason s'))"
  by (rule rtranclp_trans [OF _ removal_moves])

lemma moves_kept_rooms:
  "table_moves strict churn s (snd (update_room_description now sid d s))"
  "table_moves strict churn s (snd (set_member_role now sid d s))"
  "table_moves strict churn s (snd (unban_member now sid d s))"
  "table_moves strict churn s (snd (timeout_member now sid d s))"
  "table_moves strict churn s (snd (transfer_ownership now sid d s))"
  "table_moves strict churn s (snd (set_chat_lock now sid d s))"
  "table_moves strict churn s (snd (set_moderator_permissions now sid d s))"
  "table_moves strict churn s (snd (set_calls_enabled now sid d s))"
  "table_moves strict churn s (snd (set_call_access now sid d s))"
  "table_moves strict churn s (snd (unmute_member now sid d s))"
  unfolding update_room_description_def set_member_role_def unban_member_def timeout_member_def transfer_ownership_def
    set_chat_lock_def set_moderator_permissions_def set_calls_enabled_def set_call_access_def unmute_member_def
  by (rule community_keeps;
      auto simp: Let_def dest!: set_record_players split: option.splits sum.splits prod.splits)+

lemma moves_ban: "table_moves strict churn s (snd (ban_member now sid d s))"
  unfolding ban_member_def
  by (rule community_keeps) (auto simp: Let_def dest!: set_record_players simp del: remove_user_from_room_def
      intro!: removal_moves split: option.splits sum.splits prod.splits; metis removal_moves)

lemma moves_kick: "table_moves strict churn s (snd (kick_member now sid d s))"
  unfolding kick_member_def
  by (rule community_keeps) (auto simp: Let_def intro!: removal_moves split: option.splits sum.splits prod.splits)

lemma moves_delete_room: "table_moves strict churn s (snd (delete_room_op now sid d s))"
  unfolding delete_room_op_def
  by (rule community_keeps)
    (auto simp: Let_def delete_room_def remove_file_def split: option.splits sum.splits prod.splits
      intro!: table_runs(4) [where who = "\<lambda>_. True", simplified])

lemma moves_room: "table_moves strict churn s (snd (room_step b64 uuid now sid opn d s))"
  by (rule room_step_rule)
    (auto intro: moves_kept_rooms moves_ban moves_kick moves_delete_room simp: moves_same)

section \<open>The dispatcher and the server\<close>

definition claims_call :: "nat \<Rightarrow> json \<Rightarrow> bool" where
  "claims_call opn d \<longleftrightarrow> opn = 2 \<and> bool_field ''isVoiceChat'' d = Some True"

lemma moves_dispatch:
  "(strict \<longrightarrow> \<not> claims_call opn d) \<Longrightarrow> table_moves strict churn s (snd (dispatch lib dr now sid opn d s))"
  unfolding dispatch_def
  by (simp add: answered_def moves_identify claims_call_def moves_join moves_leave moves_chat moves_settings
      moves_room moves_voice moves_mute moves_media moves_deafened moves_same)

definition frame_claims_call :: "server_lib \<Rightarrow> socket_frame \<Rightarrow> bool" where
  "frame_claims_call lib f \<longleftrightarrow> (case f of Text_Frame raw \<Rightarrow>
      (case sl_payload lib raw of Some (opn, d) \<Rightarrow> claims_call opn d | None \<Rightarrow> False) | _ \<Rightarrow> False)"

definition event_claims_call :: "server_lib \<Rightarrow> server_event \<Rightarrow> bool" where
  "event_claims_call lib ev \<longleftrightarrow> (case ev of Receive _ f _ \<Rightarrow> frame_claims_call lib f | _ \<Rightarrow> False)"

lemma moves_process:
  assumes "strict \<longrightarrow> \<not> frame_claims_call lib (Text_Frame raw)"
  shows "table_moves strict churn s (snd (process_message lib dr now sid raw s))"
proof (cases "sl_payload lib raw")
  case None
  then show ?thesis by (simp add: process_message_def)
next
  case (Some q)
  obtain opn d where q: "q = (opn, d)" by (cases q)
  have go: "table_moves strict churn t (snd (dispatch lib dr now sid opn d t))" for t
    using assms Some q by (intro moves_dispatch) (auto simp: frame_claims_call_def)
  have check: "table_moves strict churn s t" if "revalidate_session now sid s = (v, t)" for v t
    using moves_revalidate [of strict churn s now sid] that by simp
  have then_go: "table_moves strict churn s (snd (dispatch lib dr now sid opn d t))"
    if "revalidate_session now sid s = (v, t)" for v t
    by (rule moves_trans [OF check [OF that] go])
  show ?thesis
    by (simp add: process_message_def Some q go check then_go split: prod.split)
qed

lemma moves_receive:
  assumes "strict \<longrightarrow> \<not> frame_claims_call lib f" "receive_frame lib dr now sid f s = (fate, s')"
  shows "table_moves strict churn s s'"
proof (cases f)
  case (Text_Frame raw)
  have go: "table_moves strict churn s t" if "process_message lib dr now sid raw (s\<lparr>limits := l\<rparr>) = (r, t)" for l r t
    using moves_process [where s = "s\<lparr>limits := l\<rparr>" and strict = strict and lib = lib and raw = raw and churn = churn and dr = dr and now = now and sid = sid] assms(1) that Text_Frame by simp
  show ?thesis
    using assms(2) go
    by (auto simp: receive_frame_def Text_Frame rate_hit_def split: prod.splits if_splits outcome.splits bool.splits)
qed (use assms in \<open>auto simp: receive_frame_def\<close>)

lemma moves_server_step:
  assumes "strict \<longrightarrow> \<not> event_claims_call lib ev"
  shows "table_moves strict UNIV (sv_app sv) (sv_app (server_step lib now ev sv))"
proof (cases ev)
  case (Connect_Socket sid)
  then show ?thesis
    using moves_register [of sid UNIV strict "sv_app sv"]
    by (cases "register_connection sid (sv_app sv)") (auto simp: server_step_def split: bool.splits)
next
  case (Receive sid f dr)
  have *: "table_moves strict UNIV (sv_app sv) s" if "receive_frame lib dr now sid f (sv_app sv) = (fate, s)" for fate s
    using that assms Receive by (intro moves_receive [OF _ that]) (simp add: event_claims_call_def)
  then show ?thesis
    using moves_trans [OF * moves_disconnect [OF UNIV_I]]
    by (auto simp: server_step_def Receive finish_socket_def split: prod.split socket_fate.split)
next
  case (Fall_Silent sid)
  then show ?thesis by (auto simp: server_step_def finish_socket_def moves_disconnect split: option.split)
next
  case (Preview_Arrived task preview)
  then show ?thesis by (simp add: server_step_def moves_same)
next
  case (Evict user_id reason)
  then show ?thesis by (simp add: server_step_def evict_user_def moves_close)
next
  case (End_Sessions user_id reason)
  then show ?thesis by (simp add: server_step_def disconnect_user_sessions_def moves_close)
qed

lemma moves_server_run:
  "(strict \<longrightarrow> (\<forall>(now, ev) \<in> set evs. \<not> event_claims_call lib ev)) \<Longrightarrow>
     table_moves strict UNIV (sv_app sv) (sv_app (server_run lib evs sv))"
proof (induction evs arbitrary: sv)
  case (Cons e evs)
  then show ?case
    using moves_trans [OF moves_server_step [of strict lib "snd e" sv "fst e"] Cons.IH]
    by (auto simp: server_run_def split_beta)
qed (simp add: server_run_def)

section \<open>Connections and the table\<close>

definition live :: "app_state \<Rightarrow> string set" where
  "live s = dom (map_of (players s))"

lemma dom_edits:
  "dom (map_of (adjust k f m)) = dom (map_of m)" "dom (map_of (map_vals f m)) = dom (map_of m)"
  "dom (map_of (AList.update k v m)) = insert k (dom (map_of m))" "dom (map_of (AList.delete k m)) = dom (map_of m) - {k}"
  by (auto simp: map_of_adjust update_conv' delete_conv' dom_def split: if_splits)

lemma table_step_keys:
  "table_step strict churn t t' \<Longrightarrow> i \<notin> churn \<Longrightarrow> i \<in> dom (map_of t') \<longleftrightarrow> i \<in> dom (map_of t)"
  by (induction rule: table_step.induct) (auto simp only: dom_edits insert_iff Diff_iff singleton_iff)

text \<open>Nothing but a connection that opens or closes, or an eviction, adds or removes a session.\<close>

lemma moves_keys: "table_moves strict churn s s' \<Longrightarrow> i \<notin> churn \<Longrightarrow> i \<in> live s' \<longleftrightarrow> i \<in> live s"
proof -
  assume "table_moves strict churn s s'" and i: "i \<notin> churn"
  from this(1) show ?thesis
    unfolding table_moves_def live_def
  proof (induction rule: rtranclp_induct)
    case (step y z)
    then show ?case using table_step_keys [OF step.hyps(2) i] by simp
  qed simp
qed

lemma receive_keys:
  assumes "receive_frame lib dr now sid f s = (fate, s')"
  shows "live s' = live s"
  using moves_keys [OF moves_receive [of False lib f dr now sid s fate s' "{}"]] assms by auto

lemma disconnect_keys: "live (disconnect_player now sid s) = live s - {sid}"
  by (cases "map_of (players s) sid")
    (auto simp: disconnect_player_def Let_def broadcast_sync_peer_leave_def live_def dom_edits)

lemma live_sends [simp]: "live (try_send c m s) = live s" "live (finish_preview task preview s) = live s"
  by (simp_all add: live_def)

lemma close_keys: "live (close_with now j u s) \<subseteq> live s"
proof -
  have "live (fold (\<lambda>i s. disconnect_player now i (try_send i WClose (try_send i (WText j) s))) is s) \<subseteq> live s" for "is"
  proof (induction "is" arbitrary: s)
    case (Cons i "is")
    have "live (disconnect_player now i (try_send i WClose (try_send i (WText j) s))) \<subseteq> live s"
      by (auto simp: disconnect_keys)
    with Cons.IH show ?case by (auto intro: subset_trans)
  qed simp
  then show ?thesis by (simp add: close_with_def)
qed

lemma register_keys:
  assumes "register_connection sid s = (ok, s')"
  shows "live s' = (if ok then insert sid (live s) else live s)"
  using assms by (auto simp: register_connection_def record_session_opened_def Let_def live_def dom_edits split: if_splits)

definition crashes :: "server_lib \<Rightarrow> nat \<Rightarrow> server_event \<Rightarrow> server \<Rightarrow> bool" where
  "crashes lib now ev sv \<longleftrightarrow> (case ev of
     Receive sid f dr \<Rightarrow> map_of (sv_open sv) sid \<noteq> None \<and> fst (receive_frame lib dr now sid f (sv_app sv)) = Crashed
   | _ \<Rightarrow> False)"

fun crash_free :: "server_lib \<Rightarrow> (nat \<times> server_event) list \<Rightarrow> server \<Rightarrow> bool" where
  "crash_free lib [] sv \<longleftrightarrow> True"
| "crash_free lib ((now, ev) # evs) sv \<longleftrightarrow> \<not> crashes lib now ev sv \<and> crash_free lib evs (server_step lib now ev sv)"

definition socketed :: "server \<Rightarrow> bool" where
  "socketed sv \<longleftrightarrow> live (sv_app sv) \<subseteq> dom (map_of (sv_open sv))"

lemma socketed_step: "socketed sv \<Longrightarrow> \<not> crashes lib now ev sv \<Longrightarrow> socketed (server_step lib now ev sv)"
proof (cases ev)
  case (Connect_Socket sid)
  assume "socketed sv"
  then show ?thesis
    by (cases "register_connection sid (sv_app sv)"; cases "fst (register_connection sid (sv_app sv))")
      (auto simp: Connect_Socket server_step_def socketed_def dom_edits dest!: register_keys)
next
  case (Receive sid f dr)
  assume "socketed sv" "\<not> crashes lib now ev sv"
  then show ?thesis
    using receive_keys [of lib dr now sid f "sv_app sv"]
    by (cases "receive_frame lib dr now sid f (sv_app sv)"; cases "fst (receive_frame lib dr now sid f (sv_app sv))")
      (auto simp: Receive server_step_def socketed_def finish_socket_def disconnect_keys crashes_def dom_edits)
next
  case (Fall_Silent sid)
  assume "socketed sv"
  then show ?thesis
    by (auto simp: Fall_Silent server_step_def socketed_def finish_socket_def disconnect_keys dom_edits split: option.split)
next
  case (Evict user_id reason)
  assume "socketed sv"
  then show ?thesis using close_keys by (fastforce simp: Evict server_step_def socketed_def evict_user_def)
next
  case (End_Sessions user_id reason)
  assume "socketed sv"
  then show ?thesis using close_keys by (fastforce simp: End_Sessions server_step_def socketed_def disconnect_user_sessions_def)
qed (simp add: server_step_def socketed_def)

lemma socketed_run: "socketed sv \<Longrightarrow> crash_free lib evs sv \<Longrightarrow> socketed (server_run lib evs sv)"
proof (induction evs arbitrary: sv)
  case (Cons e evs)
  then show ?case
    using Cons.IH [of "server_step lib (fst e) (snd e) sv"] socketed_step [of sv lib "fst e" "snd e"]
    by (cases e) (auto simp: server_run_def)
qed (simp add: server_run_def)

text \<open>A socket that sends nothing is either still waited for or its session is gone for good.\<close>

definition quiet :: "string \<Rightarrow> server_event \<Rightarrow> bool" where
  "quiet sid ev \<longleftrightarrow> (case ev of Receive i _ _ \<Rightarrow> i \<noteq> sid | Connect_Socket i \<Rightarrow> i \<noteq> sid | _ \<Rightarrow> True)"

definition waiting_or_gone :: "string \<Rightarrow> nat \<Rightarrow> server \<Rightarrow> bool" where
  "waiting_or_gone sid seen sv \<longleftrightarrow> map_of (sv_open sv) sid = Some seen
     \<or> map_of (sv_open sv) sid = None \<and> sid \<notin> live (sv_app sv)"

lemma waiting_step: "waiting_or_gone sid seen sv \<Longrightarrow> quiet sid ev \<Longrightarrow> waiting_or_gone sid seen (server_step lib now ev sv)"
proof (cases ev)
  case (Connect_Socket i)
  assume "waiting_or_gone sid seen sv" "quiet sid ev"
  then show ?thesis
    by (cases "register_connection i (sv_app sv)"; cases "fst (register_connection i (sv_app sv))")
      (auto simp: Connect_Socket server_step_def waiting_or_gone_def quiet_def update_conv' dest!: register_keys)
next
  case (Receive i f dr)
  assume "waiting_or_gone sid seen sv" "quiet sid ev"
  then show ?thesis
    using receive_keys [of lib dr now i f "sv_app sv"]
    by (cases "receive_frame lib dr now i f (sv_app sv)"; cases "fst (receive_frame lib dr now i f (sv_app sv))")
      (auto simp: Receive server_step_def waiting_or_gone_def quiet_def finish_socket_def disconnect_keys update_conv' delete_conv')
next
  case (Fall_Silent i)
  assume "waiting_or_gone sid seen sv"
  then show ?thesis
    by (auto simp: Fall_Silent server_step_def waiting_or_gone_def finish_socket_def disconnect_keys delete_conv' split: option.split)
next
  case (Evict user_id reason)
  assume "waiting_or_gone sid seen sv"
  then show ?thesis using close_keys by (fastforce simp: Evict server_step_def waiting_or_gone_def evict_user_def)
next
  case (End_Sessions user_id reason)
  assume "waiting_or_gone sid seen sv"
  then show ?thesis using close_keys by (fastforce simp: End_Sessions server_step_def waiting_or_gone_def disconnect_user_sessions_def)
qed (simp add: server_step_def waiting_or_gone_def)

lemma waiting_run:
  "waiting_or_gone sid seen sv \<Longrightarrow> \<forall>e \<in> set evs. quiet sid (snd e) \<Longrightarrow> waiting_or_gone sid seen (server_run lib evs sv)"
proof (induction evs arbitrary: sv)
  case (Cons e evs)
  then show ?case
    using Cons.IH [of "server_step lib (fst e) (snd e) sv"] waiting_step [of sid seen sv "snd e" lib "fst e"]
    by (cases e) (auto simp: server_run_def)
qed (simp add: server_run_def)

section \<open>Properties\<close>

text \<open>C6: whatever the sockets, the late previews and the administration do, in any order and at any
  times, the table of sessions only ever moves by the steps of the abstract machine: one session
  changed in one of nine ways within its limits, a session added below the cap or taken away, a room
  taken from sessions, calls ended, and a call joined only by a visible session with no other session
  of its account in a call.\<close>

theorem sessions_refine_table:
  "(table_step False UNIV)\<^sup>*\<^sup>* (players (sv_app sv)) (players (sv_app (server_run lib evs sv)))"
  using moves_server_run [of False evs lib sv] by (simp add: table_moves_def)

text \<open>C24: over every run of the server the table of sessions has distinct keys, at most 5000 entries,
  each session filed under its own id, and in each at most 100 rooms and 200 muted users, none twice.\<close>

theorem sessions_invariant:
  "table_ok (players (sv_app sv)) \<Longrightarrow> table_ok (players (sv_app (server_run lib evs sv)))"
  by (rule table_moves_ok [OF moves_server_run [of False]]) simp_all

text \<open>C7: as long as no identification carries \<open>isVoiceChat\<close>, no account is ever in a call with two
  sessions, and no invisible session is in a call.\<close>

theorem calls_exclusive:
  assumes "table_ok (players (sv_app sv))" "calls_ok (players (sv_app sv))"
    and "list_all (\<lambda>(now, ev). \<not> event_claims_call lib ev) evs"
  shows "calls_ok (players (sv_app (server_run lib evs sv)))"
  by (rule calls_moves_ok [OF moves_server_run [of True evs lib sv]]) (use assms in \<open>simp_all add: list_all_iff\<close>)

text \<open>C15: as long as no request handler panics, every session in the table belongs to an open connection,
  over every run of the server: nothing lingers after its socket.\<close>

theorem sessions_have_sockets:
  assumes "live (sv_app sv) \<subseteq> dom (map_of (sv_open sv))" "crash_free lib evs sv"
  shows "live (sv_app (server_run lib evs sv)) \<subseteq> dom (map_of (sv_open (server_run lib evs sv)))"
  using socketed_run [of sv lib evs] assms by (simp add: socketed_def)

text \<open>A client that falls silent is removed: if nothing was received from it since \<open>seen\<close>, whatever the
  other connections did meanwhile, the timeout of its loop takes its session out of the table.\<close>

theorem silence_ends_session:
  assumes "map_of (sv_open sv) sid = Some seen" "list_all (\<lambda>(t, ev). quiet sid ev) evs"
    and "idle_timeout (sv_app (server_run lib evs sv)) \<le> now - seen"
  shows "sid \<notin> live (sv_app (server_run lib (evs @ [(now, Fall_Silent sid)]) sv))"
proof -
  have "waiting_or_gone sid seen (server_run lib evs sv)"
    using assms(1,2) by (intro waiting_run) (auto simp: waiting_or_gone_def list_all_iff)
  with assms(3) show ?thesis
    by (auto simp: server_run_def server_step_def waiting_or_gone_def finish_socket_def disconnect_keys)
qed

text \<open>C37: a prekey bundle whose classical signature verifies and whose lattice key has a two-byte character
  at an odd offset makes the task of the connection panic: the loop ends without the disconnection, so
  the session stays in the table, no connection owns it, and no silence ever removes it.\<close>

theorem panic_leaks_session:
  assumes "map_of (sv_open sv) sid \<noteq> None" "sl_payload lib raw = Some (36, d)"
    and "rate_limit_hit now (''ws-msg:session:'' @ sid) 1200 60000 (limits (sv_app sv)) = (False, m)"
    and "revalidate_session now sid ((sv_app sv)\<lparr>limits := m\<rparr>) = (True, s)"
    and "session_user_id s sid = Some u" "bundle_of_json d = Some b"
    and "verify_ecdsa_p256 (sl_keys lib) (ecdsa_p256_pk b)
           (canonical_prekey_bundle_bytes (json_text (sl_keys lib)) b) (sig_ecdsa b) = Inr ()"
    and "hex_decode (mldsa65_pk b) = Panic"
    and "sv' = server_step lib now (Receive sid (Text_Frame raw) dr) sv"
  shows "sid \<in> live (sv_app sv') \<and> map_of (sv_open sv') sid = None
    \<and> server_step lib now' (Fall_Silent sid) sv' = sv'"
proof -
  have "process_message lib dr now sid raw ((sv_app sv)\<lparr>limits := m\<rparr>) = (Panic, s)"
    using assms(2,4-8)
    by (simp add: process_message_def dispatch_def publish_prekey_op_def phantom_publish_prekey_def
        verify_prekey_bundle_def verify_mldsa65_def Let_def)
  then have sv': "sv' = sv\<lparr>sv_app := s, sv_open := AList.delete sid (sv_open sv)\<rparr>"
    using assms(1,3,9) by (auto simp: server_step_def receive_frame_def rate_hit_def)
  moreover have "sid \<in> live s"
    using assms(5) by (auto simp: session_user_id_def live_def ofilter_Some)
  ultimately show ?thesis
    by (simp add: server_step_def delete_conv')
qed

section \<open>Witnesses\<close>

definition demo_keys :: key_lib where
  "demo_keys = \<lparr>json_text = (\<lambda>_. ''{}''), parse_json = (\<lambda>_. None), b64url = (\<lambda>_. None), p256_point_ok = (\<lambda>_. False),
     p256_scalars_ok = (\<lambda>_. False), p256_verifies = (\<lambda>_ _ _. False), mldsa_key_ok = (\<lambda>_. False),
     mldsa_sig_ok = (\<lambda>_. False), mldsa_verifies = (\<lambda>_ _ _. False), sha256_hex = (\<lambda>_. [])\<rparr>"

definition demo_server_lib :: server_lib where
  "demo_server_lib = \<lparr>sl_keys = demo_keys, sl_b64 = (\<lambda>_. None), sl_token_hash = (\<lambda>x. x), sl_voter_hash = (\<lambda>x _. x),
     sl_payload = (\<lambda>raw. if raw = ''call'' then Some (98, JObj [(''isVoiceChat'', JBool True)]) else None)\<rparr>"

definition demo_server :: server where
  "demo_server = \<lparr>sv_app = demo_club, sv_open = [(''s1'', 0), (''s2'', 0)]\<rparr>"

definition demo_events :: "(nat \<times> server_event) list" where
  "demo_events = [(1, Receive ''s1'' (Text_Frame ''call'') \<lparr>dr_file = [], dr_file2 = [], dr_message = []\<rparr>),
     (2, Connect_Socket ''s3''), (3, Evict ''bob'' ''gone'')]"

lemma demo_table: "table_ok (players (sv_app demo_server))" "calls_ok (players (sv_app demo_server))"
  by (simp_all add: demo_server_def demo_defs table_ok_def calls_ok_def session_ok_def MAX_ROOMS_PER_PLAYER_def
      MAX_MUTED_USERS_PER_PLAYER_def MAX_CONCURRENT_SESSIONS_def)

theorem sessions_invariant_witness:
  "table_ok (players (sv_app (server_run demo_server_lib demo_events demo_server)))"
  by (rule sessions_invariant [OF demo_table(1)])

theorem calls_exclusive_witness:
  "calls_ok (players (sv_app (server_run demo_server_lib demo_events demo_server)))"
  by (rule calls_exclusive [OF demo_table])
    (simp add: demo_events_def demo_server_lib_def event_claims_call_def frame_claims_call_def claims_call_def)

theorem sessions_have_sockets_witness:
  "live (sv_app (server_run demo_server_lib demo_events demo_server))
     \<subseteq> dom (map_of (sv_open (server_run demo_server_lib demo_events demo_server)))"
proof (rule sessions_have_sockets)
  show "live (sv_app demo_server) \<subseteq> dom (map_of (sv_open demo_server))"
    by (auto simp: live_def demo_server_def demo_defs split: if_splits)
  have "fst (receive_frame demo_server_lib dr now sid (Text_Frame ''call'') s) \<noteq> Crashed" for dr now sid s
    by (auto simp: receive_frame_def process_message_def demo_server_lib_def dispatch_def answered_def room_ops_def
        split: prod.splits if_splits outcome.splits bool.splits)
  then show "crash_free demo_server_lib demo_events demo_server"
    by (simp add: demo_events_def crashes_def)
qed

theorem silence_ends_session_witness:
  "''s1'' \<notin> live (sv_app (server_run demo_server_lib [(99999, Fall_Silent ''s1'')] demo_server))"
  using silence_ends_session [of demo_server "''s1''" 0 "[]" demo_server_lib 99999]
  by (simp add: demo_server_def server_run_def idle_timeout_def demo_defs)

definition demo_leak_payload :: json where
  "demo_leak_payload = JObj [(''version'', JInt 1), (''mlkem768Pk'', JStr []),
     (''ecdsaP256Pk'', JObj [(''kty'', JStr ''EC''), (''crv'', JStr ''P-256''), (''x'', JStr ''x''), (''y'', JStr ''y'')]),
     (''mldsa65Pk'', JStr [CHR ''a'', char_of (233 :: nat), CHR ''b'']), (''sigEcdsa'', JStr ''sig''),
     (''sigMldsa'', JStr []), (''updatedAt'', JInt 1)]"

definition demo_leak_lib :: server_lib where
  "demo_leak_lib = demo_server_lib\<lparr>sl_keys := demo_keys\<lparr>
       b64url := (\<lambda>v. Some (replicate (if v = ''sig'' then 64 else 32) 0)), p256_point_ok := (\<lambda>_. True),
       p256_scalars_ok := (\<lambda>_. True), p256_verifies := (\<lambda>_ _ _. True)\<rparr>,
     sl_payload := (\<lambda>_. Some (36, demo_leak_payload))\<rparr>"

definition demo_leak_bundle :: prekey_bundle where
  "demo_leak_bundle = \<lparr>pb_version = 1, mlkem768_pk = [],
     ecdsa_p256_pk = JObj [(''kty'', JStr ''EC''), (''crv'', JStr ''P-256''), (''x'', JStr ''x''), (''y'', JStr ''y'')],
     mldsa65_pk = [CHR ''a'', char_of (233 :: nat), CHR ''b''], sig_ecdsa = ''sig'', sig_mldsa = [],
     block_filter = [], pb_updated_at = 1\<rparr>"

lemma demo_leak_ecdsa: "verify_ecdsa_p256 (sl_keys demo_leak_lib) (ecdsa_p256_pk demo_leak_bundle) msg (sig_ecdsa demo_leak_bundle) = Inr ()"
  by (simp add: verify_ecdsa_p256_def jwk_to_verifying_key_def decode_b64url_def demo_leak_lib_def demo_leak_bundle_def
      demo_keys_def text_of_def str_field_def obj_get_def trim_end_matches_def)

theorem panic_leaks_session_witness:
  "''s1'' \<in> live (sv_app (server_step demo_leak_lib 5 (Receive ''s1'' (Text_Frame []) \<lparr>dr_file = [], dr_file2 = [], dr_message = []\<rparr>) demo_server))"
proof (rule conjunct1 [OF panic_leaks_session [where now' = 9, OF _ _ _ _ _ _ _ _ refl]])
  show "map_of (sv_open demo_server) ''s1'' \<noteq> None" by (simp add: demo_server_def)
  show "sl_payload demo_leak_lib [] = Some (36, demo_leak_payload)" by (simp add: demo_leak_lib_def)
  show "rate_limit_hit 5 (''ws-msg:session:'' @ ''s1'') 1200 60000 (limits (sv_app demo_server))
      = (False, [(''ws-msg:session:'' @ ''s1'', \<lparr>window_start_ms = 5, window_ms = 60000, bucket_count = 1\<rparr>)])"
    unfolding demo_server_def server.simps by (rule demo_limits) simp
  show "revalidate_session 5 ''s1'' ((sv_app demo_server)\<lparr>limits := m\<rparr>) = (True, (sv_app demo_server)\<lparr>limits := m\<rparr>)" for m
    by (simp add: revalidate_session_def demo_server_def demo_defs)
  show "session_user_id ((sv_app demo_server)\<lparr>limits := m\<rparr>) ''s1'' = Some ''ann''" for m
    by (simp add: session_user_id_def demo_server_def demo_defs) code_simp
  show "bundle_of_json demo_leak_payload = Some demo_leak_bundle"
    by (simp add: demo_leak_payload_def demo_leak_bundle_def bundle_of_json_def bundle_of_fields_def as_u32_def
        json_defs as_strings_def)
  show "verify_ecdsa_p256 (sl_keys demo_leak_lib) (ecdsa_p256_pk demo_leak_bundle)
      (canonical_prekey_bundle_bytes (json_text (sl_keys demo_leak_lib)) demo_leak_bundle) (sig_ecdsa demo_leak_bundle) = Inr ()"
    by (rule demo_leak_ecdsa)
  show "hex_decode (mldsa65_pk demo_leak_bundle) = Panic"
    by (simp add: demo_leak_bundle_def hex_decode_panics)
qed

end
