(* ===== verification/Server_Inv.thy ===== *)
theory Server_Inv
  imports Server_Moves
begin

text \<open>
  The stores behind the sockets over every run of the server: the rooms, the messages, the polls and the accounts.
  Most operations leave all four alone (\<open>store\<close>); the rest keep the invariant of each.
\<close>

definition store :: "app_state \<Rightarrow> (string \<times> room_record) list \<times> (string \<times> chat_message list) list \<times> (string \<times> poll_tally) list \<times> account_db" where
  "store s = (rooms s, room_messages s, poll_tallies s, accounts s)"

definition store_inv :: "app_state \<Rightarrow> bool" where
  "store_inv s \<longleftrightarrow> rooms_inv s \<and> chat_inv s \<and> polls_inv s \<and> acct_inv (accounts s)"

lemma store_inv_same: "store s' = store s \<Longrightarrow> store_inv s' = store_inv s"
  by (simp add: store_def store_inv_def rooms_inv_def chat_inv_def polls_inv_def)

lemma store_frame [simp]:
  "store (try_send c m s) = store s" "store (respond_to_sender c j s) = store s" "store (broadcast_to_room g j s) = store s"
  "store (send_all cs m s) = store s" "store (s\<lparr>limits := l\<rparr>) = store s" "store (s\<lparr>players := p\<rparr>) = store s"
  "store (s\<lparr>outbox := x\<rparr>) = store s" "store (s\<lparr>runtime := y\<rparr>) = store s"
  "store (s\<lparr>profile_cache := z\<rparr>) = store s" "store (s\<lparr>call_access_overrides := w\<rparr>) = store s" "store (remove_file i s) = store s"
  by (simp_all add: store_def remove_file_def)

lemma store_fold: "(\<And>x s. store (f x s) = store s) \<Longrightarrow> store (fold f xs s) = store s"
  by (induction xs arbitrary: s) simp_all

lemma store_uploaded_store: "store_uploaded_bytes uuid ext bs mime s = (x, s') \<Longrightarrow> store s' = store s"
  by (auto simp: store_uploaded_bytes_def store_def Let_def split: if_splits)

lemma rate_hit_store: "rate_hit now k l w s = (hit, s') \<Longrightarrow> store s' = store s"
  by (auto simp: rate_hit_def split: prod.splits)

section \<open>The operations that leave the stores alone\<close>

lemma store_register: "register_connection sid s = (ok, s') \<Longrightarrow> store s' = store s"
  by (auto simp: register_connection_def record_session_opened_def Let_def split: if_splits)

lemma store_peer_event [simp]: "store (broadcast_sync_peer_event u e c pl x s) = store s"
  by (simp add: broadcast_sync_peer_event_def)

lemma store_revalidate: "revalidate_session now sid s = (v, s') \<Longrightarrow> store s' = store s"
  by (auto simp: revalidate_session_def split: option.splits sum.splits prod.splits if_splits)

lemma store_kill [simp]: "store (snd (report_kill now sid d s)) = store s"
  by (auto simp: report_kill_def Let_def rate_hit_def split: option.split sum.split prod.split)

lemma store_history [simp]: "store (dispatch_room_history h sid rid req s) = store s" "store (snd (send_room_history h now sid d s)) = store s"
  by (auto simp: send_room_history_def dispatch_room_history_def Let_def rate_hit_def split: option.split sum.split prod.split)

lemma store_signal [simp]: "store (snd (relay_room_signal n now sid d s)) = store s"
  by (auto simp: relay_room_signal_def Let_def rate_hit_def split: option.split sum.split prod.split)

lemma store_fan_out: "sync_fan_out j ps a b c s = (r, s') \<Longrightarrow> store s' = store s"
  by (induction j ps a b c s rule: sync_fan_out.induct) (auto split: if_splits)

lemma store_cloud [simp]: "store (snd (relay_cloud_sync_op n now sid d s)) = store s"
  by (auto simp: relay_cloud_sync_op_def Let_def rate_hit_def dest!: store_fan_out split: option.split sum.split prod.split)

lemma store_peers [simp]: "store (snd (sync_peers_op now sid d s)) = store s"
  by (auto simp: sync_peers_op_def Let_def rate_hit_def split: option.split sum.split prod.split)

lemma store_typing [simp]: "store (snd (update_typing_state now sid d s)) = store s"
  by (auto simp: update_typing_state_def Let_def rate_hit_def split: option.split sum.split prod.split)

lemma lookup_store: "lookup_profiles now ls acc s = (r, s') \<Longrightarrow> store s' = store s"
  by (induction now ls acc s rule: lookup_profiles.induct)
    (auto simp: Let_def cache_profile_def split: option.splits sum.splits)

lemma store_profiles [simp]: "store (snd (request_public_profiles now sid d s)) = store s"
  by (auto simp: request_public_profiles_def Let_def rate_hit_def dest!: lookup_store split: option.split sum.split prod.split)

lemma store_fetch [simp]: "store (snd (fetch_prekey_op lib now sid d s)) = store s"
  by (auto simp: fetch_prekey_op_def Let_def rate_hit_def split: option.split sum.split prod.split outcome.split)

lemma store_admin [simp]:
  "store (snd (admin_status sid d s)) = store s" "store (snd (admin_broadcast sid d s)) = store s"
  "store (snd (stats_query now sid d s)) = store s"
  by (auto simp: admin_status_def admin_broadcast_def stats_query_def Let_def rate_hit_def split: option.split sum.split prod.split)

lemma store_notice [simp]:
  "store (call_notice n p v m g s) = store s" "store (fold (call_notice n p v m) gs s) = store s"
  "store (fold (\<lambda>q s. fold (call_notice n q v m) (ps_rooms q) s) qs s) = store s"
  by (simp_all add: call_notice_def store_fold)

lemma store_commit [simp]: "store (snd (commit_voice sid req v c sc room s)) = store s"
  by (auto simp: commit_voice_def evict_stale_def join_call_def Let_def split: option.split sum.split prod.split)

lemma store_revoke [simp]: "store (revoke_call_access room u s) = store s"
  by (auto simp: revoke_call_access_def split: option.split)

lemma store_voice [simp]: "store (snd (update_voice_chat now sid d s)) = store s"
  by (auto simp: update_voice_chat_def Let_def rate_hit_def split: option.split sum.split prod.split)

lemma store_calls [simp]:
  "store (snd (update_call_media_state now sid d s)) = store s"
  "store (snd (relay_call_signal n now sid d s)) = store s"
  "store (snd (update_call_deafened_state sid d s)) = store s"
  "store (snd (update_mute_state sid d s)) = store s"
  by (auto simp: update_call_media_state_def claim_call_def relay_call_signal_def update_call_deafened_state_def
      update_mute_state_def Let_def rate_hit_def split: option.split sum.split prod.split)

lemma profile_image_store: "parse_profile_image b64 uuid raw m l s = (r, s') \<Longrightarrow> store s' = store s"
  by (auto simp: parse_profile_image_def Let_def dest!: store_uploaded_store
      split: option.splits json.splits sum.splits prod.splits if_splits)

lemma profile_field_store: "profile_image_field b64 u k m l c obj s = (r, s') \<Longrightarrow> store s' = store s"
  by (auto simp: profile_image_field_def dest!: profile_image_store split: if_splits)

lemma user_profile_store: "parse_user_profile b64 uuids cur raw s = (r, s') \<Longrightarrow> store s' = store s"
  by (auto simp: parse_user_profile_def dest!: profile_field_store split: option.splits json.splits sum.splits prod.splits if_splits)

section \<open>The operations on the accounts\<close>

lemmas acct_inv_ops [simp] =
  acct_inv_step [where op = "OProfile _ _ _", simplified] acct_inv_step [where op = "OStatus _ _ _", simplified]
  acct_inv_step [where op = "OPrekey _ _ _", simplified] acct_inv_step [where op = "OBlock _ _ _", simplified]
  acct_inv_step [where op = "OUnblock _ _", simplified] acct_inv_step [where op = "OBlob _ _ _", simplified]

lemma store_inv_books [simp]: "store_inv s \<Longrightarrow> acct_inv a \<Longrightarrow> store_inv (s\<lparr>accounts := a\<rparr>)"
  by (simp add: store_inv_def rooms_inv_def chat_inv_def polls_inv_def)

lemma store_inv_accounts [simp]: "store_inv s \<Longrightarrow> acct_inv (accounts s)"
  by (simp add: store_inv_def)

lemma store_inv_frame [simp]:
  "store_inv (try_send c m s) = store_inv s" "store_inv (respond_to_sender c j s) = store_inv s"
  "store_inv (broadcast_to_room g j s) = store_inv s" "store_inv (send_all cs m s) = store_inv s"
  "store_inv (s\<lparr>limits := l\<rparr>) = store_inv s" "store_inv (s\<lparr>players := p\<rparr>) = store_inv s"
  "store_inv (remove_file i s) = store_inv s" "store_inv (dispatch_room_history h sid rid req s) = store_inv s"
  "store_inv (broadcast_sync_peer_event u e c pl x s) = store_inv s"
  by (rule store_inv_same, simp)+

lemma store_inv_fold: "(\<And>x s. store (f x s) = store s) \<Longrightarrow> store_inv (fold f xs s) = store_inv s"
  by (rule store_inv_same) (rule store_fold)

lemma store_inv_identify: "store_inv s \<Longrightarrow> store_inv (snd (identify_player th now sid d s))"
  by (auto simp: identify_player_def Let_def split: option.split sum.split)

lemma store_inv_publish: "store_inv s \<Longrightarrow> store_inv (publish_settings now sid d prof b q p s)"
  by (simp add: publish_settings_def Let_def store_inv_fold announce_profile_def announce_status_def)

lemma store_inv_settings: "store_inv s \<Longrightarrow> store_inv (snd (update_client_settings b64 uuids now sid d s))"
proof -
  assume inv: "store_inv s"
  have "store_inv t" if "parse_user_profile b64 uuids cur raw (s\<lparr>limits := l\<rparr>) = (r, t)" for cur raw l r t
    using store_inv_same [OF user_profile_store [OF that]] inv by simp
  with inv show ?thesis
    by (auto simp: update_client_settings_def Let_def rate_hit_def store_inv_publish
      split: option.splits sum.splits prod.splits if_splits)
qed

lemma acct_inv_add_hints: "add_hints lib now u fp hs db = (r, db') \<Longrightarrow> acct_inv db \<Longrightarrow> acct_inv db'"
proof (induction hs arbitrary: db)
  case (Cons h hs)
  have "acct_inv db1" if "add_block_tag now u t db = (x, db1)" for t x db1
    using acct_inv_ops(4) [OF Cons.prems(2), of now u t] that by simp
  with Cons show ?case by (auto split: if_splits prod.splits sum.splits)
qed simp

lemma acct_inv_remove_hints: "remove_hints lib u fp hs db = (r, db') \<Longrightarrow> acct_inv db \<Longrightarrow> acct_inv db'"
proof (induction hs arbitrary: db)
  case (Cons h hs)
  have "acct_inv db1" if "remove_block_tag u t db = (x, db1)" for t x db1
    using acct_inv_ops(5) [OF Cons.prems(2), of u t] that by simp
  with Cons show ?case by (auto split: if_splits prod.splits sum.splits)
qed simp

lemma acct_inv_blocks: "acct_inv db \<Longrightarrow> acct_inv (snd (update_blocks lib now u hs ks db))"
  by (auto simp: update_blocks_def split: outcome.split sum.split prod.split
      elim: acct_inv_add_hints acct_inv_remove_hints dest: acct_inv_remove_hints acct_inv_add_hints)

lemma acct_inv_publish: "acct_inv db \<Longrightarrow> acct_inv (snd (phantom_publish_prekey lib now u b db))"
proof -
  assume inv: "acct_inv db"
  have "acct_inv db1" if "publish_prekey now u t db = (x, db1)" for t x db1
    using acct_inv_ops(3) [OF inv, of now u t] that by simp
  with inv show ?thesis
    by (auto simp: phantom_publish_prekey_def Let_def split: outcome.split sum.split prod.split option.split)
qed

lemma store_inv_prekeys:
  assumes "store_inv s"
  shows "store_inv (snd (publish_prekey_op lib now sid d s))" "store_inv (snd (block_update_op lib now sid d s))"
proof -
  have "acct_inv db" if "phantom_publish_prekey lib now u b (accounts s) = (r, db)" for u b r db
    using acct_inv_publish [of "accounts s" lib now u b] assms that by simp
  then show "store_inv (snd (publish_prekey_op lib now sid d s))"
    using assms by (auto simp: publish_prekey_op_def Let_def split: option.split sum.split prod.split outcome.split)
  have "acct_inv db" if "update_blocks lib now u hs ks (accounts s) = (r, db)" for u hs ks r db
    using acct_inv_blocks [of "accounts s" lib now u hs ks] assms that by simp
  then show "store_inv (snd (block_update_op lib now sid d s))"
    using assms by (auto simp: block_update_op_def Let_def split: option.split sum.split prod.split outcome.split)
qed

section \<open>Joining, leaving and disconnecting\<close>

lemma sync_rest:
  "room_messages (snd (sync_room_record rid s)) = room_messages s" "poll_tallies (snd (sync_room_record rid s)) = poll_tallies s"
  "accounts (snd (sync_room_record rid s)) = accounts s"
  by (auto simp: sync_room_record_def set_room_record_def Let_def split: prod.split sum.split)

lemma store_inv_sync: "store_inv s \<Longrightarrow> store_inv (snd (sync_room_record rid s))"
  by (simp add: store_inv_def rooms_inv_sync chat_inv_def polls_inv_def sync_rest)

lemma cleared_ok: "message_ok (cleared_message m)"
  by (simp add: message_ok_def cleared_message_def reactions_ok_def)

lemma store_inv_clear: "store_inv s \<Longrightarrow> store_inv (snd (delete_user_messages_in_room_and_broadcast now g n s))"
proof (cases "map_of (room_messages s) g")
  case (Some ms)
  assume inv: "store_inv s"
  let ?ms = "map (\<lambda>m. if \<not> deleted m \<and> msg_username m = n then cleared_message m else m) ms"
  have "messages_of s g = ms" by (simp add: messages_of_def Some)
  with messages_of_ok [of s g] inv have "length ms \<le> MAX_ROOM_MESSAGES" "\<forall>m \<in> set ms. message_ok m"
    by (auto simp: store_inv_def)
  then have "chat_inv (s\<lparr>room_messages := AList.update g ?ms (room_messages s)\<rparr>)"
    using inv by (intro chat_inv_put) (auto simp: store_inv_def cleared_ok)
  with inv have "store_inv (s\<lparr>room_messages := AList.update g ?ms (room_messages s)\<rparr>)"
    by (simp add: store_inv_def rooms_inv_def polls_inv_def)
  with Some show ?thesis by (simp add: delete_user_messages_in_room_and_broadcast_def Let_def)
qed (simp add: delete_user_messages_in_room_and_broadcast_def)

lemma store_inv_clear_eq:
  "delete_user_messages_in_room_and_broadcast now g n s = (ids, s') \<Longrightarrow> store_inv s \<Longrightarrow> store_inv s'"
  using store_inv_clear [of s now g n] by simp

lemma store_inv_leave_room: "store_inv s \<Longrightarrow> store_inv (announce_leave now sid req g p s)"
  by (auto simp: announce_leave_def Let_def intro!: store_inv_sync elim!: store_inv_clear_eq split: prod.split)

lemma store_inv_leave: "store_inv s \<Longrightarrow> store_inv (snd (leave_game now sid d s))"
  by (auto simp: leave_game_def Let_def rate_hit_def exit_room_def intro!: store_inv_leave_room
      split: option.split sum.split prod.split)

lemma store_inv_enter: "enter_room sid g s = (r, s') \<Longrightarrow> store s' = store s"
  by (auto simp: enter_room_def split: option.splits if_splits)

lemma store_inv_announce [simp]: "store_inv (announce_join h sid req g b c p s) = store_inv s"
  by (simp add: announce_join_def Let_def)

lemma store_inv_join: "store_inv s \<Longrightarrow> store_inv (snd (join_game h now sid d s))"
proof -
  assume inv: "store_inv s"
  have enter: "store_inv s'" if "enter_room sid g (s\<lparr>limits := l\<rparr>) = (r, s')" for g l r s'
    using store_inv_same [OF store_inv_enter [OF that]] inv by simp
  show ?thesis
    using inv
    by (auto simp: join_game_def Let_def rate_hit_def exit_room_def dest!: enter intro!: store_inv_sync
        split: option.split sum.split prod.split)
qed

lemma store_inv_depart: "store_inv s \<Longrightarrow> store_inv (depart_room now p g s)"
  by (simp add: depart_room_def Let_def store_inv_sync store_inv_clear)

lemma store_inv_departs: "store_inv s \<Longrightarrow> store_inv (fold (depart_room now p) gs s)"
  by (induction gs arbitrary: s) (simp_all add: store_inv_depart)

lemma store_inv_disconnect: "store_inv s \<Longrightarrow> store_inv (disconnect_player now sid s)"
  by (cases "map_of (players s) sid")
    (simp_all add: disconnect_player_def Let_def broadcast_sync_peer_leave_def store_inv_departs)

lemma store_inv_close: "store_inv s \<Longrightarrow> store_inv (close_with now j u s)"
proof -
  have "store_inv s \<Longrightarrow> store_inv (fold (\<lambda>i s. disconnect_player now i (try_send i WClose (try_send i (WText j) s))) is s)" for "is"
    by (induction "is" arbitrary: s) (simp_all add: store_inv_disconnect)
  then show "store_inv s \<Longrightarrow> store_inv (close_with now j u s)" by (simp add: close_with_def)
qed

section \<open>Chat and rooms\<close>

text \<open>What the chat leaves alone.\<close>

definition kept :: "app_state \<Rightarrow> (string \<times> room_record) list \<times> account_db" where
  "kept s = (rooms s, accounts s)"

lemma kept_frame [simp]:
  "kept (try_send c m s) = kept s" "kept (respond_to_sender c j s) = kept s" "kept (broadcast_to_room g j s) = kept s"
  "kept (send_all cs m s) = kept s" "kept (s\<lparr>limits := l\<rparr>) = kept s" "kept (s\<lparr>players := p\<rparr>) = kept s"
  "kept (s\<lparr>room_messages := ms\<rparr>) = kept s" "kept (s\<lparr>poll_tallies := ts\<rparr>) = kept s" "kept (s\<lparr>runtime := y\<rparr>) = kept s"
  "kept (s\<lparr>disk := f\<rparr>) = kept s" "kept (remove_file i s) = kept s"
  by (simp_all add: kept_def remove_file_def)

lemma kept_vote [simp]: "kept (send_poll_states h rid mid t s) = kept s"
proof -
  have "kept (fold (\<lambda>p. try_send (f p) (g p)) ps t) = kept t" for f :: "player_session \<Rightarrow> string" and g ps t
    by (induction ps arbitrary: t) simp_all
  then show ?thesis by (simp add: send_poll_states_def)
qed

lemma kept_edits [simp]:
  "kept (update_message rid mid f s) = kept s" "kept (release_upload i s) = kept s" "kept (store_room_message r m s) = kept s"
  by (simp_all add: update_message_def release_upload_def store_room_message_def record_message_def remove_file_def Let_def split: option.split)

lemma slot_kept: "claim_chat_slot now sid g s = (x, s') \<Longrightarrow> kept s' = kept s"
  by (auto simp: claim_chat_slot_def split: option.splits if_splits)

lemma reactions_kept: "update_message_reactions mid e u h s = (x, s') \<Longrightarrow> kept s' = kept s"
  by (auto simp: update_message_reactions_def Let_def split: option.splits)

lemma attachment_kept: "parse_attachment b64 uuid raw s = (x, s') \<Longrightarrow> kept s' = kept s"
  by (auto simp: parse_attachment_def Let_def store_def kept_def dest!: store_uploaded_store
      split: option.splits json.splits sum.splits prod.splits if_splits)

lemma delete_kept: "kept (snd (delete_message now sid d s)) = kept s"
  by (auto simp: delete_message_def apply_delete_def Let_def rate_hit_def split: sum.split option.split prod.split)

lemma edit_kept: "kept (snd (edit_message n now sid d s)) = kept s"
  by (auto simp: edit_message_def apply_edit_def Let_def rate_hit_def split: sum.split option.split prod.split)

lemma preview_kept: "kept (snd (fst (request_link_preview now sid d s))) = kept s" "kept (finish_preview task pv s) = kept s"
  by (auto simp: request_link_preview_def finish_preview_def announce_preview_def Let_def rate_hit_def
      split: sum.split option.split prod.split preview_task.split)

lemma vote_kept: "kept (snd (vote_poll h now sid d s)) = kept s"
  by (auto simp: vote_poll_def Let_def rate_hit_def split: sum.split option.split prod.split)

lemma react_kept: "kept (snd (toggle_message_reaction now sid d s)) = kept s"
  by (auto simp: toggle_message_reaction_def Let_def rate_hit_def dest!: reactions_kept split: sum.split option.split prod.split)

lemma send_kept: "kept (snd (send_chat_message b64 n uuid mid now sid d s)) = kept s"
proof -
  have claim: "kept s2 = kept s" if "claim_chat_slot now sid g (s1\<lparr>limits := l\<rparr>) = (x, s2)" "kept s1 = kept s" for x s1 s2 g l
    using slot_kept [OF that(1)] that(2) by simp
  show ?thesis
    by (auto simp: send_chat_message_def Let_def rate_hit_def publish_chat_message_def
        dest!: attachment_kept elim!: claim split: sum.split option.split prod.split)
qed

lemma history_kept: "kept (snd (send_room_history h now sid d s)) = kept s"
  using store_history(2) [of h now sid d s] by (simp add: store_def kept_def)

lemma chat_kept: "kept (chat_step b64 jl h c s) = kept s"
  by (cases c) (simp_all only: chat_step.simps send_kept react_kept delete_kept edit_kept preview_kept vote_kept history_kept)

lemma store_inv_chat: "store_inv s \<Longrightarrow> store_inv (chat_step b64 jl h c s)"
  using chat_kept [of b64 jl h c s] by (simp add: store_inv_def chat_inv_step polls_inv_step rooms_inv_def kept_def)

lemmas store_inv_chat_ops = store_inv_chat [of _ _ _ _ "Send _ _ _ _ _", simplified] store_inv_chat [of _ _ _ _ "React _ _ _", simplified]
  store_inv_chat [of _ _ _ _ "Delete _ _ _", simplified] store_inv_chat [of _ _ _ _ "Edit _ _ _", simplified]
  store_inv_chat [of _ _ _ _ "Ask_Preview _ _ _", simplified] store_inv_chat [of _ _ _ _ "Preview_Ready _ _", simplified]
  store_inv_chat [of _ _ _ _ "Vote _ _ _", simplified]

section \<open>Room operations\<close>

definition talk :: "app_state \<Rightarrow> (string \<times> chat_message list) list \<times> (string \<times> poll_tally) list \<times> account_db" where
  "talk s = (room_messages s, poll_tallies s, accounts s)"

lemma talk_frame [simp]:
  "talk (respond_to_sender c j s) = talk s" "talk (broadcast_to_room g j s) = talk s" "talk (send_all cs m s) = talk s"
  "talk (s\<lparr>limits := l\<rparr>) = talk s" "talk (s\<lparr>players := p\<rparr>) = talk s" "talk (s\<lparr>rooms := r\<rparr>) = talk s"
  "talk (s\<lparr>call_access_overrides := w\<rparr>) = talk s" "talk (remove_file i s) = talk s"
  "talk (broadcast_room_record_to_members rid opn req b room s) = talk s"
  "talk (remove_user_from_room rid u reason s) = talk s"
  by (simp_all add: talk_def remove_file_def broadcast_room_record_to_members_def remove_user_from_room_def Let_def)

lemma talk_uploaded: "store_uploaded_bytes uuid ext bs mime s = (x, s') \<Longrightarrow> talk s' = talk s"
  by (drule store_uploaded_store) (simp add: store_def talk_def)

lemma talk_records [simp]:
  "talk (snd (set_room_record rid room s)) = talk s" "talk (snd (sync_room_record rid s)) = talk s"
  "talk (snd (set_room_icon rid icon s)) = talk s" "talk (snd (create_room_if_absent rid room s)) = talk s"
  "talk (snd (delete_room rid s)) = talk s" "talk (snd (store_room_icon_from_payload b64 uuid d rid s)) = talk s"
proof -
  show *: "talk (snd (set_room_record rid room s)) = talk s" for rid room by (simp add: set_room_record_def)
  show "talk (snd (sync_room_record rid s)) = talk s" by (simp add: sync_rest talk_def)
  show "talk (snd (set_room_icon rid icon s)) = talk s" by (simp add: set_room_icon_def *)
  show "talk (snd (store_room_icon_from_payload b64 uuid d rid s)) = talk s"
    by (auto simp: store_room_icon_from_payload_def Let_def dest!: talk_uploaded
        split: option.split json.split sum.split prod.split)
qed (simp_all add: create_room_if_absent_def delete_room_def)

lemma talk_set_eq: "set_room_record rid room s = (r, s') \<Longrightarrow> talk s' = talk s"
  by (metis snd_conv talk_records(1))

lemma talk_persist [simp]: "talk (snd (persist_and_announce opn msg sid d rid room s)) = talk s"
  by (auto simp: persist_and_announce_def Let_def dest!: talk_set_eq split: prod.split sum.split)

lemma talk_removal [simp]: "talk (snd (removal_tail opn reason sid d rid t tn room s)) = talk s"
  by (simp add: removal_tail_def broadcast_member_removed_def Let_def)

lemma talk_community:
  assumes "\<And>actor name rid room s. talk (snd (body actor name rid room s)) = talk s"
  shows "talk (snd (community_op b l w opn km now sid d body s)) = talk s"
  by (rule community_op_rule) (simp_all add: assms)

lemma talk_rooms:
  "talk (snd (update_room_description now sid d s)) = talk s" "talk (snd (set_member_role now sid d s)) = talk s"
  "talk (snd (ban_member now sid d s)) = talk s" "talk (snd (unban_member now sid d s)) = talk s"
  "talk (snd (kick_member now sid d s)) = talk s" "talk (snd (timeout_member now sid d s)) = talk s"
  "talk (snd (transfer_ownership now sid d s)) = talk s" "talk (snd (set_chat_lock now sid d s)) = talk s"
  "talk (snd (set_moderator_permissions now sid d s)) = talk s" "talk (snd (set_calls_enabled now sid d s)) = talk s"
  "talk (snd (set_call_access now sid d s)) = talk s" "talk (snd (unmute_member now sid d s)) = talk s"
  unfolding update_room_description_def set_member_role_def ban_member_def unban_member_def kick_member_def
    timeout_member_def transfer_ownership_def set_chat_lock_def set_moderator_permissions_def set_calls_enabled_def
    set_call_access_def unmute_member_def
  by (rule talk_community; auto simp: Let_def dest!: talk_set_eq split: option.split sum.split prod.split)+

lemma talk_title: "talk (snd (update_room_title now sid d s)) = talk s"
proof -
  have "talk (snd (retitle_room rid title req sid s)) = talk s" for rid title req s
    by (simp add: retitle_room_def split_beta split: sum.split)
  then show ?thesis
    unfolding update_room_title_def Let_def rate_hit_def by (simp add: split_beta split: sum.split)
qed

lemma talk_create: "talk (snd (create_room b64 uuid now sid d s)) = talk s"
proof -
  have "talk (snd (persist_new_room b64 uuid rid room sid d s)) = talk s" for rid room s
    by (simp add: persist_new_room_def split_beta split: sum.split bool.split option.split)
  then show ?thesis
    unfolding create_room_def Let_def rate_hit_def by (simp add: split_beta split: sum.split option.split)
qed

lemma chat_inv_forget:
  assumes "chat_inv s" "room_messages s' = AList.delete rid (room_messages s)"
  shows "chat_inv s'"
  using assms(1) vals_delete_subset [of rid "room_messages s"] unfolding chat_inv_def assms(2) by blast

lemma delete_room_talk:
  "talk (snd (delete_room_op now sid d s)) = talk s
    \<or> (\<exists>rid. talk (snd (delete_room_op now sid d s)) = (AList.delete rid (room_messages s), poll_tallies s, accounts s))"
  unfolding delete_room_op_def
proof (rule community_op_rule, goal_cases)
  case (1 m j)
  then show ?case by simp
next
  case (2 m actor name rid room)
  have del: "room_messages (snd (delete_room rid u)) = room_messages u" "poll_tallies (snd (delete_room rid u)) = poll_tallies u"
    "accounts (snd (delete_room rid u)) = accounts u" for u
    by (simp_all add: delete_room_def)
  have icon: "room_messages (case room_icon room of None \<Rightarrow> u | Some icon \<Rightarrow> remove_file (sf_id icon) u) = room_messages u"
    "poll_tallies (case room_icon room of None \<Rightarrow> u | Some icon \<Rightarrow> remove_file (sf_id icon) u) = poll_tallies u"
    "accounts (case room_icon room of None \<Rightarrow> u | Some icon \<Rightarrow> remove_file (sf_id icon) u) = accounts u" for u
    by (simp_all add: remove_file_def split: option.split)
  show ?case
    unfolding Let_def split_beta talk_def by (simp add: del icon split: sum.split) blast
qed

lemma store_inv_rooms: "store_inv s \<Longrightarrow> store_inv (snd (room_step b64 uuid now sid opn d s))"
proof -
  assume inv: "store_inv s"
  let ?ok = "\<lambda>t. chat_inv t \<and> polls_inv t \<and> acct_inv (accounts t)"
  have same: "chat_inv t \<and> polls_inv t \<and> acct_inv (accounts t)" if "talk t = talk s" for t
    using that inv by (auto simp: talk_def store_inv_def chat_inv_def polls_inv_def)
  have "chat_inv t \<and> polls_inv t \<and> acct_inv (accounts t)" if "talk t = (AList.delete rid (room_messages s), poll_tallies s, accounts s)" for t rid
    using that inv chat_inv_forget [of s t rid] by (auto simp: talk_def store_inv_def polls_inv_def)
  then have "?ok (snd (delete_room_op now sid d s))"
    using delete_room_talk [of now sid d s] same by blast
  moreover have "?ok s" using inv by (simp add: store_inv_def)
  ultimately have "?ok (snd (room_step b64 uuid now sid opn d s))"
    by (rule_tac room_step_rule) (simp_all add: same talk_rooms talk_title talk_create)
  with inv show ?thesis by (simp add: store_inv_def rooms_inv_step)
qed

lemma store_inv_set_icon: "set_room_icon rid icon s = (r, s') \<Longrightarrow> store_inv s \<Longrightarrow> store_inv s'"
proof -
  assume set: "set_room_icon rid icon s = (r, s')" and inv: "store_inv s"
  have "talk s' = talk s" using talk_records(3) [of rid icon s] set by simp
  moreover have "rooms_inv s'"
    using rooms_inv_set_room [of s "(unwrap_or (fresh_room rid) (find_room rid s))\<lparr>room_icon := Some icon\<rparr>" rid]
      rooms_inv_unwrap [of s rid] set inv by (simp add: set_room_icon_def store_inv_def)
  ultimately show ?thesis using inv by (simp add: store_inv_def chat_inv_def polls_inv_def talk_def)
qed

lemma store_inv_icon: "store_inv s \<Longrightarrow> store_inv (snd (upload_room_icon b64 uuid now sid d s))"
proof -
  assume inv: "store_inv s"
  have payload: "store_inv t" if "store_room_icon_from_payload b64 uuid d rid (s\<lparr>limits := l\<rparr>) = (r, t)" for rid l r t
  proof -
    have "rooms t = rooms s" "talk t = talk s"
      using store_icon_rooms(1) [of b64 uuid d rid "s\<lparr>limits := l\<rparr>"] talk_records(6) [of b64 uuid d rid "s\<lparr>limits := l\<rparr>"] that by simp_all
    with inv show ?thesis by (simp add: store_inv_def rooms_inv_def chat_inv_def polls_inv_def talk_def)
  qed
  have announce: "store_inv (broadcast_room_record_to_members rid opn req b room t) = store_inv t" for rid opn req b room t
    by (simp add: broadcast_room_record_to_members_def)
  show ?thesis
    unfolding upload_room_icon_def Let_def rate_hit_def
    using inv
    by (auto simp: announce split_beta intro!: store_inv_sync payload [OF surjective_pairing] store_inv_set_icon [OF surjective_pairing]
        split: sum.split option.split)
qed

section \<open>The server\<close>

lemma store_inv_dispatch: "store_inv s \<Longrightarrow> store_inv (snd (dispatch lib dr now sid opn d s))"
  unfolding dispatch_def
  by (simp add: answered_def store_inv_join store_inv_leave store_inv_rooms store_inv_icon store_inv_chat_ops
      store_inv_identify store_inv_same [OF store_kill] store_inv_settings
      store_inv_same [OF store_history(2)] store_inv_same [OF store_signal] store_inv_same [OF store_cloud]
      store_inv_same [OF store_peers] store_inv_same [OF store_typing] store_inv_same [OF store_profiles]
      store_inv_same [OF store_fetch] store_inv_prekeys
      store_inv_same [OF store_admin(1)] store_inv_same [OF store_admin(2)] store_inv_same [OF store_admin(3)]
      store_inv_same [OF store_voice] store_inv_same [OF store_calls(1)] store_inv_same [OF store_calls(2)]
      store_inv_same [OF store_calls(3)] store_inv_same [OF store_calls(4)])

lemma store_inv_process: "store_inv s \<Longrightarrow> store_inv (snd (process_message lib dr now sid raw s))"
proof -
  assume inv: "store_inv s"
  have "store_inv t" if "revalidate_session now sid s = (v, t)" for v t
    using store_inv_same [OF store_revalidate [OF that]] inv by simp
  with inv show ?thesis
    by (auto simp: process_message_def store_inv_dispatch split: option.split prod.split)
qed

lemma store_inv_receive: "receive_frame lib dr now sid f s = (fate, s') \<Longrightarrow> store_inv s \<Longrightarrow> store_inv s'"
proof -
  assume rec: "receive_frame lib dr now sid f s = (fate, s')" and inv: "store_inv s"
  have "store_inv t" if "process_message lib dr now sid raw (s\<lparr>limits := l\<rparr>) = (r, t)" for raw l r t
    using store_inv_process [of "s\<lparr>limits := l\<rparr>" lib dr now sid raw] inv that by simp
  with rec inv show ?thesis
    by (auto simp: receive_frame_def rate_hit_def split: socket_frame.splits prod.splits if_splits outcome.splits bool.splits)
qed

lemma store_inv_step: "store_inv (sv_app sv) \<Longrightarrow> store_inv (sv_app (server_step lib now ev sv))"
proof (cases ev)
  case (Connect_Socket sid)
  assume inv: "store_inv (sv_app sv)"
  have "store_inv t" if "register_connection sid (sv_app sv) = (ok, t)" for ok t
    using store_inv_same [OF store_register [OF that]] inv by simp
  with inv show ?thesis by (auto simp: Connect_Socket server_step_def split: prod.split bool.split)
next
  case (Receive sid f dr)
  assume inv: "store_inv (sv_app sv)"
  then show ?thesis
    by (auto simp: Receive server_step_def finish_socket_def store_inv_receive store_inv_disconnect split: prod.split socket_fate.split)
next
  case (Fall_Silent sid)
  assume "store_inv (sv_app sv)"
  then show ?thesis by (auto simp: Fall_Silent server_step_def finish_socket_def store_inv_disconnect split: option.split)
next
  case (Preview_Arrived task preview)
  assume "store_inv (sv_app sv)"
  then show ?thesis by (simp add: Preview_Arrived server_step_def store_inv_chat_ops)
next
  case (Evict user_id reason)
  assume "store_inv (sv_app sv)"
  then show ?thesis by (simp add: Evict server_step_def evict_user_def store_inv_close)
next
  case (End_Sessions user_id reason)
  assume "store_inv (sv_app sv)"
  then show ?thesis by (simp add: End_Sessions server_step_def disconnect_user_sessions_def store_inv_close)
qed

lemma store_inv_run: "store_inv (sv_app sv) \<Longrightarrow> store_inv (sv_app (server_run lib evs sv))"
  unfolding server_run_def
  by (rule fold_invariant [where Q = "\<lambda>_. True" and P = "\<lambda>sv. store_inv (sv_app sv)"]) (auto intro: store_inv_step)

end
