(* ===== verification/Server_Safety.thy ===== *)
theory Server_Safety
  imports Server_Inv
begin

text \<open>
  Who hears what, and who gets in: the relays reach only the parties they are meant for, a banned
  account is turned away at the door, and the way in that is left open.
\<close>

section \<open>Which queues a send changes\<close>

definition reaches :: "app_state \<Rightarrow> app_state \<Rightarrow> string set \<Rightarrow> bool" where
  "reaches s s' C \<longleftrightarrow> (\<forall>c. outbox s' c \<noteq> outbox s c \<longrightarrow> c \<in> C)"

lemma reaches_refl [simp]: "reaches s s C"
  by (simp add: reaches_def)

lemma reaches_limits [simp]: "reaches s (t\<lparr>limits := l\<rparr>) C = reaches s t C" "reaches (s\<lparr>limits := l\<rparr>) t C = reaches s t C"
  by (simp_all add: reaches_def)

definition own_channel :: "app_state \<Rightarrow> string \<Rightarrow> string set" where
  "own_channel s sid = {c. \<exists>p. map_of (players s) sid = Some p \<and> c = ps_id p}"

lemma own_limits [simp]: "own_channel (s\<lparr>limits := l\<rparr>) sid = own_channel s sid"
  by (simp add: own_channel_def)

lemma reaches_respond: "reaches s t C \<Longrightarrow> own_channel t sid \<subseteq> C \<Longrightarrow> reaches s (respond_to_sender sid j t) C"
  by (auto simp: reaches_def respond_to_sender_def own_channel_def outbox_try_send split: option.splits if_splits)

lemma reaches_try: "reaches s t C \<Longrightarrow> c \<in> C \<Longrightarrow> reaches s (try_send c m t) C"
  by (auto simp: reaches_def outbox_try_send split: if_splits)

lemma reaches_all: "reaches s t C \<Longrightarrow> set cs \<subseteq> C \<Longrightarrow> reaches s (send_all cs m t) C"
  unfolding send_all_def by (induction cs arbitrary: t) (auto intro: reaches_try)

lemma own_same: "players t = players s \<Longrightarrow> own_channel t sid = own_channel s sid"
  by (simp add: own_channel_def)

lemma reaches_fan: "sync_fan_out j ps a b c t = (r, t') \<Longrightarrow> reaches s t C \<Longrightarrow> ps_id ` set ps \<subseteq> C \<Longrightarrow> reaches s t' C"
  by (induction j ps a b c t rule: sync_fan_out.induct) (auto split: if_splits intro: reaches_try)

lemma fan_players: "sync_fan_out j ps a b c t = (r, t') \<Longrightarrow> players t' = players t"
  by (metis fan_out_players snd_conv)

definition own_devices :: "app_state \<Rightarrow> string \<Rightarrow> string set" where
  "own_devices s sid = {c. \<exists>p. map_of (players s) sid = Some p \<and> (c = ps_id p
     \<or> (\<exists>(i, q) \<in> set (players s). c = ps_id q \<and> i \<noteq> sid \<and> ps_user_id q = ps_user_id p))}"

lemma cloud_reaches: "reaches s (snd (relay_cloud_sync_op n now sid d s)) (own_devices s sid)"
proof -
  have own: "own_channel s sid \<subseteq> own_devices s sid" by (auto simp: own_channel_def own_devices_def)
  then have err: "reaches s (respond_to_sender sid j (s\<lparr>limits := l\<rparr>)) (own_devices s sid)" for j l
    by (intro reaches_respond) simp_all
  have fan: "reaches s t' (own_devices s sid) \<and> reaches s (respond_to_sender sid k t') (own_devices s sid)"
    if "sync_fan_out j (filter P (sync_siblings sid p (s\<lparr>limits := l\<rparr>))) a b c (s\<lparr>limits := l\<rparr>) = (r, t')" "map_of (players s) sid = Some p"
    for j P p l a b c r t' k
  proof -
    have "ps_id ` set (filter P (sync_siblings sid p (s\<lparr>limits := l\<rparr>))) \<subseteq> own_devices s sid"
      using that(2) by (force simp: sync_siblings_def own_devices_def)
    then have "reaches s t' (own_devices s sid)" using reaches_fan [OF that(1), of s "own_devices s sid"] by simp
    moreover have "own_channel t' sid \<subseteq> own_devices s sid"
      using fan_players [OF that(1)] own own_same [of t' s sid] by simp
    ultimately show ?thesis by (simp add: reaches_respond)
  qed
  show ?thesis
    unfolding relay_cloud_sync_op_def Let_def rate_hit_def
    by (auto simp: err dest!: fan split: option.split sum.split prod.split)
qed

definition peers_in :: "(string \<Rightarrow> player_session \<Rightarrow> bool) \<Rightarrow> string option \<Rightarrow> app_state \<Rightarrow> string \<Rightarrow> string set" where
  "peers_in member rid s sid = own_channel s sid \<union> {c. \<exists>p q i g. map_of (players s) sid = Some p \<and> (i, q) \<in> set (players s)
     \<and> c = ps_id q \<and> rid = Some g \<and> member g p \<and> member g q}"

lemma own_peers: "own_channel s sid \<subseteq> peers_in member rid s sid"
  by (simp add: peers_in_def)

lemma peers_inI: "map_of (players s) sid = Some p \<Longrightarrow> (i, q) \<in> set (players s) \<Longrightarrow> member g p \<Longrightarrow> member g q
    \<Longrightarrow> ps_id q \<in> peers_in member (Some g) s sid"
  by (auto simp: peers_in_def)

lemma signal_reaches: "reaches s (snd (relay_room_signal n now sid d s)) (peers_in in_room (trimmed (str_field ''gameId'' d)) s sid)"
proof -
  let ?C = "\<lambda>rid. peers_in in_room rid s sid"
  have err: "reaches s (respond_to_sender sid j (s\<lparr>limits := l\<rparr>)) (?C rid)" for j l rid
    by (intro reaches_respond) (simp_all add: own_peers)
  have send: "reaches s (send_all (map (\<lambda>(_, p). ps_id p) (filter (\<lambda>(i, p). i \<noteq> sid \<and> in_room rid p) (players s))) m (s\<lparr>limits := l\<rparr>)) (?C (Some rid))"
    if "map_of (players s) sid = Some p" "in_room rid p" for rid m l p
    using that by (intro reaches_all) (auto intro: peers_inI)
  show ?thesis
    unfolding relay_room_signal_def Let_def rate_hit_def
    by (auto simp: err send split: option.split sum.split prod.split)
qed

lemma call_reaches: "reaches s (snd (relay_call_signal n now sid d s)) (peers_in in_call (map_option trim (str_field ''gameId'' d)) s sid)"
proof -
  let ?C = "\<lambda>rid. peers_in in_call rid s sid"
  have err: "reaches s (respond_to_sender sid j (s\<lparr>limits := l\<rparr>)) (?C rid)" for j l rid
    by (intro reaches_respond) (simp_all add: own_peers)
  have send: "reaches s (try_send (ps_id q) m (s\<lparr>limits := l\<rparr>)) (?C (Some rid))"
    if "map_of (players s) sid = Some p" "in_call rid p"
      "find (signal_target rid u cl) (vals (players s)) = Some q" for rid m l p u cl q
  proof (rule reaches_try)
    have "q \<in> set (vals (players s))" "signal_target rid u cl q" using that(3) by (auto simp: find_Some_iff)
    then obtain i where "(i, q) \<in> set (players s)" "in_call rid q" by (auto simp: signal_target_def)
    with that show "ps_id q \<in> ?C (Some rid)" by (auto intro: peers_inI)
  qed simp
  show ?thesis
    unfolding relay_call_signal_def Let_def rate_hit_def
    by (auto simp: err send split: option.split sum.split prod.split)
qed

section \<open>Properties\<close>

text \<open>C16: the relays reach only those they are meant for.  Apart from the answer to the asker, a cloud
  synchronisation is queued only to other sessions of the asker's own account, a room signal only to sessions in
  the named room, which the asker is in, and a call signal only to a session that is in the same call as the asker.\<close>

theorem relays_confined:
  "{c. outbox (snd (relay_cloud_sync_op n now sid d s)) c \<noteq> outbox s c} \<subseteq> own_devices s sid
   \<and> {c. outbox (snd (relay_room_signal n now sid d s)) c \<noteq> outbox s c}
       \<subseteq> peers_in in_room (trimmed (str_field ''gameId'' d)) s sid
   \<and> {c. outbox (snd (relay_call_signal n now sid d s)) c \<noteq> outbox s c}
       \<subseteq> peers_in in_call (map_option trim (str_field ''gameId'' d)) s sid"
proof (intro conjI subsetI; elim CollectE)
  show "outbox (snd (relay_cloud_sync_op n now sid d s)) c \<noteq> outbox s c \<Longrightarrow> c \<in> own_devices s sid" for c
    by (rule cloud_reaches [unfolded reaches_def, rule_format])
  show "outbox (snd (relay_room_signal n now sid d s)) c \<noteq> outbox s c
      \<Longrightarrow> c \<in> peers_in in_room (trimmed (str_field ''gameId'' d)) s sid" for c
    by (rule signal_reaches [unfolded reaches_def, rule_format])
  show "outbox (snd (relay_call_signal n now sid d s)) c \<noteq> outbox s c
      \<Longrightarrow> c \<in> peers_in in_call (map_option trim (str_field ''gameId'' d)) s sid" for c
    by (rule call_reaches [unfolded reaches_def, rule_format])
qed

section \<open>The door of a room\<close>

lemma adjust_twice: "adjust k f (adjust k g m) = adjust k (f \<circ> g) m"
  by (induction m) (auto simp: adjust_def)

lemma adjust_same: "adjust k (\<lambda>p. p) m = m"
  by (induction m) (auto simp: adjust_def)

lemma banned_frame [simp]:
  "banned_from g u (t\<lparr>limits := l\<rparr>) = banned_from g u t" "banned_from g u (t\<lparr>players := ps\<rparr>) = banned_from g u t"
  by (simp_all add: banned_from_def find_room_def)

lemma banned_from_cong: "rooms t = rooms s \<Longrightarrow> rooms_read_ok t = rooms_read_ok s \<Longrightarrow> banned_from g u t = banned_from g u s"
  by (simp add: banned_from_def find_room_def)

lemma join_banned:
  assumes "map_of (players s) sid = Some p" "map_option trim (str_field ''gameId'' d) = Some g"
    and "\<not> in_room g p" "banned_from g (ps_user_id p) s"
  shows "\<exists>j l f. snd (join_game h now sid d s) = respond_to_sender sid j (s\<lparr>limits := l, players := adjust sid f (players s)\<rparr>) \<and> f p = p"
proof -
  have gone: "removeAll g (List.insert g (ps_rooms p)) = ps_rooms p"
    using assms(3) by (simp add: in_room_def List.insert_def)
  have stay: "\<exists>j' l' f. respond_to_sender sid j (s\<lparr>limits := l\<rparr>)
      = respond_to_sender sid j' (s\<lparr>limits := l', players := adjust sid f (players s)\<rparr>) \<and> f p = p" for j l
    by (rule exI [of _ j], rule exI [of _ l], rule exI [of _ "\<lambda>p. p"]) (simp add: adjust_same)
  let ?f = "\<lambda>p. p\<lparr>ps_rooms := removeAll g (ps_rooms p)\<rparr>"
  let ?g = "\<lambda>p. p\<lparr>ps_rooms := List.insert g (ps_rooms p)\<rparr>"
  have undo: "\<exists>j' l' f. respond_to_sender sid j (s\<lparr>limits := l, players := adjust sid ?f (adjust sid ?g (players s))\<rparr>)
      = respond_to_sender sid j' (s\<lparr>limits := l', players := adjust sid f (players s)\<rparr>) \<and> f p = p" for j l
    by (rule exI [of _ j], rule exI [of _ l], rule exI [of _ "?f \<circ> ?g"]) (simp add: adjust_twice gone)
  obtain hit l where hit: "rate_hit now (''join:session:'' @ sid) 150 10000 s = (hit, s\<lparr>limits := l\<rparr>)"
    using rate_hit_cases [of now _ 150 10000 s] by blast
  obtain z where z: "str_field ''gameId'' d = Some z" "trim z = g" using assms(2) by blast
  show ?thesis
    using assms(1,3,4) stay undo z
    by (simp add: join_game_def Let_def hit [simplified] enter_room_def exit_room_def split: sum.split)
qed

text \<open>C19: a banned account does not get in through the door: a join request of a session that is not in the
  room leaves the session as it was, changes no record, and reaches nobody but the asker.\<close>

theorem banned_cannot_join:
  assumes "map_of (players s) sid = Some p" "map_option trim (str_field ''gameId'' d) = Some g"
    and "\<not> in_room g p" "banned_from g (ps_user_id p) s"
  shows "map_of (players (snd (join_game h now sid d s))) sid = Some p
    \<and> rooms (snd (join_game h now sid d s)) = rooms s
    \<and> {c. outbox (snd (join_game h now sid d s)) c \<noteq> outbox s c} \<subseteq> {ps_id p}"
proof -
  obtain j l f where eq: "snd (join_game h now sid d s) = respond_to_sender sid j (s\<lparr>limits := l, players := adjust sid f (players s)\<rparr>)"
    and f: "f p = p" using join_banned [OF assms] by blast
  have "map_of (adjust sid f (players s)) sid = Some p" using assms(1) f by (simp add: map_of_adjust)
  then show ?thesis
    unfolding eq by (auto simp: respond_to_sender_def outbox_try_send)
qed

lemma sync_event_rooms [simp]: "rooms_read_ok (broadcast_sync_peer_event u e c pl x s) = rooms_read_ok s"
  "rooms (broadcast_sync_peer_event u e c pl x s) = rooms s"
  by (simp_all add: broadcast_sync_peer_event_def)

lemma rooms_identify: "rooms (snd (identify_player th now sid d s)) = rooms s"
  by (auto simp: identify_player_def Let_def split: option.split sum.split)

text \<open>C40: but a session that is already in a room keeps its rooms when it identifies as another account: an
  account that is banned from the room, holding a valid token, is then a member of it and receives what is said.\<close>

theorem reidentify_bypasses_ban:
  assumes "map_of (players s) sid = Some p" "in_room g p"
    and "trimmed (obind (or_else (obj_get ''token'' d) (obj_get ''authToken'' d)) as_str) = Some token"
    and "authenticate_token th now token (accounts s) = Inr (Some account)"
    and "banned_from g (pu_id account) s" "length (outbox (snd (identify_player th now sid d s)) (ps_id p)) < PER_SESSION_QUEUE"
    and "distinct (map ps_id (vals (players s)))"
  shows "\<exists>q. map_of (players (snd (identify_player th now sid d s))) sid = Some q
    \<and> ps_user_id q = pu_id account \<and> in_room g q \<and> banned_from g (ps_user_id q) (snd (identify_player th now sid d s))
    \<and> WText j \<in> set (outbox (broadcast_to_room g j (snd (identify_player th now sid d s))) (ps_id p))"
proof -
  let ?s = "snd (identify_player th now sid d s)"
  let ?q = "identified now account (unwrap_or (pu_status account) (requested_status d)) d p"
  have ps: "players ?s = adjust sid (identified now account (unwrap_or (pu_status account) (requested_status d)) d) (players s)"
    using assms(1,3,4) by (simp add: identify_player_def Let_def)
  have rs: "rooms ?s = rooms s" by (rule rooms_identify)
  have rd: "rooms_read_ok ?s = rooms_read_ok s"
    using assms(1,3,4) by (simp add: identify_player_def Let_def)
  have q: "map_of (players ?s) sid = Some ?q" using assms(1) by (simp add: ps map_of_adjust)
  have ids: "ps_id ?q = ps_id p" "ps_user_id ?q = pu_id account" "in_room g ?q"
    using assms(2) by (simp_all add: identified_def in_room_def)
  have "map ps_id (vals (players ?s)) = map ps_id (vals (players s))"
    unfolding ps by (rule vals_adjust_frame) (simp add: identified_def)
  with assms(7) have "distinct (map ps_id (vals (players ?s)))" by simp
  moreover have "?q \<in> set (vals (players ?s))" using q by (rule map_of_set_vals)
  ultimately have "WText j \<in> set (outbox (broadcast_to_room g j ?s) (ps_id ?q))"
    using broadcast_outbox [of ?s ?q g j] assms(6) ids by simp
  moreover have "banned_from g (ps_user_id ?q) ?s"
    using assms(5) ids banned_from_cong [OF rs rd] by simp
  ultimately show ?thesis using q ids by auto
qed

section \<open>Witnesses\<close>

definition demo_door :: app_state where
  "demo_door = (demo_state [(''s1'', demo_session ''s1'' ''ann'' [''abcdefgh'']), (''s3'', demo_session ''s3'' ''7'' []),
       (''s4'', demo_session ''s4'' ''dan'' [''abcdefgh''])]
     [(''abcdefgh'', demo_room\<lparr>banned := [(''7'', ''alice'')]\<rparr>)])\<lparr>accounts := demo_accounts\<rparr>"

theorem banned_cannot_join_witness:
  "map_of (players (snd (join_game (\<lambda>v r. v) 9 ''s3'' (JObj [(''gameId'', JStr ''abcdefgh'')]) demo_door))) ''s3''
     = Some (demo_session ''s3'' ''7'' [])"
proof -
  have "trim ''abcdefgh'' = ''abcdefgh''" by code_simp
  then show ?thesis
    using banned_cannot_join [of demo_door "''s3''" "demo_session ''s3'' ''7'' []" "JObj [(''gameId'', JStr ''abcdefgh'')]" "''abcdefgh''"
        "\<lambda>v r. v" 9]
    by (simp add: demo_door_def demo_defs banned_from_def find_room_def str_field_def obj_get_def as_str_def in_room_def)
qed

definition demo_identity :: json where "demo_identity = JObj [(''token'', JStr ''t'')]"

lemma demo_reidentify:
  "authenticate_token (\<lambda>t. t) 9 ''t'' demo_accounts = Inr (Some (to_public_user demo_accounts (demo_row ''alice'')))"
  by (simp add: authenticate_token_def demo_accounts_def empty_accounts_def demo_row_def
      user_by_id_def SESSION_TTL_MS_def)

theorem reidentify_bypasses_ban_witness:
  "WText JNull \<in> set (outbox (broadcast_to_room ''abcdefgh'' JNull (snd (identify_player (\<lambda>t. t) 9 ''s4'' demo_identity demo_door))) ''s4'')"
proof -
  have token: "trimmed (obind (or_else (obj_get ''token'' demo_identity) (obj_get ''authToken'' demo_identity)) as_str) = Some ''t''"
    unfolding demo_identity_def by code_simp
  have fields: "str_field ''clientId'' demo_identity = None" "requested_status demo_identity = None"
    unfolding demo_identity_def by code_simp+
  have [simp]: "trim [] = []" by code_simp
  have auth: "authenticate_token (\<lambda>t. t) 9 ''t'' (accounts demo_door) = Inr (Some (to_public_user demo_accounts (demo_row ''alice'')))"
    by (simp add: demo_door_def demo_reidentify)
  have "length (outbox (snd (identify_player (\<lambda>t. t) 9 ''s4'' demo_identity demo_door)) ''s4'') < PER_SESSION_QUEUE"
    by (simp add: identify_player_def Let_def token fields unwrap_or_def demo_reidentify demo_door_def demo_defs to_public_user_def identified_def
        respond_to_sender_def try_send_def adjust_def sanitize_client_id_def PER_SESSION_QUEUE_def)
  note space = this
  let ?p = "demo_session ''s4'' ''dan'' [''abcdefgh'']"
  have p: "map_of (players demo_door) ''s4'' = Some ?p" "in_room ''abcdefgh'' ?p" "ps_id ?p = ''s4''"
    "distinct (map ps_id (vals (players demo_door)))"
    by (simp_all add: demo_door_def demo_state_def demo_session_def in_room_def)
  have ban: "banned_from ''abcdefgh'' (pu_id (to_public_user demo_accounts (demo_row ''alice''))) demo_door"
    by (simp add: demo_door_def demo_defs banned_from_def find_room_def to_public_user_def demo_row_def)
  show ?thesis
    using reidentify_bypasses_ban [OF p(1,2) token auth ban _ p(4)] space unfolding p(3) by blast
qed

end
