(* ===== verification/User_Directory.thy ===== *)
theory User_Directory
  imports Accounts_Inv "HOL-Library.Product_Lexorder"
begin

text \<open>
  The administrators' view of the accounts in \<open>core/database.rs\<close>: the sign-up histogram, the statistics,
  the ranked search and the paginated listing with its filters and keyset cursors.  The queries are
  modelled over the list of rows: a \<open>WHERE\<close> clause is a filter, \<open>ORDER BY\<close> a stable sort, \<open>LIMIT\<close> a
  prefix, \<open>LOWER\<close> the ASCII lower case of SQLite, and \<open>LIKE\<close> with an escaped pattern between two \<open>%\<close> a
  substring test.  The listing skips the rows that do not decode: which do is an argument.
\<close>

section \<open>Statistics\<close>

definition DAY_MS :: int where "DAY_MS = 24 * 60 * 60 * 1000"

record signup_day =
  sd_day :: nat
  sd_count :: nat

definition signups_per_day :: "nat \<Rightarrow> nat \<Rightarrow> account_db \<Rightarrow> signup_day list api_result" where
  "signups_per_day now days db =
     (let span = clamp 1 120 days;
          today = (int now div DAY_MS) * DAY_MS;
          origin = today - (int span - 1) * DAY_MS
      in if \<not> db_ok db then Inl (internal ''Signup histogram query'')
         else Inr (map (\<lambda>i. \<lparr>sd_day = nat ((origin + int i * DAY_MS) mod 2 ^ 64),
             sd_count = length (filter (\<lambda>u. int (us_created_at u) \<ge> origin
               \<and> (int (us_created_at u) - origin) div 86400000 = int i) (users db))\<rparr>) [0..<span]))"

record user_stats =
  st_total :: nat
  st_disabled :: nat
  st_banned :: nat
  st_last_day :: nat
  st_last_week :: nat

definition user_stats_of :: "nat \<Rightarrow> account_db \<Rightarrow> user_stats api_result" where
  "user_stats_of now db =
     (let day_ago = int now - 24 * 60 * 60 * 1000; week_ago = int now - 7 * 24 * 60 * 60 * 1000;
          count = (\<lambda>P. length (filter P (users db)))
      in if \<not> db_ok db then Inl (internal ''User stats query'')
         else Inr \<lparr>st_total = length (users db), st_disabled = count us_disabled, st_banned = count us_banned,
           st_last_day = count (\<lambda>u. int (us_created_at u) \<ge> day_ago),
           st_last_week = count (\<lambda>u. int (us_created_at u) \<ge> week_ago)\<rparr>)"

section \<open>Search\<close>

definition lowered :: "user_row \<Rightarrow> string" where
  "lowered u = str_ascii_lower (us_username u)"

definition sql_class :: "string \<Rightarrow> user_row \<Rightarrow> nat" where
  "sql_class needle u = (if lowered u = needle then 0 else if prefix needle (lowered u) then 1 else 2)"

definition match_class :: "string \<Rightarrow> user_row \<Rightarrow> nat" where
  "match_class needle u =
     (let username = str_lower (us_username u)
      in if username = needle then 0 else if prefix needle username then 1 else 2)"

definition search_rank :: "string \<Rightarrow> user_row \<Rightarrow> nat \<times> nat \<times> int" where
  "search_rank needle u =
     (match_class needle u, levenshtein_distance (str_lower (us_username u)) needle, - int (us_created_at u))"

definition search_users :: "string \<Rightarrow> nat \<Rightarrow> account_db \<Rightarrow> (public_user list \<times> nat) api_result" where
  "search_users query limit db =
     (let needle = take 64 (str_lower (trim query)) in
      if needle = [] then Inr ([], 0)
      else
       (let limit = clamp 1 50 limit; sql_limit = max (limit * 4) 100 in
        if \<not> db_ok db then Inl (internal ''Search users query'')
        else
         (let candidates = take sql_limit (sort_key (\<lambda>u. (sql_class needle u, - int (us_created_at u)))
                (filter (\<lambda>u. lowered u = needle \<or> prefix needle (lowered u) \<or> contains_str (lowered u) needle) (users db)))
          in Inr (map (to_public_user db) (take limit (sort_key (search_rank needle) candidates)), 0))))"

section \<open>Filters\<close>

datatype user_sort = Newest | Oldest | Username

datatype list_status = List_All | List_Active | List_Disabled | List_Banned | List_Admin

record user_filter =
  uf_query :: string
  uf_status :: list_status
  uf_badge :: string
  uf_after :: "int option"
  uf_before :: "int option"
  uf_sort :: user_sort

definition i64_max :: int where "i64_max = 9223372036854775807"

definition parse_i64 :: "string \<Rightarrow> int option" where
  "parse_i64 s =
     (case s of
        [] \<Rightarrow> None
      | c # ds \<Rightarrow>
        (if c = CHR ''-'' then
           (if ds = [] then None else
            (case parse_digits 0 ds of Some n \<Rightarrow> if int n \<le> i64_max + 1 then Some (- int n) else None | None \<Rightarrow> None))
         else (case (if c = CHR ''+'' then (if ds = [] then None else parse_digits 0 ds) else parse_digits 0 s) of
             Some n \<Rightarrow> if int n \<le> i64_max then Some (int n) else None | None \<Rightarrow> None)))"

definition parse_bound :: "string option \<Rightarrow> string \<Rightarrow> int option api_result" where
  "parse_bound raw msg =
     (case raw of None \<Rightarrow> Inr None
      | Some text \<Rightarrow>
        (case parse_i64 (trim text) of
           None \<Rightarrow> Inl (bad_request msg)
         | Some v \<Rightarrow> if v < 0 then Inl (bad_request msg) else Inr (Some v)))"

definition status_param :: "string \<Rightarrow> list_status option" where
  "status_param s = map_of [(''all'', List_All), (''active'', List_Active), (''disabled'', List_Disabled),
     (''banned'', List_Banned), (''admin'', List_Admin)] s"

definition sort_param :: "string \<Rightarrow> user_sort option" where
  "sort_param s = map_of [(''newest'', Newest), (''oldest'', Oldest), (''username'', Username)] s"

definition from_params ::
  "string option \<Rightarrow> string option \<Rightarrow> string option \<Rightarrow> string option \<Rightarrow> string option \<Rightarrow> string option
    \<Rightarrow> user_filter api_result" where
  "from_params q status badge after before srt =
     (let query = take 64 (trim (unwrap_or [] q)) in
      case status_param (str_lower (trim (unwrap_or ''all'' status))) of
        None \<Rightarrow> Inl (bad_request ''Invalid status.'')
      | Some st \<Rightarrow>
       (let badge = take 64 (str_lower (trim (unwrap_or [] badge))) in
        case parse_bound after ''Invalid from.'' of Inl e \<Rightarrow> Inl e | Inr created_after \<Rightarrow>
       (case parse_bound before ''Invalid to.'' of Inl e \<Rightarrow> Inl e | Inr created_before \<Rightarrow>
        if (case (created_after, created_before) of (Some a, Some b) \<Rightarrow> a > b | _ \<Rightarrow> False)
        then Inl (bad_request ''Invalid range.'')
        else (case sort_param (str_lower (trim (unwrap_or ''newest'' srt))) of
            None \<Rightarrow> Inl (bad_request ''Invalid sort.'')
          | Some so \<Rightarrow> Inr \<lparr>uf_query = query, uf_status = st, uf_badge = badge,
              uf_after = created_after, uf_before = created_before, uf_sort = so\<rparr>))))"

text \<open>The text of the stored badge list; stored badges need no escaping (\<open>sanitize_badge\<close>).\<close>

definition badges_text :: "string list \<Rightarrow> string" where
  "badges_text bs = ''['' @ join_with '','' (map (\<lambda>b. [CHR 0x22] @ b @ [CHR 0x22]) bs) @ '']''"

definition selected :: "account_db \<Rightarrow> user_filter \<Rightarrow> user_row \<Rightarrow> bool" where
  "selected db f u \<longleftrightarrow>
     (if uf_query f = [] then True
      else let needle = str_lower (uf_query f)
           in contains_str (lowered u) needle \<or> contains_str (str_ascii_lower (us_id u)) needle)
   \<and> (case uf_status f of List_All \<Rightarrow> True | List_Active \<Rightarrow> \<not> us_disabled u \<and> \<not> us_banned u
      | List_Disabled \<Rightarrow> us_disabled u | List_Banned \<Rightarrow> us_banned u | List_Admin \<Rightarrow> us_id u \<in> set (admin_ids db))
   \<and> (if uf_badge f = [] then True
      else contains_str (str_ascii_lower (badges_text (us_custom_badges u))) (uf_badge f)
        \<or> contains_str ''admin'' (uf_badge f) \<and> us_id u \<in> set (admin_ids db)
        \<or> contains_str ''early'' (uf_badge f) \<and> user_rank db u \<ge> 1 \<and> user_rank db u \<le> 200)
   \<and> (case uf_after f of None \<Rightarrow> True | Some a \<Rightarrow> int (us_created_at u) \<ge> a)
   \<and> (case uf_before f of None \<Rightarrow> True | Some b \<Rightarrow> int (us_created_at u) \<le> b)"

section \<open>Cursors\<close>

datatype user_cursor = Time_Cursor int string | Name_Cursor string string

definition split_once :: "char \<Rightarrow> string \<Rightarrow> (string \<times> string) option" where
  "split_once c s =
     (if c \<in> set s then Some (takeWhile (\<lambda>x. x \<noteq> c) s, tl (dropWhile (\<lambda>x. x \<noteq> c) s)) else None)"

definition rsplit_once :: "char \<Rightarrow> string \<Rightarrow> (string \<times> string) option" where
  "rsplit_once c s = map_option (\<lambda>(a, b). (rev b, rev a)) (split_once c (rev s))"

definition check_cursor_id :: "string \<Rightarrow> string api_result" where
  "check_cursor_id i = (if i = [] \<or> utf8_len i > 64 then Inl (bad_request ''Invalid cursor.'') else Inr i)"

definition time_cursor :: "string \<Rightarrow> user_cursor option api_result" where
  "time_cursor s =
     (case split_once (CHR '':'') s of None \<Rightarrow> Inl (bad_request ''Invalid cursor.'') | Some (created_raw, id_raw) \<Rightarrow>
     (case parse_i64 created_raw of None \<Rightarrow> Inl (bad_request ''Invalid cursor.'') | Some created \<Rightarrow>
     (case check_cursor_id id_raw of Inl e \<Rightarrow> Inl e | Inr i \<Rightarrow> Inr (Some (Time_Cursor created i)))))"

definition decode_user_cursor :: "string \<Rightarrow> user_cursor option api_result" where
  "decode_user_cursor raw =
     (let raw = trim raw in
      if raw = [] then Inr None
      else if prefix ''t:'' raw then time_cursor (drop 2 raw)
      else if prefix ''u:'' raw then
       (case rsplit_once (CHR '':'') (drop 2 raw) of None \<Rightarrow> Inl (bad_request ''Invalid cursor.'') | Some (name_raw, id_raw) \<Rightarrow>
        if name_raw = [] \<or> length name_raw > 128 then Inl (bad_request ''Invalid cursor.'')
        else (case check_cursor_id id_raw of Inl e \<Rightarrow> Inl e | Inr i \<Rightarrow> Inr (Some (Name_Cursor name_raw i))))
      else time_cursor raw)"

definition next_cursor :: "user_sort \<Rightarrow> public_user \<Rightarrow> string" where
  "next_cursor srt u =
     (case srt of Username \<Rightarrow> ''u:'' @ pu_username u @ '':'' @ pu_id u
      | _ \<Rightarrow> ''t:'' @ dec (pu_created_at u) @ '':'' @ pu_id u)"

section \<open>The listing\<close>

text \<open>
  What comes after the cursor in the order of the listing.  The first page of the newest accounts starts at the
  largest creation time and an identifier above all others.
\<close>

definition keyset :: "user_sort \<Rightarrow> user_cursor option \<Rightarrow> (user_row \<Rightarrow> bool) api_result" where
  "keyset srt position =
     (case (srt, position) of
        (Newest, None) \<Rightarrow> Inr (\<lambda>u. int (us_created_at u) \<le> i64_max)
      | (Newest, Some (Time_Cursor created i)) \<Rightarrow>
          Inr (\<lambda>u. int (us_created_at u) < created \<or> int (us_created_at u) = created \<and> us_id u < i)
      | (Oldest, None) \<Rightarrow> Inr (\<lambda>u. int (us_created_at u) > - i64_max - 1)
      | (Oldest, Some (Time_Cursor created i)) \<Rightarrow>
          Inr (\<lambda>u. int (us_created_at u) > created \<or> int (us_created_at u) = created \<and> us_id u > i)
      | (Username, None) \<Rightarrow> Inr (\<lambda>u. lowered u > [] \<or> lowered u = [] \<and> us_id u > [])
      | (Username, Some (Name_Cursor name i)) \<Rightarrow>
          Inr (\<lambda>u. lowered u > str_ascii_lower name \<or> lowered u = str_ascii_lower name \<and> us_id u > i)
      | _ \<Rightarrow> Inl (bad_request ''Invalid cursor.''))"

definition in_order :: "user_sort \<Rightarrow> user_row list \<Rightarrow> user_row list" where
  "in_order srt us =
     (case srt of
        Newest \<Rightarrow> rev (sort_key (\<lambda>u. (us_created_at u, us_id u)) us)
      | Oldest \<Rightarrow> sort_key (\<lambda>u. (us_created_at u, us_id u)) us
      | Username \<Rightarrow> sort_key (\<lambda>u. (lowered u, us_id u)) us)"

text \<open>A row that does not decode (a value of the wrong type, edited by hand) is skipped and counted.\<close>

definition decode_stored_rows :: "(user_row \<Rightarrow> bool) \<Rightarrow> user_row list \<Rightarrow> user_row list \<times> nat" where
  "decode_stored_rows decodes rows = (filter decodes rows, length (filter (\<lambda>u. \<not> decodes u) rows))"

text \<open>One row more than the page is fetched, to see whether there are more; the cursor is that of the last
  account shown, and there is none when every fetched row was skipped.\<close>

definition list_users_page ::
  "(user_row \<Rightarrow> bool) \<Rightarrow> user_filter \<Rightarrow> nat \<Rightarrow> string option \<Rightarrow> account_db
    \<Rightarrow> (public_user list \<times> string option \<times> nat) api_result" where
  "list_users_page decodes f limit cursor db =
     (let limit = clamp 1 100 limit in
     (case decode_user_cursor (unwrap_or [] cursor) of Inl e \<Rightarrow> Inl e | Inr position \<Rightarrow>
     (case keyset (uf_sort f) position of Inl e \<Rightarrow> Inl e | Inr after \<Rightarrow>
      if uf_status f = List_Admin \<and> admin_ids db = [] then Inr ([], None, 0)
      else if \<not> db_ok db then Inl (internal ''List users query'')
      else
       (let rows = take (limit + 1) (in_order (uf_sort f) (filter (\<lambda>u. after u \<and> selected db f u) (users db)));
            (decoded, skipped) = decode_stored_rows decodes rows;
            public = map (to_public_user db) (take limit decoded)
        in Inr (public, if length rows > limit \<and> public \<noteq> []
              then Some (next_cursor (uf_sort f) (List.last public)) else None, skipped)))))"

text \<open>The accounts of the model are decoded ones: for the handlers every row decodes.\<close>

definition every_row :: "user_row \<Rightarrow> bool" where
  "every_row u = True"

section \<open>The order of the listing\<close>

definition comes_before :: "user_sort \<Rightarrow> user_row \<Rightarrow> user_row \<Rightarrow> bool" where
  "comes_before srt u v =
     (case srt of
        Newest \<Rightarrow> (us_created_at v, us_id v) < (us_created_at u, us_id u)
      | Oldest \<Rightarrow> (us_created_at u, us_id u) < (us_created_at v, us_id v)
      | Username \<Rightarrow> (lowered u, us_id u) < (lowered v, us_id v))"

lemma comes_before_trans: "comes_before srt u v \<Longrightarrow> comes_before srt v w \<Longrightarrow> comes_before srt u w"
  by (cases srt) (auto simp: comes_before_def simp del: less_prod_simp intro: less_trans)

lemma comes_before_irrefl [simp]: "\<not> comes_before srt u u"
  by (cases srt) (auto simp: comes_before_def)

lemma comes_before_asym: "comes_before srt u v \<Longrightarrow> \<not> comes_before srt v u"
  using comes_before_trans comes_before_irrefl by blast

lemma in_order_filter: "in_order srt (filter P us) = filter P (in_order srt us)"
  by (cases srt) (simp_all add: in_order_def filter_sort flip: rev_filter)

lemma set_in_order [simp]: "set (in_order srt us) = set us"
  by (cases srt) (simp_all add: in_order_def)

lemma length_in_order [simp]: "length (in_order srt us) = length us"
  by (cases srt) (simp_all add: in_order_def)

lemma strict_sort_key:
  assumes "distinct (map g us)"
  shows "sorted_wrt (\<lambda>u v. g u < g v) (sort_key g us)"
proof -
  have "distinct (map g (sort_key g us))" using assms by (simp add: distinct_map)
  then have "sorted_wrt (<) (map g (sort_key g us))"
    using sorted_sort_key [of g us] by (simp add: strict_sorted_iff)
  then show ?thesis by (simp add: sorted_wrt_map)
qed

lemma in_order_sorted:
  assumes "distinct (map us_id us)"
  shows "sorted_wrt (comes_before srt) (in_order srt us)"
proof -
  have "distinct (map (\<lambda>u. (g u, us_id u)) us)" for g :: "user_row \<Rightarrow> 'a"
    using assms by (auto simp: distinct_map inj_on_def)
  note keys = strict_sort_key [OF this]
  show ?thesis
    using keys [of us_created_at] keys [of lowered]
    by (cases srt) (simp_all add: in_order_def comes_before_def [abs_def] sorted_wrt_rev)
qed

lemma after_split:
  assumes "sorted_wrt (comes_before srt) (pre @ u # rest)"
  shows "filter (comes_before srt u) (pre @ u # rest) = rest"
proof -
  have "\<not> comes_before srt u v" if "v \<in> set pre" for v
    using assms that comes_before_asym by (auto simp: sorted_wrt_append)
  moreover have "comes_before srt u v" if "v \<in> set rest" for v
    using assms that by (auto simp: sorted_wrt_append)
  ultimately show ?thesis by (simp add: filter_id_conv)
qed

section \<open>Cursors\<close>

definition listable :: "user_row \<Rightarrow> bool" where
  "listable u \<longleftrightarrow> us_id u \<noteq> [] \<and> utf8_len (us_id u) \<le> 64 \<and> list_all (\<lambda>c. c \<noteq> CHR '':'' \<and> \<not> is_whitespace c) (us_id u)
     \<and> us_username u \<noteq> [] \<and> length (us_username u) \<le> 128 \<and> us_created_at u < 2 ^ 63"

definition cursor_at :: "user_sort \<Rightarrow> user_row \<Rightarrow> user_cursor" where
  "cursor_at srt u =
     (case srt of Username \<Rightarrow> Name_Cursor (us_username u) (us_id u)
      | _ \<Rightarrow> Time_Cursor (int (us_created_at u)) (us_id u))"

lemma split_once_append: "c \<notin> set a \<Longrightarrow> split_once c (a @ c # b) = Some (a, b)"
proof -
  assume c: "c \<notin> set a"
  then have "takeWhile (\<lambda>x. x \<noteq> c) (a @ c # b) = a" "dropWhile (\<lambda>x. x \<noteq> c) (a @ c # b) = c # b"
    by (auto simp: takeWhile_append dropWhile_append)
  then show ?thesis by (simp add: split_once_def)
qed

lemma rsplit_once_append: "c \<notin> set b \<Longrightarrow> rsplit_once c (a @ c # b) = Some (a, b)"
  by (simp add: rsplit_once_def split_once_append)

lemma dec_head: "dec n \<noteq> []" "hd (dec n) \<noteq> CHR ''-''" "hd (dec n) \<noteq> CHR ''+''" "c \<in> set (dec n) \<Longrightarrow> is_ascii_digit c"
proof -
  show *: "dec n \<noteq> []" by (subst dec.simps) simp
  show "c \<in> set (dec n) \<Longrightarrow> is_ascii_digit c" for c using dec_digits [of n] by (auto simp: list_all_iff)
  from this [OF hd_in_set [OF *]] show "hd (dec n) \<noteq> CHR ''-''" "hd (dec n) \<noteq> CHR ''+''"
    by (auto simp: is_ascii_digit_def)
qed

lemma parse_i64_dec: "n < 2 ^ 63 \<Longrightarrow> parse_i64 (dec n) = Some (int n)"
proof -
  assume n: "n < 2 ^ 63"
  then have p: "parse_digits 0 (dec n) = Some n" by (intro parse_digits_dec) simp
  obtain c ds where e: "dec n = c # ds" using dec_head(1) [of n] by (cases "dec n") auto
  with dec_head(2,3) [of n] have "c \<noteq> CHR ''-''" "c \<noteq> CHR ''+''" by auto
  moreover have "int n \<le> i64_max" using n by (simp add: i64_max_def)
  ultimately show ?thesis using p by (simp add: parse_i64_def e)
qed

lemma trim_keeps:
  assumes "s \<noteq> []" "\<not> is_whitespace (hd s)" "\<not> is_whitespace (List.last s)"
  shows "trim s = s"
proof -
  have "dropWhile is_whitespace s = s" using assms(1,2) by (cases s) auto
  moreover have "dropWhile is_whitespace (rev s) = rev s"
    using assms(1,3) by (cases s rule: rev_cases) auto
  ultimately show ?thesis by (simp add: trim_def trim_start_def trim_end_def)
qed

lemma listable_last: "listable u \<Longrightarrow> \<not> is_whitespace (List.last (us_id u))"
  by (simp add: listable_def list_all_iff)

lemma next_cursor_decodes:
  assumes "listable u"
  shows "decode_user_cursor (next_cursor srt (to_public_user db u)) = Inr (Some (cursor_at srt u))"
proof -
  let ?c = "next_cursor srt (to_public_user db u)"
  have id: "us_id u \<noteq> []" "utf8_len (us_id u) \<le> 64" "CHR '':'' \<notin> set (us_id u)" "us_created_at u < 2 ^ 63"
    and name: "us_username u \<noteq> []" "length (us_username u) \<le> 128"
    using assms by (auto simp: listable_def list_all_iff)
  have letters: "\<not> is_whitespace (CHR ''t'')" "\<not> is_whitespace (CHR ''u'')" by code_simp+
  have "trim ?c = ?c"
    by (rule trim_keeps) (use letters listable_last [OF assms] id(1) in
        \<open>auto simp: next_cursor_def to_public_user_def split: user_sort.split\<close>)
  moreover have "split_once (CHR '':'') (dec (us_created_at u) @ CHR '':'' # us_id u) = Some (dec (us_created_at u), us_id u)"
    by (rule split_once_append) (use dec_head(4) in \<open>force simp: is_ascii_digit_def\<close>)
  moreover have "rsplit_once (CHR '':'') (us_username u @ CHR '':'' # us_id u) = Some (us_username u, us_id u)"
    using id(3) by (rule rsplit_once_append)
  moreover have "check_cursor_id (us_id u) = Inr (us_id u)" using id by (simp add: check_cursor_id_def)
  ultimately show ?thesis
    using parse_i64_dec [OF id(4)] name
    by (cases srt) (simp_all add: decode_user_cursor_def next_cursor_def to_public_user_def time_cursor_def cursor_at_def)
qed

lemma keyset_at: "keyset srt (Some (cursor_at srt u)) = Inr (comes_before srt u)"
  by (cases srt) (auto simp: keyset_def cursor_at_def comes_before_def [abs_def] lowered_def)

lemma keyset_start:
  assumes "listable u"
  shows "\<exists>P. keyset srt None = Inr P \<and> P u"
  using assms by (cases srt; cases "us_username u") (auto simp: keyset_def listable_def lowered_def str_ascii_lower_def i64_max_def)

section \<open>Following the cursors\<close>

text \<open>A client that asks for page after page, at most the given number of them.\<close>

fun browse :: "(user_row \<Rightarrow> bool) \<Rightarrow> nat \<Rightarrow> user_filter \<Rightarrow> nat \<Rightarrow> string option \<Rightarrow> account_db \<Rightarrow> public_user list option" where
  "browse decodes 0 f limit cursor db = None"
| "browse decodes (Suc n) f limit cursor db =
     (case list_users_page decodes f limit cursor db of
        Inl e \<Rightarrow> None
      | Inr (us, None, k) \<Rightarrow> Some us
      | Inr (us, Some c, k) \<Rightarrow> map_option ((@) us) (browse decodes n f limit (Some c) db))"

abbreviation listing :: "account_db \<Rightarrow> user_filter \<Rightarrow> user_row list" where
  "listing db f \<equiv> in_order (uf_sort f) (filter (selected db f) (users db))"

lemma no_admins: "uf_status f = List_Admin \<Longrightarrow> admin_ids db = [] \<Longrightarrow> listing db f = []"
proof -
  assume "uf_status f = List_Admin" "admin_ids db = []"
  then have "\<not> selected db f u" for u by (simp add: selected_def)
  then have "filter (selected db f) (users db) = []" by simp
  then show ?thesis by (cases "uf_sort f") (simp_all add: in_order_def)
qed

text \<open>No fetch of a page and one row meets only rows that do not decode.\<close>

definition no_dead_page :: "(user_row \<Rightarrow> bool) \<Rightarrow> nat \<Rightarrow> user_row list \<Rightarrow> bool" where
  "no_dead_page decodes l us \<longleftrightarrow> (\<forall>i. i + l < length us \<longrightarrow> filter decodes (take (l + 1) (drop i us)) \<noteq> [])"

lemma every_row_lives: "no_dead_page every_row l us"
  by (auto simp: no_dead_page_def every_row_def [abs_def] filter_empty_conv)

lemma filter_append_split:
  "filter Q xs = ys @ zs \<Longrightarrow> \<exists>us vs. xs = us @ vs \<and> filter Q us = ys \<and> filter Q vs = zs"
proof (induction xs arbitrary: ys)
  case (Cons x xs)
  show ?case
  proof (cases "Q x \<and> ys = []")
    case True
    with Cons.prems show ?thesis by (intro exI [of _ "[]"] exI [of _ "x # xs"]) simp
  next
    case False
    then have "filter Q xs = (if Q x then tl ys else ys) @ zs" using Cons.prems by (cases ys) auto
    then obtain us vs where "xs = us @ vs" "filter Q us = (if Q x then tl ys else ys)" "filter Q vs = zs"
      using Cons.IH by blast
    with False Cons.prems show ?thesis by (intro exI [of _ "x # us"] exI [of _ vs]) (cases ys; auto)
  qed
qed simp

text \<open>The shown part of a fetch ends at a row that decodes.\<close>

lemma page_split:
  assumes "filter Q (take k xs) \<noteq> []" "l > 0"
  obtains a v b where "xs = a @ v # b" "take l (filter Q (take k xs)) = filter Q a @ [v]"
proof -
  define P where "P = take l (filter Q (take k xs))"
  have P: "P \<noteq> []" using assms by (simp add: P_def)
  have "filter Q (take k xs) = butlast P @ List.last P # drop l (filter Q (take k xs))"
    by (metis P P_def append_butlast_last_id append_take_drop_id append.assoc append_Cons append_Nil)
  then obtain us vs where us: "take k xs = us @ vs" "filter Q us = butlast P"
    "filter Q vs = List.last P # drop l (filter Q (take k xs))"
    using filter_append_split by blast
  obtain us' vs' where vs: "vs = us' @ List.last P # vs'" "\<forall>u \<in> set us'. \<not> Q u"
    using filter_eq_ConsD [OF us(3)] by blast
  have "xs = (us @ us') @ List.last P # (vs' @ drop k xs)"
    using us(1) vs(1) by (metis append.assoc append_Cons append_take_drop_id)
  moreover have "filter Q us' = []" using vs(2) by (simp add: filter_empty_conv)
  then have "take l (filter Q (take k xs)) = filter Q (us @ us') @ [List.last P]"
    using us(2) P by (simp add: P_def [symmetric])
  ultimately show ?thesis by (rule that)
qed

text \<open>One page is the decoded part of a slice of what comes after its cursor.\<close>

lemma page_slice:
  assumes "db_ok db" "decode_user_cursor (unwrap_or [] cursor) = Inr position" "keyset (uf_sort f) position = Inr after"
    and "filter after (listing db f) = rest" "l = clamp 1 100 limit"
  shows "list_users_page decodes f limit cursor db =
    (let shown = take l (filter decodes (take (l + 1) rest)) in
     Inr (map (to_public_user db) shown,
       if length rest > l \<and> shown \<noteq> [] then Some (next_cursor (uf_sort f) (to_public_user db (List.last shown))) else None,
       length (filter (\<lambda>u. \<not> decodes u) (take (l + 1) rest))))"
proof -
  have rows: "in_order (uf_sort f) (filter (\<lambda>u. after u \<and> selected db f u) (users db)) = rest"
    using assms(4) by (simp add: in_order_filter conj_commute)
  show ?thesis
  proof (cases "uf_status f = List_Admin \<and> admin_ids db = []")
    case True
    then have "rest = []" using no_admins assms(4) by (metis filter.simps(1))
    with True assms show ?thesis by (simp add: list_users_page_def Let_def)
  next
    case False
    with assms(1-3,5) rows show ?thesis
      by (auto simp: list_users_page_def decode_stored_rows_def Let_def last_map min_def)
  qed
qed

text \<open>A page that is the last shows all that is left.\<close>

lemma last_page: "\<not> length rest > l \<Longrightarrow> take l (filter decodes (take (l + 1) rest)) = filter decodes rest"
  by (metis length_filter_le less_Suc_eq_le not_less Suc_eq_plus1 le_SucI le_trans take_all)

lemma browse_from:
  assumes "db_ok db" "decode_user_cursor (unwrap_or [] cursor) = Inr position" "keyset (uf_sort f) position = Inr after"
    and "filter after (listing db f) = rest" "l = clamp 1 100 limit"
    and "length rest > l \<Longrightarrow> filter decodes (take (l + 1) rest) \<noteq> []"
    and next_page: "\<And>a v b. length rest > l \<Longrightarrow> rest = a @ v # b \<Longrightarrow>
      browse decodes n f limit (Some (next_cursor (uf_sort f) (to_public_user db v))) db = Some (map (to_public_user db) (filter decodes b))"
  shows "browse decodes (Suc n) f limit cursor db = Some (map (to_public_user db) (filter decodes rest))"
proof (cases "length rest > l")
  case True
  have l: "l > 0" using assms(5) by (simp add: clamp_def)
  obtain a v b where split: "rest = a @ v # b" "take l (filter decodes (take (l + 1) rest)) = filter decodes a @ [v]"
    by (rule page_split [OF assms(6) [OF True] l])
  have "decodes v"
  proof -
    have "v \<in> set (take l (filter decodes (take (l + 1) rest)))" by (simp only: split(2)) simp
    then show ?thesis by (auto dest: in_set_takeD)
  qed
  then have "filter decodes rest = (filter decodes a @ [v]) @ filter decodes b" by (simp add: split(1))
  then show ?thesis
    using True page_slice [OF assms(1-5), of decodes] next_page [OF True split(1)]
    unfolding browse.simps by (simp only: split(2) Let_def) simp
next
  case False
  then show ?thesis
    using page_slice [OF assms(1-5), of decodes] last_page [OF False, of decodes] unfolding browse.simps by (simp add: Let_def)
qed

lemma browse_rest:
  assumes "db_ok db" "distinct (map us_id (users db))" "\<forall>u \<in> set (users db). listable u"
    and "no_dead_page decodes (clamp 1 100 limit) (listing db f)"
    and "listing db f = pre @ u # rest" "length rest < n"
  shows "browse decodes n f limit (Some (next_cursor (uf_sort f) (to_public_user db u))) db
    = Some (map (to_public_user db) (filter decodes rest))"
  using assms(5,6)
proof (induction n arbitrary: pre u rest)
  case (Suc n)
  have u: "listable u"
    using Suc.prems(1) assms(3) by (metis filter_is_subset in_set_conv_decomp set_in_order subset_iff)
  have "distinct (map us_id (filter (selected db f) (users db)))" using assms(2) by (simp add: distinct_map_filter)
  then have after: "filter (comes_before (uf_sort f) u) (listing db f) = rest"
    unfolding Suc.prems(1) by (intro after_split) (metis Suc.prems(1) in_order_sorted)
  have live: "filter decodes (take (clamp 1 100 limit + 1) rest) \<noteq> []" if "length rest > clamp 1 100 limit"
    using assms(4) [unfolded no_dead_page_def, rule_format, of "Suc (length pre)"] that Suc.prems(1) by simp
  show ?case
  proof (rule browse_from [OF assms(1) _ keyset_at after refl live])
    show "decode_user_cursor (unwrap_or [] (Some (next_cursor (uf_sort f) (to_public_user db u)))) = Inr (Some (cursor_at (uf_sort f) u))"
      by (simp add: unwrap_or_def next_cursor_decodes [OF u])
    fix a v b
    assume "rest = a @ v # b"
    with Suc.prems show "browse decodes n f limit (Some (next_cursor (uf_sort f) (to_public_user db v))) db
        = Some (map (to_public_user db) (filter decodes b))"
      by (intro Suc.IH [of "pre @ u # a"]) simp_all
  qed
qed simp

text \<open>C5: paging through the accounts is exhaustive and repeats nothing: whatever the filter, the order and the page size,
  a client that follows the cursors gets exactly the accounts the filter selects and that decode, each once and in
  the order asked for, and reaches the end after at most one page more than there are accounts.  The one exception
  is a whole fetch of rows that do not decode, after which the server gives no cursor.\<close>

theorem user_pages_exhaust:
  assumes "db_ok db" "distinct (map us_id (users db))" "\<forall>u \<in> set (users db). listable u"
    and "no_dead_page decodes (clamp 1 100 limit) (in_order (uf_sort f) (filter (selected db f) (users db)))"
  shows "browse decodes (Suc (length (users db))) f limit None db
    = Some (map (to_public_user db) (filter decodes (in_order (uf_sort f) (filter (selected db f) (users db)))))"
proof -
  obtain P where P: "keyset (uf_sort f) None = Inr P"
    by (cases "uf_sort f") (auto simp: keyset_def)
  have "P u" if "u \<in> set (listing db f)" for u
    using keyset_start [of u "uf_sort f"] assms(3) that P by auto
  then have all: "filter P (listing db f) = listing db f" by (simp add: filter_id_conv)
  have start: "decode_user_cursor (unwrap_or [] None) = Inr None"
    by (simp add: decode_user_cursor_def unwrap_or_def) code_simp
  have live: "filter decodes (take (clamp 1 100 limit + 1) (listing db f)) \<noteq> []" if "length (listing db f) > clamp 1 100 limit"
    using assms(4) [unfolded no_dead_page_def, rule_format, of 0] that by simp
  show ?thesis
  proof (rule browse_from [OF assms(1) start P all refl live])
    fix a v b
    assume split: "listing db f = a @ v # b"
    have "length (listing db f) \<le> length (users db)" by simp
    then have "length b < length (users db)" unfolding split by simp
    with split show "browse decodes (length (users db)) f limit (Some (next_cursor (uf_sort f) (to_public_user db v))) db
        = Some (map (to_public_user db) (filter decodes b))"
      by (intro browse_rest [OF assms])
  qed
qed

text \<open>The exception: when every row of the first fetch is malformed, the answer is an empty page without
  a cursor, however many accounts follow.\<close>

lemma dead_page_stops:
  assumes "db_ok db" "\<forall>u \<in> set (users db). listable u" "clamp 1 100 limit < length (listing db f)"
    and "\<forall>u \<in> set (take (clamp 1 100 limit + 1) (listing db f)). \<not> decodes u"
  shows "list_users_page decodes f limit None db = Inr ([], None, clamp 1 100 limit + 1)"
proof -
  obtain P where P: "keyset (uf_sort f) None = Inr P"
    by (cases "uf_sort f") (auto simp: keyset_def)
  have "P u" if "u \<in> set (listing db f)" for u
    using keyset_start [of u "uf_sort f"] assms(2) that P by auto
  then have all: "filter P (listing db f) = listing db f" by (simp add: filter_id_conv)
  have start: "decode_user_cursor (unwrap_or [] None) = Inr None"
    by (simp add: decode_user_cursor_def unwrap_or_def) code_simp
  have "filter decodes (take (clamp 1 100 limit + 1) (listing db f)) = []"
    "filter (\<lambda>u. \<not> decodes u) (take (clamp 1 100 limit + 1) (listing db f)) = take (clamp 1 100 limit + 1) (listing db f)"
    using assms(4) by (simp_all add: filter_empty_conv filter_id_conv)
  then show ?thesis
    using assms(3) page_slice [OF assms(1) start P all refl, of decodes] by (simp add: Let_def min_def)
qed

section \<open>The search\<close>

lemma contains_prefix: "prefix pat s \<Longrightarrow> contains_str s pat"
  by (cases s) auto

text \<open>The search only ranks accounts whose name contains the needle, at most 50 of them: a mistyped name is not found.\<close>

theorem search_users_sound:
  assumes "search_users query limit db = Inr (us, k)"
  shows "length us \<le> 50 \<and> set us \<subseteq> to_public_user db `
    {u \<in> set (users db). contains_str (lowered u) (take 64 (str_lower (trim query)))}"
  using assms
  by (auto simp: search_users_def Let_def clamp_def contains_prefix dest!: in_set_takeD split: if_splits)

section \<open>Witnesses\<close>

lemma demo_listable: "listable (demo_row ''alice'')"
proof -
  have "list_all (\<lambda>c. c \<noteq> CHR '':'' \<and> \<not> is_whitespace c) ''7''" "utf8_len ''7'' \<le> 64" by code_simp+
  then show ?thesis by (simp add: listable_def demo_row_def)
qed

theorem user_pages_exhaust_witness:
  "browse every_row 2 \<lparr>uf_query = [], uf_status = List_All, uf_badge = [], uf_after = None, uf_before = None, uf_sort = Username\<rparr>
     1 None demo_accounts = Some [to_public_user demo_accounts (demo_row ''alice'')]"
  using user_pages_exhaust [OF _ _ _ every_row_lives, of demo_accounts "\<lparr>uf_query = [], uf_status = List_All, uf_badge = [],
      uf_after = None, uf_before = None, uf_sort = Username\<rparr>" 1] demo_listable
  by (simp add: demo_accounts_def empty_accounts_def selected_def in_order_def every_row_def numeral_2_eq_2)

end
