(* ===== verification/Web_Api.thy ===== *)
theory Web_Api
  imports Dead_Drop User_Directory
begin

text \<open>
  The HTTP interface to the accounts: the services \<open>services/auth.rs\<close> and \<open>services/admin.rs\<close> and the
  handlers of \<open>server/routes.rs\<close> in front of them with their rate limits, the challenge they demand and the
  bearer token.  A handler runs over the record \<open>phantom_state\<close> (shared state and process-wide stores); the
  headers of a request are a function from lower-case names to the values that are text.  The random values
  an account operation draws are the argument \<open>draws\<close>, and Argon2, the digests and the big-number
  arithmetic are the fields of \<open>web_lib\<close>.
\<close>

type_synonym headers = "string \<Rightarrow> string option"

record 'dk web_lib =
  wl_gates :: "'dk gate_lib"
  wl_secrets :: secret_lib
  wl_blocklist :: "string list"

section \<open>Accounts (\<open>services/auth.rs\<close>)\<close>

definition public_user_json :: "public_user \<Rightarrow> json" where
  "public_user_json u = JObj [(''id'', JStr (pu_id u)), (''username'', JStr (pu_username u)),
     (''profile'', profile_json (pu_profile u)), (''status'', status_json (pu_status u)),
     (''disabled'', JBool (pu_disabled u)), (''banned'', JBool (pu_banned u)), (''admin'', JBool (pu_admin u)),
     (''badges'', strs_json (pu_badges u)), (''customBadges'', strs_json (pu_custom_badges u)),
     (''createdAt'', jnat (pu_created_at u))]"

definition user_response :: "public_user \<Rightarrow> string \<Rightarrow> json" where
  "user_response user token = JObj [(''ok'', JBool True), (''token'', JStr token), (''user'', public_user_json user)]"

definition auth_register ::
  "'dk web_lib \<Rightarrow> draws \<Rightarrow> nat \<Rightarrow> string \<Rightarrow> string \<Rightarrow> app_state \<Rightarrow> json api_result \<times> app_state" where
  "auth_register lib dr now uname password s =
    (case feature_flags (accounts s) of Inl e \<Rightarrow> (Inl e, s) | Inr flags \<Rightarrow>
     if \<not> ff_register_enabled flags then (Inl (forbidden ''Registrations are disabled.''), s)
     else if username_hits_blocklist uname (wl_blocklist lib) then (Inl (bad_request ''Username is not allowed.''), s)
     else (case register (wl_secrets lib) dr now uname password (accounts s) of
         (Inl e, db) \<Rightarrow> (Inl e, s\<lparr>accounts := db\<rparr>)
       | (Inr (user, token, words), db) \<Rightarrow>
           (Inr (JObj [(''ok'', JBool True), (''token'', JStr token), (''user'', public_user_json user),
              (''recoveryWords'', strs_json words)]), s\<lparr>accounts := db\<rparr>)))"

definition auth_login ::
  "'dk web_lib \<Rightarrow> draws \<Rightarrow> nat \<Rightarrow> string \<Rightarrow> string \<Rightarrow> app_state \<Rightarrow> json api_result \<times> app_state" where
  "auth_login lib dr now uname password s =
    (case login (wl_secrets lib) dr now uname password (accounts s) of
       (Inl e, db) \<Rightarrow> (Inl e, s\<lparr>accounts := db\<rparr>)
     | (Inr (user, token), db) \<Rightarrow> (Inr (user_response user token), s\<lparr>accounts := db\<rparr>))"

definition auth_recover ::
  "'dk web_lib \<Rightarrow> draws \<Rightarrow> nat \<Rightarrow> string \<Rightarrow> string \<Rightarrow> string \<Rightarrow> app_state \<Rightarrow> json api_result \<times> app_state" where
  "auth_recover lib dr now uname words new_password s =
    (case recover (wl_secrets lib) dr now uname words new_password (accounts s) of
       (Inl e, db) \<Rightarrow> (Inl e, s\<lparr>accounts := db\<rparr>)
     | (Inr (user, token), db) \<Rightarrow>
         (Inr (user_response user token),
          disconnect_user_sessions now (pu_id user) ''Password reset.'' (s\<lparr>accounts := db\<rparr>)))"

definition auth_me :: "'dk web_lib \<Rightarrow> nat \<Rightarrow> string \<Rightarrow> app_state \<Rightarrow> json api_result \<times> app_state" where
  "auth_me lib now token s =
    (case me (tok_hash (wl_secrets lib)) now token (accounts s) of
       (Inl e, db) \<Rightarrow> (Inl e, s\<lparr>accounts := db\<rparr>)
     | (Inr (Some (user, token)), db) \<Rightarrow> (Inr (user_response user token), s\<lparr>accounts := db\<rparr>)
     | (Inr None, db) \<Rightarrow> (Inl (unauthorized ''Invalid session.''), s\<lparr>accounts := db\<rparr>))"

definition auth_logout :: "'dk web_lib \<Rightarrow> nat \<Rightarrow> string \<Rightarrow> app_state \<Rightarrow> unit api_result \<times> app_state" where
  "auth_logout lib now token s =
    (case authenticate_token (tok_hash (wl_secrets lib)) now token (accounts s) of Inl e \<Rightarrow> (Inl e, s) | Inr user \<Rightarrow>
    (case logout (tok_hash (wl_secrets lib)) token (accounts s) of
       (Inl e, db) \<Rightarrow> (Inl e, s\<lparr>accounts := db\<rparr>)
     | (Inr _, db) \<Rightarrow> (Inr (), case user of
           Some u \<Rightarrow> disconnect_user_sessions now (pu_id u) ''Session revoked.'' (s\<lparr>accounts := db\<rparr>)
         | None \<Rightarrow> s\<lparr>accounts := db\<rparr>)))"

definition remove_image :: "profile_image option \<Rightarrow> app_state \<Rightarrow> app_state" where
  "remove_image img s = (case img of Some i \<Rightarrow> remove_file (sf_id (pi_file i)) s | None \<Rightarrow> s)"

definition auth_delete_account :: "'dk web_lib \<Rightarrow> nat \<Rightarrow> string \<Rightarrow> string \<Rightarrow> app_state \<Rightarrow> unit api_result \<times> app_state" where
  "auth_delete_account lib now token password s =
    (case authenticate_token (tok_hash (wl_secrets lib)) now token (accounts s) of
       Inl e \<Rightarrow> (Inl e, s)
     | Inr None \<Rightarrow> (Inl (unauthorized ''Not authenticated.''), s)
     | Inr (Some user) \<Rightarrow>
    (case delete_account (wl_secrets lib) now token password (accounts s) of
       (Inl e, db) \<Rightarrow> (Inl e, s\<lparr>accounts := db\<rparr>)
     | (Inr _, db) \<Rightarrow>
        (let s = disconnect_user_sessions now (pu_id user) ''Account deleted.'' (s\<lparr>accounts := db\<rparr>);
             s = invalidate_public_profile_cache (Some (pu_id user)) (Some (pu_username user)) s;
             s = remove_image (up_avatar (pu_profile user)) s
         in (Inr (), remove_image (up_banner (pu_profile user)) s))))"

text \<open>The roster that is announced to a room after a change of name.\<close>

definition by_name :: "(player_session \<Rightarrow> json) \<Rightarrow> player_session list \<Rightarrow> json" where
  "by_name f ps = JObj (fold (\<lambda>p m. AList.update (ps_username p) (f p) m) ps [])"

definition renamed_roster :: "string \<Rightarrow> app_state \<Rightarrow> json" where
  "renamed_roster room s =
    (let ps = filter (\<lambda>p. in_room room p \<and> ps_status p \<noteq> Invisible \<and> trim (ps_username p) \<noteq> []) (vals (players s));
         calls = filter (\<lambda>p. is_call_in_room p room) ps
     in op_json 3 [(''ok'', JBool True), (''system'', JBool True), (''gameId'', JStr room),
          (''players'', strs_json (map ps_username ps)),
          (''profiles'', by_name (\<lambda>p. profile_json (ps_profile p)) ps),
          (''statuses'', by_name (\<lambda>p. status_json (ps_status p)) ps),
          (''platforms'', by_name (\<lambda>p. JStr (ps_platform p)) ps),
          (''voicePlayers'', strs_json (map ps_username calls)),
          (''callPlayers'', JArr (map (\<lambda>p. JObj [(''username'', JStr (ps_username p)), (''clientId'', JStr (ps_client_id p)),
             (''platform'', JStr (ps_platform p)), (''isVoiceChat'', JBool (ps_voice p)), (''deafened'', JBool (ps_deafened p)),
             (''media'', JObj [(''audio'', JBool (ps_voice p)), (''camera'', JBool (ps_camera p)), (''screen'', JBool (ps_screen p))])])
             calls))])"

definition adjust_user :: "string \<Rightarrow> (player_session \<Rightarrow> player_session) \<Rightarrow> app_state \<Rightarrow> app_state" where
  "adjust_user user_id f s = s\<lparr>players := map_vals (\<lambda>p. if ps_user_id p = user_id then f p else p) (players s)\<rparr>"

definition rooms_of_user :: "string \<Rightarrow> app_state \<Rightarrow> string list" where
  "rooms_of_user user_id s = remdups (concat (map ps_rooms (filter (\<lambda>p. ps_user_id p = user_id) (vals (players s)))))"

definition auth_change_username :: "'dk web_lib \<Rightarrow> nat \<Rightarrow> public_user \<Rightarrow> string \<Rightarrow> app_state \<Rightarrow> json api_result \<times> app_state" where
  "auth_change_username lib now user new_username s =
    (if username_hits_blocklist new_username (wl_blocklist lib) then (Inl (bad_request ''Username is not allowed.''), s)
     else (case change_username now (pu_id user) new_username (accounts s) of
         (Inl e, db) \<Rightarrow> (Inl e, s\<lparr>accounts := db\<rparr>)
       | (Inr updated, db) \<Rightarrow>
          (let s = adjust_user (pu_id updated) (\<lambda>p. p\<lparr>ps_username := pu_username updated\<rparr>) (s\<lparr>accounts := db\<rparr>);
               touched = rooms_of_user (pu_id updated) s;
               s = fold (\<lambda>room s. broadcast_to_room room (renamed_roster room s) s) touched s;
               s = invalidate_public_profile_cache (Some (pu_id user)) (Some (pu_username user)) s;
               s = invalidate_public_profile_cache (Some (pu_id user)) (Some (pu_username updated)) s
           in (Inr (JObj [(''ok'', JBool True), (''user'', public_user_json updated)]), s))))"

section \<open>Administration (\<open>services/admin.rs\<close>)\<close>

definition admin_only :: "public_user \<Rightarrow> (app_state \<Rightarrow> json api_result \<times> app_state) \<Rightarrow> app_state \<Rightarrow> json api_result \<times> app_state" where
  "admin_only admin act s = (if \<not> pu_admin admin then (Inl (forbidden ''Admin only.''), s) else act s)"

definition flags_json :: "flag_values \<Rightarrow> json" where
  "flags_json f = JObj [(''registerEnabled'', JBool (ff_register_enabled f)), (''callsEnabled'', JBool (ff_calls_enabled f))]"

text \<open>One room of the overview: what it counts in memory.\<close>

record room_preview =
  rp_messages :: nat
  rp_last :: nat
  rp_online :: nat
  rp_voice :: nat
  rp_active :: bool

definition preview_of :: "bool \<Rightarrow> room_preview" where
  "preview_of active = \<lparr>rp_messages = 0, rp_last = 0, rp_online = 0, rp_voice = 0, rp_active = active\<rparr>"

definition count_session :: "player_session \<Rightarrow> (string \<times> room_preview) list \<Rightarrow> (string \<times> room_preview) list" where
  "count_session p m =
     fold (\<lambda>room m. (let e = unwrap_or (preview_of True) (map_of m room);
         e = e\<lparr>rp_online := rp_online e + 1\<rparr>
       in AList.update room (if is_call_in_room p room then e\<lparr>rp_voice := rp_voice e + 1\<rparr> else e) m)) (ps_rooms p) m"

definition count_messages :: "string \<times> chat_message list \<Rightarrow> (string \<times> room_preview) list \<Rightarrow> (string \<times> room_preview) list" where
  "count_messages rm m =
     (case rm of (room, messages) \<Rightarrow>
      AList.update room ((unwrap_or (preview_of False) (map_of m room))\<lparr>rp_messages := length messages,
        rp_last := (if messages = [] then 0 else msg_timestamp (List.last messages))\<rparr>) m)"

definition room_previews :: "app_state \<Rightarrow> (string \<times> room_preview) list" where
  "room_previews s = sort_key fst (fold count_messages (room_messages s) (fold count_session (vals (players s)) []))"

definition preview_fields :: "string \<times> room_preview \<Rightarrow> json" where
  "preview_fields e = (case e of (room, p) \<Rightarrow> JObj [(''roomId'', JStr room), (''messageCount'', jnat (rp_messages p)),
     (''lastMessageAt'', jnat (rp_last p)), (''onlineCount'', jnat (rp_online p)), (''voiceCount'', jnat (rp_voice p)),
     (''active'', JBool (rp_active p))])"

definition platform_counts :: "player_session list \<Rightarrow> (string \<times> nat) list" where
  "platform_counts ps = sort_key fst (fold (\<lambda>p m. AList.update (ps_platform p) (unwrap_or 0 (map_of m (ps_platform p)) + 1) m) ps [])"

definition stats_json :: "user_stats \<Rightarrow> json" where
  "stats_json st = JObj [(''total'', jnat (st_total st)), (''disabled'', jnat (st_disabled st)), (''banned'', jnat (st_banned st)),
     (''newLastDay'', jnat (st_last_day st)), (''newLastWeek'', jnat (st_last_week st))]"

definition admin_overview :: "nat \<Rightarrow> nat \<Rightarrow> public_user \<Rightarrow> app_state \<Rightarrow> json api_result \<times> app_state" where
  "admin_overview started now admin = admin_only admin (\<lambda>s.
    (case user_stats_of now (accounts s) of Inl e \<Rightarrow> (Inl e, s) | Inr st \<Rightarrow>
    (case signups_per_day now 30 (accounts s) of Inl e \<Rightarrow> (Inl e, s) | Inr signups \<Rightarrow>
    (case feature_flags (accounts s) of Inl e \<Rightarrow> (Inl e, s) | Inr flags \<Rightarrow>
    (case get_default_room (accounts s) of Inl e \<Rightarrow> (Inl e, s) | Inr room \<Rightarrow>
     (let ps = vals (players s); previews = room_previews s; rt = runtime s in
      (Inr (JObj [(''ok'', JBool True), (''generatedAt'', jnat now), (''accounts'', stats_json st),
         (''connections'', JObj [(''sessions'', jnat (length ps)), (''users'', jnat (length (remdups (map ps_user_id ps)))),
            (''voice'', jnat (length (filter ps_voice ps))),
            (''platforms'', JArr (map (\<lambda>(k, n). JObj [(''platform'', JStr k), (''count'', jnat n)]) (platform_counts ps)))]),
         (''roomTotals'', JObj [(''known'', jnat (length previews)),
            (''active'', jnat (length (filter (\<lambda>(_, p). rp_online p > 0) previews))),
            (''bufferedMessages'', jnat (sum_list (map (\<lambda>(_, p). rp_messages p) previews))),
            (''voice'', jnat (sum_list (map (\<lambda>(_, p). rp_voice p) previews)))]),
         (''server'', JObj [(''version'', JStr (latest_version (config s))), (''uptimeMs'', jnat (now - started))]),
         (''runtime'', JObj [(''messagesRelayed'', jnat (messages_relayed rt)), (''sessionsOpened'', jnat (sessions_opened rt)),
            (''peakSessions'', jnat (peak_sessions rt)), (''sinceMs'', jnat started)]),
         (''signupsPerDay'', JArr (map (\<lambda>d. JObj [(''day'', jnat (sd_day d)), (''count'', jnat (sd_count d))]) signups)),
         (''features'', flags_json flags), (''defaultRoom'', default_room_json room),
         (''rooms'', JArr (map preview_fields previews))]), s)))))))"

definition admin_search_users :: "public_user \<Rightarrow> string \<Rightarrow> app_state \<Rightarrow> json api_result \<times> app_state" where
  "admin_search_users admin query = admin_only admin (\<lambda>s.
    (let needle = str_lower (trim query) in
     if needle = [] then (Inr (JObj [(''ok'', JBool True), (''users'', JArr [])]), s)
     else (case search_users needle 30 (accounts s) of Inl e \<Rightarrow> (Inl e, s)
       | Inr (us, skipped) \<Rightarrow> (Inr (JObj [(''ok'', JBool True), (''users'', JArr (map public_user_json us)),
           (''skipped'', jnat skipped)]), s))))"

definition admin_list_users ::
  "public_user \<Rightarrow> nat \<Rightarrow> string option \<Rightarrow> user_filter \<Rightarrow> app_state \<Rightarrow> json api_result \<times> app_state" where
  "admin_list_users admin limit cursor f = admin_only admin (\<lambda>s.
    (case list_users_page every_row f limit cursor (accounts s) of Inl e \<Rightarrow> (Inl e, s)
     | Inr (us, next, skipped) \<Rightarrow> (Inr (JObj [(''ok'', JBool True), (''users'', JArr (map public_user_json us)),
         (''nextCursor'', case next of Some c \<Rightarrow> JStr c | None \<Rightarrow> JNull), (''skipped'', jnat skipped)]), s)))"

definition feature_key :: "string \<Rightarrow> string option" where
  "feature_key raw = map_of [(''registerEnabled'', ''register_enabled''), (''register_enabled'', ''register_enabled''),
     (''callsEnabled'', ''calls_enabled''), (''calls_enabled'', ''calls_enabled'')] raw"

definition admin_set_feature :: "public_user \<Rightarrow> string \<Rightarrow> bool \<Rightarrow> app_state \<Rightarrow> json api_result \<times> app_state" where
  "admin_set_feature admin raw_key enabled = admin_only admin (\<lambda>s.
    (case feature_key raw_key of None \<Rightarrow> (Inl (bad_request ''Unknown feature.''), s) | Some k \<Rightarrow>
    (case set_feature k enabled (accounts s) of
       (Inl e, db) \<Rightarrow> (Inl e, s\<lparr>accounts := db\<rparr>)
     | (Inr _, db) \<Rightarrow>
       (case feature_flags db of Inl e \<Rightarrow> (Inl e, s\<lparr>accounts := db\<rparr>)
        | Inr flags \<Rightarrow> (Inr (JObj [(''ok'', JBool True), (''features'', flags_json flags)]), s\<lparr>accounts := db\<rparr>)))))"

definition admin_set_default_room :: "public_user \<Rightarrow> string \<Rightarrow> string \<Rightarrow> string \<Rightarrow> app_state \<Rightarrow> json api_result \<times> app_state" where
  "admin_set_default_room admin rid rkey title = admin_only admin (\<lambda>s.
    (let rid = trim rid; rkey = trim rkey in
     if utf8_len rid < 8 \<or> utf8_len rid > 64 \<or> \<not> list_all is_ascii_alphanumeric rid
     then (Inl (bad_request ''Invalid default room id.''), s)
     else if rkey = [] \<or> utf8_len rkey > 512 then (Inl (bad_request ''Invalid default room key.''), s)
     else (let title = take 64 (trim title) in
       (case set_default_room rid rkey title (accounts s) of
          (Inl e, db) \<Rightarrow> (Inl e, s\<lparr>accounts := db\<rparr>)
        | (Inr _, db) \<Rightarrow> (Inr (JObj [(''ok'', JBool True), (''defaultRoom'', JObj [(''roomId'', JStr rid),
             (''roomKey'', JStr rkey), (''title'', JStr title)])]), s\<lparr>accounts := db\<rparr>)))))"

definition admin_clear_default_room :: "public_user \<Rightarrow> app_state \<Rightarrow> json api_result \<times> app_state" where
  "admin_clear_default_room admin = admin_only admin (\<lambda>s.
    (case clear_default_room (accounts s) of
       (Inl e, db) \<Rightarrow> (Inl e, s\<lparr>accounts := db\<rparr>)
     | (Inr _, db) \<Rightarrow> (Inr (JObj [(''ok'', JBool True), (''defaultRoom'', JNull)]), s\<lparr>accounts := db\<rparr>)))"

definition confirmed_user :: "string \<Rightarrow> app_state \<Rightarrow> public_user api_result \<times> app_state" where
  "confirmed_user user_id s =
    (case public_user_by_id_or_username (Some user_id) None (accounts s) of
       Inl e \<Rightarrow> (Inl e, s)
     | Inr None \<Rightarrow> (Inl (bad_request ''Account not found.''), s)
     | Inr (Some user) \<Rightarrow> (Inr user, invalidate_public_profile_cache (Some (pu_id user)) (Some (pu_username user)) s))"

definition answer_user :: "public_user api_result \<times> app_state \<Rightarrow> json api_result \<times> app_state" where
  "answer_user r = (case r of (Inl e, s) \<Rightarrow> (Inl e, s)
     | (Inr u, s) \<Rightarrow> (Inr (JObj [(''ok'', JBool True), (''user'', public_user_json u)]), s))"

text \<open>The tokens go and the sockets are closed.  The code drops the result of the first with \<open>let _ =\<close>: a
  failure there would leave the tokens of a flagged account, which the flag keeps from authenticating
  until it is lifted.  In the model a database answers or fails for a whole request (\<open>db_ok\<close>), so the
  failure between the two statements does not occur.\<close>

definition lock_out :: "nat \<Rightarrow> string \<Rightarrow> string \<Rightarrow> app_state \<Rightarrow> app_state" where
  "lock_out now target reason s =
     evict_user now target reason (s\<lparr>accounts := snd (invalidate_user_sessions target (accounts s))\<rparr>)"

definition admin_set_user_disabled :: "nat \<Rightarrow> public_user \<Rightarrow> string \<Rightarrow> bool \<Rightarrow> app_state \<Rightarrow> json api_result \<times> app_state" where
  "admin_set_user_disabled now admin target disabled = admin_only admin (\<lambda>s.
    (if pu_id admin = target then (Inl (bad_request ''You cannot disable your own account.''), s)
     else (case set_user_disabled now target disabled (accounts s) of
         (Inl e, db) \<Rightarrow> (Inl e, s\<lparr>accounts := db\<rparr>)
       | (Inr _, db) \<Rightarrow>
         (let s = s\<lparr>accounts := db\<rparr>; s = (if disabled then lock_out now target ''account_disabled'' s else s)
          in answer_user (confirmed_user target s)))))"

definition admin_set_user_banned :: "nat \<Rightarrow> public_user \<Rightarrow> string \<Rightarrow> bool \<Rightarrow> app_state \<Rightarrow> json api_result \<times> app_state" where
  "admin_set_user_banned now admin target ban = admin_only admin (\<lambda>s.
    (if pu_id admin = target then (Inl (bad_request ''You cannot ban your own account.''), s)
     else (case set_user_banned now target ban (accounts s) of
         (Inl e, db) \<Rightarrow> (Inl e, s\<lparr>accounts := db\<rparr>)
       | (Inr _, db) \<Rightarrow>
         (let s = s\<lparr>accounts := db\<rparr>; s = (if ban then lock_out now target ''account_banned'' s else s)
          in answer_user (confirmed_user target s)))))"

definition admin_delete_user_account :: "nat \<Rightarrow> public_user \<Rightarrow> string \<Rightarrow> app_state \<Rightarrow> json api_result \<times> app_state" where
  "admin_delete_user_account now admin target = admin_only admin (\<lambda>s.
    (if pu_id admin = target then (Inl (bad_request ''You cannot delete your own account.''), s)
     else (case delete_user_account target (accounts s) of
         (Inl e, db) \<Rightarrow> (Inl e, s\<lparr>accounts := db\<rparr>)
       | (Inr _, db) \<Rightarrow>
         (Inr (JObj [(''ok'', JBool True)]), invalidate_public_profile_cache (Some target) None
            (disconnect_user_sessions now target ''Account deleted.'' (s\<lparr>accounts := db\<rparr>))))))"

definition badge_fields :: "public_user \<Rightarrow> (string \<times> json) list" where
  "badge_fields u = [(''user'', JStr (pu_username u)), (''username'', JStr (pu_username u)), (''userId'', JStr (pu_id u)),
     (''badges'', strs_json (pu_badges u))]"

definition broadcast_badge_update :: "public_user \<Rightarrow> app_state \<Rightarrow> app_state" where
  "broadcast_badge_update u s =
    (let s = adjust_user (pu_id u) (\<lambda>p. p\<lparr>ps_badges := pu_badges u\<rparr>) s;
         own = map ps_id (filter (\<lambda>p. ps_user_id p = pu_id u) (vals (players s)));
         s = send_all own (WText (op_json 34 ((''ok'', JBool True) # badge_fields u))) s
     in fold (\<lambda>room s. broadcast_to_room room (op_json 34 ([(''ok'', JBool True), (''gameId'', JStr room)] @ badge_fields u
          @ [(''players'', JArr (room_players s room None))])) s) (rooms_of_user (pu_id u) s) s)"

definition admin_set_user_badges :: "nat \<Rightarrow> public_user \<Rightarrow> string \<Rightarrow> string list \<Rightarrow> app_state \<Rightarrow> json api_result \<times> app_state" where
  "admin_set_user_badges now admin target bs = admin_only admin (\<lambda>s.
    (case set_user_badges now target bs (accounts s) of
       (Inl e, db) \<Rightarrow> (Inl e, s\<lparr>accounts := db\<rparr>)
     | (Inr updated, db) \<Rightarrow>
       (Inr (JObj [(''ok'', JBool True), (''user'', public_user_json updated)]),
        invalidate_public_profile_cache (Some target) (Some (pu_username updated))
          (broadcast_badge_update updated (s\<lparr>accounts := db\<rparr>)))))"

definition admin_purge_accounts ::
  "public_user \<Rightarrow> nat option \<Rightarrow> nat option \<Rightarrow> nat option \<Rightarrow> nat option \<Rightarrow> string option
    \<Rightarrow> app_state \<Rightarrow> json api_result \<times> app_state" where
  "admin_purge_accounts admin after before min_len max_len part = admin_only admin (\<lambda>s.
    (case purge_accounts after before min_len max_len part True (accounts s) of
       (Inl e, db) \<Rightarrow> (Inl e, s\<lparr>accounts := db\<rparr>)
     | (Inr n, db) \<Rightarrow> (Inr (JObj [(''ok'', JBool True), (''purgedCount'', jnat n)]), s\<lparr>accounts := db\<rparr>)))"

end
