(* ===== verification/Web_Routes.thy ===== *)
theory Web_Routes
  imports Web_Api Socket_Loop
begin

text \<open>
  The handlers of \<open>server/routes.rs\<close> that lead to the accounts, the administration, the uploads and the dead drop, with
  the two upload services \<open>services/user.rs\<close> and \<open>services/room.rs\<close>, and the router over all of them.  A
  multipart body is the list of its fields up to the first that cannot be read; a body that cannot be read
  leaves a field without bytes.
\<close>

section \<open>Who asks\<close>

definition strip_prefix :: "string \<Rightarrow> string \<Rightarrow> string option" where
  "strip_prefix p s = (if prefix p s then Some (drop (length p) s) else None)"

definition bearer_token :: "headers \<Rightarrow> string option" where
  "bearer_token h = ofilter (\<lambda>v. v \<noteq> []) (map_option trim (obind (h ''authorization'') (strip_prefix ''Bearer '')))"

definition authenticated_user :: "'dk web_lib \<Rightarrow> nat \<Rightarrow> headers \<Rightarrow> app_state \<Rightarrow> public_user api_result" where
  "authenticated_user lib now h s =
    (case bearer_token h of None \<Rightarrow> Inl (unauthorized ''Missing session.'') | Some token \<Rightarrow>
    (case authenticate_token (tok_hash (wl_secrets lib)) now token (accounts s) of
       Inl e \<Rightarrow> Inl e
     | Inr None \<Rightarrow> Inl (unauthorized ''Invalid session.'')
     | Inr (Some u) \<Rightarrow> Inr u))"

type_synonym served = "json api_result \<times> app_state"

text \<open>The two wrappers every such handler starts with: the account behind the token, and a rate limit.\<close>

definition as_user :: "'dk web_lib \<Rightarrow> nat \<Rightarrow> headers \<Rightarrow> (public_user \<Rightarrow> app_state \<Rightarrow> served) \<Rightarrow> app_state \<Rightarrow> served" where
  "as_user lib now h act s =
    (case authenticated_user lib now h s of Inl e \<Rightarrow> (Inl e, s) | Inr u \<Rightarrow> act u s)"

definition limited :: "nat \<Rightarrow> string \<Rightarrow> nat \<Rightarrow> nat \<Rightarrow> string \<Rightarrow> (app_state \<Rightarrow> 'a api_result \<times> app_state) \<Rightarrow> app_state \<Rightarrow> 'a api_result \<times> app_state" where
  "limited now key limit window msg act s =
    (case rate_hit now key limit window s of (hit, s) \<Rightarrow> if hit then (Inl (too_many_requests msg), s) else act s)"

definition admin_rate_limit :: "nat \<Rightarrow> string \<Rightarrow> string \<Rightarrow> nat \<Rightarrow> nat \<Rightarrow> (app_state \<Rightarrow> served) \<Rightarrow> app_state \<Rightarrow> served" where
  "admin_rate_limit now action admin_id limit window =
     limited now (''admin:'' @ action @ '':user:'' @ admin_id) limit window
       ''Too many administration requests. Please wait a moment.''"

section \<open>Administration\<close>

definition admin_overview_handler :: "'dk web_lib \<Rightarrow> nat \<Rightarrow> nat \<Rightarrow> headers \<Rightarrow> app_state \<Rightarrow> served" where
  "admin_overview_handler lib started now h =
     as_user lib now h (\<lambda>admin. admin_rate_limit now ''overview'' (pu_id admin) 60 60000 (admin_overview started now admin))"

record list_query =
  lq_limit :: "nat option"
  lq_cursor :: "string option"
  lq_q :: "string option"
  lq_status :: "string option"
  lq_badge :: "string option"
  lq_from :: "string option"
  lq_to :: "string option"
  lq_sort :: "string option"

definition admin_users_list_handler :: "'dk web_lib \<Rightarrow> nat \<Rightarrow> headers \<Rightarrow> list_query \<Rightarrow> app_state \<Rightarrow> served" where
  "admin_users_list_handler lib now h q =
     as_user lib now h (\<lambda>admin. limited now (''admin:users:list:user:'' @ pu_id admin) 60 60000
       ''List rate limit exceeded. Please wait a minute.''
       (\<lambda>s. case from_params (lq_q q) (lq_status q) (lq_badge q) (lq_from q) (lq_to q) (lq_sort q) of
          Inl e \<Rightarrow> (Inl e, s)
        | Inr f \<Rightarrow> admin_list_users admin (unwrap_or 100 (lq_limit q)) (lq_cursor q) f s))"

definition admin_users_search_handler :: "'dk web_lib \<Rightarrow> nat \<Rightarrow> headers \<Rightarrow> string option \<Rightarrow> app_state \<Rightarrow> served" where
  "admin_users_search_handler lib now h q =
     as_user lib now h (\<lambda>admin. limited now (''admin:users:search:user:'' @ pu_id admin) 120 60000
       ''Search rate limit exceeded. Please wait a minute.'' (admin_search_users admin (unwrap_or [] q)))"

definition admin_features_handler :: "'dk web_lib \<Rightarrow> nat \<Rightarrow> headers \<Rightarrow> string \<Rightarrow> bool \<Rightarrow> app_state \<Rightarrow> served" where
  "admin_features_handler lib now h k enabled =
     as_user lib now h (\<lambda>admin. admin_rate_limit now ''features'' (pu_id admin) 30 60000 (admin_set_feature admin k enabled))"

definition admin_default_room_handler ::
  "'dk web_lib \<Rightarrow> nat \<Rightarrow> headers \<Rightarrow> bool \<Rightarrow> string option \<Rightarrow> string option \<Rightarrow> string option \<Rightarrow> app_state \<Rightarrow> served" where
  "admin_default_room_handler lib now h clear rid rkey title =
     as_user lib now h (\<lambda>admin. admin_rate_limit now ''default-room'' (pu_id admin) 30 60000
       (if clear then admin_clear_default_room admin
        else admin_set_default_room admin (unwrap_or [] rid) (unwrap_or [] rkey) (unwrap_or [] title)))"

definition admin_user_disabled_handler :: "'dk web_lib \<Rightarrow> nat \<Rightarrow> headers \<Rightarrow> string \<Rightarrow> bool \<Rightarrow> app_state \<Rightarrow> served" where
  "admin_user_disabled_handler lib now h user_id disabled =
     as_user lib now h (\<lambda>admin. admin_rate_limit now ''users:disabled'' (pu_id admin) 60 60000
       (admin_set_user_disabled now admin user_id disabled))"

definition admin_user_banned_handler :: "'dk web_lib \<Rightarrow> nat \<Rightarrow> headers \<Rightarrow> string \<Rightarrow> bool \<Rightarrow> app_state \<Rightarrow> served" where
  "admin_user_banned_handler lib now h user_id ban =
     as_user lib now h (\<lambda>admin. admin_rate_limit now ''users:banned'' (pu_id admin) 60 60000
       (admin_set_user_banned now admin user_id ban))"

definition admin_user_delete_handler :: "'dk web_lib \<Rightarrow> nat \<Rightarrow> headers \<Rightarrow> string \<Rightarrow> app_state \<Rightarrow> served" where
  "admin_user_delete_handler lib now h user_id =
     as_user lib now h (\<lambda>admin. admin_rate_limit now ''users:delete'' (pu_id admin) 10 60000
       (admin_delete_user_account now admin user_id))"

definition admin_user_badges_handler :: "'dk web_lib \<Rightarrow> nat \<Rightarrow> headers \<Rightarrow> string \<Rightarrow> string list \<Rightarrow> app_state \<Rightarrow> served" where
  "admin_user_badges_handler lib now h user_id bs =
     as_user lib now h (\<lambda>admin. admin_rate_limit now ''users:badges'' (pu_id admin) 60 60000
       (admin_set_user_badges now admin user_id bs))"

definition admin_users_purge_handler ::
  "'dk web_lib \<Rightarrow> nat \<Rightarrow> headers \<Rightarrow> nat option \<Rightarrow> nat option \<Rightarrow> nat option \<Rightarrow> nat option \<Rightarrow> string option \<Rightarrow> app_state \<Rightarrow> served" where
  "admin_users_purge_handler lib now h after before min_len max_len part =
     as_user lib now h (\<lambda>admin. limited now (''admin:users:purge:user:'' @ pu_id admin) 5 (10 * 60 * 1000)
       ''Purge rate limit exceeded. Please wait 10 minutes.'' (admin_purge_accounts admin after before min_len max_len part))"

section \<open>The account of the asker\<close>

definition ok_json :: json where "ok_json = JObj [(''ok'', JBool True)]"

definition answer_ok :: "unit api_result \<times> app_state \<Rightarrow> served" where
  "answer_ok r = (case r of (Inl e, s) \<Rightarrow> (Inl e, s) | (Inr _, s) \<Rightarrow> (Inr ok_json, s))"

definition with_token :: "headers \<Rightarrow> (string \<Rightarrow> app_state \<Rightarrow> served) \<Rightarrow> app_state \<Rightarrow> served" where
  "with_token h act s = (case bearer_token h of None \<Rightarrow> (Inl (unauthorized ''Missing session.''), s) | Some token \<Rightarrow> act token s)"

definition auth_me_handler :: "'dk web_lib \<Rightarrow> nat \<Rightarrow> headers \<Rightarrow> app_state \<Rightarrow> served" where
  "auth_me_handler lib now h = with_token h (auth_me lib now)"

definition auth_logout_handler :: "'dk web_lib \<Rightarrow> nat \<Rightarrow> headers \<Rightarrow> app_state \<Rightarrow> served" where
  "auth_logout_handler lib now h = with_token h (\<lambda>token s. answer_ok (auth_logout lib now token s))"

definition auth_delete_handler :: "'dk web_lib \<Rightarrow> nat \<Rightarrow> headers \<Rightarrow> string \<Rightarrow> app_state \<Rightarrow> served" where
  "auth_delete_handler lib now h password = with_token h (\<lambda>token s. answer_ok (auth_delete_account lib now token password s))"

definition auth_username_handler :: "'dk web_lib \<Rightarrow> nat \<Rightarrow> headers \<Rightarrow> string \<Rightarrow> app_state \<Rightarrow> served" where
  "auth_username_handler lib now h uname =
     as_user lib now h (\<lambda>user. limited now (''username_change:user:'' @ pu_id user) 3 (10 * 60 * 1000)
       ''Too many username change requests. Please wait a few minutes.'' (auth_change_username lib now user uname))"

section \<open>Uploads (\<open>services/user.rs\<close>, \<open>services/room.rs\<close>)\<close>

record upload_field =
  fd_name :: "string option"
  fd_file_name :: "string option"
  fd_type :: "string option"
  fd_text :: "string option"
  fd_bytes :: "byte list option"

record upload_form =
  fm_kind :: string
  fm_file_name :: string
  fm_mime :: string
  fm_bytes :: "byte list"

definition read_file_field :: "string \<Rightarrow> upload_field \<Rightarrow> upload_form \<Rightarrow> upload_form" where
  "read_file_field fallback fd m = m\<lparr>fm_file_name := unwrap_or fallback (fd_file_name fd),
     fm_mime := unwrap_or [] (fd_type fd), fm_bytes := unwrap_or [] (fd_bytes fd)\<rparr>"

definition empty_form :: upload_form where
  "empty_form = \<lparr>fm_kind = [], fm_file_name = [], fm_mime = [], fm_bytes = []\<rparr>"

definition profile_form :: "upload_field list \<Rightarrow> upload_form" where
  "profile_form fds = fold (\<lambda>fd m.
     if unwrap_or [] (fd_name fd) = ''kind'' then m\<lparr>fm_kind := unwrap_or [] (fd_text fd)\<rparr>
     else if unwrap_or [] (fd_name fd) = ''file'' then read_file_field ''profile-image'' fd m
     else m) fds empty_form"

definition icon_form :: "upload_field list \<Rightarrow> upload_form" where
  "icon_form fds = fold (\<lambda>fd m.
     if unwrap_or [] (fd_name fd) = ''file'' then read_file_field ''room-icon'' fd m else m) fds empty_form"

definition set_image :: "string \<Rightarrow> profile_image \<Rightarrow> user_profile \<Rightarrow> user_profile" where
  "set_image kind img p =
     (if kind = ''avatar'' then p\<lparr>up_avatar := Some img\<rparr> else if kind = ''banner'' then p\<lparr>up_banner := Some img\<rparr> else p)"

definition image_of :: "string \<Rightarrow> user_profile \<Rightarrow> profile_image option" where
  "image_of kind p = (if kind = ''avatar'' then up_avatar p else if kind = ''banner'' then up_banner p else None)"

definition broadcast_profile_update :: "user_profile \<Rightarrow> player_session list \<Rightarrow> app_state \<Rightarrow> app_state" where
  "broadcast_profile_update profile ps s =
     fold (\<lambda>p s. if ps_status p = Invisible then s else
       fold (\<lambda>room s. broadcast_to_room room (op_json 26 [(''gameId'', JStr room), (''user'', JStr (ps_username p)),
          (''profile'', profile_json profile), (''players'', JArr (room_players s room None)),
          (''profiles'', room_profiles s room None), (''statuses'', room_statuses s room None),
          (''platforms'', room_platforms s room None), (''voicePlayers'', strs_json (room_voice_usernames s room None)),
          (''callPlayers'', JArr (room_call_players s room None)), (''clientId'', JStr (ps_client_id p)),
          (''platform'', JStr (ps_platform p))]) s) (ps_rooms p) s) ps s"

definition upload_profile_image ::
  "string \<Rightarrow> nat \<Rightarrow> public_user \<Rightarrow> upload_field list \<Rightarrow> app_state \<Rightarrow> json api_result outcome \<times> app_state" where
  "upload_profile_image uuid now user fds s =
    (let m = profile_form fds; kind = trim (fm_kind m);
         max_bytes = (if kind = ''avatar'' then Some (10 * 1024 * 1024) else if kind = ''banner'' then Some (15 * 1024 * 1024) else None)
     in case max_bytes of None \<Rightarrow> (Ret (Inl (bad_request ''Invalid profile image kind.'')), s) | Some limit \<Rightarrow>
     if fm_bytes m = [] then (Ret (Inl (bad_request ''Missing file.'')), s)
     else if length (fm_bytes m) > limit then (Ret (Inl (api_error_new 413 ''Profile image too large.'')), s)
     else
    (case detect_profile_image (fm_bytes m) (fm_mime m) of
       Panic \<Rightarrow> (Panic, s) | Diverge \<Rightarrow> (Diverge, s)
     | Ret (Inl e) \<Rightarrow> (Ret (Inl (bad_request e)), s)
     | Ret (Inr (mime, w, h)) \<Rightarrow>
    (case store_uploaded_bytes uuid (file_extension (fm_file_name m) mime) (fm_bytes m) mime s of
       (Inl e, s) \<Rightarrow> (Ret (Inl e), s)
     | (Inr stored, s) \<Rightarrow>
      (let img = \<lparr>pi_file = stored, pi_width = w, pi_height = h\<rparr>;
           s = adjust_user (pu_id user) (\<lambda>p. p\<lparr>ps_profile := set_image kind img (ps_profile p)\<rparr>) s;
           mine = filter (\<lambda>p. ps_user_id p = pu_id user) (vals (players s));
           profile = set_image kind img (if mine = [] then pu_profile user else ps_profile (List.last mine));
           s = remove_image (image_of kind (pu_profile user)) s
       in case update_profile now (pu_id user) profile (accounts s) of
            (Inl e, db) \<Rightarrow> (Ret (Inl e), s\<lparr>accounts := db\<rparr>)
          | (Inr _, db) \<Rightarrow>
             (let s = invalidate_public_profile_cache (Some (pu_id user)) (Some (pu_username user)) (s\<lparr>accounts := db\<rparr>)
              in (Ret (Inr (JObj [(''ok'', JBool True), (''profile'', profile_json profile), (kind, image_json img)])),
                  broadcast_profile_update profile mine s))))))"

definition may_change_icon :: "string \<Rightarrow> string \<Rightarrow> app_state \<Rightarrow> bool" where
  "may_change_icon user_id rid s =
     (case find_room rid s of None \<Rightarrow> True
      | Some room \<Rightarrow> if room_kind room \<noteq> Community then True
          else (let role = (if owner_id room = Some user_id then Administrator
                    else unwrap_or Member (map_of (roles room) user_id))
                in role = Administrator \<or> role = SubAdministrator))"

definition upload_room_icon_file ::
  "string \<Rightarrow> public_user \<Rightarrow> string \<Rightarrow> upload_field list \<Rightarrow> app_state \<Rightarrow> json api_result outcome \<times> app_state" where
  "upload_room_icon_file uuid user raw_room fds s =
    (let rid = trim raw_room; m = icon_form fds in
     if rid = [] then (Ret (Inl (bad_request ''Invalid room.'')), s)
     else if \<not> list_ex (\<lambda>p. ps_user_id p = pu_id user \<and> in_room rid p) (vals (players s))
     then (Ret (Inl (forbidden ''You are not in this room.'')), s)
     else if \<not> may_change_icon (pu_id user) rid s
     then (Ret (Inl (forbidden ''You are not allowed to change this room.'')), s)
     else if fm_bytes m = [] then (Ret (Inl (bad_request ''Missing file.'')), s)
     else if length (fm_bytes m) > 10 * 1024 * 1024 then (Ret (Inl (api_error_new 413 ''Room icon too large.'')), s)
     else
    (case detect_profile_image (fm_bytes m) (fm_mime m) of
       Panic \<Rightarrow> (Panic, s) | Diverge \<Rightarrow> (Diverge, s)
     | Ret (Inl e) \<Rightarrow> (Ret (Inl (bad_request e)), s)
     | Ret (Inr (mime, _, _)) \<Rightarrow>
      (let s = (case obind (find_room rid s) room_icon of Some icon \<Rightarrow> remove_file (sf_id icon) s | None \<Rightarrow> s)
       in case store_uploaded_bytes uuid (file_extension (fm_file_name m) mime) (fm_bytes m) mime s of
            (Inl e, s) \<Rightarrow> (Ret (Inl e), s)
          | (Inr stored, s) \<Rightarrow>
         (case set_room_icon rid stored s of
            (Inl e, s) \<Rightarrow> (Ret (Inl e), s)
          | (Inr _, s) \<Rightarrow>
         (case sync_room_record rid s of
            (Inl e, s) \<Rightarrow> (Ret (Inl (internal ''Sync room record'')), s)
          | (Inr _, s) \<Rightarrow>
            (let room = unwrap_or (room_default\<lparr>room_id := rid, room_title := rid, room_icon := Some stored,
                    room_members := room_usernames s rid None\<rparr>) (find_room rid s)
             in (Ret (Inr (JObj [(''ok'', JBool True), (''icon'', JObj (file_fields stored)), (''room'', room_json room)])),
                 broadcast_to_room rid (op_json 32 [(''ok'', JBool True), (''system'', JBool True),
                   (''gameId'', JStr rid), (''room'', room_json room)]) s)))))))"

type_synonym served_upload = "json api_result outcome \<times> app_state"

definition limited_upload ::
  "'dk web_lib \<Rightarrow> nat \<Rightarrow> headers \<Rightarrow> string \<Rightarrow> string \<Rightarrow> (public_user \<Rightarrow> app_state \<Rightarrow> served_upload) \<Rightarrow> app_state \<Rightarrow> served_upload" where
  "limited_upload lib now h k msg act s =
    (case authenticated_user lib now h s of Inl e \<Rightarrow> (Ret (Inl e), s) | Inr user \<Rightarrow>
    (case rate_hit now (k @ pu_id user) 5 60000 s of (hit, s) \<Rightarrow>
     if hit then (Ret (Inl (too_many_requests msg)), s) else act user s))"

definition profile_image_upload_handler ::
  "'dk web_lib \<Rightarrow> string \<Rightarrow> nat \<Rightarrow> headers \<Rightarrow> upload_field list \<Rightarrow> app_state \<Rightarrow> served_upload" where
  "profile_image_upload_handler lib uuid now h fds =
     limited_upload lib now h ''profile_image:user:'' ''Too many profile image uploads. Please wait a minute.''
       (\<lambda>user. upload_profile_image uuid now user fds)"

definition room_icon_upload_handler ::
  "'dk web_lib \<Rightarrow> string \<Rightarrow> nat \<Rightarrow> headers \<Rightarrow> string \<Rightarrow> upload_field list \<Rightarrow> app_state \<Rightarrow> served_upload" where
  "room_icon_upload_handler lib uuid now h rid fds =
     limited_upload lib now h ''room_icon:user:'' ''Too many room icon uploads. Please wait a minute.''
       (\<lambda>user. upload_room_icon_file uuid user rid fds)"

end
