(* ===== verification/Web_Gates.thy ===== *)
theory Web_Gates
  imports Web_Routes
begin

text \<open>
  The doors of \<open>server/routes.rs\<close>: handing out and redeeming challenges, and registration, login and recovery behind
  a CAPTCHA token or, without one, the quota token, the delay proof and the key encapsulation in turn.  A delay
  proof may keep the verification from ending and a ciphertext may panic the decoder, so these handlers return
  an \<open>outcome\<close>.  They run over the whole record \<open>phantom_state\<close>.
\<close>

type_synonym 'dk answered_web = "json api_result outcome \<times> 'dk phantom_state"

definition on_app :: "(app_state \<Rightarrow> 'a \<times> app_state) \<Rightarrow> 'dk phantom_state \<Rightarrow> 'a outcome \<times> 'dk phantom_state" where
  "on_app act s = (case act (ph_app s) of (r, app) \<Rightarrow> (Ret r, s\<lparr>ph_app := app\<rparr>))"

definition rate_gate ::
  "nat \<Rightarrow> string \<Rightarrow> nat \<Rightarrow> nat \<Rightarrow> string \<Rightarrow> ('dk phantom_state \<Rightarrow> 'dk answered_web) \<Rightarrow> 'dk phantom_state \<Rightarrow> 'dk answered_web" where
  "rate_gate now k limit window msg act s =
    (case rate_hit now k limit window (ph_app s) of (hit, app) \<Rightarrow>
     let s = s\<lparr>ph_app := app\<rparr> in if hit then (Ret (Inl (too_many_requests msg)), s) else act s)"

section \<open>Challenges\<close>

record 'dk challenge_draws =
  cd_id :: string
  cd_salt :: string
  cd_nonce :: string
  cd_key :: string
  cd_dk :: 'dk
  cd_ek :: "byte list"
  cd_token :: string

definition cap_challenge_handler ::
  "'dk web_lib \<Rightarrow> (cap_challenge \<Rightarrow> json) \<Rightarrow> 'dk challenge_draws \<Rightarrow> nat \<Rightarrow> string option \<Rightarrow> string option
    \<Rightarrow> 'dk phantom_state \<Rightarrow> 'dk answered_web" where
  "cap_challenge_handler lib to_json dr now sc target =
     rate_gate now ''auth:cap:challenge:global'' 200 10000 ''CAPTCHA challenge rate limit exceeded. Please wait a few seconds.''
      (\<lambda>s. case generate_cap_challenge (wl_gates lib) now (cd_id dr) (cd_salt dr) (cd_nonce dr) (cd_key dr) (cd_dk dr)
          (cd_ek dr) (unwrap_or ''register'' sc) target (ph_gates s) of
        (c, gs) \<Rightarrow> (Ret (Inr (to_json c)), s\<lparr>ph_gates := gs\<rparr>))"

definition cap_redeem_handler ::
  "'dk web_lib \<Rightarrow> 'dk challenge_draws \<Rightarrow> nat \<Rightarrow> cap_redeem_request \<Rightarrow> 'dk phantom_state \<Rightarrow> 'dk answered_web" where
  "cap_redeem_handler lib dr now req =
     rate_gate now ''auth:cap:redeem:global'' 200 10000 ''CAPTCHA redeem rate limit exceeded. Please wait a few seconds.''
      (\<lambda>s. case redeem_cap_challenge (wl_gates lib) now (cd_token dr) req (ph_gates s) of
        (r, gs) \<Rightarrow> (map_outcome (map_sum id (\<lambda>c. JObj [(''success'', JBool (success c)), (''capToken'', JStr (cap_token c)),
             (''expiresAt'', jnat (cr_expires_at c))])) r, s\<lparr>ph_gates := gs\<rparr>))"

definition auth_challenge_handler ::
  "'dk web_lib \<Rightarrow> (vdf_challenge \<times> quota_token \<times> pqc_public_key \<Rightarrow> json) \<Rightarrow> 'dk challenge_draws \<Rightarrow> nat \<Rightarrow> string option
    \<Rightarrow> 'dk phantom_state \<Rightarrow> 'dk answered_web" where
  "auth_challenge_handler lib to_json dr now target =
     rate_gate now ''auth:challenge:global'' 200 10000 ''Security challenge rate limit exceeded. Please wait a few seconds.''
      (\<lambda>s. let g = wl_gates lib;
              v = generate_vdf_challenge (vdf_hmac g) (vdf_big g) now (cd_salt dr) target None;
              q = generate_quota_token (rln_hmac g) now (cd_nonce dr);
              (k, ks) = issue_pqc_challenge now (cd_key dr) (cd_dk dr) (cd_ek dr) (gs_pqc (ph_gates s))
          in (Ret (Inr (to_json (v, q, k))), s\<lparr>ph_gates := (ph_gates s)\<lparr>gs_pqc := ks\<rparr>\<rparr>))"

section \<open>The challenge a request answers\<close>

record auth_proofs =
  ap_cap_token :: "string option"
  ap_vdf_challenge :: "vdf_challenge option"
  ap_vdf_proof :: "vdf_proof option"
  ap_quota_token :: "quota_token option"
  ap_nullifier :: "string option"
  ap_pqc_ciphertext :: "pqc_ciphertext option"

text \<open>
  The three handlers spell the same chain out; they differ in the scope, in the last word of two messages
  (\<open>task\<close>) and in whether the ciphertext is demanded (\<open>strict\<close>).
\<close>

definition security_gate ::
  "'dk gate_lib \<Rightarrow> nat \<Rightarrow> string \<Rightarrow> string \<Rightarrow> bool \<Rightarrow> string \<Rightarrow> auth_proofs \<Rightarrow> 'dk gate_state
    \<Rightarrow> unit api_result outcome \<times> 'dk gate_state" where
  "security_gate lib now act task strict uname g st =
    (case ap_cap_token g of
       Some token \<Rightarrow> (case verify_and_consume_cap_token (cap_hmac lib) now (token, act) (gs_cap st) of
         (r, m) \<Rightarrow> (Ret r, st\<lparr>gs_cap := m\<rparr>))
     | None \<Rightarrow>
    (case ap_quota_token g of
       None \<Rightarrow> (Ret (Inl (bad_request (''Missing CAPTCHA or quota token. Please solve the security '' @ task @ ''.''))), st)
     | Some quota \<Rightarrow>
    (case ap_nullifier g of
       None \<Rightarrow> (Ret (Inl (bad_request ''Missing rate-limiting nullifier.'')), st)
     | Some nullifier \<Rightarrow>
    (case verify_and_consume_nullifier (rln_hmac lib) (rln_sha lib) now (quota, nullifier, act) (gs_nullifiers st) of
       (Inl e, m) \<Rightarrow> (Ret (Inl e), st\<lparr>gs_nullifiers := m\<rparr>)
     | (Inr _, m) \<Rightarrow> let st = st\<lparr>gs_nullifiers := m\<rparr> in
    (case (ap_vdf_challenge g, ap_vdf_proof g) of
       (Some c, Some p) \<Rightarrow>
        (case verify_and_consume_vdf (vdf_hmac lib) (vdf_big lib) now c p (Some uname) (gs_vdf st) of
           None \<Rightarrow> (Diverge, st)
         | Some (Inl e, m) \<Rightarrow> (Ret (Inl e), st\<lparr>gs_vdf := m\<rparr>)
         | Some (Inr _, m) \<Rightarrow> let st = st\<lparr>gs_vdf := m\<rparr> in
        (case ap_pqc_ciphertext g of
           None \<Rightarrow> if strict
             then (Ret (Inl (bad_request ''Missing Post-Quantum KEM ciphertext. Please solve the security challenge.'')), st)
             else (Ret (Inr ()), st)
         | Some sealed \<Rightarrow> (case verify_and_decapsulate_pqc (kem_decaps lib) now sealed (gs_pqc st) of
             (r, ks) \<Rightarrow> (map_outcome (map_sum id (\<lambda>_. ())) r, st\<lparr>gs_pqc := ks\<rparr>))))
     | _ \<Rightarrow> (Ret (Inl (bad_request (''Missing Verifiable Delay Function (VDF) proof. Please solve the security '' @ task @ ''.''))), st))))))"

definition gated ::
  "'dk web_lib \<Rightarrow> nat \<Rightarrow> string \<Rightarrow> string \<Rightarrow> bool \<Rightarrow> string \<Rightarrow> auth_proofs \<Rightarrow> ('dk phantom_state \<Rightarrow> 'dk answered_web)
    \<Rightarrow> 'dk phantom_state \<Rightarrow> 'dk answered_web" where
  "gated lib now act task strict uname g serve s =
    (case security_gate (wl_gates lib) now act task strict uname g (ph_gates s) of
       (Panic, st) \<Rightarrow> (Panic, s\<lparr>ph_gates := st\<rparr>)
     | (Diverge, st) \<Rightarrow> (Diverge, s\<lparr>ph_gates := st\<rparr>)
     | (Ret (Inl e), st) \<Rightarrow> (Ret (Inl e), s\<lparr>ph_gates := st\<rparr>)
     | (Ret (Inr _), st) \<Rightarrow> serve (s\<lparr>ph_gates := st\<rparr>))"

section \<open>Registration, login, recovery\<close>

definition auth_register_handler ::
  "'dk web_lib \<Rightarrow> Accounts_Db.draws \<Rightarrow> nat \<Rightarrow> string \<Rightarrow> string \<Rightarrow> auth_proofs \<Rightarrow> 'dk phantom_state \<Rightarrow> 'dk answered_web" where
  "auth_register_handler lib dr now uname password g =
     rate_gate now ''register:global'' 10 15000 ''Server registration capacity reached. Please wait 15 seconds.''
      (rate_gate now (''register:user:'' @ normalize_username uname) 3 30000
        ''Too many registration attempts for this username. Please wait 30 seconds.''
        (gated lib now ''register'' ''challenge'' True uname g (on_app (auth_register lib dr now uname password))))"

definition too_many_failures :: "nat \<Rightarrow> string \<Rightarrow> auth_proofs \<Rightarrow> app_state \<Rightarrow> bool" where
  "too_many_failures now fail_key g s =
     (case map_of (limits s) fail_key of
        Some b \<Rightarrow> now - window_start_ms b \<le> 30000 \<and> bucket_count b \<ge> 5 \<and> ap_cap_token g = None \<and> ap_vdf_proof g = None
      | None \<Rightarrow> False)"

definition auth_login_handler ::
  "'dk web_lib \<Rightarrow> Accounts_Db.draws \<Rightarrow> nat \<Rightarrow> string \<Rightarrow> string \<Rightarrow> auth_proofs \<Rightarrow> 'dk phantom_state \<Rightarrow> 'dk answered_web" where
  "auth_login_handler lib dr now uname password g s =
    (let fail_key = ''login:fail:user:'' @ normalize_username uname in
     if too_many_failures now fail_key g (ph_app s)
     then (Ret (Inl (too_many_requests ''Too many failed login attempts for this account. Please solve the security challenge to proceed.'')), s)
     else gated lib now ''login'' ''verification'' False uname g
       (on_app (\<lambda>app. case auth_login lib dr now uname password app of
          (Inr res, app) \<Rightarrow> (Inr res, app\<lparr>limits := AList.delete fail_key (limits app)\<rparr>)
        | (Inl e, app) \<Rightarrow> (Inl e, snd (rate_hit now fail_key 100 30000 app)))) s)"

definition auth_recover_handler ::
  "'dk web_lib \<Rightarrow> Accounts_Db.draws \<Rightarrow> nat \<Rightarrow> string \<Rightarrow> string \<Rightarrow> string \<Rightarrow> auth_proofs \<Rightarrow> 'dk phantom_state \<Rightarrow> 'dk answered_web" where
  "auth_recover_handler lib dr now uname words new_password g =
     rate_gate now ''recover:global'' 20 10000 ''Too many recovery attempts. Please wait a few seconds.''
      (rate_gate now (''recover:user:'' @ normalize_username uname) 3 30000
        ''Too many recovery attempts for this account. Please wait 30 seconds.''
        (gated lib now ''recover'' ''verification'' False uname g (on_app (auth_recover lib dr now uname words new_password))))"

section \<open>Dead drop, passes and social blobs\<close>

definition phantom_deposit_handler ::
  "'dk phantom_lib \<Rightarrow> nat \<Rightarrow> phantom_envelope \<Rightarrow> phantom_gate \<Rightarrow> 'dk phantom_state \<Rightarrow> 'dk answered_web" where
  "phantom_deposit_handler lib now env g s =
    (case phantom_deposit lib now env g s of
       (Inr _, s) \<Rightarrow> (Ret (Inr ok_json), s)
     | (Inl _, s) \<Rightarrow> (Ret (Inr (JObj [(''ok'', JBool False), (''reason'', JStr ''gate'')])), s))"

definition pass_redeem_handler ::
  "hmac \<Rightarrow> string \<Rightarrow> nat \<Rightarrow> string \<Rightarrow> string \<Rightarrow> nonce_store \<times> 'dk phantom_state
    \<Rightarrow> json api_result \<times> nonce_store \<times> 'dk phantom_state" where
  "pass_redeem_handler hmac token_id now response nonce st =
    (case st of (nonces, s) \<Rightarrow>
     case rate_hit now ''pass:redeem:global'' 60 60000 (ph_app s) of (hit, app) \<Rightarrow>
     let s = s\<lparr>ph_app := app\<rparr> in
     if hit then (Inl (too_many_requests ''Redemption rate limit exceeded.''), nonces, s)
     else (case redeem_pass_token hmac token_id now response nonce (nonces, ph_passes s) of
         (Inl e, nonces, passes) \<Rightarrow> (Inl e, nonces, s\<lparr>ph_passes := passes\<rparr>)
       | (Inr token, nonces, passes) \<Rightarrow> (Inr (JObj [(''ok'', JBool True), (''depositToken'', JStr token)]),
           nonces, s\<lparr>ph_passes := passes\<rparr>)))"

definition social_blob_get_handler :: "'dk web_lib \<Rightarrow> nat \<Rightarrow> headers \<Rightarrow> app_state \<Rightarrow> served" where
  "social_blob_get_handler lib now h = as_user lib now h (\<lambda>user s.
     case get_social_blob (pu_id user) (accounts s) of Inl e \<Rightarrow> (Inl e, s)
     | Inr (ver, blob) \<Rightarrow> (Inr (JObj [(''ver'', JInt ver), (''blob'', case blob of Some b \<Rightarrow> JStr b | None \<Rightarrow> JNull)]), s))"

text \<open>The answer of a write carries its status: 200, or 409 with the stored version.\<close>

definition social_blob_put_handler ::
  "'dk web_lib \<Rightarrow> (string \<Rightarrow> byte list option) \<Rightarrow> nat \<Rightarrow> headers \<Rightarrow> int \<Rightarrow> string \<Rightarrow> app_state
    \<Rightarrow> (nat \<times> json) api_result \<times> app_state" where
  "social_blob_put_handler lib b64 now h ver blob s =
    (case authenticated_user lib now h s of Inl e \<Rightarrow> (Inl e, s) | Inr user \<Rightarrow>
    (case b64 blob of None \<Rightarrow> (Inl (bad_request ''Invalid blob encoding.''), s) | Some decoded \<Rightarrow>
     if length decoded > 64 * 1024 then (Inl (bad_request ''Social blob too large.''), s) else
    (case put_social_blob (pu_id user) ver blob (accounts s) of
       (Inl e, db) \<Rightarrow> (Inl e, s\<lparr>accounts := db\<rparr>)
     | (Inr (Some current), db) \<Rightarrow> (Inr (409, JObj [(''currentVer'', JInt current)]), s\<lparr>accounts := db\<rparr>)
     | (Inr None, db) \<Rightarrow> (Inr (200, ok_json), s\<lparr>accounts := db\<rparr>))))"

end
