(* ===== verification/Whole_Server.thy ===== *)
theory Whole_Server
  imports Web_Gates Dead_Drop_Inv
begin

text \<open>
  The whole process (\<open>server/routes.rs\<close>): the sockets, the HTTP requests and the dead drop share one state, and
  a run interleaves their events in any order.  A request is one step; what it answers is the first result
  of \<open>web_step\<close>.  The renderings of challenges as JSON and the Base64 decoder are the fields of \<open>web_codec\<close>.
\<close>

datatype admin_request =
    Overview
  | List_Users list_query
  | Search_Users "string option"
  | Set_Feature string bool
  | Set_Default_Room bool "string option" "string option" "string option"
  | Set_Disabled string bool
  | Set_Banned string bool
  | Delete_User string
  | Set_Badges string "string list"
  | Purge "nat option" "nat option" "nat option" "nat option" "string option"

definition admin_api :: "'dk web_lib \<Rightarrow> nat \<Rightarrow> nat \<Rightarrow> headers \<Rightarrow> admin_request \<Rightarrow> app_state \<Rightarrow> served" where
  "admin_api lib started now h req =
    (case req of
       Overview \<Rightarrow> admin_overview_handler lib started now h
     | List_Users q \<Rightarrow> admin_users_list_handler lib now h q
     | Search_Users q \<Rightarrow> admin_users_search_handler lib now h q
     | Set_Feature k enabled \<Rightarrow> admin_features_handler lib now h k enabled
     | Set_Default_Room clear rid rkey title \<Rightarrow> admin_default_room_handler lib now h clear rid rkey title
     | Set_Disabled user_id b \<Rightarrow> admin_user_disabled_handler lib now h user_id b
     | Set_Banned user_id b \<Rightarrow> admin_user_banned_handler lib now h user_id b
     | Delete_User user_id \<Rightarrow> admin_user_delete_handler lib now h user_id
     | Set_Badges user_id bs \<Rightarrow> admin_user_badges_handler lib now h user_id bs
     | Purge after before min_len max_len part \<Rightarrow> admin_users_purge_handler lib now h after before min_len max_len part)"

record web_codec =
  wc_cap :: "cap_challenge \<Rightarrow> json"
  wc_challenge :: "vdf_challenge \<times> quota_token \<times> pqc_public_key \<Rightarrow> json"
  wc_b64 :: "string \<Rightarrow> byte list option"

datatype 'dk web_request =
    Admin headers admin_request
  | Who_Am_I headers
  | Log_Out headers
  | Delete_Account headers string
  | Change_Username headers string
  | Profile_Image string headers "upload_field list"
  | Room_Icon string headers string "upload_field list"
  | Blob_Get headers
  | Blob_Put headers int string
  | Cap_Challenge "'dk challenge_draws" "string option" "string option"
  | Cap_Redeem "'dk challenge_draws" cap_redeem_request
  | Auth_Challenge "'dk challenge_draws" "string option"
  | Sign_Up Accounts_Db.draws string string auth_proofs
  | Log_In Accounts_Db.draws string string auth_proofs
  | Recover_Account Accounts_Db.draws string string string auth_proofs

definition web_step ::
  "'dk web_lib \<Rightarrow> web_codec \<Rightarrow> nat \<Rightarrow> nat \<Rightarrow> 'dk web_request \<Rightarrow> 'dk phantom_state \<Rightarrow> 'dk answered_web" where
  "web_step lib codec started now req =
    (case req of
       Admin h r \<Rightarrow> on_app (admin_api lib started now h r)
     | Who_Am_I h \<Rightarrow> on_app (auth_me_handler lib now h)
     | Log_Out h \<Rightarrow> on_app (auth_logout_handler lib now h)
     | Delete_Account h password \<Rightarrow> on_app (auth_delete_handler lib now h password)
     | Change_Username h uname \<Rightarrow> on_app (auth_username_handler lib now h uname)
     | Profile_Image uuid h fds \<Rightarrow> (\<lambda>s. case profile_image_upload_handler lib uuid now h fds (ph_app s) of
         (r, app) \<Rightarrow> (r, s\<lparr>ph_app := app\<rparr>))
     | Room_Icon uuid h rid fds \<Rightarrow> (\<lambda>s. case room_icon_upload_handler lib uuid now h rid fds (ph_app s) of
         (r, app) \<Rightarrow> (r, s\<lparr>ph_app := app\<rparr>))
     | Blob_Get h \<Rightarrow> on_app (social_blob_get_handler lib now h)
     | Blob_Put h ver blob \<Rightarrow> on_app (\<lambda>s. case social_blob_put_handler lib (wc_b64 codec) now h ver blob s of
         (r, s) \<Rightarrow> (map_sum id snd r, s))
     | Cap_Challenge dr sc target \<Rightarrow> cap_challenge_handler lib (wc_cap codec) dr now sc target
     | Cap_Redeem dr r \<Rightarrow> cap_redeem_handler lib dr now r
     | Auth_Challenge dr target \<Rightarrow> auth_challenge_handler lib (wc_challenge codec) dr now target
     | Sign_Up dr uname password g \<Rightarrow> auth_register_handler lib dr now uname password g
     | Log_In dr uname password g \<Rightarrow> auth_login_handler lib dr now uname password g
     | Recover_Account dr uname words password g \<Rightarrow> auth_recover_handler lib dr now uname words password g)"

record 'dk system =
  sy_web :: "'dk phantom_state"
  sy_open :: "(string \<times> nat) list"

record 'dk system_lib =
  sys_server :: server_lib
  sys_web :: "'dk web_lib"
  sys_codec :: web_codec
  sys_phantom :: "'dk phantom_lib"
  sys_started :: nat

datatype 'dk system_event = On_Socket server_event | On_Web "'dk web_request" | On_Mail phantom_event

definition system_step :: "'dk system_lib \<Rightarrow> nat \<Rightarrow> 'dk system_event \<Rightarrow> 'dk system \<Rightarrow> 'dk system" where
  "system_step lib now ev y =
    (case ev of
       On_Socket e \<Rightarrow>
         (let sv = server_step (sys_server lib) now e \<lparr>sv_app = ph_app (sy_web y), sv_open = sy_open y\<rparr>
          in y\<lparr>sy_web := (sy_web y)\<lparr>ph_app := sv_app sv\<rparr>, sy_open := sv_open sv\<rparr>)
     | On_Web req \<Rightarrow> y\<lparr>sy_web := snd (web_step (sys_web lib) (sys_codec lib) (sys_started lib) now req (sy_web y))\<rparr>
     | On_Mail e \<Rightarrow> y\<lparr>sy_web := snd (snd (phantom_step (sys_phantom lib) now e (sy_web y)))\<rparr>)"

definition system_run :: "'dk system_lib \<Rightarrow> (nat \<times> 'dk system_event) list \<Rightarrow> 'dk system \<Rightarrow> 'dk system" where
  "system_run lib evs y = fold (\<lambda>(now, ev). system_step lib now ev) evs y"

end
