(* ===== verification/Web_Inv.thy ===== *)
theory Web_Inv
  imports Whole_Server Server_Inv
begin

text \<open>
  What the HTTP requests keep: the invariants of the stores and of the session table (\<open>good\<close>), shown for
  every service of \<open>services/auth.rs\<close>, \<open>services/admin.rs\<close>, \<open>services/user.rs\<close> and \<open>services/room.rs\<close> and for the
  wrappers of \<open>server/routes.rs\<close> in front of them.
\<close>

section \<open>What every request keeps\<close>

definition good :: "app_state \<Rightarrow> bool" where
  "good s \<longleftrightarrow> store_inv s \<and> table_ok (players s)"

lemma good_accounts [simp]: "good s \<Longrightarrow> acct_inv (accounts s)"
  by (simp add: good_def)

lemma good_books [simp]: "good s \<Longrightarrow> acct_inv db \<Longrightarrow> good (s\<lparr>accounts := db\<rparr>)"
  by (simp add: good_def)

lemma good_frame [simp]:
  "good (try_send c m s) = good s" "good (broadcast_to_room g j s) = good s" "good (send_all cs m s) = good s"
  "good (s\<lparr>limits := l\<rparr>) = good s" "good (remove_file i s) = good s" "good (remove_image img s) = good s"
  "good (invalidate_public_profile_cache a b s) = good s"
proof -
  have cache: "store_inv (s\<lparr>profile_cache := z\<rparr>) = store_inv s" for z by (rule store_inv_same) simp
  show "good (try_send c m s) = good s" "good (broadcast_to_room g j s) = good s" "good (send_all cs m s) = good s"
    "good (s\<lparr>limits := l\<rparr>) = good s" "good (invalidate_public_profile_cache a b s) = good s"
    by (simp_all add: good_def invalidate_public_profile_cache_def cache)
  show gone: "good (remove_file i s) = good s" for i by (simp add: good_def remove_file_def [of i s, THEN arg_cong [of _ _ players]])
  show "good (remove_image img s) = good s" by (simp add: remove_image_def gone split: option.split)
qed

lemma good_fold: "(\<And>x s. good (f x s) = good s) \<Longrightarrow> good (fold f xs s) = good s"
  by (induction xs arbitrary: s) simp_all

lemma good_hit [simp]: "good (snd (rate_hit now k l w s)) = good s"
  by (simp add: rate_hit_def split: prod.split)

lemma good_close [simp]: "good s \<Longrightarrow> good (close_with now j u s)"
  using table_moves_ok [OF moves_close] by (simp add: good_def store_inv_close)

lemma good_sessions_closed [simp]:
  "good s \<Longrightarrow> good (disconnect_user_sessions now u r s)" "good s \<Longrightarrow> good (evict_user now u r s)"
  by (simp_all add: disconnect_user_sessions_def evict_user_def)

lemma good_adjust [simp]:
  assumes "\<And>p. ps_id (f p) = ps_id p \<and> ps_rooms (f p) = ps_rooms p \<and> ps_muted (f p) = ps_muted p"
  shows "good (adjust_user u f s) = good s"
proof -
  have "session_ok i (if ps_user_id p = u then f p else p) = session_ok i p" for i p
    using assms [of p] by (simp add: session_ok_def)
  then have "(\<forall>(i, p) \<in> set (map_vals (\<lambda>p. if ps_user_id p = u then f p else p) t). session_ok i p)
      = (\<forall>(i, p) \<in> set t. session_ok i p)" for t
    by (simp add: map_vals_def split_beta)
  then have "table_ok (map_vals (\<lambda>p. if ps_user_id p = u then f p else p) t) = table_ok t" for t
    by (simp add: table_ok_def)
  then show ?thesis by (simp add: good_def adjust_user_def)
qed

section \<open>The wrappers\<close>

lemma good_as_user: "(\<And>u. good (snd (act u s))) \<Longrightarrow> good s \<Longrightarrow> good (snd (as_user lib now h act s))"
  by (simp add: as_user_def split: sum.split)

lemma good_hit_eq: "rate_hit now k l w s = (hit, t) \<Longrightarrow> good s = good t"
  by (metis good_hit snd_conv)

lemma good_limited: "(\<And>t. good t \<Longrightarrow> good (snd (act t))) \<Longrightarrow> good s \<Longrightarrow> good (snd (limited now k l w m act s))"
  by (auto simp: limited_def dest!: good_hit_eq split: prod.split)

lemma good_admin: "(\<And>t. good t \<Longrightarrow> good (snd (act t))) \<Longrightarrow> good s \<Longrightarrow> good (snd (admin_only a act s))"
  by (simp add: admin_only_def)

lemma good_token: "(\<And>t. good (snd (act t s))) \<Longrightarrow> good s \<Longrightarrow> good (snd (with_token h act s))"
  by (simp add: with_token_def split: option.split)

section \<open>Administration\<close>

lemma acct_inv_settings [simp]:
  "acct_inv db \<Longrightarrow> acct_inv (snd (set_feature k b db))" "acct_inv db \<Longrightarrow> acct_inv (snd (set_default_room i r t db))"
  "acct_inv db \<Longrightarrow> acct_inv (snd (clear_default_room db))"
  by (simp_all add: set_feature_def set_default_room_def clear_default_room_def acct_inv_def)

lemmas acct_inv_admin [simp] =
  acct_inv_step [where op = "ODisable _ _ _", simplified] acct_inv_step [where op = "OBan _ _ _", simplified]
  acct_inv_step [where op = "OInvalidate _", simplified] acct_inv_step [where op = "ODeleteUser _", simplified]
  acct_inv_step [where op = "OBadges _ _ _", simplified] acct_inv_step [where op = "OPurge _ _ _ _ _ _", simplified]

lemma good_db:
  "f (accounts s) = (r, db) \<Longrightarrow> (\<And>db. acct_inv db \<Longrightarrow> acct_inv (snd (f db))) \<Longrightarrow> good s \<Longrightarrow> good (s\<lparr>accounts := db\<rparr>)"
  by (metis good_accounts good_books snd_conv)

lemma good_lock_out [simp]: "good s \<Longrightarrow> good (lock_out now t r s)"
  by (simp add: lock_out_def)

lemma good_answer [simp]: "good s \<Longrightarrow> good (snd (answer_user (confirmed_user t s)))"
  by (auto simp: answer_user_def confirmed_user_def split: sum.split option.split prod.split)

lemma good_badge_update [simp]: "good s \<Longrightarrow> good (broadcast_badge_update u s)"
  by (simp add: broadcast_badge_update_def Let_def good_fold)

lemma good_admin_reads:
  "good s \<Longrightarrow> good (snd (admin_overview st now a s))" "good s \<Longrightarrow> good (snd (admin_search_users a q s))"
  "good s \<Longrightarrow> good (snd (admin_list_users a l c f s))"
  by (auto simp: admin_overview_def admin_search_users_def admin_list_users_def Let_def intro!: good_admin split: sum.split prod.split)

lemma good_admin_settings:
  "good s \<Longrightarrow> good (snd (admin_set_feature a k b s))" "good s \<Longrightarrow> good (snd (admin_set_default_room a i r t s))"
  "good s \<Longrightarrow> good (snd (admin_clear_default_room a s))"
  unfolding admin_set_feature_def admin_set_default_room_def admin_clear_default_room_def Let_def
  by (auto intro!: good_admin elim!: good_db split: sum.split prod.split option.split)

lemma good_admin_users:
  "good s \<Longrightarrow> good (snd (admin_set_user_disabled now a t b s))" "good s \<Longrightarrow> good (snd (admin_set_user_banned now a t b s))"
  "good s \<Longrightarrow> good (snd (admin_delete_user_account now a t s))"
  "good s \<Longrightarrow> good (snd (admin_set_user_badges now a t bs s))"
  "good s \<Longrightarrow> good (snd (admin_purge_accounts a x y l m p s))"
  unfolding admin_set_user_disabled_def admin_set_user_banned_def admin_delete_user_account_def
    admin_set_user_badges_def admin_purge_accounts_def Let_def
  by (auto intro!: good_admin good_sessions_closed good_badge_update good_answer good_lock_out elim!: good_db split: sum.split prod.split)

lemma good_admin_api: "good s \<Longrightarrow> good (snd (admin_api lib started now h req s))"
  unfolding admin_api_def admin_overview_handler_def admin_users_list_handler_def admin_users_search_handler_def
    admin_features_handler_def admin_default_room_handler_def admin_user_disabled_handler_def admin_user_banned_handler_def
    admin_user_delete_handler_def admin_user_badges_handler_def admin_users_purge_handler_def admin_rate_limit_def
  by (cases req) (auto intro!: good_as_user good_limited good_admin_reads good_admin_settings good_admin_users split: sum.split)

section \<open>Accounts and uploads\<close>

lemmas acct_inv_own [simp] =
  acct_inv_step [where op = "OMe _ _", simplified] acct_inv_step [where op = "OLogout _", simplified]
  acct_inv_step [where op = "ORename _ _ _", simplified]
lemmas acct_inv_secrets [simp] = acct_inv_register acct_inv_login acct_inv_recover acct_inv_delete_account

lemma acct_inv_me [simp]: "acct_inv db \<Longrightarrow> acct_inv (snd (me h now t db))"
  using me_db [of h now t db] acct_inv_touch by auto

lemma acct_inv_logout [simp]: "acct_inv db \<Longrightarrow> acct_inv (snd (logout h t db))"
  by (auto simp: logout_def acct_inv_sessions_filter)

lemma good_accounts_api:
  "good s \<Longrightarrow> good (snd (auth_me lib now t s))" "good s \<Longrightarrow> good (snd (auth_logout lib now t s))"
  "good s \<Longrightarrow> good (snd (auth_delete_account lib now t p s))"
  "good s \<Longrightarrow> good (snd (auth_register lib dr now n p s))" "good s \<Longrightarrow> good (snd (auth_login lib dr now n p s))"
  "good s \<Longrightarrow> good (snd (auth_recover lib dr now n w p s))"
  unfolding auth_me_def auth_logout_def auth_delete_account_def auth_register_def auth_login_def auth_recover_def Let_def
  by (auto intro!: good_sessions_closed elim!: good_db split: sum.split prod.split option.split)

lemma good_rename: "good s \<Longrightarrow> good (snd (auth_change_username lib now u n s))"
  unfolding auth_change_username_def Let_def
  by (auto simp: good_fold elim!: good_db split: sum.split prod.split option.split)

lemma good_blob:
  "good s \<Longrightarrow> good (snd (social_blob_get_handler lib now h s))"
  "good s \<Longrightarrow> good (snd (social_blob_put_handler lib b64 now h v b s))"
  unfolding social_blob_get_handler_def social_blob_put_handler_def
  by (auto intro!: good_as_user elim!: good_db split: sum.split prod.split option.split)

lemma good_stored: "store_uploaded_bytes uuid ext bs mime s = (x, s') \<Longrightarrow> good s \<Longrightarrow> good s'"
  using store_inv_same [OF store_uploaded_store]
  by (auto simp: good_def store_uploaded_bytes_def Let_def split: if_splits)

lemma good_profile_update: "good (broadcast_profile_update p ps s) = good s"
  unfolding broadcast_profile_update_def by (rule good_fold) (simp add: good_fold)

text \<open>Case rules, for handlers too big to split at once.\<close>

lemma good_cases:
  "(c \<Longrightarrow> good (snd a)) \<Longrightarrow> (\<not> c \<Longrightarrow> good (snd b)) \<Longrightarrow> good (snd (if c then a else b))"
  "(x = None \<Longrightarrow> good (snd n)) \<Longrightarrow> (\<And>y. x = Some y \<Longrightarrow> good (snd (f y))) \<Longrightarrow> good (snd (case x of None \<Rightarrow> n | Some y \<Rightarrow> f y))"
  "(\<And>e. r = Inl e \<Longrightarrow> good (snd (g e))) \<Longrightarrow> (\<And>v. r = Inr v \<Longrightarrow> good (snd (k v))) \<Longrightarrow> good (snd (case r of Inl e \<Rightarrow> g e | Inr v \<Rightarrow> k v))"
  "(\<And>u v. p = (u, v) \<Longrightarrow> good (snd (q u v))) \<Longrightarrow> good (snd (case p of (u, v) \<Rightarrow> q u v))"
  "(z = Panic \<Longrightarrow> good (snd l)) \<Longrightarrow> (z = Diverge \<Longrightarrow> good (snd m)) \<Longrightarrow> (\<And>w. z = Ret w \<Longrightarrow> good (snd (h w)))
     \<Longrightarrow> good (snd (case z of Panic \<Rightarrow> l | Diverge \<Rightarrow> m | Ret w \<Rightarrow> h w))"
  by (simp_all split: option.split sum.split prod.split outcome.split)

lemma good_image_stored: "store_uploaded_bytes uuid ext bs mime s = (x, t) \<Longrightarrow> good s
    \<Longrightarrow> good (remove_image i (adjust_user u (\<lambda>p. p\<lparr>ps_profile := f (ps_profile p)\<rparr>) t))"
  using good_stored by simp

lemma good_profile_image: "good s \<Longrightarrow> good (snd (upload_profile_image uuid now u fds s))"
  unfolding upload_profile_image_def Let_def
  by (intro good_cases)
    (simp_all add: good_profile_update, (elim good_stored good_db good_image_stored; simp)+)

lemma good_set_icon: "set_room_icon rid icon s = (r, s') \<Longrightarrow> good s \<Longrightarrow> good s'"
  using store_inv_set_icon [of rid icon s] sync_players(3) [of rid icon s] by (auto simp: good_def)

lemma good_sync: "sync_room_record rid s = (r, s') \<Longrightarrow> good s \<Longrightarrow> good s'"
  using store_inv_sync [of s rid] sync_players(1) [of rid s] by (auto simp: good_def)

lemma good_room_icon: "good s \<Longrightarrow> good (snd (upload_room_icon_file uuid u rid fds s))"
  unfolding upload_room_icon_file_def Let_def
  by (intro good_cases) (simp_all, (elim good_sync good_set_icon good_stored; simp split: option.split)+)

lemma good_upload_limit:
  "(\<And>u t. good t \<Longrightarrow> good (snd (act u t))) \<Longrightarrow> good s \<Longrightarrow> good (snd (limited_upload lib now h k m act s))"
  by (auto simp: limited_upload_def dest!: good_hit_eq split: sum.split prod.split)

end
