(* ===== verification/System_Inv.thy ===== *)
theory System_Inv
  imports Web_Inv
begin

text \<open>
  The invariants of the whole process over every run (\<open>system_run\<close>), the guard in front of the administration, and
  how an account is shut out.
\<close>

section \<open>The whole process\<close>

definition sound :: "'dk phantom_state \<Rightarrow> bool" where
  "sound s \<longleftrightarrow> good (ph_app s) \<and> drop_ok (ph_drop s)"

lemma sound_simps [simp]:
  "sound (s\<lparr>ph_gates := g\<rparr>) = sound s" "sound (s\<lparr>ph_passes := p\<rparr>) = sound s"
  "sound s \<Longrightarrow> good app \<Longrightarrow> sound (s\<lparr>ph_app := app\<rparr>)" "sound s \<Longrightarrow> good (ph_app s)"
  by (simp_all add: sound_def)

lemma sound_on_app: "good (snd (act (ph_app s))) \<Longrightarrow> sound s \<Longrightarrow> sound (snd (on_app act s))"
  by (auto simp: on_app_def split: prod.split)

lemma sound_rate_gate: "(\<And>t. sound t \<Longrightarrow> sound (snd (act t))) \<Longrightarrow> sound s \<Longrightarrow> sound (snd (rate_gate now k l w m act s))"
  by (auto simp: rate_gate_def Let_def dest!: good_hit_eq split: prod.split)

lemma sound_gated: "(\<And>t. sound t \<Longrightarrow> sound (snd (act t))) \<Longrightarrow> sound s \<Longrightarrow> sound (snd (gated lib now a k b n g act s))"
  by (auto simp: gated_def split: prod.split outcome.split sum.split)

lemma sound_login: "sound s \<Longrightarrow> sound (snd (auth_login_handler lib dr now n p g s))"
proof -
  assume sound: "sound s"
  have "good (snd (case auth_login lib dr now n p app of
          (Inr res, app) \<Rightarrow> (Inr res :: json api_result, app\<lparr>limits := AList.delete k (limits app)\<rparr>)
        | (Inl e, app) \<Rightarrow> (Inl e, snd (rate_hit now k 100 30000 app))))" if "good app" for app k
    using good_accounts_api(5) [OF that, of lib dr now n p] by (auto split: prod.split sum.split)
  with sound show ?thesis
    by (auto simp: auth_login_handler_def Let_def intro!: sound_gated sound_on_app)
qed

lemma good_answer_ok: "good (snd r) \<Longrightarrow> good (snd (answer_ok r))"
  by (auto simp: answer_ok_def split: prod.split sum.split)

lemma sound_web: "sound s \<Longrightarrow> sound (snd (web_step lib codec started now req s))"
proof (cases req)
  case (Profile_Image uuid h fds)
  assume "sound s"
  then have "good (snd (profile_image_upload_handler lib uuid now h fds (ph_app s)))"
    unfolding profile_image_upload_handler_def by (auto intro: good_upload_limit good_profile_image)
  with \<open>sound s\<close> show ?thesis by (auto simp: web_step_def Profile_Image split: prod.split)
next
  case (Room_Icon uuid h rid fds)
  assume "sound s"
  then have "good (snd (room_icon_upload_handler lib uuid now h rid fds (ph_app s)))"
    unfolding room_icon_upload_handler_def by (auto intro: good_upload_limit good_room_icon)
  with \<open>sound s\<close> show ?thesis by (auto simp: web_step_def Room_Icon split: prod.split)
next
  case (Blob_Put h v b)
  assume "sound s"
  then show ?thesis
    using good_blob(2) [of "ph_app s" lib "wc_b64 codec" now h v b]
    by (auto simp: web_step_def Blob_Put on_app_def split: prod.split)
qed (auto simp: web_step_def good_admin_api auth_me_handler_def auth_logout_handler_def auth_delete_handler_def
    auth_username_handler_def good_blob sound_login cap_challenge_handler_def cap_redeem_handler_def
    auth_challenge_handler_def auth_register_handler_def auth_recover_handler_def Let_def
    intro!: sound_on_app sound_rate_gate sound_gated good_token good_as_user good_limited good_rename
    split: prod.split sum.split intro: good_accounts_api intro!: good_answer_ok)

lemma deposit_books: "phantom_deposit lib now env g s = (r, s') \<Longrightarrow> good (ph_app s) \<Longrightarrow> good (ph_app s')"
  by (auto simp: phantom_deposit_def open_gate_def Let_def dest!: good_hit_eq
      split: prod.splits sum.splits option.splits outcome.splits if_splits gate_mode.splits bool.splits)

lemma sound_mail: "sound s \<Longrightarrow> sound (snd (snd (phantom_step lib now ev s)))"
proof -
  assume sound: "sound s"
  obtain a d t where step: "phantom_step lib now ev s = (a, d, t)" by (cases "phantom_step lib now ev s")
  have "good (ph_app t)"
    using step sound
    by (auto simp: phantom_step_def phantom_poll_def Let_def sound_def dest: deposit_books dest!: good_hit_eq
        split: phantom_event.splits prod.splits sum.splits if_splits)
  with step_ok [OF _ step] sound step show ?thesis by (simp add: sound_def)
qed

lemma good_socket: "good (sv_app sv) \<Longrightarrow> good (sv_app (server_step lib now ev sv))"
  using store_inv_step [of sv lib now ev] table_moves_ok [OF moves_server_step [where strict = False]]
  by (simp add: good_def)

lemma sound_step: "sound (sy_web y) \<Longrightarrow> sound (sy_web (system_step lib now ev y))"
  using good_socket [of "\<lparr>sv_app = ph_app (sy_web y), sv_open = sy_open y\<rparr>"]
  by (cases ev) (simp_all add: system_step_def sound_web sound_mail Let_def)

lemma sound_run: "sound (sy_web y) \<Longrightarrow> sound (sy_web (system_run lib evs y))"
  unfolding system_run_def
  by (rule fold_invariant [where Q = "\<lambda>_. True" and P = "\<lambda>y. sound (sy_web y)"]) (auto intro: sound_step)

text \<open>C2: whatever sockets, HTTP requests and mailbox calls do, in any order and interleaving, with failures,
  evictions, administration and late previews in between: community rooms keep one owner and bounded lists, the message
  store stays bounded with nothing left of deleted messages, a poll counts a voter once, accounts keep unique
  ids and names, the session table keeps its bounds, and the dead drop keeps its budgets.\<close>

theorem system_invariant:
  assumes "rooms_inv (ph_app (sy_web y))" "chat_inv (ph_app (sy_web y))" "polls_inv (ph_app (sy_web y))"
    and "acct_inv (accounts (ph_app (sy_web y)))" "table_ok (players (ph_app (sy_web y)))" "drop_ok (ph_drop (sy_web y))"
  shows "rooms_inv (ph_app (sy_web (system_run lib evs y))) \<and> chat_inv (ph_app (sy_web (system_run lib evs y)))
    \<and> polls_inv (ph_app (sy_web (system_run lib evs y))) \<and> acct_inv (accounts (ph_app (sy_web (system_run lib evs y))))
    \<and> table_ok (players (ph_app (sy_web (system_run lib evs y)))) \<and> drop_ok (ph_drop (sy_web (system_run lib evs y)))"
proof -
  have "sound (sy_web y)" using assms by (simp only: sound_def good_def store_inv_def)
  from sound_run [OF this, of lib evs] show ?thesis by (simp only: sound_def good_def store_inv_def)
qed

section \<open>Administration is guarded\<close>

definition admin_session :: "'dk web_lib \<Rightarrow> nat \<Rightarrow> headers \<Rightarrow> app_state \<Rightarrow> bool" where
  "admin_session lib now h s \<longleftrightarrow> (\<exists>token r. bearer_token h = Some token \<and> r \<in> set (sessions (accounts s))
     \<and> ss_token_hash r = tok_hash (wl_secrets lib) token \<and> now < ss_expires_at r \<and> ss_user r \<in> set (admin_ids (accounts s)))"

definition refused :: "app_state \<Rightarrow> served \<Rightarrow> bool" where
  "refused s r \<longleftrightarrow> (\<exists>e l. r = (Inl e, s\<lparr>limits := l\<rparr>))"

lemma authenticated_admin: "authenticated_user lib now h s = Inr u \<Longrightarrow> pu_admin u \<Longrightarrow> admin_session lib now h s"
  by (auto simp: authenticated_user_def admin_session_def to_public_user_def is_admin_def list_ex_iff split: option.splits sum.splits
      dest!: authenticate_sound)

lemma refused_as_user: "(\<And>u. \<not> pu_admin u \<Longrightarrow> refused s (act u s)) \<Longrightarrow> \<not> admin_session lib now h s \<Longrightarrow> refused s (as_user lib now h act s)"
  by (auto simp: as_user_def refused_def [of s "(_, s)"] intro!: exI [of _ "limits s"] dest: authenticated_admin split: sum.split)

lemma refused_limited: "(\<And>l. refused s (act (s\<lparr>limits := l\<rparr>))) \<Longrightarrow> refused s (limited now k n w m act s)"
  by (auto simp: limited_def rate_hit_def refused_def [of s "(Inl _, _)"] split: prod.split)

lemma refused_only: "\<not> pu_admin a \<Longrightarrow> refused s (admin_only a act (s\<lparr>limits := l\<rparr>))"
  by (auto simp: admin_only_def refused_def)

text \<open>C3: an administration request does nothing without an administrator: unless the bearer token belongs to a
  live session of an account on the configured list, every such request is answered with an error and, the counter
  of a rate limit apart, leaves the whole state as it was.\<close>

theorem admin_requests_guarded:
  assumes "\<not> admin_session lib now h s"
  shows "refused s (admin_api lib started now h req s)"
  using assms
  unfolding admin_api_def admin_overview_handler_def admin_users_list_handler_def admin_users_search_handler_def
    admin_features_handler_def admin_default_room_handler_def admin_user_disabled_handler_def admin_user_banned_handler_def
    admin_user_delete_handler_def admin_user_badges_handler_def admin_users_purge_handler_def admin_rate_limit_def
  by (cases req)
    (auto intro!: refused_as_user refused_limited refused_only
      simp: admin_overview_def admin_search_users_def admin_list_users_def admin_set_feature_def admin_set_default_room_def
        admin_clear_default_room_def admin_set_user_disabled_def admin_set_user_banned_def admin_delete_user_account_def
        admin_set_user_badges_def admin_purge_accounts_def refused_def [of _ "(Inl _, _)"] split: sum.split)

section \<open>Shutting an account out\<close>

lemma clear_accounts [simp]: "accounts (snd (delete_user_messages_in_room_and_broadcast now g n s)) = accounts s"
  by (auto simp: delete_user_messages_in_room_and_broadcast_def Let_def split: option.split)

lemma depart_accounts [simp]: "accounts (fold (depart_room now p) gs s) = accounts s"
proof -
  have "accounts (depart_room now p g s) = accounts s" for g s
    by (simp add: depart_room_def Let_def sync_rest)
  then show ?thesis by (induction gs arbitrary: s) simp_all
qed

lemma peer_event_accounts [simp]: "accounts (broadcast_sync_peer_event u e c pl x s) = accounts s"
  using store_peer_event [of u e c pl x s] by (simp add: store_def)

lemma disconnect_rest:
  "players (disconnect_player now sid s) = AList.delete sid (players s)" "accounts (disconnect_player now sid s) = accounts s"
  by (auto simp: disconnect_player_def Let_def broadcast_sync_peer_leave_def delete_notin_dom map_of_eq_None_iff split: option.split)

lemma close_rest:
  "players (close_with now j u s) = filter (\<lambda>x. fst x \<notin> ps_id ` {p \<in> set (vals (players s)). ps_user_id p = u}) (players s)
   \<and> accounts (close_with now j u s) = accounts s"
proof -
  have "players (fold (\<lambda>i s. disconnect_player now i (try_send i WClose (try_send i (WText j) s))) is s)
        = filter (\<lambda>x. fst x \<notin> set is) (players s)
      \<and> accounts (fold (\<lambda>i s. disconnect_player now i (try_send i WClose (try_send i (WText j) s))) is s) = accounts s" for "is"
    by (induction "is" arbitrary: s)
      (simp_all add: disconnect_rest AList.delete_eq conj_commute split_beta, auto intro: filter_cong)
  then show ?thesis by (simp add: close_with_def)
qed

lemma close_others:
  assumes ok: "table_ok (players s)"
  shows "vals (players (close_with now j u s)) = filter (\<lambda>p. ps_user_id p \<noteq> u) (vals (players s))"
proof -
  have own: "ps_id q = i" "map_of (players s) i = Some q" if "(i, q) \<in> set (players s)" for i q
    using ok that by (auto simp: table_ok_def session_ok_def dest: distinct_map_of)
  have gone: "i \<in> ps_id ` {p \<in> set (vals (players s)). ps_user_id p = u} \<longleftrightarrow> ps_user_id q = u" if iq: "(i, q) \<in> set (players s)" for i q
  proof
    assume "i \<in> ps_id ` {p \<in> set (vals (players s)). ps_user_id p = u}"
    then obtain k p where p: "(k, p) \<in> set (players s)" "ps_user_id p = u" "ps_id p = i" by auto
    from own [OF this(1)] own [OF iq] p show "ps_user_id q = u" by auto
  next
    assume "ps_user_id q = u"
    moreover have "q \<in> set (vals (players s))" using iq by force
    ultimately show "i \<in> ps_id ` {p \<in> set (vals (players s)). ps_user_id p = u}" using own(1) [OF iq] by blast
  qed
  have "players (close_with now j u s) = filter (\<lambda>x. ps_user_id (snd x) \<noteq> u) (players s)"
    unfolding close_rest [THEN conjunct1]
  proof (intro filter_cong refl)
    fix x assume "x \<in> set (players s)"
    with gone [of "fst x" "snd x"]
    show "(fst x \<notin> ps_id ` {p \<in> set (vals (players s)). ps_user_id p = u}) = (ps_user_id (snd x) \<noteq> u)" by simp
  qed
  then show ?thesis by (simp add: filter_map comp_def)
qed

definition shuts_out :: "admin_request \<Rightarrow> string option" where
  "shuts_out req = (case req of
     Set_Banned user_id True \<Rightarrow> Some user_id | Set_Disabled user_id True \<Rightarrow> Some user_id
   | Delete_User user_id \<Rightarrow> Some user_id | _ \<Rightarrow> None)"

lemma as_user_ok: "as_user lib now h act s = (Inr j, s') \<Longrightarrow> \<exists>u. act u s = (Inr j, s')"
  by (auto simp: as_user_def split: sum.splits)

lemma limited_ok: "limited now k n w m act s = (Inr j, s') \<Longrightarrow> \<exists>l. act (s\<lparr>limits := l\<rparr>) = (Inr j, s')"
  by (auto simp: limited_def rate_hit_def split: prod.splits if_splits)

lemma only_ok: "admin_only a act s = (Inr j, s') \<Longrightarrow> act s = (Inr j, s')"
  by (auto simp: admin_only_def split: if_splits)

text \<open>The closed state: the sockets of the account are gone, its tokens are gone, nothing else has changed.\<close>

definition shut :: "string \<Rightarrow> app_state \<Rightarrow> app_state \<Rightarrow> bool" where
  "shut u s s' \<longleftrightarrow> vals (players s') = filter (\<lambda>p. ps_user_id p \<noteq> u) (vals (players s))
     \<and> sessions (accounts s') = filter (\<lambda>r. ss_user r \<noteq> u) (sessions (accounts s))"

lemma shut_limits [simp]: "shut u (s\<lparr>limits := l\<rparr>) = shut u s" "shut u s (invalidate_public_profile_cache a b t) = shut u s t"
  by (simp_all add: shut_def fun_eq_iff invalidate_public_profile_cache_def)

lemma shut_lock_out:
  assumes "table_ok (players s)" "db_ok db" "sessions db = sessions (accounts s)"
  shows "shut u s (lock_out now u r (s\<lparr>accounts := db\<rparr>))"
  using assms
  by (simp add: shut_def lock_out_def evict_user_def close_others invalidate_eq close_rest [THEN conjunct2])

lemma shut_delete:
  assumes "table_ok (players s)" "delete_user_account u (accounts s) = (Inr x, db)"
  shows "shut u s (disconnect_user_sessions now u r (s\<lparr>accounts := db\<rparr>))"
  using assms
  by (auto simp: shut_def disconnect_user_sessions_def close_others close_rest [THEN conjunct2] delete_user_account_def split: sum.splits option.splits)

lemma confirmed_ok: "answer_user (confirmed_user t s) = (Inr j, s') \<Longrightarrow> \<exists>a b. s' = invalidate_public_profile_cache a b s"
  by (auto simp: answer_user_def confirmed_user_def split: sum.splits option.splits)

lemma flag_sessions:
  "set_user_banned now u b db = (Inr x, db') \<Longrightarrow> db_ok db' \<and> sessions db' = sessions db"
  "set_user_disabled now u b db = (Inr x, db') \<Longrightarrow> db_ok db' \<and> sessions db' = sessions db"
  by (auto simp: set_user_banned_def set_user_disabled_def split: if_splits)

lemma shut_admin:
  assumes "table_ok (players s)"
  shows "admin_set_user_banned now a u True s = (Inr j, s') \<Longrightarrow> shut u s s'"
    and "admin_set_user_disabled now a u True s = (Inr j, s') \<Longrightarrow> shut u s s'"
    and "admin_delete_user_account now a u s = (Inr j, s') \<Longrightarrow> shut u s s'"
  unfolding admin_set_user_banned_def admin_set_user_disabled_def admin_delete_user_account_def Let_def
  using assms
  by (auto dest!: only_ok confirmed_ok flag_sessions simp: shut_lock_out shut_delete split: if_splits sum.splits prod.splits)

text \<open>C4: an administrator's ban, disabling or deletion of an account takes effect at once: exactly the
  connected sessions of that account are gone from the table, exactly its tokens are gone from the database (so
  lifting the ban revives none), and no token authenticates it.\<close>

theorem shut_out_at_once:
  assumes "table_ok (players s)" "shuts_out req = Some u"
    and "admin_api lib started now h req s = (Inr j, s')"
  shows "vals (players s') = filter (\<lambda>p. ps_user_id p \<noteq> u) (vals (players s))
    \<and> sessions (accounts s') = filter (\<lambda>r. ss_user r \<noteq> u) (sessions (accounts s))
    \<and> authenticate_token k now' t (accounts s') \<notin> {Inr (Some q) | q. pu_id q = u}"
proof -
  have "shut u s s'"
    using assms
    by (auto simp: shuts_out_def admin_api_def admin_user_banned_handler_def admin_user_disabled_handler_def
        admin_user_delete_handler_def admin_rate_limit_def dest!: as_user_ok limited_ok
        split: admin_request.splits bool.splits) (fastforce dest: shut_admin [rotated])+
  then show ?thesis by (auto simp: shut_def dest!: authenticate_sound)
qed

section \<open>Witnesses\<close>

definition demo_web :: "unit web_lib" where
  "demo_web = \<lparr>wl_gates = demo_lib, wl_secrets = demo_secrets, wl_blocklist = []\<rparr>"

definition demo_bearer :: "string \<Rightarrow> headers" where
  "demo_bearer t = (\<lambda>k. if k = ''authorization'' then Some (''Bearer '' @ t) else None)"

definition demo_office :: app_state where
  "demo_office = (demo_state [(''s2'', demo_session ''s2'' ''8'' [])] [])\<lparr>accounts := demo_accounts\<lparr>admin_ids := [''7''],
     users := [demo_row ''alice'', (demo_row ''bob'')\<lparr>us_id := ''8''\<rparr>],
     sessions := sessions demo_accounts @ [\<lparr>ss_token_hash = ''b'', ss_user = ''8'', ss_created_at = 5, ss_expires_at = 5 + SESSION_TTL_MS\<rparr>]\<rparr>\<rparr>"

lemma demo_bearers: "bearer_token (demo_bearer ''b'') = Some ''b''" "bearer_token (demo_bearer ''t'') = Some ''t''"
  by code_simp+

lemma demo_office_ok: "store_inv demo_office" "table_ok (players demo_office)"
proof -
  have "user_ok (demo_row ''alice'')" using demo_accounts_inv by (simp add: acct_inv_def demo_accounts_def)
  moreover have "normalize_username ''bob'' = ''bob''" by code_simp
  ultimately have "acct_inv (accounts demo_office)"
    by (simp add: acct_inv_def demo_office_def demo_accounts_def empty_accounts_def demo_row_def user_ok_def)
  then show "store_inv demo_office" by (simp add: store_inv_def rooms_inv_def chat_inv_def polls_inv_def) (simp add: demo_office_def demo_defs)
  show "table_ok (players demo_office)"
    by (simp add: demo_office_def demo_defs table_ok_def session_ok_def
        MAX_ROOMS_PER_PLAYER_def MAX_MUTED_USERS_PER_PLAYER_def MAX_CONCURRENT_SESSIONS_def)
qed

theorem admin_requests_guarded_witness:
  "refused demo_office (admin_api demo_web 0 9 (demo_bearer ''b'') (Set_Banned ''7'' True) demo_office)"
  by (rule admin_requests_guarded)
    (auto simp: admin_session_def demo_bearers demo_office_def demo_web_def demo_secrets_def demo_accounts_def)

lemma demo_admin: "\<exists>u. authenticated_user demo_web 9 (demo_bearer ''t'') demo_office = Inr u \<and> pu_id u = ''7'' \<and> pu_admin u"
  by (simp add: authenticated_user_def demo_bearers demo_office_def demo_web_def demo_secrets_def demo_accounts_def
      authenticate_token_def empty_accounts_def user_by_id_def demo_row_def to_public_user_def is_admin_def SESSION_TTL_MS_def)

lemma demo_removal: "\<exists>j. fst (admin_api demo_web 0 9 (demo_bearer ''t'') (Delete_User ''8'') demo_office) = Inr j"
proof -
  obtain u where u: "authenticated_user demo_web 9 (demo_bearer ''t'') demo_office = Inr u" "pu_id u = ''7''" "pu_admin u"
    using demo_admin by blast
  obtain l where "rate_hit 9 ''admin:users:delete:user:7'' 10 60000 demo_office = (False, demo_office\<lparr>limits := l\<rparr>)"
    by (simp add: rate_hit_def rate_limit_hit_def demo_office_def demo_defs Let_def sat_add_u32_def)
  moreover obtain db where "delete_user_account ''8'' (accounts demo_office) = (Inr (), db)"
    by (simp add: delete_user_account_def user_by_id_def demo_office_def demo_accounts_def empty_accounts_def demo_row_def)
  ultimately show ?thesis
    using u by (simp add: admin_api_def admin_user_delete_handler_def as_user_def admin_rate_limit_def limited_def
        admin_delete_user_account_def admin_only_def)
qed

theorem shut_out_at_once_witness:
  "vals (players (snd (admin_api demo_web 0 9 (demo_bearer ''t'') (Delete_User ''8'') demo_office))) = []
   \<and> authenticate_token (\<lambda>x. x) 10 ''b'' (accounts (snd (admin_api demo_web 0 9 (demo_bearer ''t'') (Delete_User ''8'') demo_office)))
       \<notin> {Inr (Some q) | q. pu_id q = ''8''}"
proof -
  obtain j where "fst (admin_api demo_web 0 9 (demo_bearer ''t'') (Delete_User ''8'') demo_office) = Inr j"
    using demo_removal by blast
  then have *: "admin_api demo_web 0 9 (demo_bearer ''t'') (Delete_User ''8'') demo_office
      = (Inr j, snd (admin_api demo_web 0 9 (demo_bearer ''t'') (Delete_User ''8'') demo_office))"
    by (metis prod.collapse)
  have "filter (\<lambda>p. ps_user_id p \<noteq> ''8'') (vals (players demo_office)) = []"
    by (simp add: demo_office_def demo_defs)
  with shut_out_at_once [OF demo_office_ok(2) _ *, of "''8''" "\<lambda>x. x" 10 "''b''"] show ?thesis
    by (simp add: shuts_out_def)
qed

definition demo_system_lib :: "unit system_lib" where
  "demo_system_lib = \<lparr>sys_server = demo_server_lib, sys_web = demo_web,
     sys_codec = \<lparr>wc_cap = (\<lambda>_. JNull), wc_challenge = (\<lambda>_. JNull), wc_b64 = (\<lambda>_. None)\<rparr>,
     sys_phantom = demo_phantom_lib, sys_started = 0\<rparr>"

definition demo_system :: "unit system" where
  "demo_system = \<lparr>sy_web = demo_phantom demo_office, sy_open = [(''s2'', 0)]\<rparr>"

definition demo_day :: "(nat \<times> unit system_event) list" where
  "demo_day = [(1, On_Socket (Connect_Socket ''s3'')), (9, On_Web (Admin (demo_bearer ''t'') (Set_Banned ''8'' True))),
     (10, On_Mail Sweep), (11, On_Web (Log_In (demo_draws ''u'') ''bob'' ''password'' \<lparr>ap_cap_token = Some ''x'',
        ap_vdf_challenge = None, ap_vdf_proof = None, ap_quota_token = None, ap_nullifier = None, ap_pqc_ciphertext = None\<rparr>))]"

theorem system_invariant_witness:
  "acct_inv (accounts (ph_app (sy_web (system_run demo_system_lib demo_day demo_system))))
    \<and> table_ok (players (ph_app (sy_web (system_run demo_system_lib demo_day demo_system))))"
proof -
  have *: "ph_app (sy_web demo_system) = demo_office" "drop_ok (ph_drop (sy_web demo_system))"
    using demo_drop [of demo_office] by (simp_all add: demo_system_def, simp add: demo_phantom_def)
  have "rooms_inv demo_office" "chat_inv demo_office" "polls_inv demo_office" "acct_inv (accounts demo_office)"
    using demo_office_ok(1) by (simp_all only: store_inv_def)
  then show ?thesis
    using system_invariant [of demo_system demo_system_lib demo_day] demo_office_ok(2) by (simp add: *)
qed

end
