(* ===== verification/Net_Address.thy ===== *)
theory Net_Address
  imports Models
begin

text \<open>
  The addresses a fetch on behalf of a user may reach (\<open>linkpreview.rs\<close>): an IPv4 address is a 32-bit and an IPv6
  address a 128-bit word, with the tests of \<open>std::net\<close> the code calls.  The hand-written filter is compared
  with a table of network prefixes.
\<close>

type_synonym ipv4 = "32 word"
type_synonym ipv6 = "128 word"

datatype ip_addr = V4 ipv4 | V6 ipv6

definition octet :: "nat \<Rightarrow> ipv4 \<Rightarrow> byte" where
  "octet i ip = ucast (drop_bit (8 * (3 - i)) ip)"

definition segment :: "nat \<Rightarrow> ipv6 \<Rightarrow> 16 word" where
  "segment i ip = ucast (drop_bit (16 * (7 - i)) ip)"

definition v4_new :: "byte \<Rightarrow> byte \<Rightarrow> byte \<Rightarrow> byte \<Rightarrow> ipv4" where
  "v4_new a b c d = push_bit 24 (ucast a) OR push_bit 16 (ucast b) OR push_bit 8 (ucast c) OR ucast d"

definition v4_documentation :: "ipv4 \<Rightarrow> bool" where
  "v4_documentation ip \<longleftrightarrow> octet 0 ip = 192 \<and> octet 1 ip = 0 \<and> octet 2 ip = 2
     \<or> octet 0 ip = 198 \<and> octet 1 ip = 51 \<and> octet 2 ip = 100 \<or> octet 0 ip = 203 \<and> octet 1 ip = 0 \<and> octet 2 ip = 113"

definition v4_link_local :: "ipv4 \<Rightarrow> bool" where
  "v4_link_local ip \<longleftrightarrow> octet 0 ip = 169 \<and> octet 1 ip = 254"

definition v4_multicast :: "ipv4 \<Rightarrow> bool" where
  "v4_multicast ip \<longleftrightarrow> octet 0 ip \<ge> 224 \<and> octet 0 ip \<le> 239"

definition is_public_ipv4 :: "ipv4 \<Rightarrow> bool" where
  "is_public_ipv4 ip =
    (if ip = 0 \<or> octet 0 ip = 127 \<or> v4_link_local ip \<or> ip = 0xffffffff \<or> v4_documentation ip \<or> v4_multicast ip then False
     else if octet 0 ip = 0 then False
     else if octet 0 ip = 10 then False
     else if octet 0 ip = 172 \<and> octet 1 ip \<ge> 16 \<and> octet 1 ip \<le> 31 then False
     else if octet 0 ip = 192 \<and> octet 1 ip = 168 then False
     else if octet 0 ip = 100 \<and> octet 1 ip \<ge> 64 \<and> octet 1 ip \<le> 127 then False
     else if octet 0 ip = 198 \<and> (octet 1 ip = 18 \<or> octet 1 ip = 19) then False
     else if octet 0 ip = 169 \<and> octet 1 ip = 254 then False
     else True)"

definition v6_multicast :: "ipv6 \<Rightarrow> bool" where
  "v6_multicast ip \<longleftrightarrow> segment 0 ip AND 0xff00 = 0xff00"

definition is_public_ipv6 :: "ipv6 \<Rightarrow> bool" where
  "is_public_ipv6 ip =
    (if ip = 0 \<or> ip = 1 \<or> v6_multicast ip then False
     else if segment 0 ip AND 0xfe00 = 0xfc00 then False
     else if segment 0 ip AND 0xffc0 = 0xfe80 then False
     else if segment 0 ip AND 0xffc0 = 0xfec0 then False
     else if segment 0 ip = 0 \<and> segment 1 ip = 0 \<and> segment 2 ip = 0 \<and> segment 3 ip = 0 \<and> segment 4 ip = 0 \<and> segment 5 ip = 0xffff
     then is_public_ipv4 (v4_new (ucast (drop_bit 8 (segment 6 ip))) (ucast (segment 6 ip AND 0xff))
        (ucast (drop_bit 8 (segment 7 ip))) (ucast (segment 7 ip AND 0xff)))
     else True)"

definition is_public_ip :: "ip_addr \<Rightarrow> bool" where
  "is_public_ip ip = (case ip of V4 a \<Rightarrow> is_public_ipv4 a | V6 a \<Rightarrow> is_public_ipv6 a)"

section \<open>The reference: network prefixes\<close>

definition in_net4 :: "ipv4 \<Rightarrow> nat \<Rightarrow> ipv4 \<Rightarrow> bool" where
  "in_net4 net len ip \<longleftrightarrow> drop_bit (32 - len) ip = drop_bit (32 - len) net"

definition in_net6 :: "ipv6 \<Rightarrow> nat \<Rightarrow> ipv6 \<Rightarrow> bool" where
  "in_net6 net len ip \<longleftrightarrow> drop_bit (128 - len) ip = drop_bit (128 - len) net"

definition reserved4 :: "(ipv4 \<times> nat) list" where
  "reserved4 = [(v4_new 0 0 0 0, 8), (v4_new 10 0 0 0, 8), (v4_new 100 64 0 0, 10), (v4_new 127 0 0 0, 8),
     (v4_new 169 254 0 0, 16), (v4_new 172 16 0 0, 12), (v4_new 192 0 2 0, 24), (v4_new 192 168 0 0, 16),
     (v4_new 198 18 0 0, 15), (v4_new 198 51 100 0, 24), (v4_new 203 0 113 0, 24), (v4_new 224 0 0 0, 4),
     (v4_new 255 255 255 255, 32)]"

definition reserved6 :: "(ipv6 \<times> nat) list" where
  "reserved6 = [(0, 128), (1, 128), (push_bit 112 0xfc00, 7), (push_bit 112 0xfe80, 10), (push_bit 112 0xfec0, 10),
     (push_bit 112 0xff00, 8)]"

definition reserved :: "ip_addr \<Rightarrow> bool" where
  "reserved ip = (case ip of
     V4 a \<Rightarrow> list_ex (\<lambda>(net, len). in_net4 net len a) reserved4
   | V6 a \<Rightarrow> list_ex (\<lambda>(net, len). in_net6 net len a) reserved6
       \<or> in_net6 0xffff00000000 96 a \<and> list_ex (\<lambda>(net, len). in_net4 net len (ucast a)) reserved4)"

section \<open>The filter is the table\<close>

lemma unat_octet: "unat (octet i ip) = unat ip div 2 ^ (8 * (3 - i)) mod 256"
  unfolding octet_def unsigned_ucast_eq unat_drop_bit_eq by (simp add: drop_bit_eq_div take_bit_eq_mod)

lemma digits4:
  obtains a b c d where "unat ip = a * 16777216 + b * 65536 + c * 256 + d" "a < 256" "b < 256" "c < 256" "d < 256"
    "unat (octet 0 ip) = a" "unat (octet 1 ip) = b" "unat (octet 2 ip) = c" "unat (octet 3 ip) = d"
proof -
  let ?n = "unat ip"
  have n: "?n < 4294967296" using unsigned_less [of ip, where 'a = nat] by simp
  show ?thesis
  proof (rule that [of "?n div 16777216" "?n div 65536 mod 256" "?n div 256 mod 256" "?n mod 256"])
    show "?n = ?n div 16777216 * 16777216 + ?n div 65536 mod 256 * 65536 + ?n div 256 mod 256 * 256 + ?n mod 256"
    proof -
      have "?n = ?n div 256 * 256 + ?n mod 256" by (rule div_mult_mod_eq [symmetric])
      moreover have "?n div 256 = ?n div 65536 * 256 + ?n div 256 mod 256"
        using div_mult_mod_eq [of "?n div 256" 256] by (simp flip: div_mult2_eq)
      moreover have "?n div 65536 = ?n div 16777216 * 256 + ?n div 65536 mod 256"
        using div_mult_mod_eq [of "?n div 65536" 256] by (simp flip: div_mult2_eq)
      ultimately show ?thesis by linarith
    qed
    show "?n div 16777216 < 256" using n by simp
    then show "unat (octet 0 ip) = ?n div 16777216" by (simp add: unat_octet)
  qed (simp_all add: unat_octet)
qed


lemma div_range: "0 < d \<Longrightarrow> n div d = q \<longleftrightarrow> q * d \<le> n \<and> n < (q + 1) * d" for n d q :: nat
  using div_times_less_eq_dividend [of n d] dividend_less_div_times [of d n] by (auto intro!: div_nat_eqI simp: algebra_simps)

lemma net4_range:
  "in_net4 net len ip \<longleftrightarrow> unat net div 2 ^ (32 - len) * 2 ^ (32 - len) \<le> unat ip
     \<and> unat ip < (unat net div 2 ^ (32 - len) + 1) * 2 ^ (32 - len)"
  unfolding in_net4_def word_unat_eq_iff unat_drop_bit_eq unfolding drop_bit_eq_div by (rule div_range) simp

lemma byte_facts: "(x :: byte) = numeral k \<longleftrightarrow> unat x = unat (numeral k :: byte)" "(x :: byte) = 0 \<longleftrightarrow> unat x = 0"
  "numeral k \<le> (x :: byte) \<longleftrightarrow> unat (numeral k :: byte) \<le> unat x" "(x :: byte) \<le> numeral k \<longleftrightarrow> unat x \<le> unat (numeral k :: byte)"
  by (simp_all only: word_unat_eq_iff word_le_nat_alt unsigned_0)

lemma net_values:
  "unat (v4_new 0 0 0 0) = 0"
  "unat (v4_new 10 0 0 0) = 167772160"
  "unat (v4_new 100 64 0 0) = 1681915904"
  "unat (v4_new 127 0 0 0) = 2130706432"
  "unat (v4_new 169 254 0 0) = 2851995648"
  "unat (v4_new 172 16 0 0) = 2886729728"
  "unat (v4_new 192 0 2 0) = 3221225984"
  "unat (v4_new 192 168 0 0) = 3232235520"
  "unat (v4_new 198 18 0 0) = 3323068416"
  "unat (v4_new 198 51 100 0) = 3325256704"
  "unat (v4_new 203 0 113 0) = 3405803776"
  "unat (v4_new 224 0 0 0) = 3758096384"
  by (simp_all add: v4_new_def)

lemma ipv4_filter: "is_public_ipv4 ip \<longleftrightarrow> \<not> list_ex (\<lambda>(net, len). in_net4 net len ip) reserved4"
proof -
  obtain a b c d where n: "unat ip = a * 16777216 + b * 65536 + c * 256 + d"
    and less: "a < 256" "b < 256" "c < 256" "d < 256"
    and o: "unat (octet 0 ip) = a" "unat (octet 1 ip) = b" "unat (octet 2 ip) = c"
    by (rule digits4)
  have r1: "x * 16777216 \<le> unat ip \<and> unat ip < (y + 1) * 16777216 \<longleftrightarrow> x \<le> a \<and> a \<le> y" for x y :: nat
    using less n by (intro iffI; auto)
  have r2: "x * 16777216 + v * 65536 \<le> unat ip \<and> unat ip < x * 16777216 + (w + 1) * 65536 \<longleftrightarrow> a = x \<and> v \<le> b \<and> b \<le> w"
    if "w < 256" for x v w :: nat
  proof (intro iffI)
    assume *: "x * 16777216 + v * 65536 \<le> unat ip \<and> unat ip < x * 16777216 + (w + 1) * 65536"
    then have "a = x" using that less n by auto
    with * less n show "a = x \<and> v \<le> b \<and> b \<le> w" by auto
  qed (use that less n in auto)
  have r3: "x * 16777216 + v * 65536 + z * 256 \<le> unat ip \<and> unat ip < x * 16777216 + v * 65536 + (z + 1) * 256
      \<longleftrightarrow> a = x \<and> b = v \<and> c = z" if "v < 256" "z < 256" for x v z :: nat
  proof (intro iffI)
    assume *: "x * 16777216 + v * 65536 + z * 256 \<le> unat ip \<and> unat ip < x * 16777216 + v * 65536 + (z + 1) * 256"
    then have "a = x" using that less n by auto
    moreover have "b = v" using * \<open>a = x\<close> that less n by auto
    ultimately show "a = x \<and> b = v \<and> c = z" using * less n by auto
  qed (use that less n in auto)
  have e1: "x * 16777216 \<le> unat ip \<and> unat ip < (x + 1) * 16777216 \<longleftrightarrow> a = x" for x using r1 [of x x] by auto
  have e2: "x * 16777216 + v * 65536 \<le> unat ip \<and> unat ip < x * 16777216 + (v + 1) * 65536 \<longleftrightarrow> a = x \<and> b = v"
    if "v < 256" for x v using r2 [of v x v] that by auto
  note eval = net4_range net_values
  have n0: "in_net4 (v4_new 0 0 0 0) 8 ip \<longleftrightarrow> a = 0"
    using e1 [of 0] by (simp add: eval)
  have n10: "in_net4 (v4_new 10 0 0 0) 8 ip \<longleftrightarrow> a = 10"
    using e1 [of 10] by (simp add: eval)
  have n127: "in_net4 (v4_new 127 0 0 0) 8 ip \<longleftrightarrow> a = 127"
    using e1 [of 127] by (simp add: eval)
  have n224: "in_net4 (v4_new 224 0 0 0) 4 ip \<longleftrightarrow> 224 \<le> a \<and> a \<le> 239"
    using r1 [of 224 239] by (simp add: eval)
  have n100: "in_net4 (v4_new 100 64 0 0) 10 ip \<longleftrightarrow> a = 100 \<and> 64 \<le> b \<and> b \<le> 127"
    using r2 [of 127 100 64] by (simp add: eval)
  have n169: "in_net4 (v4_new 169 254 0 0) 16 ip \<longleftrightarrow> a = 169 \<and> b = 254"
    using e2 [of 254 169] by (simp add: eval)
  have n172: "in_net4 (v4_new 172 16 0 0) 12 ip \<longleftrightarrow> a = 172 \<and> 16 \<le> b \<and> b \<le> 31"
    using r2 [of 31 172 16] by (simp add: eval)
  have n192: "in_net4 (v4_new 192 168 0 0) 16 ip \<longleftrightarrow> a = 192 \<and> b = 168"
    using e2 [of 168 192] by (simp add: eval)
  have n198: "in_net4 (v4_new 198 18 0 0) 15 ip \<longleftrightarrow> a = 198 \<and> (b = 18 \<or> b = 19)"
  proof -
    have "18 \<le> b \<and> b \<le> 19 \<longleftrightarrow> b = 18 \<or> b = 19" by auto
    then show ?thesis using r2 [of 19 198 18] by (simp add: eval)
  qed
  have d192: "in_net4 (v4_new 192 0 2 0) 24 ip \<longleftrightarrow> a = 192 \<and> b = 0 \<and> c = 2"
    using r3 [of 0 2 192] by (simp add: eval)
  have d198: "in_net4 (v4_new 198 51 100 0) 24 ip \<longleftrightarrow> a = 198 \<and> b = 51 \<and> c = 100"
    using r3 [of 51 100 198] by (simp add: eval)
  have d203: "in_net4 (v4_new 203 0 113 0) 24 ip \<longleftrightarrow> a = 203 \<and> b = 0 \<and> c = 113"
    using r3 [of 0 113 203] by (simp add: eval)
  have whole: "in_net4 (v4_new 255 255 255 255) 32 ip \<longleftrightarrow> ip = 0xffffffff" "ip = 0 \<Longrightarrow> a = 0"
    using n by (simp_all add: in_net4_def v4_new_def)
  show ?thesis
    unfolding is_public_ipv4_def reserved4_def v4_link_local_def v4_documentation_def v4_multicast_def byte_facts o
    using whole(2) by (simp add: n0 n10 n127 n224 n100 n169 n172 n192 n198 d192 d198 d203 whole(1))
qed


lemma unat_segment: "unat (segment i ip) = unat ip div 2 ^ (16 * (7 - i)) mod 65536"
  unfolding segment_def unsigned_ucast_eq unat_drop_bit_eq by (simp add: drop_bit_eq_div take_bit_eq_mod)

lemma net6_div: "in_net6 net len ip \<longleftrightarrow> unat ip div 2 ^ (128 - len) = unat net div 2 ^ (128 - len)"
  unfolding in_net6_def word_unat_eq_iff unat_drop_bit_eq unfolding drop_bit_eq_div ..

lemma high_bits: "x AND NOT (mask n) = push_bit n (drop_bit n x)" for x :: "16 word"
  by (rule bit_eqI) (auto simp: bit_simps)

lemma high_kept: "drop_bit n (push_bit n (drop_bit n x)) = drop_bit n x" for x :: "16 word"
  by (rule bit_eqI) (auto simp: bit_simps dest: bit_imp_le_length)

lemma masked:
  assumes "n < 16" "m = NOT (mask n)" "y = push_bit n (drop_bit n y)"
  shows "(x :: 16 word) AND m = y \<longleftrightarrow> unat x div 2 ^ n = unat y div 2 ^ n"
proof -
  have "x AND m = y \<longleftrightarrow> push_bit n (drop_bit n x) = push_bit n (drop_bit n y)"
    using assms(2,3) by (simp add: high_bits)
  also have "\<dots> \<longleftrightarrow> drop_bit n x = drop_bit n y"
    by (metis high_kept)
  also have "\<dots> \<longleftrightarrow> unat x div 2 ^ n = unat y div 2 ^ n"
    unfolding word_unat_eq_iff unat_drop_bit_eq unfolding drop_bit_eq_div ..
  finally show ?thesis .
qed


lemma mask_values: "NOT (mask 8) = (0xff00 :: 16 word)" "NOT (mask 9) = (0xfe00 :: 16 word)" "NOT (mask 6) = (0xffc0 :: 16 word)"
  by (simp_all add: mask_eq_exp_minus_1)

lemma masks:
  "(x :: 16 word) AND 0xff00 = 0xff00 \<longleftrightarrow> unat x div 256 = 255" "x AND 0xfe00 = 0xfc00 \<longleftrightarrow> unat x div 512 = 126"
  "x AND 0xffc0 = 0xfe80 \<longleftrightarrow> unat x div 64 = 1018" "x AND 0xffc0 = 0xfec0 \<longleftrightarrow> unat x div 64 = 1019"
  using masked [of 8 "0xff00" "0xff00" x] masked [of 9 "0xfe00" "0xfc00" x] masked [of 6 "0xffc0" "0xfe80" x] masked [of 6 "0xffc0" "0xfec0" x]
  by (simp_all add: mask_values)

lemma digits6:
  obtains s0 s1 s2 s3 s4 s5 where "unat ip div 4294967296 = ((((s0 * 65536 + s1) * 65536 + s2) * 65536 + s3) * 65536 + s4) * 65536 + s5"
    "s0 < 65536" "s1 < 65536" "s2 < 65536" "s3 < 65536" "s4 < 65536" "s5 < 65536" "s0 = unat ip div 2 ^ 112"
    "unat (segment 0 ip) = s0" "unat (segment 1 ip) = s1" "unat (segment 2 ip) = s2" "unat (segment 3 ip) = s3"
    "unat (segment 4 ip) = s4" "unat (segment 5 ip) = s5"
proof -
  define n where "n = unat ip"
  have bound: "n < 2 ^ 128" unfolding n_def using unsigned_less [of ip, where 'a = nat] by simp
  have step: "n div d = n div (d * 65536) * 65536 + n div d mod 65536" for d
    using div_mult_mod_eq [of "n div d" 65536] by (simp add: div_mult2_eq)
  show ?thesis
  proof (rule that [of "n div 2 ^ 112" "n div 2 ^ 96 mod 65536" "n div 2 ^ 80 mod 65536" "n div 2 ^ 64 mod 65536"
        "n div 2 ^ 48 mod 65536" "n div 2 ^ 32 mod 65536"])
    have top: "n div 2 ^ 112 < 65536" using bound by (simp add: div_less_iff_less_mult)
    then show "n div 2 ^ 112 < 65536" "unat (segment 0 ip) = n div 2 ^ 112" by (simp_all add: unat_segment n_def)
    show "unat ip div 4294967296 = ((((n div 2 ^ 112 * 65536 + n div 2 ^ 96 mod 65536) * 65536 + n div 2 ^ 80 mod 65536) * 65536
        + n div 2 ^ 64 mod 65536) * 65536 + n div 2 ^ 48 mod 65536) * 65536 + n div 2 ^ 32 mod 65536"
      using step [of "2 ^ 96"] step [of "2 ^ 80"] step [of "2 ^ 64"] step [of "2 ^ 48"] step [of "2 ^ 32"] by (simp add: n_def)
  qed (simp_all add: unat_segment n_def)
qed


lemma ipv6_filter:
  "is_public_ipv6 ip \<longleftrightarrow> \<not> (list_ex (\<lambda>(net, len). in_net6 net len ip) reserved6
     \<or> in_net6 0xffff00000000 96 ip \<and> list_ex (\<lambda>(net, len). in_net4 net len (ucast ip)) reserved4)"
proof -
  obtain s0 s1 s2 s3 s4 s5 where n: "unat ip div 4294967296 = ((((s0 * 65536 + s1) * 65536 + s2) * 65536 + s3) * 65536 + s4) * 65536 + s5"
    and less: "s0 < 65536" "s1 < 65536" "s2 < 65536" "s3 < 65536" "s4 < 65536" "s5 < 65536"
    and top: "s0 = unat ip div 2 ^ 112"
    and seg: "unat (segment 0 ip) = s0" "unat (segment 1 ip) = s1" "unat (segment 2 ip) = s2" "unat (segment 3 ip) = s3"
      "unat (segment 4 ip) = s4" "unat (segment 5 ip) = s5"
    by (rule digits6)
  have high: "unat ip div 2 ^ (112 + k) = s0 div 2 ^ k" for k
    unfolding top by (simp add: power_add div_mult2_eq)
  have nets: "in_net6 (push_bit 112 0xfc00) 7 ip \<longleftrightarrow> s0 div 512 = 126" "in_net6 (push_bit 112 0xfe80) 10 ip \<longleftrightarrow> s0 div 64 = 1018"
      "in_net6 (push_bit 112 0xfec0) 10 ip \<longleftrightarrow> s0 div 64 = 1019" "in_net6 (push_bit 112 0xff00) 8 ip \<longleftrightarrow> s0 div 256 = 255"
    using high [of 9] high [of 6] high [of 8] by (simp_all add: net6_div)
  have mapped: "in_net6 0xffff00000000 96 ip \<longleftrightarrow> segment 0 ip = 0 \<and> segment 1 ip = 0 \<and> segment 2 ip = 0 \<and> segment 3 ip = 0
      \<and> segment 4 ip = 0 \<and> segment 5 ip = 0xffff"
  proof -
    have "in_net6 0xffff00000000 96 ip \<longleftrightarrow> unat ip div 4294967296 = 65535" by (simp add: net6_div)
    also have "\<dots> \<longleftrightarrow> s0 = 0 \<and> s1 = 0 \<and> s2 = 0 \<and> s3 = 0 \<and> s4 = 0 \<and> s5 = 65535"
    proof
      assume m: "unat ip div 4294967296 = 65535"
      then have "s0 = 0" "s1 = 0" "s2 = 0" "s3 = 0" "s4 = 0" using less unfolding n by auto
      with m show "s0 = 0 \<and> s1 = 0 \<and> s2 = 0 \<and> s3 = 0 \<and> s4 = 0 \<and> s5 = 65535" unfolding n by simp
    qed (simp add: n)
    finally show ?thesis unfolding word_unat_eq_iff seg by simp
  qed
  have ff: "(0xff :: 16 word) = mask 8" by (simp add: mask_eq_exp_minus_1)
  have low: "v4_new (ucast (drop_bit 8 (segment 6 ip))) (ucast (segment 6 ip AND 0xff)) (ucast (drop_bit 8 (segment 7 ip)))
      (ucast (segment 7 ip AND 0xff)) = ucast ip"
  proof (rule bit_word_eqI)
    fix i assume "i < LENGTH(32)"
    then consider "i < 8" | "8 \<le> i" "i < 16" | "16 \<le> i" "i < 24" | "24 \<le> i" "i < 32" by force
    then show "bit (v4_new (ucast (drop_bit 8 (segment 6 ip))) (ucast (segment 6 ip AND 0xff)) (ucast (drop_bit 8 (segment 7 ip)))
      (ucast (segment 7 ip AND 0xff))) i = bit (ucast ip :: ipv4) i"
      unfolding ff by cases (auto simp: v4_new_def segment_def bit_simps)
  qed
  have whole: "in_net6 0 128 ip \<longleftrightarrow> ip = 0" "in_net6 1 128 ip \<longleftrightarrow> ip = 1"
    by (simp_all add: in_net6_def)
  have table: "list_ex (\<lambda>(net, len). in_net6 net len ip) reserved6 \<longleftrightarrow> ip = 0 \<or> ip = 1 \<or> s0 div 512 = 126
      \<or> s0 div 64 = 1018 \<or> s0 div 64 = 1019 \<or> s0 div 256 = 255"
    by (simp only: reserved6_def list_ex_iff list.set bex_simps prod.case nets whole) simp
  show ?thesis
    unfolding is_public_ipv6_def v6_multicast_def masks seg low table mapped ipv4_filter by auto
qed

text \<open>The filter is exactly the table of reserved networks.\<close>

lemma is_public_iff: "is_public_ip ip \<longleftrightarrow> \<not> reserved ip"
  by (cases ip) (simp_all add: is_public_ip_def reserved_def ipv4_filter ipv6_filter)

text \<open>What the table leaves out: the prefix that translates to IPv4 (\<open>64:ff9b::/96\<close>) is not in it, so an address
  of it that stands for a private one passes.\<close>

lemma translated_passes: "is_public_ip (V6 (push_bit 96 0x64ff9b OR ucast (v4_new 10 0 0 1)))"
  by (simp add: is_public_ip_def) code_simp

end
