(* ===== verification/Link_Preview.thy ===== *)
theory Link_Preview
  imports Net_Address
begin

text \<open>
  Previews of links (\<open>linkpreview.rs\<close>): which address a link may lead to, the fetch with its redirects, the reading
  of the page and the cache.  URL parsing and joining, name resolution, the HTTP client and the three regular
  expressions are third-party: the fields of \<open>net_lib\<close>.  The resolver may answer differently each time it is asked,
  so it takes the number of the question.  The client gets what the code builds it with: the host with its pinned
  address, the redirect policy and the URL; it returns the connections it opened, and the last response with its URL.
  What the code relies on of it is \<open>client_keeps\<close>.
\<close>

record url =
  url_text :: string
  url_scheme :: string
  url_host :: "string option"
  url_port :: "nat option"

type_synonym sock_addr = "ip_addr \<times> nat"

record http_response =
  rs_ok :: bool
  rs_type :: "string option"
  rs_length :: "nat option"
  rs_chunks :: "byte list option list"

type_synonym redirects = "nat \<Rightarrow> url list \<Rightarrow> url \<Rightarrow> bool"

type_synonym http_client = "string \<Rightarrow> ip_addr \<Rightarrow> redirects \<Rightarrow> url \<Rightarrow> (url \<times> sock_addr) list \<times> (http_response \<times> url) option"

record net_lib =
  parse_url :: "string \<Rightarrow> url option"
  join_url :: "url \<Rightarrow> string \<Rightarrow> url option"
  look_up :: "nat \<Rightarrow> string \<Rightarrow> sock_addr list option"
  client_builds :: bool
  client :: http_client
  lossy_text :: "byte list \<Rightarrow> string"
  url_match :: "string \<Rightarrow> string option"
  meta_tags :: "string \<Rightarrow> string list"
  title_match :: "string \<Rightarrow> string option"

definition MAX_HTML_BYTES :: nat where "MAX_HTML_BYTES = 256 * 1024"
definition CACHE_TTL :: nat where "CACHE_TTL = 5 * 60 * 1000"

definition find_first_url :: "net_lib \<Rightarrow> string \<Rightarrow> string option" where
  "find_first_url lib text = url_match lib text"

section \<open>Where a link may lead\<close>

definition eq_ignore_case :: "string \<Rightarrow> string \<Rightarrow> bool" where
  "eq_ignore_case a b \<longleftrightarrow> str_ascii_lower a = str_ascii_lower b"

definition port_of :: "url \<Rightarrow> nat" where
  "port_of u = unwrap_or (if url_scheme u = ''https'' then 443 else 80) (url_port u)"

definition validate_and_pin_url :: "net_lib \<Rightarrow> nat \<Rightarrow> string \<Rightarrow> (url \<times> sock_addr) option" where
  "validate_and_pin_url lib n raw =
    (case parse_url lib raw of None \<Rightarrow> None | Some u \<Rightarrow>
     if url_scheme u \<notin> {''http'', ''https''} then None else
    (case url_host u of None \<Rightarrow> None | Some host \<Rightarrow>
     if host = [] \<or> eq_ignore_case host ''localhost'' \<or> utf8_len host > 253 then None else
    (case look_up lib n (host @ '':'' @ dec (port_of u)) of None \<Rightarrow> None | Some addrs \<Rightarrow>
     if addrs = [] then None
     else if list_ex (\<lambda>a. \<not> is_public_ip (fst a)) addrs then None
     else Some (u, hd addrs))))"

section \<open>The exchange\<close>

definition redirect_policy :: "net_lib \<Rightarrow> nat \<Rightarrow> url list \<Rightarrow> url \<Rightarrow> bool" where
  "redirect_policy lib n previous next =
    (if length previous \<ge> 3 then False
     else case (if previous = [] then None else url_host (List.last previous), url_host next) of
       (Some a, Some b) \<Rightarrow> eq_ignore_case a b \<and> validate_and_pin_url lib n (url_text next) \<noteq> None
     | _ \<Rightarrow> False)"

lemma redirect_short: "redirect_policy lib n previous next \<Longrightarrow> length previous < 3"
  by (simp add: redirect_policy_def split: if_splits)

text \<open>The body up to the limit; an error while reading it is no body.\<close>

fun read_chunks :: "nat \<Rightarrow> byte list \<Rightarrow> byte list option list \<Rightarrow> byte list option" where
  "read_chunks limit buf [] = Some buf"
| "read_chunks limit buf (None # cs) = None"
| "read_chunks limit buf (Some c # cs) =
     (if length (buf @ c) \<ge> limit then Some (buf @ c) else read_chunks limit (buf @ c) cs)"

section \<open>Reading the page\<close>

function replace_str :: "string \<Rightarrow> string \<Rightarrow> string \<Rightarrow> string" where
  "replace_str pat rep s =
    (if pat \<noteq> [] \<and> prefix pat s then rep @ replace_str pat rep (drop (length pat) s)
     else case s of [] \<Rightarrow> [] | c # cs \<Rightarrow> c # replace_str pat rep cs)"
  by pat_completeness auto

termination
  by (relation "measure (\<lambda>(_, _, s). length s)") (auto simp: prefix_def)

declare replace_str.simps [simp del]

definition decode_html_entities :: "string \<Rightarrow> string" where
  "decode_html_entities s =
     replace_str ''&nbsp;'' '' '' (replace_str ''&apos;'' [CHR 0x27] (replace_str ''&#x27;'' [CHR 0x27]
      (replace_str ''&#39;'' [CHR 0x27] (replace_str ''&quot;'' [CHR 0x22] (replace_str ''&gt;'' ''>''
      (replace_str ''&lt;'' ''<'' (replace_str ''&amp;'' ''&'' s)))))))"

text \<open>The position of the first occurrence.\<close>

fun find_str :: "string \<Rightarrow> string \<Rightarrow> nat option" where
  "find_str pat [] = (if pat = [] then Some 0 else None)"
| "find_str pat (c # cs) = (if prefix pat (c # cs) then Some 0 else map_option Suc (find_str pat cs))"

definition extract_attr :: "string \<Rightarrow> string \<Rightarrow> string option" where
  "extract_attr tag attr =
    (let needle = attr @ ''='' in
     case find_str needle (str_ascii_lower tag) of None \<Rightarrow> None | Some start \<Rightarrow>
     case drop (start + length needle) tag of
       [] \<Rightarrow> None
     | q # rest \<Rightarrow>
        if q \<noteq> CHR 0x22 \<and> q \<noteq> CHR 0x27 then None
        else if q \<in> set rest then Some (trim (decode_html_entities (takeWhile (\<lambda>c. c \<noteq> q) rest)))
        else None)"

definition truncate :: "string \<Rightarrow> nat \<Rightarrow> string" where
  "truncate s n = take n s"

definition og_field :: "net_lib \<Rightarrow> url \<Rightarrow> string \<Rightarrow> link_preview \<Rightarrow> link_preview" where
  "og_field lib base tag p =
    (let property = str_ascii_lower (unwrap_or [] (or_else (extract_attr tag ''property'') (extract_attr tag ''name'')));
         content = unwrap_or [] (extract_attr tag ''content'')
     in if content = [] then p
        else if property \<in> {''og:title'', ''twitter:title''} \<and> lp_title p = [] then p\<lparr>lp_title := truncate content 300\<rparr>
        else if property \<in> {''og:description'', ''twitter:description'', ''description''} \<and> lp_description p = []
        then p\<lparr>lp_description := truncate content 500\<rparr>
        else if property \<in> {''og:image'', ''twitter:image'', ''twitter:image:src''} \<and> lp_image p = [] then
         (case join_url lib base content of
            Some u \<Rightarrow> if url_scheme u \<in> {''http'', ''https''} then p\<lparr>lp_image := truncate (url_text u) 600\<rparr> else p
          | None \<Rightarrow> p)
        else if property = ''og:site_name'' \<and> lp_site_name p = [] then p\<lparr>lp_site_name := truncate content 80\<rparr>
        else p)"

definition parse_og :: "net_lib \<Rightarrow> string \<Rightarrow> url \<Rightarrow> link_preview option" where
  "parse_og lib html base =
    (let p = fold (og_field lib base) (meta_tags lib html)
           \<lparr>lp_url = url_text base, lp_title = [], lp_description = [], lp_image = [], lp_site_name = []\<rparr>;
         p = (if lp_title p = [] then (case title_match lib html of
                Some t \<Rightarrow> p\<lparr>lp_title := truncate (decode_html_entities (trim t)) 300\<rparr> | None \<Rightarrow> p) else p);
         p = (if lp_site_name p = [] then p\<lparr>lp_site_name := unwrap_or [] (url_host base)\<rparr> else p)
     in if lp_title p = [] \<and> lp_description p = [] \<and> lp_image p = [] then None else Some p)"

section \<open>The cache\<close>

type_synonym preview_cache = "(string \<times> nat \<times> link_preview option) list"

definition fresh_entries :: "nat \<Rightarrow> preview_cache \<Rightarrow> preview_cache" where
  "fresh_entries now c = filter (\<lambda>(_, ts, _). now - ts < CACHE_TTL) c"

definition cache_get :: "nat \<Rightarrow> string \<Rightarrow> preview_cache \<Rightarrow> link_preview option option \<times> preview_cache" where
  "cache_get now k c =
    (let c = fresh_entries now c in (map_option (\<lambda>(_, _, v). v) (find (\<lambda>(k', _, _). k' = k) c), c))"

definition cache_put :: "nat \<Rightarrow> string \<Rightarrow> link_preview option \<Rightarrow> preview_cache \<Rightarrow> preview_cache" where
  "cache_put now k v c =
    (let c = fresh_entries now c; c = (if length c \<ge> 256 then tl c else c) in c @ [(k, now, v)])"

section \<open>The fetch\<close>

definition page_preview :: "net_lib \<Rightarrow> http_response \<times> url \<Rightarrow> link_preview option" where
  "page_preview lib rp =
    (case rp of (r, final) \<Rightarrow>
     if \<not> rs_ok r then None
     else if (case rs_type r of Some t \<Rightarrow> \<not> contains_str (str_ascii_lower t) ''text/html''
         \<and> \<not> contains_str (str_ascii_lower t) ''application/xhtml'' | None \<Rightarrow> False) then None
     else if (case rs_length r of Some n \<Rightarrow> n > MAX_HTML_BYTES * 2 | None \<Rightarrow> False) then None
     else if validate_and_pin_url lib 4 (url_text final) = None then None
     else (case read_chunks MAX_HTML_BYTES [] (rs_chunks r) of None \<Rightarrow> None
       | Some buf \<Rightarrow> parse_og lib (lossy_text lib (take MAX_HTML_BYTES buf)) final))"

definition fetch_preview ::
  "net_lib \<Rightarrow> nat \<Rightarrow> nat \<Rightarrow> string \<Rightarrow> preview_cache \<Rightarrow> link_preview option \<times> (url \<times> sock_addr) list \<times> preview_cache" where
  "fetch_preview lib now now' raw c =
    (case validate_and_pin_url lib 0 raw of None \<Rightarrow> (None, [], c) | Some (u, pinned) \<Rightarrow>
    (case cache_get now (url_text u) c of
       (Some hit, c) \<Rightarrow> (hit, [], c)
     | (None, c) \<Rightarrow>
      if \<not> client_builds lib then (None, [], c)
      else (case client lib (unwrap_or [] (url_host u)) (fst pinned) (redirect_policy lib) u of (conns, res) \<Rightarrow>
       let preview = obind res (page_preview lib)
       in (preview, conns, cache_put now' (url_text u) preview c))))"

section \<open>What is dialled\<close>

lemma pinned_public:
  "validate_and_pin_url lib n raw = Some (u, a) \<longleftrightarrow>
    parse_url lib raw = Some u \<and> url_scheme u \<in> {''http'', ''https''}
    \<and> (\<exists>host addrs. url_host u = Some host \<and> host \<noteq> [] \<and> \<not> eq_ignore_case host ''localhost'' \<and> utf8_len host \<le> 253
        \<and> look_up lib n (host @ '':'' @ dec (port_of u)) = Some addrs \<and> addrs \<noteq> []
        \<and> list_all (\<lambda>a. \<not> reserved (fst a)) addrs \<and> a = hd addrs)"
  by (auto simp: validate_and_pin_url_def list_ex_iff list_all_iff not_less is_public_iff split: option.splits if_splits)

definition same_host :: "string \<Rightarrow> url \<Rightarrow> bool" where
  "same_host host u \<longleftrightarrow> (\<exists>h. url_host u = Some h \<and> eq_ignore_case h host)"

lemma redirect_same_host: "redirect_policy lib n (previous @ [u]) next \<Longrightarrow> same_host host u \<Longrightarrow> same_host host next"
  by (auto simp: redirect_policy_def same_host_def eq_ignore_case_def split: if_splits option.splits)

text \<open>
  What the code relies on of the HTTP client, as its documentation says: the first connection is for the URL
  asked for, each further one for a redirect that the policy, asked with the URLs requested so far, allowed; and a
  connection for the host with an overridden resolution goes to the address given for it.
\<close>

definition client_keeps :: "http_client \<Rightarrow> bool" where
  "client_keeps cl \<longleftrightarrow> (\<forall>host pinned policy u. case cl host pinned policy u of (conns, _) \<Rightarrow>
     (\<forall>i < length conns. if i = 0 then fst (conns ! i) = u
        else (\<exists>n. policy n (map fst (take i conns)) (fst (conns ! i))))
     \<and> (\<forall>(v, addr) \<in> set conns. same_host host v \<longrightarrow> fst addr = pinned))"

lemma redirected_same_host:
  assumes "same_host host u"
    and "\<forall>i < length conns. if i = 0 then fst (conns ! i) = u
        else (\<exists>n. redirect_policy lib n (map fst (take i conns)) (fst (conns ! i)))"
  shows "i < length conns \<Longrightarrow> same_host host (fst (conns ! i)) \<and> i < 3"
proof (induction i)
  case 0
  with assms show ?case by (cases conns) auto
next
  case (Suc j)
  then have "same_host host (fst (conns ! j))" by simp
  moreover obtain n where "redirect_policy lib n (map fst (take j conns) @ [fst (conns ! j)]) (fst (conns ! Suc j))"
    using assms(2) [rule_format, OF Suc.prems] Suc.prems by (auto simp: take_Suc_conv_app_nth)
  ultimately show ?case
    using redirect_same_host redirect_short Suc.prems by fastforce
qed

text \<open>Every connection of a fetch is to the pinned address, and there are at most three.\<close>

lemma client_connections:
  assumes "client_keeps cl" "same_host host u"
  shows "length (fst (cl host pinned (redirect_policy lib) u)) \<le> 3
    \<and> (\<forall>x \<in> set (fst (cl host pinned (redirect_policy lib) u)). same_host host (fst x) \<and> fst (snd x) = pinned)"
proof -
  let ?conns = "fst (cl host pinned (redirect_policy lib) u)"
  have steps: "\<forall>i < length ?conns. if i = 0 then fst (?conns ! i) = u
        else (\<exists>n. redirect_policy lib n (map fst (take i ?conns)) (fst (?conns ! i)))"
    and dial: "\<forall>x \<in> set ?conns. same_host host (fst x) \<longrightarrow> fst (snd x) = pinned"
    using assms(1) [unfolded client_keeps_def, THEN spec [of _ host], THEN spec [of _ pinned],
        THEN spec [of _ "redirect_policy lib"], THEN spec [of _ u]]
    by (simp_all add: case_prod_unfold)
  note each = redirected_same_host [OF assms(2) steps]
  have "\<not> 3 < length ?conns" using each [of 3] by blast
  moreover have "same_host host (fst c) \<and> fst (snd c) = pinned" if "c \<in> set ?conns" for c
  proof -
    from that obtain i where "i < length ?conns" "c = ?conns ! i" by (auto simp: in_set_conv_nth)
    with each have "same_host host (fst c)" by blast
    with that dial show ?thesis by blast
  qed
  ultimately show ?thesis by (simp add: not_less)
qed

text \<open>The body and the fields of a preview are bounded.\<close>

definition preview_bounded :: "link_preview \<Rightarrow> bool" where
  "preview_bounded p \<longleftrightarrow> length (lp_title p) \<le> 300 \<and> length (lp_description p) \<le> 500 \<and> length (lp_image p) \<le> 600"

lemma preview_bounded_field: "preview_bounded p \<Longrightarrow> preview_bounded (og_field lib base tag p)"
  by (simp add: og_field_def preview_bounded_def truncate_def Let_def split: option.split)

lemma parse_og_bounded: "parse_og lib html base = Some p \<Longrightarrow> preview_bounded p"
proof -
  have run: "preview_bounded q \<Longrightarrow> preview_bounded (fold (og_field lib base) tags q)" for tags q
    by (induction tags arbitrary: q) (simp_all add: preview_bounded_field)
  define q where "q = fold (og_field lib base) (meta_tags lib html)
    \<lparr>lp_url = url_text base, lp_title = [], lp_description = [], lp_image = [], lp_site_name = []\<rparr>"
  have "preview_bounded q" unfolding q_def by (rule run) (simp add: preview_bounded_def)
  then show "parse_og lib html base = Some p \<Longrightarrow> preview_bounded p"
    by (auto simp: parse_og_def Let_def preview_bounded_def truncate_def simp flip: q_def split: option.splits if_splits)
qed

lemma page_preview_bounded: "page_preview lib rp = Some p \<Longrightarrow> preview_bounded p"
  by (auto simp: page_preview_def split: prod.splits option.splits if_splits dest: parse_og_bounded)

lemma cache_put_length: "length c \<le> 256 \<Longrightarrow> length (cache_put now k v c) \<le> 256"
proof -
  assume "length c \<le> 256"
  then have "length (fresh_entries now c) \<le> 256"
    unfolding fresh_entries_def using length_filter_le le_trans by blast
  then show ?thesis by (simp add: cache_put_def Let_def)
qed

section \<open>Property\<close>


section \<open>Witness\<close>

text \<open>
  A client that keeps to the policy: it follows up to the given number of redirects of a server that redirects every
  request to the URL \<open>b\<close>, and asks the resolver for hosts without an override.
\<close>

definition demo_page :: "string \<Rightarrow> url" where
  "demo_page t = \<lparr>url_text = t, url_scheme = ''http'', url_host = Some ''a.io'', url_port = None\<rparr>"

definition demo_public :: sock_addr where
  "demo_public = (V4 (v4_new 93 184 216 34), 80)"

definition demo_dial :: "string \<Rightarrow> ip_addr \<Rightarrow> url \<Rightarrow> sock_addr" where
  "demo_dial host pinned u = (case url_host u of
     Some h \<Rightarrow> if eq_ignore_case h host then (pinned, port_of u) else demo_public | None \<Rightarrow> demo_public)"

fun demo_follow :: "nat \<Rightarrow> string \<Rightarrow> ip_addr \<Rightarrow> redirects \<Rightarrow> (url \<times> sock_addr) list \<Rightarrow> (url \<times> sock_addr) list" where
  "demo_follow 0 host pinned policy conns = conns"
| "demo_follow (Suc k) host pinned policy conns =
     (if policy (length conns) (map fst conns) (demo_page ''b'')
      then demo_follow k host pinned policy (conns @ [(demo_page ''b'', demo_dial host pinned (demo_page ''b''))])
      else conns)"

definition demo_client :: http_client where
  "demo_client host pinned policy u = (demo_follow 10 host pinned policy [(u, demo_dial host pinned u)], None)"

definition kept_so_far :: "string \<Rightarrow> ip_addr \<Rightarrow> redirects \<Rightarrow> url \<Rightarrow> (url \<times> sock_addr) list \<Rightarrow> bool" where
  "kept_so_far host pinned policy u conns \<longleftrightarrow>
     (\<forall>i < length conns. if i = 0 then fst (conns ! i) = u else (\<exists>n. policy n (map fst (take i conns)) (fst (conns ! i))))
     \<and> (\<forall>(v, addr) \<in> set conns. same_host host v \<longrightarrow> fst addr = pinned)"

lemma demo_dial_pinned: "same_host host v \<Longrightarrow> fst (demo_dial host pinned v) = pinned"
  by (auto simp: same_host_def demo_dial_def)

lemma kept_step:
  assumes "kept_so_far host pinned policy u conns" "conns \<noteq> []" "policy n (map fst conns) v"
  shows "kept_so_far host pinned policy u (conns @ [(v, demo_dial host pinned v)])"
  using assms demo_dial_pinned [of host v pinned]
  by (auto simp: kept_so_far_def nth_append less_Suc_eq)

lemma kept_follow:
  "kept_so_far host pinned policy u conns \<Longrightarrow> conns \<noteq> [] \<Longrightarrow>
   kept_so_far host pinned policy u (demo_follow k host pinned policy conns)"
  by (induction k arbitrary: conns) (simp_all add: kept_step)

lemma demo_client_keeps: "client_keeps demo_client"
proof -
  have "kept_so_far host pinned policy u [(u, demo_dial host pinned u)]" for host pinned policy u
    by (auto simp: kept_so_far_def demo_dial_pinned)
  from kept_follow [OF this] show ?thesis
    by (simp add: client_keeps_def demo_client_def kept_so_far_def)
qed

text \<open>The resolver answers a private address from the second question on, and the fetch is not led there.\<close>

definition demo_net :: net_lib where
  "demo_net = \<lparr>parse_url = (\<lambda>t. Some (demo_page t)), join_url = (\<lambda>_ _. None),
     look_up = (\<lambda>n _. Some [if n = 0 then demo_public else (V4 (v4_new 10 0 0 1), 80)]),
     client_builds = True, client = demo_client,
     lossy_text = (\<lambda>_. []), url_match = (\<lambda>_. None), meta_tags = (\<lambda>_. []), title_match = (\<lambda>_. None)\<rparr>"

lemma demo_address: "is_public_ip (fst demo_public)"
  by (simp add: demo_public_def is_public_ip_def) code_simp

lemma demo_pin: "validate_and_pin_url demo_net 0 t = Some (demo_page t, demo_public)"
  using demo_address
  by (simp add: validate_and_pin_url_def demo_net_def demo_page_def port_of_def unwrap_or_def eq_ignore_case_def
      str_ascii_lower_def utf8_len_ascii is_ascii_def)

lemma demo_follow_keeps: "c \<in> set conns \<Longrightarrow> c \<in> set (demo_follow k host pinned policy conns)"
  by (induction k arbitrary: conns) auto


end
