(* ===== verification/Spec2Isabelle.thy ===== *)
theory Spec2Isabelle
  imports Foreign_Blocks Server_Safety System_Inv Link_Preview
begin

text \<open>
  A verification development of the LQXP server (\<open>src/rust/src\<close>): a chat and call relay over WebSockets, its
  accounts and rooms, an HTTP interface with an administration, and the "phantom" services (anonymous quota
  tokens, delay challenges, a CAPTCHA handshake, prekeys and a blind mailbox).  All paths below are under
  \<open>src/rust/src\<close>.

  \<^bold>\<open>The program and the model.\<close>  One process keeps one shared state (\<open>core/presence.rs\<close>: the session table, the
  rooms' messages, poll tallies, rate limits, cached profiles) in front of a database (\<open>core/database.rs\<close>), and
  three kinds of callers work on it: a task per WebSocket connection (\<open>websocket/mod.rs\<close>) that dispatches numbered
  operations (\<open>websocket/protocol.rs\<close>), the HTTP handlers (\<open>server/routes.rs\<close> over \<open>services/*.rs\<close>), and the
  mailbox (\<open>services/phantom.rs\<close>).  The state is the record \<open>app_state\<close>, inside \<open>phantom_state\<close> (with the
  process-wide stores of the gates and the mailbox), inside \<open>system\<close> (with the open sockets); an operation is a
  function from a state to an answer and a state; a run is a list of events, and \<open>system_step\<close> interleaves all
  three kinds of callers one handler at a time.

  \<^bold>\<open>The theories, bottom up.\<close>
  \<^item> \<open>Lqxp_Prelude\<close>, \<open>Rust_Bytes\<close>: Rust's \<open>str\<close>, \<open>char\<close> and byte operations, decimal and hexadecimal text,
    the collections of facts and the lemmas on association lists that all components share, and \<open>outcome\<close>, the
    result of code that may panic or not end.
  \<^item> \<open>Api_Result\<close> (\<open>core/result.rs\<close>) has the error value and the locale \<open>single_use\<close>: an operation that accepts a
    request at most once.  \<open>Rln\<close> (\<open>core/rln.rs\<close>), \<open>Vdf\<close> (\<open>core/vdf.rs\<close>) and \<open>Cap\<close> (\<open>core/cap.rs\<close>,
    \<open>core/pqc.rs\<close>) interpret it for quota tokens, delay challenges, ephemeral keys, redemptions and CAPTCHA tokens.
    Shown: at most one acceptance over any run, the completeness of the delay proof, exactly when a CAPTCHA token is
    minted, and that what is issued is parsed back.
  \<^item> \<open>Json_Value\<close>, \<open>Security\<close> (\<open>core/security.rs\<close>, \<open>utils.rs\<close>), \<open>Models\<close> (\<open>core/models.rs\<close>): JSON values and
    their accessors, names, passwords, file names, the rate limiter, and the records of users, rooms and messages.
    Shown: the limiter lets through exactly what a fixed window allows.
  \<^item> \<open>Accounts_Db\<close>, \<open>Accounts_Inv\<close>, \<open>User_Directory\<close> (\<open>core/database.rs\<close>): the account tables, their invariant over
    every run of operations, registration, login, recovery, bans, badges, the edit distance, and the paginated
    listing for administrators, whose cursors reach every account.
  \<^item> \<open>Images\<close> (\<open>services/user.rs\<close>, \<open>websocket/protocol.rs\<close>): the metadata filter of uploads against an independent
    parse of PNG chunks and JPEG segments, and the codec detection, whose indices stay within the bytes.
  \<^item> \<open>App_State\<close> (\<open>core/presence.rs\<close>, \<open>websocket/mod.rs\<close>): the shared state, the bounded queues of the sessions,
    rosters, room records.  \<open>Room_Roles\<close>, \<open>Room_Roles_Inv\<close>, \<open>Room_Authority\<close> (operations 33, 40 to 52, 57):
    community rooms, the invariant of their records, and the access policy every operation keeps to.
  \<^item> \<open>Messages\<close>, \<open>Polls\<close>, \<open>Messages_Inv\<close> (operations 7, 18, 19, 21, 28, 29, 53; \<open>services/messaging.rs\<close>): the chat,
    who may edit and delete, what is delivered to whom, reactions as a set, and the bounds of the stores.
  \<^item> \<open>Socket_Sessions\<close>, \<open>Calls\<close>, \<open>Profiles\<close>, \<open>Prekeys\<close>: the remaining operations (sessions 2 to 5, 55, 60, 62;
    calls 31, 98 to 112; profiles 8, 32, 35, 105; prekeys 36, 37, 39 with \<open>services/phantom_crypto.rs\<close>).
    \<open>Prekeys_Inv\<close> and \<open>Foreign_Blocks\<close>: what an accepted bundle carries, and what a block does not prove.
  \<^item> \<open>Dead_Drop\<close>, \<open>Dead_Drop_Inv\<close> (\<open>services/phantom.rs\<close>, \<open>services/privacy_pass.rs\<close>): the mailbox, its gates and
    passes; its bounds, that no envelope is delivered twice, and what a deposit has to pay.
  \<^item> \<open>Socket_Loop\<close> (\<open>websocket/mod.rs\<close>, the dispatcher): the life of every connection as events.  \<open>Session_Table\<close> is
    the abstract machine of the session table; \<open>Server_Moves\<close> shows that every run refines it, with the invariants
    of sessions and calls; \<open>Server_Inv\<close> the stores behind it; \<open>Server_Safety\<close> who hears what and who gets in.
  \<^item> \<open>Web_Api\<close>, \<open>Web_Routes\<close>, \<open>Web_Gates\<close> (\<open>services/auth.rs\<close>, \<open>admin.rs\<close>, \<open>user.rs\<close>, \<open>room.rs\<close>,
    \<open>server/routes.rs\<close>): the HTTP requests with their bearer tokens, limits and challenges.  \<open>Whole_Server\<close> joins
    them with the sockets and the mailbox; \<open>Web_Inv\<close> and \<open>System_Inv\<close> show the invariants of the whole process, the
    guard in front of the administration, and that a ban takes effect at once.
  \<^item> \<open>Net_Address\<close>, \<open>Link_Preview\<close> (\<open>linkpreview.rs\<close>): the address filter of link previews against a table of network
    prefixes, and the pinned fetch that keeps to it.

  \<^bold>\<open>Conventions.\<close>  A \<open>HashMap\<close> is an association list (\<open>AList.update\<close>, \<open>AList.delete\<close>, \<open>filter\<close>), a \<open>HashSet\<close> a
  list without duplicates; iteration order is the order of the list.  Strings are lists of the characters U+0000 to
  U+00FF, with their UTF-8 bytes where the code works on bytes.  The clock is a number handed to each operation.
  Integers are unbounded where the code cannot reach the bound and saturate, wrap or are words where it can.  A service
  answers with \<open>api_error + 'a\<close>; \<open>Panic\<close> and \<open>Diverge\<close> are values of \<open>outcome\<close>.  Loops are structural or come with a
  measure; the search for a prime, which may not end, is a \<open>partial_function\<close>, so that not ending is \<open>None\<close>, and no
  fuel is used elsewhere than in \<open>browse\<close>, a client that asks for one page more than there are accounts.  Random values
  (ids, nonces, keys) are arguments.  SQL is read over the list of rows: \<open>WHERE\<close> a filter, \<open>ORDER BY\<close> a stable sort,
  \<open>LIMIT\<close> a prefix, \<open>LOWER\<close> the ASCII lower case of SQLite.

  \<^bold>\<open>Parameters.\<close>  Argon2, SHA-256, HMAC, ML-KEM, ML-DSA, ECDSA, big-number exponentiation, Base64, the text of JSON,
  URL parsing, name resolution, HTTP and regular expressions are third-party: fields of \<open>secret_lib\<close>, \<open>gate_lib\<close>,
  \<open>big_lib\<close>, \<open>key_lib\<close>, \<open>phantom_lib\<close>, \<open>web_lib\<close>, \<open>server_lib\<close>, \<open>net_lib\<close> and \<open>system_lib\<close>.  Where a property needs
  one of them to behave (a hash that verifies its own output, a text that is read back), that is a hypothesis with a
  concrete instance in the witness.

  \<^bold>\<open>Simplifications.\<close>  A handler is atomic: the model interleaves handlers, not the \<open>await\<close> points inside one.  A
  database, room store or disk answers or fails for the whole of a handler (\<open>db_ok\<close>, \<open>rooms_read_ok\<close>,
  \<open>rooms_write_ok\<close>, \<open>disk_ok\<close>), so a failure that the code swallows between two statements (\<open>let _ =\<close> in
  \<open>services/admin.rs\<close>) does not occur.  Accounts are decoded rows; the listing takes the test of which rows decode as
  an argument, and the handlers use it with rows that all do.  The published client version is always known.  Texts
  beyond U+00FF are not represented.

  \<^bold>\<open>Not modelled.\<close>  Start and configuration (\<open>main.rs\<close>, \<open>startup.rs\<close>, \<open>core/config.rs\<close>), opening and migrating a
  database, the release lookup and archives (\<open>server/download.rs\<close>), the caches of external activity lists
  (\<open>core/activity.rs\<close>), the Git tool of the web client (\<open>web/\<close>), static pages, CORS and headers, and the credentials of
  the call relay: input and output around third-party crates and external processes.

  \<^bold>\<open>What the model showed.\<close>  Besides the promises that hold, some that do not: a delay challenge is accepted again at
  the millisecond it expires (\<open>Vdf\<close>), a panic in the hexadecimal decoder leaves a session behind (\<open>Server_Moves\<close>), a
  failed read of a room's record erases the room (\<open>Room_Authority\<close>), identifying again carries a banned account into a
  room (\<open>Server_Safety\<close>), an author under a timeout edits old messages (\<open>Messages_Inv\<close>), the key of a victim can be
  published by others to block its senders (\<open>Foreign_Blocks\<close>), a whole page of malformed rows ends the listing
  (\<open>User_Directory\<close>), and translated IPv4 addresses pass the address filter (\<open>Net_Address\<close>).
\<close>

end
